(* ===== verification/Prelude.thy ===== *)
theory Prelude
  imports Complex_Main "HOL-Library.Word" "HOL-Library.Sublist" "HOL-Library.Multiset"
    "HOL-Library.Product_Lexorder" "HOL-Library.List_Lexorder"
begin

section \<open>Prelude: shared types, table operations and automation\<close>

text \<open>
  The library every component imports. It fixes the types all components share
  (UUIDs, times, bytes), the operations the code performs on database tables through
  gorm (first row, count, update, delete), the generic lemmas about them, and the named
  collections the component proofs use:
  \<^item> \<open>table_simps\<close>: rewriting of table operations,
  \<^item> \<open>inv_intros\<close>: preservation facts of the state invariants,
  \<^item> \<open>go_simps\<close>: evaluation of the Go standard library functions the code calls.
\<close>

named_theorems table_simps
named_theorems inv_intros
named_theorems go_simps

subsection \<open>Shared types\<close>

text \<open>A \<open>uuid.UUID\<close> is 16 bytes; \<open>uuid.Nil\<close> is the zero word. Comparing two canonical
  strings, as \<open>sortUUIDs\<close> does, compares the words: the textual form is fixed-width
  lower-case hexadecimal. A \<open>time.Time\<close> is a count of nanoseconds since the Unix epoch
  (all times in the code are UTC), a \<open>time.Duration\<close> a count of nanoseconds.\<close>

type_synonym uuid = "128 word"
type_synonym time = int
type_synonym duration = int
type_synonym byte = "8 word"

definition uuid_Nil :: uuid where
  "uuid_Nil = 0"

definition time_Second :: duration where
  "time_Second = 1000000000"

definition time_Minute :: duration where
  "time_Minute = 60 * time_Second"

definition time_Hour :: duration where
  "time_Hour = 60 * time_Minute"

subsection \<open>Sums as results\<close>

text \<open>A Go function that returns a value and an error is a sum: \<open>Inl\<close> the error. The
  statement sequence with early returns on error is \<open>bind_sum\<close>.\<close>

fun bind_sum :: "'e + 'a \<Rightarrow> ('a \<Rightarrow> 'e + 'b) \<Rightarrow> 'e + 'b" where
  "bind_sum (Inl e) f = Inl e"
| "bind_sum (Inr x) f = f x"

lemma bind_sum_Inr_iff: "bind_sum r f = Inr y \<longleftrightarrow> (\<exists>x. r = Inr x \<and> f x = Inr y)"
  by (cases r) auto

lemma bind_sum_Inl_iff: "bind_sum r f = Inl e \<longleftrightarrow> (r = Inl e \<or> (\<exists>x. r = Inr x \<and> f x = Inl e))"
  by (cases r) auto

lemma bind_sum_split:
  "P (bind_sum r f) \<longleftrightarrow> ((\<forall>e. r = Inl e \<longrightarrow> P (Inl e)) \<and> (\<forall>x. r = Inr x \<longrightarrow> P (f x)))"
  by (cases r) auto

fun is_ok :: "'e + 'a \<Rightarrow> bool" where
  "is_ok (Inl _) = False"
| "is_ok (Inr _) = True"

lemma is_ok_iff: "is_ok r \<longleftrightarrow> (\<exists>x. r = Inr x)"
  by (cases r) auto

subsection \<open>Tables\<close>

text \<open>A table is the list of its rows. \<open>first_by key P t\<close> is gorm's \<open>First\<close>: of the rows
  that satisfy the condition the one with the least primary key, \<open>None\<close> for
  \<open>gorm.ErrRecordNotFound\<close>. \<open>count_where\<close> is \<open>Count\<close>, \<open>update_where\<close> is \<open>Updates\<close> under
  a \<open>Where\<close> (its \<open>RowsAffected\<close> is \<open>count_where\<close> of the same condition), and
  \<open>delete_where\<close> a hard \<open>Delete\<close>.\<close>

fun least_by :: "('r \<Rightarrow> 'k::linorder) \<Rightarrow> 'r \<Rightarrow> 'r list \<Rightarrow> 'r" where
  "least_by key r [] = r"
| "least_by key r (x # xs) = least_by key (if key x < key r then x else r) xs"

definition first_by :: "('r \<Rightarrow> 'k::linorder) \<Rightarrow> ('r \<Rightarrow> bool) \<Rightarrow> 'r list \<Rightarrow> 'r option" where
  "first_by key P t = (case filter P t of [] \<Rightarrow> None | r # rs \<Rightarrow> Some (least_by key r rs))"

definition count_where :: "('r \<Rightarrow> bool) \<Rightarrow> 'r list \<Rightarrow> int" where
  "count_where P t = int (length (filter P t))"

definition update_where :: "('r \<Rightarrow> bool) \<Rightarrow> ('r \<Rightarrow> 'r) \<Rightarrow> 'r list \<Rightarrow> 'r list" where
  "update_where P f t = map (\<lambda>r. if P r then f r else r) t"

definition delete_where :: "('r \<Rightarrow> bool) \<Rightarrow> 'r list \<Rightarrow> 'r list" where
  "delete_where P t = filter (\<lambda>r. \<not> P r) t"

lemma least_by_mem: "least_by key r xs \<in> set (r # xs)"
  by (induction xs arbitrary: r) (auto split: if_splits)

lemma least_by_le: "x \<in> set (r # xs) \<Longrightarrow> key (least_by key r xs) \<le> key x"
proof (induction xs arbitrary: r x)
  case Nil
  then show ?case by simp
next
  case (Cons a xs)
  let ?m = "if key a < key r then a else r"
  have le: "key (least_by key ?m xs) \<le> key ?m"
    by (rule Cons.IH) simp
  have "key ?m \<le> key a" "key ?m \<le> key r" by auto
  with le Cons.prems Cons.IH [of _ ?m] show ?case by fastforce
qed

lemma first_by_Some:
  "first_by key P t = Some r \<Longrightarrow> r \<in> set t \<and> P r"
proof -
  assume "first_by key P t = Some r"
  then obtain x xs where f: "filter P t = x # xs" and r: "r = least_by key x xs"
    by (auto simp: first_by_def split: list.splits)
  have "r \<in> set (filter P t)" unfolding f r by (rule least_by_mem)
  then show ?thesis by simp
qed

lemma first_by_SomeD:
  assumes "first_by key P t = Some r"
  shows "r \<in> set t" and "P r" and "\<And>x. x \<in> set t \<Longrightarrow> P x \<Longrightarrow> key r \<le> key x"
proof -
  show "r \<in> set t" and "P r" using first_by_Some [OF assms] by auto
next
  fix x assume x: "x \<in> set t" "P x"
  from assms obtain r0 rs where f: "filter P t = r0 # rs" and r: "r = least_by key r0 rs"
    by (auto simp: first_by_def split: list.splits)
  from x have "x \<in> set (filter P t)" by simp
  with f r least_by_le [of x r0 rs key] show "key r \<le> key x" by simp
qed

lemma first_by_None_iff [table_simps]:
  "first_by key P t = None \<longleftrightarrow> (\<forall>r \<in> set t. \<not> P r)"
  unfolding first_by_def by (cases "filter P t") (auto simp: filter_empty_conv dest: filter_eq_ConsD)

lemma first_by_Nil [simp]: "first_by key P [] = None"
  by (simp add: first_by_def)

lemma first_by_cong:
  "(\<And>r. r \<in> set t \<Longrightarrow> P r = Q r) \<Longrightarrow> first_by key P t = first_by key Q t"
  unfolding first_by_def by (metis (mono_tags, lifting) filter_cong)

lemma first_by_unique:
  assumes "r \<in> set t" "P r" "\<And>x. x \<in> set t \<Longrightarrow> P x \<Longrightarrow> x = r"
  shows "first_by key P t = Some r"
proof (cases "first_by key P t")
  case None
  with assms(1,2) show ?thesis by (auto simp: table_simps)
next
  case (Some x)
  with assms(3) show ?thesis by (auto dest: first_by_Some)
qed

lemma count_where_nonneg [simp]: "0 \<le> count_where P t"
  by (simp add: count_where_def)

lemma count_where_Nil [simp]: "count_where P [] = 0"
  by (simp add: count_where_def)

lemma count_where_Cons [simp]:
  "count_where P (x # t) = (if P x then 1 else 0) + count_where P t"
  by (simp add: count_where_def)

lemma count_where_append [simp]: "count_where P (s @ t) = count_where P s + count_where P t"
  by (simp add: count_where_def)

lemma count_where_zero_iff [table_simps]: "count_where P t = 0 \<longleftrightarrow> (\<forall>r \<in> set t. \<not> P r)"
  by (auto simp: count_where_def filter_empty_conv)

lemma count_where_pos_iff [table_simps]: "0 < count_where P t \<longleftrightarrow> (\<exists>r \<in> set t. P r)"
  by (simp add: count_where_def filter_empty_conv)

lemma count_where_cong:
  "(\<And>r. r \<in> set t \<Longrightarrow> P r = Q r) \<Longrightarrow> count_where P t = count_where Q t"
  unfolding count_where_def by (metis (mono_tags, lifting) filter_cong)

lemma update_where_Nil [simp]: "update_where P f [] = []"
  by (simp add: update_where_def)

lemma update_where_Cons [simp]:
  "update_where P f (x # t) = (if P x then f x else x) # update_where P f t"
  by (simp add: update_where_def)

lemma set_update_where [table_simps]:
  "set (update_where P f t) = (\<lambda>r. if P r then f r else r) ` set t"
  by (simp add: update_where_def)

lemma length_update_where [simp]: "length (update_where P f t) = length t"
  by (simp add: update_where_def)

lemma map_update_where:
  "(\<And>r. P r \<Longrightarrow> g (f r) = g r) \<Longrightarrow> map g (update_where P f t) = map g t"
  by (induction t) auto

lemma update_where_none:
  "(\<And>r. r \<in> set t \<Longrightarrow> \<not> P r) \<Longrightarrow> update_where P f t = t"
  by (induction t) auto

lemma count_where_update_where:
  "count_where Q (update_where P f t) = count_where (\<lambda>r. Q (if P r then f r else r)) t"
  by (induction t) auto

lemma set_delete_where [simp]: "set (delete_where P t) = {r \<in> set t. \<not> P r}"
  by (auto simp: delete_where_def)

lemma delete_where_Cons [simp]:
  "delete_where P (x # t) = (if P x then delete_where P t else x # delete_where P t)"
  by (simp add: delete_where_def)

lemma delete_where_Nil [simp]: "delete_where P [] = []"
  by (simp add: delete_where_def)

subsection \<open>Keyed tables\<close>

text \<open>The contract of a table with a primary key, and what every client of it uses: a row
  is determined by its key, a lookup by key finds it, and an update that keeps keys keeps
  the table well-formed. Each component interprets it for its own row types.\<close>

definition keyed :: "('r \<Rightarrow> 'k) \<Rightarrow> 'r list \<Rightarrow> bool" where
  "keyed key t \<longleftrightarrow> distinct (map key t)"

lemma keyed_unique: "keyed key t \<Longrightarrow> r \<in> set t \<Longrightarrow> x \<in> set t \<Longrightarrow> key r = key x \<Longrightarrow> r = x"
  by (auto simp: keyed_def distinct_map dest: inj_onD)

lemma keyed_Nil [simp]: "keyed key []"
  by (simp add: keyed_def)

lemma keyed_snoc: "keyed key (t @ [r]) \<longleftrightarrow> keyed key t \<and> (\<forall>x \<in> set t. key x \<noteq> key r)"
  by (auto simp: keyed_def image_iff)

lemma keyed_update_where:
  "keyed key t \<Longrightarrow> (\<And>r. P r \<Longrightarrow> key (f r) = key r) \<Longrightarrow> keyed key (update_where P f t)"
  by (simp add: keyed_def map_update_where)

lemma keyed_delete_where: "keyed key t \<Longrightarrow> keyed key (delete_where P t)"
  by (auto simp: keyed_def delete_where_def distinct_map intro: inj_on_subset)

lemma count_where_keyed_le_1:
  assumes "keyed key t" and "\<And>r x. P r \<Longrightarrow> P x \<Longrightarrow> key r = key x"
  shows "count_where P t \<le> 1"
  using assms
proof (induction t)
  case Nil
  then show ?case by simp
next
  case (Cons a t)
  have "keyed key t" using Cons.prems(1) by (simp add: keyed_def)
  with Cons have IH: "count_where P t \<le> 1" by blast
  show ?case
  proof (cases "P a")
    case False
    with IH show ?thesis by simp
  next
    case True
    have "\<forall>x \<in> set t. \<not> P x"
    proof
      fix x assume "x \<in> set t"
      with Cons.prems(1) have "key x \<noteq> key a" by (auto simp: keyed_def image_iff)
      with Cons.prems(2) [OF True, of x] show "\<not> P x" by auto
    qed
    then have "count_where P t = 0" by (simp add: table_simps)
    with True show ?thesis by simp
  qed
qed

lemma first_by_key:
  assumes "keyed key t" and "r \<in> set t" and "key r = k" and "Q r"
  shows "first_by key' (\<lambda>x. key x = k \<and> Q x) t = Some r"
proof (rule first_by_unique)
  show "r \<in> set t" and "key r = k \<and> Q r" using assms by auto
next
  fix x assume "x \<in> set t" "key x = k \<and> Q x"
  with assms show "x = r" by (metis keyed_unique)
qed

subsection \<open>Finding the row of a key\<close>

lemma find_update_where:
  assumes "\<And>r. P r \<Longrightarrow> key (f r) = key r"
  shows "find (\<lambda>r. key r = k) (update_where P f t) =
         map_option (\<lambda>r. if P r then f r else r) (find (\<lambda>r. key r = k) t)"
  using assms by (induction t) auto

lemma find_append: "find P (s @ t) = (case find P s of None \<Rightarrow> find P t | Some r \<Rightarrow> Some r)"
  by (induction s) auto

lemma find_None: "find P t = None \<longleftrightarrow> (\<forall>r \<in> set t. \<not> P r)"
  by (induction t) auto

lemma find_Some_mem: "find P t = Some r \<Longrightarrow> r \<in> set t \<and> P r"
  by (induction t) (auto split: if_splits)

lemma find_keyed:
  assumes "keyed key t" and "r \<in> set t" and "key r = k"
  shows "find (\<lambda>x. key x = k) t = Some r"
proof (cases "find (\<lambda>x. key x = k) t")
  case None
  with assms show ?thesis by (auto simp: find_None)
next
  case (Some x)
  from find_Some_mem [OF this] have "x \<in> set t" "key x = k" by auto
  with assms keyed_unique [OF assms(1), of x r] have "x = r" by auto
  with Some show ?thesis by simp
qed

subsection \<open>Rows that are used up\<close>

text \<open>Each row is found by a unique key; once used it stays used and stays there.\<close>

definition row_mono :: "('r \<Rightarrow> 'k) \<Rightarrow> ('r \<Rightarrow> bool) \<Rightarrow> 'r list \<Rightarrow> 'r list \<Rightarrow> bool" where
  "row_mono key used t t' \<longleftrightarrow> (\<forall>k r. find (\<lambda>x. key x = k) t = Some r \<longrightarrow>
     (\<exists>r'. find (\<lambda>x. key x = k) t' = Some r' \<and> (used r \<longrightarrow> used r')))"

lemma row_mono_refl [simp]: "row_mono key used t t"
  by (simp add: row_mono_def)

lemma row_mono_trans: "row_mono key used t t1 \<Longrightarrow> row_mono key used t1 t2 \<Longrightarrow> row_mono key used t t2"
  unfolding row_mono_def by meson

lemma row_mono_snoc: "row_mono key used t (t @ [r])"
  by (auto simp: row_mono_def find_append)

lemma row_mono_update:
  "(\<And>r. P r \<Longrightarrow> key (f r) = key r \<and> (used r \<longrightarrow> used (f r))) \<Longrightarrow> row_mono key used t (update_where P f t)"
  by (auto simp: row_mono_def find_update_where)

subsection \<open>Lifecycles\<close>

text \<open>The contract of an item that lives in the state and only moves forward: every step of the
  system takes its status along allowed moves, and a final status has no move out of it. The
  clients are the campaigns, the assignments, the sessions and the one-time tokens.\<close>

locale lifecycle =
  fixes step :: "'s \<Rightarrow> 's \<Rightarrow> bool"
    and status :: "'s \<Rightarrow> 'i \<Rightarrow> 'v option"
    and moves :: "'v \<Rightarrow> 'v \<Rightarrow> bool"
    and final :: "'v \<Rightarrow> bool"
  assumes step_moves: "step s s' \<Longrightarrow> status s i = Some v \<Longrightarrow> \<exists>v'. status s' i = Some v' \<and> moves\<^sup>*\<^sup>* v v'"
    and final_moves: "final v \<Longrightarrow> moves v v' \<Longrightarrow> v' = v"
begin

lemma run_moves: "step\<^sup>*\<^sup>* s s' \<Longrightarrow> status s i = Some v \<Longrightarrow> \<exists>v'. status s' i = Some v' \<and> moves\<^sup>*\<^sup>* v v'"
proof (induction rule: rtranclp_induct)
  case base
  then show ?case by auto
next
  case (step s' s'')
  then obtain v' where v': "status s' i = Some v'" "moves\<^sup>*\<^sup>* v v'" by blast
  from step_moves [OF step(2) v'(1)] obtain v'' where "status s'' i = Some v''" "moves\<^sup>*\<^sup>* v' v''" by blast
  with v'(2) show ?case by (meson rtranclp_trans)
qed

lemma final_run: "moves\<^sup>*\<^sup>* v v' \<Longrightarrow> final v \<Longrightarrow> v' = v"
  by (induction rule: rtranclp_induct) (use final_moves in blast)+

lemma final_forever: "step\<^sup>*\<^sup>* s s' \<Longrightarrow> status s i = Some v \<Longrightarrow> final v \<Longrightarrow> status s' i = Some v"
  using run_moves final_run by blast

end

text \<open>An item that can be used once: a use finds it unused and leaves it final.\<close>

locale one_shot = lifecycle step status moves final
  for step :: "'s \<Rightarrow> 's \<Rightarrow> bool" and status :: "'s \<Rightarrow> 'i \<Rightarrow> 'v option"
    and moves :: "'v \<Rightarrow> 'v \<Rightarrow> bool" and final :: "'v \<Rightarrow> bool" +
  fixes uses :: "'s \<Rightarrow> 'i \<Rightarrow> 's \<Rightarrow> bool"
  assumes uses_fresh: "uses s i s' \<Longrightarrow> \<exists>v. status s i = Some v \<and> \<not> final v"
    and uses_final: "uses s i s' \<Longrightarrow> \<exists>v. status s' i = Some v \<and> final v"
begin

lemma used_once: "uses s i s1 \<Longrightarrow> step\<^sup>*\<^sup>* s1 s2 \<Longrightarrow> \<not> uses s2 i s3"
  using uses_fresh uses_final final_forever by (metis option.inject)

end

end
