(* ===== verification/GoStrings.thy ===== *)
theory GoStrings
  imports GoUnicode
begin

section \<open>Go strings: bytes, UTF-8 and the functions of package strings\<close>

text \<open>
  A Go string is a sequence of bytes, here a HOL \<open>string\<close> (a \<open>char\<close> is a byte). The
  functions of packages \<open>strings\<close>, \<open>unicode/utf8\<close> and \<open>encoding/hex\<close> that the code calls
  are modelled on it: \<open>utf8.ValidString\<close>, \<open>strings.ToValidUTF8(s, "")\<close>,
  \<open>strings.TrimSpace\<close>, \<open>strings.ToLower\<close>, \<open>strings.EqualFold\<close>, \<open>strings.TrimRight(s, "/")\<close>,
  \<open>strings.Contains\<close>, \<open>strings.HasPrefix\<close>, \<open>hex.DecodeString\<close>. \<open>length\<close> is Go's \<open>len\<close>:
  it counts bytes.
\<close>

subsection \<open>Bytes and characters\<close>

definition codes :: "string \<Rightarrow> nat list" where
  "codes s = map of_char s"

definition string_of_codes :: "nat list \<Rightarrow> string" where
  "string_of_codes cs = map char_of cs"

definition string_of_bytes :: "byte list \<Rightarrow> string" where
  "string_of_bytes bs = map (\<lambda>b. char_of (unat b)) bs"

definition bytes_of_string :: "string \<Rightarrow> byte list" where
  "bytes_of_string s = map of_char s"

lemma length_codes [simp]: "length (codes s) = length s"
  by (simp add: codes_def)

lemma length_bytes_of_string [simp]: "length (bytes_of_string s) = length s"
  by (simp add: bytes_of_string_def)

lemma length_string_of_bytes [simp]: "length (string_of_bytes bs) = length bs"
  by (simp add: string_of_bytes_def)

lemma string_of_codes_codes [simp]: "string_of_codes (codes s) = s"
  by (induction s) (auto simp: codes_def string_of_codes_def)

lemma of_char_lt_256: "(of_char c :: nat) < 256"
  by (rule nat_of_char_less_256)

lemma codes_lt_256: "c \<in> set (codes s) \<Longrightarrow> c < 256"
  by (auto simp: codes_def of_char_lt_256)

lemma codes_string_of_codes:
  "(\<And>c. c \<in> set cs \<Longrightarrow> c < 256) \<Longrightarrow> codes (string_of_codes cs) = cs"
  by (induction cs) (auto simp: codes_def string_of_codes_def)

lemma unat_of_char: "unat (of_char c :: byte) = of_char c"
proof -
  have "(of_char c :: byte) = of_nat (of_char c)" by (simp add: of_nat_of_char)
  then show ?thesis using of_char_lt_256 [of c] by (simp add: unat_of_nat)
qed

lemma string_of_bytes_of_string [simp]: "string_of_bytes (bytes_of_string s) = s"
  by (induction s) (auto simp: string_of_bytes_def bytes_of_string_def unat_of_char)

lemma bytes_of_string_of_bytes [simp]: "bytes_of_string (string_of_bytes bs) = bs"
proof (induction bs)
  case (Cons b bs)
  have "unat b < 256" using unsigned_less [of b, where ?'a = nat] by simp
  then have "of_char (char_of (unat b) :: char) = unat b" by simp
  then have "(of_char (char_of (unat b) :: char) :: byte) = b"
    using of_nat_of_char [of "char_of (unat b)", where ?'a = byte] by simp
  with Cons show ?case by (simp add: string_of_bytes_def bytes_of_string_def)
qed (simp add: string_of_bytes_def bytes_of_string_def)

subsection \<open>UTF-8\<close>

text \<open>\<open>utf8.DecodeRune\<close>: the rune at the head of the bytes and its width, \<open>None\<close> for an
  invalid or short encoding (Go's \<open>RuneError\<close> of width 1). \<open>runes\<close> cuts a string into its
  runes, each with the bytes it was read from.\<close>

definition cont :: "nat \<Rightarrow> bool" where
  "cont b \<longleftrightarrow> 128 \<le> b \<and> b \<le> 191"

fun decode_rune :: "nat list \<Rightarrow> (nat \<times> nat) option" where
  "decode_rune [] = None"
| "decode_rune (b0 # r) =
     (if b0 < 128 then Some (b0, 1)
      else if b0 < 194 then None
      else if b0 < 224 then
        (case r of
           b1 # _ \<Rightarrow> if cont b1 then Some ((b0 - 192) * 64 + (b1 - 128), 2) else None
         | [] \<Rightarrow> None)
      else if b0 < 240 then
        (case r of
           b1 # b2 # _ \<Rightarrow>
             if (if b0 = 224 then 160 else 128) \<le> b1 \<and> b1 \<le> (if b0 = 237 then 159 else 191) \<and> cont b2
             then Some ((b0 - 224) * 4096 + (b1 - 128) * 64 + (b2 - 128), 3) else None
         | _ \<Rightarrow> None)
      else if b0 < 245 then
        (case r of
           b1 # b2 # b3 # _ \<Rightarrow>
             if (if b0 = 240 then 144 else 128) \<le> b1 \<and> b1 \<le> (if b0 = 244 then 143 else 191)
                \<and> cont b2 \<and> cont b3
             then Some ((b0 - 240) * 262144 + (b1 - 128) * 4096 + (b2 - 128) * 64 + (b3 - 128), 4)
             else None
         | _ \<Rightarrow> None)
      else None)"

fun runes :: "nat list \<Rightarrow> (nat option \<times> nat list) list" where
  "runes [] = []"
| "runes (b # bs) =
     (case decode_rune (b # bs) of
        None \<Rightarrow> (None, [b]) # runes bs
      | Some (r, n) \<Rightarrow> (Some r, take n (b # bs)) # runes (drop (n - 1) bs))"

definition encode_rune :: "nat \<Rightarrow> nat list" where
  "encode_rune r =
     (if r < 128 then [r]
      else if r < 2048 then [192 + r div 64, 128 + r mod 64]
      else if r < 65536 then [224 + r div 4096, 128 + (r div 64) mod 64, 128 + r mod 64]
      else [240 + r div 262144, 128 + (r div 4096) mod 64, 128 + (r div 64) mod 64, 128 + r mod 64])"

definition raw_of :: "(nat option \<times> nat list) list \<Rightarrow> nat list" where
  "raw_of segs = concat (map snd segs)"

definition valid_utf8 :: "string \<Rightarrow> bool" where
  "valid_utf8 s \<longleftrightarrow> (\<forall>seg \<in> set (runes (codes s)). fst seg \<noteq> None)"

definition to_valid_utf8 :: "string \<Rightarrow> string" where
  "to_valid_utf8 s = string_of_codes (raw_of (filter (\<lambda>seg. fst seg \<noteq> None) (runes (codes s))))"

definition space_seg :: "nat option \<times> nat list \<Rightarrow> bool" where
  "space_seg seg = (case fst seg of Some r \<Rightarrow> is_space_rune r | None \<Rightarrow> False)"

definition trim_segs :: "(nat option \<times> nat list) list \<Rightarrow> (nat option \<times> nat list) list" where
  "trim_segs segs = rev (dropWhile space_seg (rev (dropWhile space_seg segs)))"

definition trim_space :: "string \<Rightarrow> string" where
  "trim_space s = string_of_codes (raw_of (trim_segs (runes (codes s))))"

definition is_ascii :: "string \<Rightarrow> bool" where
  "is_ascii s \<longleftrightarrow> (\<forall>c \<in> set (codes s). c < 128)"

text \<open>\<open>strings.ToLower\<close> has an ASCII path; otherwise it maps the runes, writing the
  replacement character for an invalid byte.\<close>

definition to_lower :: "string \<Rightarrow> string" where
  "to_lower s =
     (if is_ascii s then string_of_codes (map ascii_lower (codes s))
      else string_of_codes (concat (map (\<lambda>seg.
             encode_rune (case fst seg of Some r \<Rightarrow> to_lower_rune r | None \<Rightarrow> 65533))
           (runes (codes s)))))"

definition equal_fold :: "string \<Rightarrow> string \<Rightarrow> bool" where
  "equal_fold s t \<longleftrightarrow>
     map (\<lambda>seg. fold_rune (case fst seg of Some r \<Rightarrow> r | None \<Rightarrow> 65533)) (runes (codes s)) =
     map (\<lambda>seg. fold_rune (case fst seg of Some r \<Rightarrow> r | None \<Rightarrow> 65533)) (runes (codes t))"

text \<open>The normal form of names, emails, hardware identifiers and versions:
  \<open>strings.ToLower(strings.TrimSpace(s))\<close>.\<close>

definition lower_trim :: "string \<Rightarrow> string" where
  "lower_trim s = to_lower (trim_space s)"

definition rune_count :: "string \<Rightarrow> nat" where
  "rune_count s = length (runes (codes s))"

subsection \<open>Other functions of package strings\<close>

definition has_prefix :: "string \<Rightarrow> string \<Rightarrow> bool" where
  "has_prefix s p \<longleftrightarrow> prefix p s"

definition trim_prefix :: "string \<Rightarrow> string \<Rightarrow> string" where
  "trim_prefix s p = (if prefix p s then drop (length p) s else s)"

fun contains :: "string \<Rightarrow> string \<Rightarrow> bool" where
  "contains [] p = (p = [])"
| "contains (c # s) p = (prefix p (c # s) \<or> contains s p)"

text \<open>\<open>strings.TrimRight(s, "/")\<close>.\<close>

definition trim_right_slash :: "string \<Rightarrow> string" where
  "trim_right_slash s = rev (dropWhile (\<lambda>c. c = CHR ''/'') (rev s))"

text \<open>\<open>strings.Index(s, ".")\<close> for a one-byte separator: \<open>None\<close> is -1.\<close>

fun index_char :: "string \<Rightarrow> char \<Rightarrow> nat option" where
  "index_char [] c = None"
| "index_char (x # s) c = (if x = c then Some 0 else map_option Suc (index_char s c))"

fun split_char :: "char \<Rightarrow> string \<Rightarrow> string list" where
  "split_char c [] = [[]]"
| "split_char c (x # s) =
     (if x = c then [] # split_char c s
      else (case split_char c s of [] \<Rightarrow> [[x]] | p # ps \<Rightarrow> (x # p) # ps))"

subsection \<open>Hexadecimal\<close>

definition hex_val :: "nat \<Rightarrow> nat option" where
  "hex_val c =
     (if 48 \<le> c \<and> c \<le> 57 then Some (c - 48)
      else if 97 \<le> c \<and> c \<le> 102 then Some (c - 87)
      else if 65 \<le> c \<and> c \<le> 70 then Some (c - 55)
      else None)"

fun hex_decode_codes :: "nat list \<Rightarrow> byte list option" where
  "hex_decode_codes [] = Some []"
| "hex_decode_codes [c] = None"
| "hex_decode_codes (c # d # cs) =
     (case (hex_val c, hex_val d) of
        (Some x, Some y) \<Rightarrow> map_option (\<lambda>bs. of_nat (16 * x + y) # bs) (hex_decode_codes cs)
      | _ \<Rightarrow> None)"

definition hex_decode :: "string \<Rightarrow> byte list option" where
  "hex_decode s = hex_decode_codes (codes s)"

definition hex_digit :: "nat \<Rightarrow> nat" where
  "hex_digit n = (if n < 10 then 48 + n else 87 + n)"

definition hex_encode :: "byte list \<Rightarrow> string" where
  "hex_encode bs = string_of_codes (concat (map (\<lambda>b. [hex_digit (unat b div 16), hex_digit (unat b mod 16)]) bs))"

subsection \<open>Properties of UTF-8 decoding\<close>

lemma decode_rune_width: "decode_rune bs = Some (r, n) \<Longrightarrow> 1 \<le> n \<and> n \<le> length bs"
  by (cases bs) (auto split: if_splits list.splits)

lemma decode_rune_take:
  "decode_rune bs = Some (r, n) \<Longrightarrow> decode_rune (take n bs @ xs) = Some (r, n)"
  by (cases bs) (auto split: if_splits list.splits)

lemma decode_rune_append: "decode_rune bs = Some p \<Longrightarrow> decode_rune (bs @ xs) = Some p"
proof -
  assume d: "decode_rune bs = Some p"
  obtain r n where p: "p = (r, n)" by fastforce
  have "decode_rune (take n bs @ (drop n bs @ xs)) = Some (r, n)"
    using d unfolding p by (rule decode_rune_take)
  then show ?thesis by (simp add: p append_assoc [symmetric] del: append_assoc)
qed

declare decode_rune.simps(2) [simp del]

lemma raw_of_Nil [simp]: "raw_of [] = []"
  by (simp add: raw_of_def)

lemma raw_of_Cons [simp]: "raw_of (x # xs) = snd x @ raw_of xs"
  by (simp add: raw_of_def)

lemma raw_of_append [simp]: "raw_of (xs @ ys) = raw_of xs @ raw_of ys"
  by (simp add: raw_of_def)

lemma drop_pred_Cons: "1 \<le> n \<Longrightarrow> drop (n - 1) bs = drop n (b # bs)"
  by (cases n) auto

lemma raw_of_runes [simp]: "raw_of (runes bs) = bs"
proof (induction bs rule: runes.induct)
  case (2 b bs)
  show ?case
  proof (cases "decode_rune (b # bs)")
    case None
    with "2.IH"(1) [OF None] show ?thesis by simp
  next
    case (Some p)
    obtain r n where p: "p = (r, n)" by fastforce
    with Some have w: "1 \<le> n" using decode_rune_width by blast
    have "raw_of (runes (drop (n - 1) bs)) = drop (n - 1) bs"
      using "2.IH"(2) [OF Some, of r n] p by simp
    with Some p w show ?thesis
      by (simp add: drop_pred_Cons [of n bs b] del: drop_Suc_Cons take_Suc_Cons One_nat_def)
  qed
qed simp

definition seg_ok :: "nat option \<times> nat list \<Rightarrow> bool" where
  "seg_ok seg \<longleftrightarrow> (\<exists>r. fst seg = Some r \<and> decode_rune (snd seg) = Some (r, length (snd seg)))"

lemma runes_seg_ok: "seg \<in> set (runes bs) \<Longrightarrow> fst seg \<noteq> None \<Longrightarrow> seg_ok seg"
proof (induction bs rule: runes.induct)
  case (2 b bs)
  show ?case
  proof (cases "decode_rune (b # bs)")
    case None
    with "2.IH"(1) [OF None] "2.prems" show ?thesis by auto
  next
    case (Some p)
    obtain r n where p: "p = (r, n)" by fastforce
    with Some have w: "1 \<le> n \<and> n \<le> length (b # bs)" using decode_rune_width by blast
    have "decode_rune (take n (b # bs) @ []) = Some (r, n)"
      using Some p by (intro decode_rune_take) simp
    with w have "seg_ok (Some r, take n (b # bs))" by (simp add: seg_ok_def min_def)
    with Some p "2.prems" "2.IH"(2) [OF Some, of r n] show ?thesis by auto
  qed
qed simp

lemma runes_Cons_ok:
  assumes "seg_ok seg"
  shows "runes (snd seg @ bs) = seg # runes bs"
proof -
  obtain r w where seg: "seg = (Some r, w)" and d: "decode_rune w = Some (r, length w)"
    using assms by (cases seg) (auto simp: seg_ok_def)
  then obtain b bs' where w: "w = b # bs'" by (cases w) auto
  have "decode_rune (w @ bs) = Some (r, length w)" using d by (rule decode_rune_append)
  then show ?thesis by (simp add: seg w)
qed

lemma runes_raw_of_ok: "(\<And>seg. seg \<in> set segs \<Longrightarrow> seg_ok seg) \<Longrightarrow> runes (raw_of segs) = segs"
  by (induction segs) (auto simp: runes_Cons_ok)

lemma runes_drop: "runes (raw_of (drop k (runes bs))) = drop k (runes bs)"
proof (induction bs arbitrary: k rule: runes.induct)
  case (2 b bs)
  show ?case
  proof (cases k)
    case 0
    then show ?thesis by (simp del: runes.simps)
  next
    case (Suc j)
    show ?thesis
    proof (cases "decode_rune (b # bs)")
      case None
      with "2.IH"(1) [OF None, of j] Suc show ?thesis by simp
    next
      case (Some p)
      obtain r n where p: "p = (r, n)" by fastforce
      with Some "2.IH"(2) [OF Some, of r n j] Suc show ?thesis by simp
    qed
  qed
qed simp

lemma runes_take: "runes (raw_of (take k (runes bs))) = take k (runes bs)"
proof (induction bs arbitrary: k rule: runes.induct)
  case (2 b bs)
  show ?case
  proof (cases k)
    case 0
    then show ?thesis by simp
  next
    case (Suc j)
    show ?thesis
    proof (cases "decode_rune (b # bs)")
      case None
      let ?t = "raw_of (take j (runes bs))"
      have "decode_rune (b # ?t) = None"
      proof (rule ccontr)
        assume "decode_rune (b # ?t) \<noteq> None"
        then obtain q where "decode_rune (b # ?t) = Some q" by blast
        then have "decode_rune ((b # ?t) @ raw_of (drop j (runes bs))) = Some q"
          by (rule decode_rune_append)
        moreover have "?t @ raw_of (drop j (runes bs)) = bs"
          by (simp add: raw_of_append [symmetric] del: raw_of_append)
        ultimately show False using None by simp
      qed
      with None "2.IH"(1) [OF None, of j] Suc show ?thesis by simp
    next
      case (Some p)
      obtain r n where p: "p = (r, n)" by fastforce
      have "seg_ok (Some r, take n (b # bs))"
        using Some p runes_seg_ok [of "(Some r, take n (b # bs))" "b # bs"] by simp
      from runes_Cons_ok [OF this] show ?thesis
        using Some p "2.IH"(2) [OF Some, of r n j] Suc by simp
    qed
  qed
qed simp

lemma raw_of_runes_codes_lt:
  "c \<in> set (raw_of segs) \<Longrightarrow> set segs \<subseteq> set (runes (codes s)) \<Longrightarrow> c < 256"
proof -
  assume c: "c \<in> set (raw_of segs)" and sub: "set segs \<subseteq> set (runes (codes s))"
  then have "c \<in> set (raw_of (runes (codes s)))" by (auto simp: raw_of_def)
  then show ?thesis by (simp add: codes_lt_256)
qed

lemma codes_string_of_segs:
  "set segs \<subseteq> set (runes (codes s)) \<Longrightarrow> codes (string_of_codes (raw_of segs)) = raw_of segs"
  by (intro codes_string_of_codes raw_of_runes_codes_lt)

subsection \<open>Properties of the string functions\<close>

lemma runes_to_valid_utf8:
  "runes (codes (to_valid_utf8 s)) = filter (\<lambda>seg. fst seg \<noteq> None) (runes (codes s))"
proof -
  let ?f = "filter (\<lambda>seg. fst seg \<noteq> None) (runes (codes s))"
  have "codes (to_valid_utf8 s) = raw_of ?f"
    unfolding to_valid_utf8_def by (rule codes_string_of_segs [of _ s]) auto
  moreover have "runes (raw_of ?f) = ?f"
    by (rule runes_raw_of_ok) (auto intro: runes_seg_ok)
  ultimately show ?thesis by simp
qed

lemma valid_to_valid_utf8 [simp]: "valid_utf8 (to_valid_utf8 s)"
  by (auto simp: valid_utf8_def runes_to_valid_utf8)

lemma to_valid_utf8_id [simp]: "valid_utf8 s \<Longrightarrow> to_valid_utf8 s = s"
  by (simp add: valid_utf8_def to_valid_utf8_def filter_id_conv)

lemma length_to_valid_utf8: "length (to_valid_utf8 s) \<le> length s"
proof -
  have len: "length (raw_of (filter P segs)) \<le> length (raw_of segs)" for P segs
    by (induction segs) auto
  have "length (to_valid_utf8 s) = length (raw_of (filter (\<lambda>seg. fst seg \<noteq> None) (runes (codes s))))"
    by (simp add: to_valid_utf8_def string_of_codes_def)
  also have "\<dots> \<le> length (raw_of (runes (codes s)))" by (rule len)
  finally show ?thesis by simp
qed

lemma trim_segs_sublist: "\<exists>i j. trim_segs segs = take j (drop i segs)"
proof -
  have "dropWhile space_seg segs = drop (length (takeWhile space_seg segs)) segs"
    by (simp add: dropWhile_eq_drop)
  moreover have "rev (dropWhile P (rev xs)) = take (length xs - length (takeWhile P (rev xs))) xs"
    for P and xs :: "(nat option \<times> nat list) list"
    by (simp add: dropWhile_eq_drop rev_drop)
  ultimately show ?thesis unfolding trim_segs_def by metis
qed

lemma set_trim_segs: "set (trim_segs segs) \<subseteq> set segs"
  using trim_segs_sublist [of segs] by (metis set_take_subset set_drop_subset subset_trans)

lemma runes_trim_space: "runes (codes (trim_space s)) = trim_segs (runes (codes s))"
proof -
  obtain i j where t: "trim_segs (runes (codes s)) = take j (drop i (runes (codes s)))"
    using trim_segs_sublist by blast
  have "codes (trim_space s) = raw_of (trim_segs (runes (codes s)))"
    unfolding trim_space_def by (rule codes_string_of_segs [of _ s]) (rule set_trim_segs)
  moreover have "runes (raw_of (take j (drop i (runes (codes s))))) = take j (drop i (runes (codes s)))"
    using runes_take [of j "raw_of (drop i (runes (codes s)))"] by (simp add: runes_drop)
  ultimately show ?thesis by (simp add: t)
qed

lemma dropWhile_idem [simp]: "dropWhile P (dropWhile P xs) = dropWhile P xs"
  by (induction xs) auto

lemma dropWhile_rev_dropWhile:
  "dropWhile P (rev (dropWhile P (rev (dropWhile P xs)))) = rev (dropWhile P (rev (dropWhile P xs)))"
proof (cases "dropWhile P xs")
  case Nil
  show ?thesis unfolding Nil by simp
next
  case (Cons y ys)
  then have y: "\<not> P y" by (metis hd_dropWhile list.sel(1) list.distinct(1))
  have "rev (dropWhile P (rev (y # ys))) = y # rev (dropWhile P (rev ys))"
    using y by (simp add: dropWhile_append)
  with Cons y show ?thesis by simp
qed

lemma trim_segs_idem [simp]: "trim_segs (trim_segs segs) = trim_segs segs"
  by (simp add: trim_segs_def dropWhile_rev_dropWhile)

lemma trim_space_idem [simp]: "trim_space (trim_space s) = trim_space s"
proof -
  have "trim_space (trim_space s) = string_of_codes (raw_of (trim_segs (runes (codes s))))"
    unfolding trim_space_def [of "trim_space s"] by (simp add: runes_trim_space)
  then show ?thesis by (simp add: trim_space_def)
qed

lemma valid_trim_space: "valid_utf8 s \<Longrightarrow> valid_utf8 (trim_space s)"
  using set_trim_segs by (auto simp: valid_utf8_def runes_trim_space)

lemma trim_space_Nil [simp]: "trim_space [] = []"
  by (simp add: trim_space_def codes_def trim_segs_def string_of_codes_def)

lemma runes_ascii: "(\<And>c. c \<in> set cs \<Longrightarrow> c < 128) \<Longrightarrow> runes cs = map (\<lambda>c. (Some c, [c])) cs"
  by (induction cs) (auto simp: decode_rune.simps)

lemma valid_utf8_ascii: "is_ascii s \<Longrightarrow> valid_utf8 s"
  by (auto simp: valid_utf8_def is_ascii_def runes_ascii)

lemma trim_space_no_space:
  assumes "\<And>c. c \<in> set (codes s) \<Longrightarrow> c < 128 \<and> \<not> is_space_rune c"
  shows "trim_space s = s"
proof -
  have r: "runes (codes s) = map (\<lambda>c. (Some c, [c])) (codes s)"
    using assms by (intro runes_ascii) auto
  have dw: "dropWhile P xs = xs" if "\<And>x. x \<in> set xs \<Longrightarrow> \<not> P x" for P and xs :: "(nat option \<times> nat list) list"
    using that by (cases xs) auto
  let ?m = "map (\<lambda>c. (Some c, [c])) (codes s)"
  have "\<not> space_seg x" if "x \<in> set ?m" for x using assms that by (auto simp: space_seg_def)
  then have "dropWhile space_seg ?m = ?m" "dropWhile space_seg (rev ?m) = rev ?m"
    by (intro dw; simp)+
  then have "trim_segs (runes (codes s)) = runes (codes s)"
    unfolding trim_segs_def r by simp
  then show ?thesis by (simp add: trim_space_def)
qed

end
