(* ===== verification/Protocol.thy ===== *)
theory Protocol
  imports GoStrings
begin

section \<open>The FRM1 wire protocol (internal/transport/devotcp/protocol.go)\<close>

text \<open>
  Frames and payload layouts of the device OTA protocol: \<open>readFrame\<close>, \<open>writeFrame\<close>,
  \<open>writeErr\<close>, the payload decoders, \<open>encodePollResponse\<close> and \<open>sha256HexTo32\<close>. A reader is
  the list of the bytes that will still arrive before the connection ends (by EOF, a reset
  or a deadline, which the code treats alike); a writer is the list of the bytes written.
  The wire formats of \<open>docs/device-tcp-protocol.md\<close> are stated separately
  (\<open>doc_auth_payload\<close>, \<open>doc_poll_payload\<close>, \<open>doc_report_payload\<close>, \<open>doc_read_poll_response\<close>)
  and the decoders and the encoder of the code are proved against them.
\<close>

subsection \<open>Big-endian integers (encoding/binary)\<close>

fun be_nat :: "byte list \<Rightarrow> nat" where
  "be_nat [] = 0"
| "be_nat (b # bs) = unat b * 256 ^ length bs + be_nat bs"

fun be_bytes :: "nat \<Rightarrow> nat \<Rightarrow> byte list" where
  "be_bytes 0 v = []"
| "be_bytes (Suc n) v = of_nat (v div 256 ^ n) # be_bytes n v"

definition slice :: "nat \<Rightarrow> nat \<Rightarrow> 'a list \<Rightarrow> 'a list" where
  "slice i j p = take (j - i) (drop i p)"

definition be_uint16 :: "byte list \<Rightarrow> 16 word" where
  "be_uint16 bs = of_nat (be_nat bs)"

definition be_uint32 :: "byte list \<Rightarrow> 32 word" where
  "be_uint32 bs = of_nat (be_nat bs)"

subsection \<open>Constants and frames\<close>

definition frameHeaderLen :: nat where "frameHeaderLen = 16"
definition maxPayloadLen :: nat where "maxPayloadLen = 8192"

definition magic :: "byte list" where "magic = [0x46, 0x52, 0x4d, 0x31]"
definition protoVer :: byte where "protoVer = 1"

definition MsgAuthReq :: "16 word" where "MsgAuthReq = 1"
definition MsgPollReq :: "16 word" where "MsgPollReq = 2"
definition MsgReportReq :: "16 word" where "MsgReportReq = 3"
definition MsgAuthOK :: "16 word" where "MsgAuthOK = 128"
definition MsgPollResp :: "16 word" where "MsgPollResp = 129"
definition MsgReportResp :: "16 word" where "MsgReportResp = 130"
definition MsgErr :: "16 word" where "MsgErr = 255"

definition ErrCodeUnauthorized :: "32 word" where "ErrCodeUnauthorized = 1"
definition ErrCodeBlocked :: "32 word" where "ErrCodeBlocked = 2"
definition ErrCodeRevokedOrDisabled :: "32 word" where "ErrCodeRevokedOrDisabled = 3"
definition ErrCodeBadPayload :: "32 word" where "ErrCodeBadPayload = 4"
definition ErrCodeInternal :: "32 word" where "ErrCodeInternal = 5"

text \<open>\<open>IoEOF\<close> stands for every error of the connection itself.\<close>

datatype frame_error = IoEOF | ErrBadFrame | ErrPayloadTooBig

record frame =
  MsgType :: "16 word"
  ReqID :: "32 word"
  Payload :: "byte list"

definition read_full :: "nat \<Rightarrow> byte list \<Rightarrow> (frame_error + byte list) \<times> byte list" where
  "read_full n r = (if length r < n then (Inl IoEOF, []) else (Inr (take n r), drop n r))"

definition readFrame :: "byte list \<Rightarrow> (frame_error + frame) \<times> byte list" where
  "readFrame r =
     (case read_full frameHeaderLen r of
        (Inl e, r1) \<Rightarrow> (Inl e, r1)
      | (Inr hdr, r1) \<Rightarrow>
          if slice 0 4 hdr \<noteq> magic then (Inl ErrBadFrame, r1)
          else if hdr ! 4 \<noteq> protoVer then (Inl ErrBadFrame, r1)
          else
            (let msgType = be_uint16 (slice 6 8 hdr);
                 reqID = be_uint32 (slice 8 12 hdr);
                 payloadLen = be_uint32 (slice 12 16 hdr)
             in if payloadLen > of_nat maxPayloadLen then (Inl ErrPayloadTooBig, r1)
                else if payloadLen > 0 then
                  (case read_full (unat payloadLen) r1 of
                     (Inl e, r2) \<Rightarrow> (Inl e, r2)
                   | (Inr payload, r2) \<Rightarrow>
                       (Inr \<lparr>MsgType = msgType, ReqID = reqID, Payload = payload\<rparr>, r2))
                else (Inr \<lparr>MsgType = msgType, ReqID = reqID, Payload = []\<rparr>, r1)))"

definition writeFrame :: "16 word \<Rightarrow> 32 word \<Rightarrow> byte list \<Rightarrow> frame_error + byte list" where
  "writeFrame msgType reqID payload =
     (if length payload > maxPayloadLen then Inl ErrPayloadTooBig
      else Inr (magic @ [protoVer, 0] @ be_bytes 2 (unat msgType) @ be_bytes 4 (unat reqID)
                @ be_bytes 4 (length payload) @ payload))"

definition ensure_utf8 :: "string \<Rightarrow> string" where
  "ensure_utf8 s = (if valid_utf8 s then s else to_valid_utf8 s)"

definition err_payload :: "32 word \<Rightarrow> string \<Rightarrow> byte list" where
  "err_payload code msg =
     (let msg1 = (if length msg > 512 then take 512 msg else msg);
          msg2 = ensure_utf8 msg1
      in be_bytes 4 (unat code) @ be_bytes 2 (length msg2) @ bytes_of_string msg2)"

definition writeErr :: "32 word \<Rightarrow> 32 word \<Rightarrow> string \<Rightarrow> frame_error + byte list" where
  "writeErr reqID code msg = writeFrame MsgErr reqID (err_payload code msg)"

subsection \<open>Payload decoders\<close>

definition decodeAuthPayload :: "byte list \<Rightarrow> frame_error + string" where
  "decodeAuthPayload p =
     (if length p < 2 then Inl ErrBadFrame
      else let n = be_nat (slice 0 2 p) in
        if 2 + n > length p then Inl ErrBadFrame
        else Inr (trim_space (ensure_utf8 (string_of_bytes (slice 2 (2 + n) p)))))"

definition decodePollPayload :: "byte list \<Rightarrow> frame_error + (string \<times> string)" where
  "decodePollPayload p =
     (if length p < 2 then Inl ErrBadFrame
      else let n = be_nat (slice 0 2 p) in
        if 2 + n > length p then Inl ErrBadFrame
        else let cur = string_of_bytes (slice 2 (2 + n) p); off = 2 + n in
          if off + 2 > length p then Inr (trim_space cur, [])
          else let m = be_nat (slice off (off + 2) p) in
            if off + 2 + m > length p then Inl ErrBadFrame
            else let metaStr = string_of_bytes (slice (off + 2) (off + 2 + m) p)
                 in Inr (trim_space (ensure_utf8 cur), trim_space (ensure_utf8 metaStr)))"

record report =
  rep_campaignID :: uuid
  rep_status :: byte
  rep_errCode :: "16 word"
  rep_errMsg :: string
  rep_currentVer :: string

definition decodeReportPayload :: "byte list \<Rightarrow> frame_error + report" where
  "decodeReportPayload p =
     (if length p < 16 + 1 + 2 + 2 then Inl ErrBadFrame
      else let cid = of_nat (be_nat (slice 0 16 p));
               st = p ! 16;
               ec = be_uint16 (slice 17 19 p);
               eml = be_nat (slice 19 21 p) in
        if 21 + eml > length p then Inl ErrBadFrame
        else let em = string_of_bytes (slice 21 (21 + eml) p); off = 21 + eml in
          if off + 2 > length p
          then Inr \<lparr>rep_campaignID = cid, rep_status = st, rep_errCode = ec,
                    rep_errMsg = em, rep_currentVer = []\<rparr>
          else let cvl = be_nat (slice off (off + 2) p) in
            if off + 2 + cvl > length p then Inl ErrBadFrame
            else let cv = string_of_bytes (slice (off + 2) (off + 2 + cvl) p)
                 in Inr \<lparr>rep_campaignID = cid, rep_status = st, rep_errCode = ec,
                         rep_errMsg = trim_space (ensure_utf8 em),
                         rep_currentVer = trim_space (ensure_utf8 cv)\<rparr>)"

subsection \<open>Poll response\<close>

text \<open>\<open>nil\<close>, returned for a too long version or URL, is the empty list.\<close>

definition encodePollResponse ::
    "bool \<Rightarrow> string \<Rightarrow> string \<Rightarrow> 256 word \<Rightarrow> uuid \<Rightarrow> uuid \<Rightarrow> 32 word \<Rightarrow> byte list" where
  "encodePollResponse updateAvailable targetVersion downloadURL checksumSHA256 campaignID firmwareID expiresUnix =
     (let flag = (if updateAvailable then 1 else 0);
          tv = bytes_of_string targetVersion;
          du = bytes_of_string downloadURL
      in if length tv > maxPayloadLen div 4 \<or> length du > maxPayloadLen then []
         else [flag] @ be_bytes 2 (length tv) @ tv @ be_bytes 32 (unat checksumSHA256)
              @ be_bytes 16 (unat campaignID) @ be_bytes 16 (unat firmwareID)
              @ be_bytes 2 (length du) @ du @ be_bytes 4 (unat expiresUnix))"

definition sha256HexTo32 :: "string \<Rightarrow> frame_error + 256 word" where
  "sha256HexTo32 s =
     (case hex_decode (trim_space s) of
        None \<Rightarrow> Inl ErrBadFrame
      | Some b \<Rightarrow> if length b \<noteq> 32 then Inl ErrBadFrame else Inr (of_nat (be_nat b)))"

subsection \<open>The documented wire formats\<close>

definition doc_auth_payload :: "string \<Rightarrow> byte list" where
  "doc_auth_payload tok = be_bytes 2 (length tok) @ bytes_of_string tok"

definition doc_poll_payload :: "string \<Rightarrow> string option \<Rightarrow> byte list" where
  "doc_poll_payload cur meta =
     be_bytes 2 (length cur) @ bytes_of_string cur @
     (case meta of None \<Rightarrow> [] | Some m \<Rightarrow> be_bytes 2 (length m) @ bytes_of_string m)"

definition doc_report_payload :: "uuid \<Rightarrow> byte \<Rightarrow> 16 word \<Rightarrow> string \<Rightarrow> string option \<Rightarrow> byte list" where
  "doc_report_payload cid st ec em cv =
     be_bytes 16 (unat cid) @ [st] @ be_bytes 2 (unat ec) @ be_bytes 2 (length em) @ bytes_of_string em @
     (case cv of None \<Rightarrow> [] | Some v \<Rightarrow> be_bytes 2 (length v) @ bytes_of_string v)"

text \<open>A client that reads a poll response as the document describes it.\<close>

definition read_uint :: "nat \<Rightarrow> byte list \<Rightarrow> (nat \<times> byte list) option" where
  "read_uint n r = (if length r < n then None else Some (be_nat (take n r), drop n r))"

definition read_str :: "byte list \<Rightarrow> (string \<times> byte list) option" where
  "read_str r =
     (case read_uint 2 r of
        None \<Rightarrow> None
      | Some (n, r1) \<Rightarrow> if length r1 < n then None
                        else Some (string_of_bytes (take n r1), drop n r1))"

definition doc_read_poll_response ::
    "byte list \<Rightarrow> (string \<times> 256 word \<times> uuid \<times> uuid \<times> string \<times> 32 word) option option" where
  "doc_read_poll_response r =
     (case r of
        [] \<Rightarrow> None
      | b # r0 \<Rightarrow>
          if b = 0 then (if r0 = [] then Some None else None)
          else case read_str r0 of None \<Rightarrow> None | Some (tv, r1) \<Rightarrow>
               case read_uint 32 r1 of None \<Rightarrow> None | Some (ck, r2) \<Rightarrow>
               case read_uint 16 r2 of None \<Rightarrow> None | Some (cid, r3) \<Rightarrow>
               case read_uint 16 r3 of None \<Rightarrow> None | Some (fid, r4) \<Rightarrow>
               case read_str r4 of None \<Rightarrow> None | Some (url, r5) \<Rightarrow>
               case read_uint 4 r5 of None \<Rightarrow> None | Some (ex, r6) \<Rightarrow>
                 if r6 = [] then Some (Some (tv, of_nat ck, of_nat cid, of_nat fid, url, of_nat ex))
                 else None)"

subsection \<open>Lemmas on big-endian integers and slices\<close>

lemma length_be_bytes [simp]: "length (be_bytes n v) = n"
  by (induction n) auto

lemma be_nat_append [simp]: "be_nat (xs @ ys) = be_nat xs * 256 ^ length ys + be_nat ys"
  by (induction xs) (auto simp: algebra_simps power_add)

lemma be_nat_lt: "be_nat bs < 256 ^ length bs"
proof (induction bs)
  case (Cons b bs)
  have "unat b < 256" using unsigned_less [of b, where ?'a = nat] by simp
  then have "unat b * 256 ^ length bs \<le> 255 * 256 ^ length bs" by (intro mult_right_mono) auto
  with Cons have "unat b * 256 ^ length bs + be_nat bs < 256 * 256 ^ length bs" by linarith
  then show ?case by simp
qed simp

lemma be_nat_be_bytes: "be_nat (be_bytes n v) = v mod 256 ^ n"
proof (induction n)
  case (Suc n)
  have "unat (of_nat (v div 256 ^ n) :: byte) = (v div 256 ^ n) mod 256"
    by (simp add: unsigned_of_nat take_bit_eq_mod)
  with Suc show ?case by (simp add: mod_mult2_eq [of v "256 ^ n" 256] power_Suc2 del: power_Suc)
qed simp

lemma be_nat_be_bytes_id [simp]: "v < 256 ^ n \<Longrightarrow> be_nat (be_bytes n v) = v"
  by (simp add: be_nat_be_bytes)

lemma be_bytes_mod: "be_bytes n (v mod 256 ^ k) = be_bytes n v" if "n \<le> k"
  using that
proof (induction n)
  case (Suc n)
  have "(v mod 256 ^ k) div 256 ^ n mod 256 = v div 256 ^ n mod 256"
  proof -
    obtain j where k: "k = n + Suc j" using Suc.prems less_imp_Suc_add by (metis Suc_le_lessD add_Suc_right)
    have "(256::nat) ^ k = 256 ^ n * (256 * 256 ^ j)" unfolding k by (simp add: power_add)
    then have "(v mod 256 ^ k) div 256 ^ n = v div 256 ^ n mod (256 * 256 ^ j)"
      by (simp add: mod_mult2_eq)
    then show ?thesis by (simp add: mod_mult2_eq)
  qed
  then have "(of_nat ((v mod 256 ^ k) div 256 ^ n) :: byte) = of_nat (v div 256 ^ n)"
    by (intro word_unat_eq_iff [THEN iffD2]) (simp add: unsigned_of_nat take_bit_eq_mod)
  with Suc show ?case by simp
qed simp

lemma be_bytes_be_nat [simp]: "length bs = n \<Longrightarrow> be_bytes n (be_nat bs) = bs"
proof (induction bs arbitrary: n)
  case (Cons b bs)
  let ?n = "length bs"
  have lt: "be_nat bs < 256 ^ ?n" by (rule be_nat_lt)
  have "be_bytes ?n (be_nat (b # bs)) = be_bytes ?n (be_nat (b # bs) mod 256 ^ ?n)"
    by (rule be_bytes_mod [symmetric]) simp
  also have "be_nat (b # bs) mod 256 ^ ?n = be_nat bs" using lt by simp
  finally have tl: "be_bytes ?n (be_nat (b # bs)) = bs" using Cons.IH by simp
  have "be_nat (b # bs) div 256 ^ ?n = unat b" using lt by simp
  with tl Cons.prems show ?case by auto
qed simp

lemma slice_append_left: "j \<le> length xs \<Longrightarrow> slice i j (xs @ ys) = slice i j xs"
  by (simp add: slice_def)

lemma slice_append_right:
  "length xs \<le> i \<Longrightarrow> slice i j (xs @ ys) = slice (i - length xs) (j - length xs) ys"
  by (simp add: slice_def)

lemma slice_all: "i = 0 \<Longrightarrow> j = length xs \<Longrightarrow> slice i j xs = xs"
  by (simp add: slice_def)

lemma length_slice: "j \<le> length p \<Longrightarrow> i \<le> j \<Longrightarrow> length (slice i j p) = j - i"
  by (simp add: slice_def)

lemmas slice_simps = slice_append_left slice_append_right slice_all

lemma slice_0 [simp]: "slice 0 n (xs @ ys) = xs" if "length xs = n"
  using that by (simp add: slice_def)

lemma unat_lt_be: "unat (w :: 'a::len word) < 2 ^ LENGTH('a)"
  by simp

lemma unat16_lt [simp]: "unat (w :: 16 word) < 65536"
  using unsigned_less [of w, where ?'a = nat] by simp

lemma unat32_lt [simp]: "unat (w :: 32 word) < 4294967296"
  using unsigned_less [of w, where ?'a = nat] by simp

lemma be_uint16_be_bytes [simp]: "be_uint16 (be_bytes 2 (unat w)) = w"
  by (simp add: be_uint16_def be_nat_be_bytes_id del: be_bytes.simps)

lemma be_uint32_be_bytes [simp]: "be_uint32 (be_bytes 4 (unat w)) = w"
  by (simp add: be_uint32_def be_nat_be_bytes_id del: be_bytes.simps)

lemma be_bytes_2 [go_simps]: "be_bytes 2 v = [of_nat (v div 256), of_nat v]"
  by (simp add: numeral_2_eq_2)

lemma be_bytes_4 [go_simps]:
  "be_bytes 4 v = [of_nat (v div 16777216), of_nat (v div 65536), of_nat (v div 256), of_nat v]"
proof -
  have "be_bytes (Suc (Suc (Suc (Suc 0)))) v = [of_nat (v div 16777216), of_nat (v div 65536), of_nat (v div 256), of_nat v]"
    by simp
  moreover have "Suc (Suc (Suc (Suc 0))) = 4" by simp
  ultimately show ?thesis by (simp only:)
qed

declare be_bytes.simps [simp del]

lemma bytes_length16: "length p = 16 \<Longrightarrow> be_bytes 16 (unat (of_nat (be_nat p) :: uuid)) = p"
proof -
  assume l: "length p = 16"
  then have "be_nat p < 2 ^ 128" using be_nat_lt [of p] by simp
  then have "unat (of_nat (be_nat p) :: uuid) = be_nat p" by (simp add: unat_of_nat)
  with l show ?thesis by simp
qed

lemma uuid_be_bytes [simp]: "of_nat (be_nat (be_bytes 16 (unat (w :: uuid)))) = w"
proof -
  have "unat w < 256 ^ 16" using unsigned_less [of w, where ?'a = nat] by simp
  then show ?thesis by simp
qed

lemma checksum_be_bytes [simp]: "of_nat (be_nat (be_bytes 32 (unat (w :: 256 word)))) = w"
proof -
  have "unat w < 256 ^ 32" using unsigned_less [of w, where ?'a = nat] by simp
  then show ?thesis by simp
qed

subsection \<open>Frames\<close>

lemma read_full_append: "length xs = n \<Longrightarrow> read_full n (xs @ ys) = (Inr xs, ys)"
  by (simp add: read_full_def)

lemma writeFrame_Inr_iff: "writeFrame t r p = Inr out \<longleftrightarrow> length p \<le> maxPayloadLen \<and>
    out = magic @ [protoVer, 0] @ be_bytes 2 (unat t) @ be_bytes 4 (unat r) @ be_bytes 4 (length p) @ p"
  by (auto simp: writeFrame_def)

text \<open>What a received header decides, as one equation over its fields.\<close>

lemma readFrame_header:
  assumes "length t = 2" "length r = 4" "length l = 4"
  shows "readFrame (magic @ [protoVer, fl] @ t @ r @ l @ body) =
    (if be_nat l > maxPayloadLen then (Inl ErrPayloadTooBig, body)
     else if length body < be_nat l then (Inl IoEOF, [])
     else (Inr \<lparr>MsgType = be_uint16 t, ReqID = be_uint32 r, Payload = take (be_nat l) body\<rparr>,
           drop (be_nat l) body))"
proof -
  have lt: "be_nat l < 2 ^ 32" using be_nat_lt [of l] assms by simp
  then have u: "unat (be_uint32 l) = be_nat l" by (simp add: be_uint32_def unat_of_nat)
  let ?hdr = "magic @ [protoVer, fl] @ t @ r @ l"
  have m4: "length magic = 4" by (simp add: magic_def)
  have hl: "length ?hdr = 16" using assms by (simp add: m4)
  have s0: "slice 0 4 ?hdr = magic" by (simp add: m4)
  have h4: "?hdr ! 4 = protoVer" using m4 by (simp add: nth_append)
  have s1: "slice 6 8 ?hdr = t" and s2: "slice 8 12 ?hdr = r" and s3: "slice 12 16 ?hdr = l"
    using assms m4 by (simp_all add: slice_def drop_Cons numeral_eq_Suc)
  have rf: "read_full frameHeaderLen (?hdr @ body) = (Inr ?hdr, body)"
    using hl by (intro read_full_append) (simp add: frameHeaderLen_def)
  have gt: "be_uint32 l > of_nat maxPayloadLen \<longleftrightarrow> be_nat l > maxPayloadLen"
    by (simp add: word_less_nat_alt u maxPayloadLen_def unat_of_nat)
  have z: "be_uint32 l > 0 \<longleftrightarrow> be_nat l > 0" by (simp add: word_less_nat_alt u)
  have "readFrame (?hdr @ body) =
    (if be_nat l > maxPayloadLen then (Inl ErrPayloadTooBig, body)
     else if length body < be_nat l then (Inl IoEOF, [])
     else (Inr \<lparr>MsgType = be_uint16 t, ReqID = be_uint32 r, Payload = take (be_nat l) body\<rparr>,
           drop (be_nat l) body))"
    unfolding readFrame_def rf
    by (simp only: prod.case sum.case s0 h4 s1 s2 s3 Let_def gt z u read_full_def) auto
  then show ?thesis by (simp del: be_nat.simps)
qed

text \<open>The header of an accepted frame, read back from the bytes.\<close>

lemma header_split:
  assumes "length hdr = 16" "slice 0 4 hdr = magic" "hdr ! 4 = protoVer"
  shows "hdr = magic @ [protoVer, hdr ! 5] @ slice 6 8 hdr @ slice 8 12 hdr @ slice 12 16 hdr"
proof -
  obtain a b c d v f rest where h: "hdr = a # b # c # d # v # f # rest"
    using assms(1) by (auto simp: numeral_eq_Suc length_Suc_conv)
  have "slice 0 4 hdr = [a, b, c, d]" by (simp add: h slice_def)
  then have m: "[a, b, c, d] = magic" using assms(2) by simp
  have v: "v = protoVer" using assms(3) by (simp add: h)
  have l: "length rest = 10" using assms(1) by (simp add: h)
  then obtain r0 r1 r2 r3 r4 r5 r6 r7 r8 r9 where r: "rest = [r0, r1, r2, r3, r4, r5, r6, r7, r8, r9]"
    by (auto simp: numeral_eq_Suc length_Suc_conv)
  have s: "slice 6 8 hdr @ slice 8 12 hdr @ slice 12 16 hdr = rest" by (simp add: h r slice_def)
  have "magic @ [protoVer, hdr ! 5] @ rest = [a, b, c, d, v, f] @ rest"
    unfolding m [symmetric] v [symmetric] by (simp add: h)
  then show ?thesis unfolding s by (simp add: h)
qed

lemma readFrame_Inr_shape:
  assumes "readFrame bs = (Inr f, rest)"
  shows "length (Payload f) \<le> maxPayloadLen \<and> (\<exists>fl. bs = magic @ [protoVer, fl] @
     be_bytes 2 (unat (MsgType f)) @ be_bytes 4 (unat (ReqID f)) @ be_bytes 4 (length (Payload f)) @ Payload f @ rest)"
proof -
  let ?hdr = "take 16 bs" and ?body = "drop 16 bs"
  have l: "\<not> length bs < 16" using assms by (auto simp: readFrame_def read_full_def frameHeaderLen_def)
  then have hl: "length ?hdr = 16" by simp
  have m: "slice 0 4 ?hdr = magic" and v: "?hdr ! 4 = protoVer"
    using assms l by (auto simp: readFrame_def read_full_def frameHeaderLen_def split: if_splits)
  let ?t = "slice 6 8 ?hdr" and ?r = "slice 8 12 ?hdr" and ?l = "slice 12 16 ?hdr" and ?fl = "?hdr ! 5"
  have lens: "length ?t = 2" "length ?r = 4" "length ?l = 4" using hl by (simp_all add: length_slice)
  have "bs = ?hdr @ ?body" by simp
  also have "?hdr = magic @ [protoVer, ?fl] @ ?t @ ?r @ ?l" by (rule header_split [OF hl m v])
  finally have bs: "bs = magic @ [protoVer, ?fl] @ ?t @ ?r @ ?l @ ?body" by simp
  have rf: "readFrame bs =
    (if be_nat ?l > maxPayloadLen then (Inl ErrPayloadTooBig, ?body)
     else if length ?body < be_nat ?l then (Inl IoEOF, [])
     else (Inr \<lparr>MsgType = be_uint16 ?t, ReqID = be_uint32 ?r, Payload = take (be_nat ?l) ?body\<rparr>,
           drop (be_nat ?l) ?body))"
    by (subst bs) (rule readFrame_header [OF lens])
  have le: "be_nat ?l \<le> maxPayloadLen" and len: "be_nat ?l \<le> length ?body"
    and f: "f = \<lparr>MsgType = be_uint16 ?t, ReqID = be_uint32 ?r, Payload = take (be_nat ?l) ?body\<rparr>"
    and rest: "rest = drop (be_nat ?l) ?body"
    using assms unfolding rf by (auto split: if_splits)
  have t2: "be_bytes 2 (unat (be_uint16 ?t)) = ?t"
    using lens be_nat_lt [of ?t] by (simp add: be_uint16_def unat_of_nat)
  have r4: "be_bytes 4 (unat (be_uint32 ?r)) = ?r"
    using lens be_nat_lt [of ?r] by (simp add: be_uint32_def unat_of_nat)
  have pl: "length (Payload f) = be_nat ?l" using len by (simp add: f)
  then have l4: "be_bytes 4 (length (Payload f)) = ?l" using lens by simp
  have body: "Payload f @ rest = ?body" unfolding f rest by (simp only: frame.simps append_take_drop_id)
  have "bs = magic @ [protoVer, ?fl] @ be_bytes 2 (unat (MsgType f)) @ be_bytes 4 (unat (ReqID f))
          @ be_bytes 4 (length (Payload f)) @ Payload f @ rest"
    unfolding l4 body using bs by (simp add: f t2 r4)
  with pl le show ?thesis by auto
qed

text \<open>C24. A frame is accepted exactly when the connection delivers the magic, the version, any
  flags byte (the protocol document asks for 0 and the code does not look), the three header fields and
  a complete payload of at most 8192 bytes; the rest of the stream is left untouched for the next
  frame.\<close>

theorem readFrame_accepts_iff:
  "readFrame bs = (Inr f, rest) \<longleftrightarrow>
     length (Payload f) \<le> maxPayloadLen \<and>
     (\<exists>flags. bs = magic @ [protoVer, flags] @ be_bytes 2 (unat (MsgType f)) @
        be_bytes 4 (unat (ReqID f)) @ be_bytes 4 (length (Payload f)) @ Payload f @ rest)"
proof (rule iffI)
  assume "readFrame bs = (Inr f, rest)"
  then show "length (Payload f) \<le> maxPayloadLen \<and> (\<exists>flags. bs = magic @ [protoVer, flags] @
     be_bytes 2 (unat (MsgType f)) @ be_bytes 4 (unat (ReqID f)) @ be_bytes 4 (length (Payload f)) @ Payload f @ rest)"
    by (rule readFrame_Inr_shape)
next
  assume "length (Payload f) \<le> maxPayloadLen \<and> (\<exists>flags. bs = magic @ [protoVer, flags] @
     be_bytes 2 (unat (MsgType f)) @ be_bytes 4 (unat (ReqID f)) @ be_bytes 4 (length (Payload f)) @ Payload f @ rest)"
  then obtain fl where le: "length (Payload f) \<le> maxPayloadLen" and bs: "bs = magic @ [protoVer, fl] @
     be_bytes 2 (unat (MsgType f)) @ be_bytes 4 (unat (ReqID f)) @ be_bytes 4 (length (Payload f)) @ Payload f @ rest"
    by blast
  have "length (Payload f) < 256 ^ 4" using le by (simp add: maxPayloadLen_def)
  then have "be_nat (be_bytes 4 (length (Payload f))) = length (Payload f)" by simp
  with le show "readFrame bs = (Inr f, rest)"
    unfolding bs by (subst readFrame_header) auto
qed

lemma readFrame_written:
  "writeFrame t r p = Inr out \<Longrightarrow> readFrame (out @ rest) = (Inr \<lparr>MsgType = t, ReqID = r, Payload = p\<rparr>, rest)"
proof -
  assume "writeFrame t r p = Inr out"
  then have le: "length p \<le> maxPayloadLen" and out: "out = magic @ [protoVer, 0] @ be_bytes 2 (unat t) @
    be_bytes 4 (unat r) @ be_bytes 4 (length p) @ p" by (auto simp: writeFrame_Inr_iff)
  have "length p < 256 ^ 4" using le by (simp add: maxPayloadLen_def)
  then have "be_nat (be_bytes 4 (length p)) = length p" by simp
  with le readFrame_header [of "be_bytes 2 (unat t)" "be_bytes 4 (unat r)" "be_bytes 4 (length p)" 0 "p @ rest"]
  show ?thesis by (simp add: out)
qed

text \<open>Reading a stream: \<open>read_frames n\<close> reads \<open>n\<close> frames.\<close>

fun read_frames :: "nat \<Rightarrow> byte list \<Rightarrow> frame_error + (frame list \<times> byte list)" where
  "read_frames 0 bs = Inr ([], bs)"
| "read_frames (Suc n) bs =
     (case readFrame bs of
        (Inl e, _) \<Rightarrow> Inl e
      | (Inr f, r) \<Rightarrow> (case read_frames n r of Inl e \<Rightarrow> Inl e | Inr (fs, r') \<Rightarrow> Inr (f # fs, r')))"

fun write_frames :: "frame list \<Rightarrow> frame_error + byte list" where
  "write_frames [] = Inr []"
| "write_frames (f # fs) =
     (case writeFrame (MsgType f) (ReqID f) (Payload f) of
        Inl e \<Rightarrow> Inl e
      | Inr out \<Rightarrow> map_sum id (\<lambda>outs. out @ outs) (write_frames fs))"

text \<open>C25. Framing is a round trip on streams: whatever sequence of frames one side manages to
  write, the other side reads back, frame by frame and with nothing lost between them.\<close>

theorem frames_roundtrip:
  assumes "write_frames fs = Inr out"
  shows "read_frames (length fs) (out @ rest) = Inr (fs, rest)"
  using assms
proof (induction fs arbitrary: out)
  case (Cons f fs)
  then obtain o1 o2 where o: "writeFrame (MsgType f) (ReqID f) (Payload f) = Inr o1"
    "write_frames fs = Inr o2" "out = o1 @ o2"
    by (cases "write_frames fs") (auto split: sum.splits)
  with Cons.IH [OF o(2)] readFrame_written [OF o(1), of "o2 @ rest"] show ?case by simp
qed simp

theorem frames_roundtrip_witness:
  "read_frames (length [\<lparr>MsgType = 2, ReqID = 7, Payload = [0xAB]\<rparr>, \<lparr>MsgType = 128, ReqID = 9, Payload = []\<rparr>])
     ([0x46, 0x52, 0x4d, 0x31, 1, 0, 0, 2, 0, 0, 0, 7, 0, 0, 0, 1, 0xAB,
       0x46, 0x52, 0x4d, 0x31, 1, 0, 0, 128, 0, 0, 0, 9, 0, 0, 0, 0] @ [0x46])
   = Inr ([\<lparr>MsgType = 2, ReqID = 7, Payload = [0xAB]\<rparr>, \<lparr>MsgType = 128, ReqID = 9, Payload = []\<rparr>], [0x46])"
  by (rule frames_roundtrip)
    (simp add: writeFrame_def maxPayloadLen_def protoVer_def magic_def be_bytes_2 be_bytes_4)

subsection \<open>Payloads\<close>

lemma ensure_utf8_valid [simp]: "valid_utf8 (ensure_utf8 s)"
  by (simp add: ensure_utf8_def)

lemma ensure_utf8_id [simp]: "valid_utf8 s \<Longrightarrow> ensure_utf8 s = s"
  by (simp add: ensure_utf8_def)

lemma length_ensure_utf8: "length (ensure_utf8 s) \<le> length s"
  by (simp add: ensure_utf8_def length_to_valid_utf8)

lemma slice_at: "length xs = i \<Longrightarrow> length ys = k \<Longrightarrow> slice i (i + k) (xs @ ys @ zs) = ys"
  by (simp add: slice_def)

lemma nth_at: "length xs = i \<Longrightarrow> (xs @ y # ys) ! i = y"
  by (simp add: nth_append)

lemma be_nat_len16 [simp]: "n < 65536 \<Longrightarrow> be_nat (be_bytes 2 n) = n"
  by simp

text \<open>C26. An authentication payload laid out as documented is decoded to the token it carries,
  cleaned of invalid UTF-8 and of surrounding white space; bytes after the token are ignored.\<close>

theorem decodeAuth_doc:
  assumes "length tok < 65536"
  shows "decodeAuthPayload (doc_auth_payload tok @ extra) = Inr (trim_space (ensure_utf8 tok))"
proof -
  let ?l = "be_bytes 2 (length tok)" and ?t = "bytes_of_string tok"
  have p: "doc_auth_payload tok @ extra = ?l @ ?t @ extra" by (simp add: doc_auth_payload_def)
  have s0: "slice 0 2 (?l @ ?t @ extra) = ?l" by simp
  have s1: "slice 2 (2 + length tok) (?l @ ?t @ extra) = ?t" by (rule slice_at) auto
  show ?thesis using assms
    by (simp add: p decodeAuthPayload_def s0 Let_def) (simp only: s1 [simplified] string_of_bytes_of_string)
qed

theorem decodeAuth_doc_witness:
  "decodeAuthPayload (doc_auth_payload ''ab12'' @ [0xFF]) = Inr (trim_space (ensure_utf8 ''ab12''))"
  by (rule decodeAuth_doc) simp

text \<open>C27. A poll payload laid out as documented is decoded to the version and the metadata; the
  short form, without the metadata length, means empty metadata.\<close>

theorem decodePoll_doc:
  assumes "length cur < 65536" and "\<And>m. meta = Some m \<Longrightarrow> length m < 65536"
    and "valid_utf8 cur" and "\<And>m. meta = Some m \<Longrightarrow> valid_utf8 m"
  shows "decodePollPayload (doc_poll_payload cur meta) =
    Inr (trim_space cur, case meta of None \<Rightarrow> [] | Some m \<Rightarrow> trim_space m)"
proof -
  let ?l = "be_bytes 2 (length cur)" and ?t = "bytes_of_string cur"
  have s0: "slice 0 2 (?l @ z) = ?l" for z by simp
  have s1: "slice 2 (2 + length cur) (?l @ ?t @ z) = ?t" for z by (rule slice_at) auto
  show ?thesis
  proof (cases meta)
    case None
    with assms(1,3) s1 [of "[]"] show ?thesis
      by (simp add: doc_poll_payload_def decodePollPayload_def s0 Let_def)
  next
    case (Some m)
    let ?k = "be_bytes 2 (length m)" and ?m = "bytes_of_string m" and ?o = "2 + length cur"
    have s2: "slice ?o (?o + 2) ((?l @ ?t) @ ?k @ ?m) = ?k" by (rule slice_at) auto
    have s3: "slice (?o + 2) (?o + 2 + length m) ((?l @ ?t @ ?k) @ ?m @ []) = ?m" by (rule slice_at) auto
    have "decodePollPayload (?l @ ?t @ ?k @ ?m) = Inr (trim_space cur, trim_space m)"
      unfolding decodePollPayload_def Let_def s0 s1
      using assms Some s2 s3 s1 [of "?k @ ?m"] by simp
    with Some show ?thesis by (simp add: doc_poll_payload_def)
  qed
qed

theorem decodePoll_doc_witness:
  "decodePollPayload (doc_poll_payload ''1.2.0'' (Some ''x'')) =
    Inr (trim_space ''1.2.0'', case Some ''x'' of None \<Rightarrow> [] | Some m \<Rightarrow> trim_space m)"
  by (rule decodePoll_doc) (simp_all add: valid_utf8_def codes_def decode_rune.simps)

text \<open>C28. A report laid out as documented is decoded field by field. With the version field
  present both strings are trimmed; without it the diagnostic is kept as it was sent.\<close>

theorem decodeReport_doc:
  assumes "length em < 65536" and "\<And>v. cv = Some v \<Longrightarrow> length v < 65536 \<and> valid_utf8 v" and "valid_utf8 em"
  shows "decodeReportPayload (doc_report_payload cid st ec em cv) =
    Inr \<lparr>rep_campaignID = cid, rep_status = st, rep_errCode = ec,
         rep_errMsg = (case cv of None \<Rightarrow> em | Some _ \<Rightarrow> trim_space em),
         rep_currentVer = (case cv of None \<Rightarrow> [] | Some v \<Rightarrow> trim_space v)\<rparr>"
proof -
  let ?c = "be_bytes 16 (unat cid)" and ?e = "be_bytes 2 (unat ec)"
  let ?l = "be_bytes 2 (length em)" and ?m = "bytes_of_string em" and ?o = "21 + length em"
  let ?h = "?c @ [st] @ ?e @ ?l"
  have s0: "slice 0 16 (?c @ z) = ?c" for z by simp
  have s16: "(?c @ st # z) ! 16 = st" for z by (simp add: nth_append)
  have s17: "slice 17 19 (?c @ st # ?e @ z) = ?e" for z by (simp add: slice_def)
  have s19: "slice 19 21 (?c @ st # ?e @ ?l @ z) = ?l" for z by (simp add: slice_def)
  have s21: "slice 21 (21 + length em) (?c @ st # ?e @ ?l @ ?m @ z) = ?m" for z by (simp add: slice_def)
  show ?thesis
  proof (cases cv)
    case None
    have "decodeReportPayload (?c @ st # ?e @ ?l @ ?m @ []) = Inr \<lparr>rep_campaignID = cid, rep_status = st,
       rep_errCode = ec, rep_errMsg = em, rep_currentVer = []\<rparr>"
      unfolding decodeReportPayload_def Let_def s0 s16 s17 s19
      using assms(1) s21 [of "[]"] by simp
    with None show ?thesis by (simp add: doc_report_payload_def)
  next
    case (Some v)
    let ?k = "be_bytes 2 (length v)" and ?v = "bytes_of_string v"
    have so: "slice ?o (?o + 2) (?c @ st # ?e @ ?l @ ?m @ ?k @ ?v) = ?k" by (simp add: slice_def drop_Cons')
    have sv: "slice (?o + 2) (?o + 2 + length v) (?c @ st # ?e @ ?l @ ?m @ ?k @ ?v) = ?v" by (simp add: slice_def drop_Cons')
    have "decodeReportPayload (?c @ st # ?e @ ?l @ ?m @ ?k @ ?v) = Inr \<lparr>rep_campaignID = cid, rep_status = st,
       rep_errCode = ec, rep_errMsg = trim_space em, rep_currentVer = trim_space v\<rparr>"
      unfolding decodeReportPayload_def Let_def s0 s16 s17 s19
      using assms Some s21 [of "?k @ ?v"] so sv by simp
    with Some show ?thesis by (simp add: doc_report_payload_def)
  qed
qed

theorem decodeReport_doc_witness:
  "decodeReportPayload (doc_report_payload 5 2 0 ''ok'' (Some ''2.0.0'')) =
    Inr \<lparr>rep_campaignID = 5, rep_status = 2, rep_errCode = 0,
         rep_errMsg = (case Some ''2.0.0'' of None \<Rightarrow> ''ok'' | Some _ \<Rightarrow> trim_space ''ok''),
         rep_currentVer = (case Some ''2.0.0'' of None \<Rightarrow> [] | Some v \<Rightarrow> trim_space v)\<rparr>"
  by (rule decodeReport_doc) (simp_all add: valid_utf8_def codes_def decode_rune.simps)

lemma read_uint_append [simp]: "length xs = n \<Longrightarrow> read_uint n (xs @ ys) = Some (be_nat xs, ys)"
  by (simp add: read_uint_def)

lemma read_str_append [simp]:
  "length s < 65536 \<Longrightarrow> read_str (be_bytes 2 (length s) @ bytes_of_string s @ ys) = Some (s, ys)"
  by (simp add: read_str_def)

text \<open>C29. A poll response carries its fields: a client that reads the payload as documented gets
  the version, checksum, identifiers, URL and expiry the server put in.\<close>

theorem encodePollResponse_doc:
  assumes "length tv \<le> 2048" "length du \<le> 8192"
  shows "doc_read_poll_response (encodePollResponse True tv du ck cid fid ex) = Some (Some (tv, ck, cid, fid, du, ex))"
proof -
  have x: "be_nat (be_bytes 4 (unat ex)) = unat ex" by (rule be_nat_be_bytes_id) simp
  have r4: "read_uint 4 (be_bytes 4 (unat ex)) = Some (unat ex, [])"
    using read_uint_append [of "be_bytes 4 (unat ex)" 4 "[]"] x by simp
  have l: "length tv < 65536" "length du < 65536" "\<not> length tv > maxPayloadLen div 4" "\<not> length du > maxPayloadLen"
    using assms by (auto simp: maxPayloadLen_def)
  have e: "encodePollResponse True tv du ck cid fid ex =
    1 # be_bytes 2 (length tv) @ bytes_of_string tv @ be_bytes 32 (unat ck) @ be_bytes 16 (unat cid) @
    be_bytes 16 (unat fid) @ be_bytes 2 (length du) @ bytes_of_string du @ be_bytes 4 (unat ex)"
    unfolding encodePollResponse_def Let_def using l by simp
  show ?thesis
    unfolding e doc_read_poll_response_def
    by (simp add: l r4 del: be_nat_be_bytes_id)
qed

theorem encodePollResponse_doc_witness:
  "doc_read_poll_response (encodePollResponse True ''2.0'' ''/d'' 1 2 3 4) = Some (Some (''2.0'', 1, 2, 3, ''/d'', 4))"
  by (rule encodePollResponse_doc) simp_all

text \<open>C30. An error answer always fits a frame; a client reads back the code and a message that is
  valid UTF-8, of at most 512 bytes, and the given message itself when it is short and valid.\<close>

theorem writeErr_doc:
  "\<exists>out m. writeErr reqID code msg = Inr out \<and>
     readFrame out = (Inr \<lparr>MsgType = MsgErr, ReqID = reqID,
        Payload = be_bytes 4 (unat code) @ be_bytes 2 (length m) @ bytes_of_string m\<rparr>, []) \<and>
     valid_utf8 m \<and> length m \<le> 512 \<and> (\<not> (length msg \<le> 512 \<and> valid_utf8 msg) \<or> m = msg)"
proof -
  let ?m1 = "if length msg > 512 then take 512 msg else msg"
  let ?m = "ensure_utf8 ?m1"
  have len: "length ?m \<le> 512" using length_ensure_utf8 [of ?m1] by (auto split: if_splits)
  let ?p = "be_bytes 4 (unat code) @ be_bytes 2 (length ?m) @ bytes_of_string ?m"
  have p: "err_payload code msg = ?p" by (simp only: err_payload_def Let_def)
  have "length ?p \<le> maxPayloadLen" using len by (simp add: maxPayloadLen_def)
  then obtain out where o: "writeFrame MsgErr reqID ?p = Inr out" by (auto simp: writeFrame_def)
  have "readFrame out = (Inr \<lparr>MsgType = MsgErr, ReqID = reqID, Payload = ?p\<rparr>, [])"
    using readFrame_written [OF o, of "[]"] by simp
  moreover have "\<not> (length msg \<le> 512 \<and> valid_utf8 msg) \<or> ?m = msg" by auto
  ultimately show ?thesis using o len unfolding writeErr_def p
    by (intro exI [of _ out] exI [of _ ?m]) (simp only: ensure_utf8_valid simp_thms)
qed

theorem writeErr_doc_witness:
  "\<exists>out. writeErr 9 1 ''blocked'' = Inr out \<and>
     readFrame out = (Inr \<lparr>MsgType = MsgErr, ReqID = 9,
        Payload = be_bytes 4 1 @ be_bytes 2 (length ''blocked'') @ bytes_of_string ''blocked''\<rparr>, [])"
proof -
  have "valid_utf8 ''blocked''" by (simp add: valid_utf8_def codes_def decode_rune.simps)
  moreover have "length ''blocked'' \<le> 512" by simp
  ultimately show ?thesis using writeErr_doc [of 9 1 "''blocked''"] by (auto simp del: list.size)
qed

subsection \<open>Checksums\<close>

lemma hex_digit_lt: "n < 16 \<Longrightarrow> hex_digit n < 128"
  by (simp add: hex_digit_def)

lemma hex_val_digit [simp]: "n < 16 \<Longrightarrow> hex_val (hex_digit n) = Some n"
  by (auto simp: hex_digit_def hex_val_def)

definition hex_codes :: "byte list \<Rightarrow> nat list" where
  "hex_codes bs = concat (map (\<lambda>b. [hex_digit (unat b div 16), hex_digit (unat b mod 16)]) bs)"

lemma unat_byte_lt [simp]: "unat (b :: byte) < 256"
  using unsigned_less [of b, where ?'a = nat] by simp

lemma nibbles [simp]: "unat (b :: byte) div 16 < 16" "unat (b :: byte) mod 16 < 16"
  using unat_byte_lt [of b] by (simp_all add: less_mult_imp_div_less)

lemma hex_decode_hex_codes: "hex_decode_codes (hex_codes bs) = Some bs"
proof (induction bs)
  case (Cons b bs)
  have "(of_nat (16 * (unat b div 16) + unat b mod 16) :: byte) = of_nat (unat b)"
    by (simp only: mult_div_mod_eq)
  with Cons show ?case by (simp add: hex_codes_def)
qed (simp add: hex_codes_def)

lemma hex_codes_bounds: "c \<in> set (hex_codes bs) \<Longrightarrow> 48 \<le> c \<and> c < 128"
proof -
  have "48 \<le> hex_digit n \<and> hex_digit n < 128" if "n < 16" for n
    using that by (simp add: hex_digit_def)
  moreover assume "c \<in> set (hex_codes bs)"
  then obtain b where "c = hex_digit (unat (b :: byte) div 16) \<or> c = hex_digit (unat b mod 16)"
    by (auto simp: hex_codes_def)
  ultimately show ?thesis using nibbles by metis
qed

lemma codes_hex_encode: "codes (hex_encode bs) = hex_codes bs"
  unfolding hex_encode_def hex_codes_def [symmetric]
  by (rule codes_string_of_codes) (auto dest: hex_codes_bounds)

lemma hex_decode_hex_encode [simp]: "hex_decode (hex_encode bs) = Some bs"
  by (simp add: hex_decode_def codes_hex_encode hex_decode_hex_codes)

lemma hex_val_space: "is_space_rune c \<Longrightarrow> hex_val c = None"
  by (auto simp: is_space_rune_def hex_val_def)

lemma trim_hex_encode [simp]: "trim_space (hex_encode bs) = hex_encode bs"
proof (rule trim_space_no_space)
  fix c assume "c \<in> set (codes (hex_encode bs))"
  then obtain b where b: "c = hex_digit (unat (b :: byte) div 16) \<or> c = hex_digit (unat b mod 16)"
    by (auto simp: codes_hex_encode hex_codes_def)
  then have "hex_val c \<noteq> None" using hex_val_digit nibbles by fastforce
  moreover have "c < 128" using b hex_digit_lt nibbles by blast
  ultimately show "c < 128 \<and> \<not> is_space_rune c" by (cases "is_space_rune c") (simp_all add: hex_val_space)
qed

text \<open>C31. The checksum the server stores as 64 hexadecimal characters reaches the device as the
  32 bytes it was computed as.\<close>

theorem sha256HexTo32_encode:
  assumes "length digest = 32"
  shows "\<exists>w. sha256HexTo32 (hex_encode digest) = Inr w \<and> be_bytes 32 (unat w) = digest"
proof -
  have "be_nat digest < 2 ^ 256" using be_nat_lt [of digest] assms by simp
  then have "unat (of_nat (be_nat digest) :: 256 word) = be_nat digest" by (simp add: unat_of_nat)
  with assms show ?thesis by (simp add: sha256HexTo32_def)
qed

theorem sha256HexTo32_encode_witness:
  "\<exists>w. sha256HexTo32 (hex_encode (replicate 32 7)) = Inr w \<and> be_bytes 32 (unat w) = replicate 32 7"
  by (rule sha256HexTo32_encode) simp

end
