(* ===== verification/AppErrors.thy ===== *)
theory AppErrors
  imports Protocol
begin

section \<open>Errors, pagination and responses (internal/common)\<close>

text \<open>
  \<open>AppError\<close> and its constructors (\<open>common/errors\<close>), the errors a Go function of the program
  can return (\<open>err\<close>), pagination (\<open>common/pagination\<close>) and the error envelope
  (\<open>common/response\<close>). JSON values (error details, audit metadata) are \<open>jval\<close>; a UUID in
  them is its canonical string.
\<close>

text \<open>\<open>uuid.UUID.String\<close>, the canonical textual form of the 16 bytes.\<close>

definition uuid_String :: "uuid \<Rightarrow> string" where
  "uuid_String u =
     (let b = be_bytes 16 (unat u)
      in hex_encode (slice 0 4 b) @ ''-'' @ hex_encode (slice 4 6 b) @ ''-'' @ hex_encode (slice 6 8 b) @ ''-''
         @ hex_encode (slice 8 10 b) @ ''-'' @ hex_encode (slice 10 16 b))"

datatype jval =
    JNull
  | JStr string
  | JInt int
  | JBool bool
  | JUuid uuid
  | JList "jval list"
  | JObj "(string \<times> jval) list"

record app_error =
  ae_Code :: string
  ae_Message :: string
  ae_Details :: jval
  ae_HTTPStatus :: int

text \<open>The values of Go's \<open>error\<close> the code distinguishes: an \<open>AppError\<close>,
  \<open>gorm.ErrRecordNotFound\<close>, the violation of a unique index or primary key reported by the
  database, and the errors made by \<open>errors.New\<close>, compared by identity or by message.\<close>

datatype err = ErrApp app_error | ErrRecordNotFound | ErrUnique | ErrMsg string

definition app_new :: "string \<Rightarrow> string \<Rightarrow> int \<Rightarrow> jval \<Rightarrow> err" where
  "app_new code message httpStatus details =
     ErrApp \<lparr>ae_Code = code, ae_Message = message, ae_Details = details, ae_HTTPStatus = httpStatus\<rparr>"

definition Internal :: app_error where
  "Internal = \<lparr>ae_Code = ''internal_error'', ae_Message = ''an unexpected error occurred'',
               ae_Details = JNull, ae_HTTPStatus = 500\<rparr>"

definition BadRequest :: "string \<Rightarrow> jval \<Rightarrow> err" where
  "BadRequest message details = app_new ''bad_request'' message 400 details"

definition Unauthorized :: err where
  "Unauthorized = app_new ''unauthorized'' ''authentication is required'' 401 JNull"

definition Forbidden :: err where
  "Forbidden = app_new ''forbidden'' ''you do not have permission to perform this action'' 403 JNull"

definition NotFound :: "string \<Rightarrow> err" where
  "NotFound message = app_new ''not_found'' message 404 JNull"

definition Conflict :: "string \<Rightarrow> string \<Rightarrow> jval \<Rightarrow> err" where
  "Conflict code message details = app_new code message 409 details"

subsection \<open>Responses\<close>

text \<open>\<open>response.Fail\<close>: an error that is not an \<open>AppError\<close> is reported as an internal error, so
  that no database or library message reaches the client.\<close>

record error_payload =
  ep_Code :: string
  ep_Message :: string
  ep_Details :: jval
  ep_RequestID :: string

definition Fail :: "string option \<Rightarrow> err \<Rightarrow> int \<times> error_payload" where
  "Fail reqID e =
     (let apiErr = (case e of ErrApp a \<Rightarrow> a | _ \<Rightarrow> Internal)
      in (ae_HTTPStatus apiErr,
          \<lparr>ep_Code = ae_Code apiErr, ep_Message = ae_Message apiErr, ep_Details = ae_Details apiErr,
           ep_RequestID = (case reqID of None \<Rightarrow> [] | Some s \<Rightarrow> s)\<rparr>))"

subsection \<open>Pagination\<close>

text \<open>Go's \<open>int\<close> and \<open>int64\<close> have 64 bits: \<open>int64\<close> is the wrapped value of an arithmetic
  result.\<close>

definition int64 :: "int \<Rightarrow> int" where
  "int64 i = sint (word_of_int i :: 64 word)"

definition int64_min :: int where "int64_min = - 9223372036854775808"
definition int64_max :: int where "int64_max = 9223372036854775807"

text \<open>\<open>strconv.Atoi\<close>: an optional sign and decimal digits, within the range of \<open>int64\<close>.\<close>

fun digits_val :: "nat list \<Rightarrow> int \<Rightarrow> int option" where
  "digits_val [] acc = Some acc"
| "digits_val (c # cs) acc =
     (if 48 \<le> c \<and> c \<le> 57 then digits_val cs (acc * 10 + int (c - 48)) else None)"

definition atoi :: "string \<Rightarrow> int option" where
  "atoi s =
     (let cs = codes s;
          neg = (cs \<noteq> [] \<and> hd cs = 45);
          ds = (if cs \<noteq> [] \<and> (hd cs = 45 \<or> hd cs = 43) then tl cs else cs)
      in if ds = [] then None
         else case digits_val ds 0 of
           None \<Rightarrow> None
         | Some v \<Rightarrow> let w = (if neg then - v else v) in
             if int64_min \<le> w \<and> w \<le> int64_max then Some w else None)"

definition parseIntOrDefault :: "string \<Rightarrow> int \<Rightarrow> int" where
  "parseIntOrDefault raw fallback =
     (if raw = [] then fallback else case atoi raw of None \<Rightarrow> fallback | Some n \<Rightarrow> n)"

record params =
  par_Page :: int
  par_PageSize :: int
  par_Sort :: string

text \<open>A query parameter is \<open>None\<close> when the request does not carry it.\<close>

definition FromQuery :: "string option \<Rightarrow> string option \<Rightarrow> string option \<Rightarrow> params" where
  "FromQuery qpage qsize qsort =
     (let page0 = parseIntOrDefault (case qpage of None \<Rightarrow> [] | Some s \<Rightarrow> s) 1;
          page = (if page0 < 1 then 1 else page0);
          size0 = parseIntOrDefault (case qsize of None \<Rightarrow> [] | Some s \<Rightarrow> s) 20;
          size1 = (if size0 < 1 then 20 else size0);
          size2 = (if size1 > 100 then 100 else size1)
      in \<lparr>par_Page = page, par_PageSize = size2,
          par_Sort = (case qsort of None \<Rightarrow> ''-created_at'' | Some s \<Rightarrow> s)\<rparr>)"

record meta =
  meta_Page :: int
  meta_PageSize :: int
  meta_TotalItems :: int
  meta_TotalPages :: int

text \<open>Totals are counts of rows and page sizes positive, so Go's truncated division is \<open>div\<close>
  here.\<close>

definition BuildMeta :: "int \<Rightarrow> int \<Rightarrow> int \<Rightarrow> meta" where
  "BuildMeta page pageSize totalItems =
     (let totalPages = totalItems div pageSize;
          totalPages' = (if totalItems mod pageSize \<noteq> 0 then totalPages + 1 else totalPages)
      in \<lparr>meta_Page = page, meta_PageSize = pageSize, meta_TotalItems = totalItems,
          meta_TotalPages = totalPages'\<rparr>)"

text \<open>\<open>Offset(n).Limit(m)\<close> of gorm: no offset is sent for a non-positive \<open>n\<close>; page
  sizes are positive here.\<close>

definition page_of :: "int \<Rightarrow> int \<Rightarrow> 'r list \<Rightarrow> 'r list" where
  "page_of offset limit rows = take (nat limit) (drop (nat offset) rows)"

definition page_offset :: "int \<Rightarrow> int \<Rightarrow> int" where
  "page_offset page pageSize = int64 (int64 (page - 1) * pageSize)"

subsection \<open>Properties\<close>

lemma int64_id: "int64_min \<le> i \<Longrightarrow> i \<le> int64_max \<Longrightarrow> int64 i = i"
  by (simp add: int64_def int64_min_def int64_max_def signed_of_int signed_take_bit_int_eq_self)

lemma parseIntOrDefault_range:
  "int64_min \<le> d \<Longrightarrow> d \<le> int64_max \<Longrightarrow>
     int64_min \<le> parseIntOrDefault s d \<and> parseIntOrDefault s d \<le> int64_max"
  by (auto simp: parseIntOrDefault_def atoi_def Let_def split: option.splits if_splits)

lemma FromQuery_bounds:
  "1 \<le> par_Page (FromQuery a b c) \<and> 1 \<le> par_PageSize (FromQuery a b c) \<and> par_PageSize (FromQuery a b c) \<le> 100"
  by (simp add: FromQuery_def Let_def)

lemma page_of_subset: "set (page_of k n rows) \<subseteq> set rows"
  unfolding page_of_def by (meson order_trans set_take_subset set_drop_subset)

lemma length_page_of: "length (page_of k n rows) \<le> nat n"
  by (simp add: page_of_def)

lemma Fail_status_app [simp]: "fst (Fail r (app_new c m h d)) = h"
  by (simp add: Fail_def app_new_def)

text \<open>Pages partition the rows: page after page they give back the whole list, and there are as
  many as \<open>BuildMeta\<close> announces.\<close>

lemma pages_concat:
  assumes "0 < s"
  shows "concat (map (\<lambda>p. take s (drop (p * s) rows)) [0..<n]) = take (n * s) rows"
proof (induction n)
  case (Suc n)
  have "take (Suc n * s) rows = take (n * s) rows @ take s (drop (n * s) rows)"
    using take_add [of "n * s" s rows] by (simp add: add.commute)
  with Suc show ?case by simp
qed simp

end
