(* ===== verification/Database.thy ===== *)
theory Database
  imports AppErrors
begin

section \<open>The persistent state: rows and tables\<close>

text \<open>
  One record per gorm model (\<open>internal/domain/*/model\<close>), one table per record, and the record
  \<open>db\<close> of all tables. Field names carry a prefix of their struct (\<open>camp_ID\<close> is
  \<open>Campaign.ID\<close>). A pointer or nullable column is an \<open>option\<close>, \<open>gorm.DeletedAt\<close> the time of
  the soft delete. The columns of a struct that the database fills through associations
  (\<open>Role.Permissions\<close>) are empty in a table row and filled by the preloading queries.
  Integers of 64 bits that the code only stores and compares are \<open>int\<close>.
\<close>

subsection \<open>Projects, roles and members (domain/rbac/model)\<close>

record permission =
  perm_ID :: uuid
  perm_Key :: string
  perm_Description :: string
  perm_CreatedAt :: time
  perm_UpdatedAt :: time

record role =
  role_ID :: uuid
  role_ProjectID :: "uuid option"
  role_Slug :: string
  role_Name :: string
  role_NameNormalized :: string
  role_IsPredefined :: bool
  role_Description :: string
  role_Permissions :: "permission list"
  role_CreatedAt :: time
  role_UpdatedAt :: time
  role_DeletedAt :: "time option"

record membership =
  mem_ID :: uuid
  mem_ProjectID :: uuid
  mem_UserID :: uuid
  mem_RoleID :: uuid
  mem_CreatedAt :: time
  mem_UpdatedAt :: time

record project =
  proj_ID :: uuid
  proj_Name :: string
  proj_Description :: string
  proj_ArchivedAt :: "time option"
  proj_CreatedAt :: time
  proj_UpdatedAt :: time
  proj_DeletedAt :: "time option"

subsection \<open>Devices (domain/project/model, domain/device/model)\<close>

record device =
  dev_ID :: uuid
  dev_ProjectID :: uuid
  dev_ConnectionStatus :: string
  dev_Name :: string
  dev_DeviceTypeID :: uuid
  dev_HardwareIdentifier :: string
  dev_HardwareIdentifierNorm :: string
  dev_Blocked :: bool
  dev_BlockedAt :: "time option"
  dev_LastSeenAt :: "time option"
  dev_CurrentFirmwareVersion :: string
  dev_ActiveAuthTokenID :: "uuid option"
  dev_ActiveAuthTokenIssuedAt :: "time option"
  dev_TokenRevokedAt :: "time option"
  dev_PollingDisabledAt :: "time option"
  dev_CreatedAt :: time
  dev_UpdatedAt :: time
  dev_DeletedAt :: "time option"

record update_report =
  upd_ID :: uuid
  upd_ProjectID :: uuid
  upd_Outcome :: string
  upd_CreatedAt :: time

record device_type =
  dt_ID :: uuid
  dt_ProjectID :: "uuid option"
  dt_IsPredefined :: bool
  dt_Name :: string
  dt_NameNormalized :: string
  dt_ProcessorArchitecture :: string
  dt_HardwareBoardVersion :: string
  dt_FlashSizeBytes :: int
  dt_MemoryNotes :: string
  dt_DeletedAt :: "time option"
  dt_CreatedAt :: time
  dt_UpdatedAt :: time

record auth_token =
  tok_ID :: uuid
  tok_DeviceID :: uuid
  tok_TokenHash :: string
  tok_RevokedAt :: "time option"
  tok_CreatedAt :: time
  tok_ReplacedByTokenID :: "uuid option"
  tok_RevokedByUserID :: "uuid option"

record conn_log =
  log_ID :: uuid
  log_ProjectID :: uuid
  log_DeviceID :: uuid
  log_IP :: string
  log_UserAgent :: string
  log_Action :: string
  log_Endpoint :: string
  log_CreatedAt :: time

record block_event =
  blk_ID :: uuid
  blk_ProjectID :: uuid
  blk_DeviceID :: uuid
  blk_Action :: string
  blk_ActorUserID :: "uuid option"
  blk_CreatedAt :: time

record device_group =
  grp_ID :: uuid
  grp_ProjectID :: uuid
  grp_Name :: string
  grp_NameNormalized :: string
  grp_Description :: string
  grp_CreatedAt :: time
  grp_UpdatedAt :: time
  grp_DeletedAt :: "time option"

record group_membership =
  gm_DeviceGroupID :: uuid
  gm_DeviceID :: uuid
  gm_CreatedAt :: time

record ota_token =
  ota_ID :: uuid
  ota_TokenHash :: string
  ota_ProjectID :: uuid
  ota_DeviceID :: uuid
  ota_CampaignID :: uuid
  ota_FirmwareID :: uuid
  ota_ExpiresAt :: time
  ota_ConsumedAt :: "time option"
  ota_CreatedAt :: time

subsection \<open>Firmware (domain/firmware/model)\<close>

record firmware =
  fw_ID :: uuid
  fw_ProjectID :: uuid
  fw_Version :: string
  fw_VersionNormalized :: string
  fw_Changelog :: string
  fw_FileSizeBytes :: int
  fw_ChecksumSHA256 :: string
  fw_OriginalFilename :: string
  fw_StorageProvider :: string
  fw_StorageKey :: string
  fw_SemverMajor :: "int option"
  fw_SemverMinor :: "int option"
  fw_SemverPatch :: "int option"
  fw_SemverPrerelease :: string
  fw_UploadedByUserID :: uuid
  fw_CreatedAt :: time
  fw_UpdatedAt :: time
  fw_DeletedAt :: "time option"

record firmware_type =
  ft_FirmwareID :: uuid
  ft_DeviceTypeID :: uuid
  ft_CreatedAt :: time

subsection \<open>Campaigns (domain/campaign/model)\<close>

record campaign =
  camp_ID :: uuid
  camp_ProjectID :: uuid
  camp_Name :: string
  camp_FirmwareID :: uuid
  camp_RolloutKind :: string
  camp_RolloutPercent :: "int option"
  camp_ScheduledStartAt :: "time option"
  camp_Status :: string
  camp_TargetDeviceCount :: int
  camp_ActivatedAt :: "time option"
  camp_PausedAt :: "time option"
  camp_CancelledAt :: "time option"
  camp_CompletedAt :: "time option"
  camp_CreatedByUserID :: uuid
  camp_CreatedAt :: time
  camp_UpdatedAt :: time
  camp_DeletedAt :: "time option"

record target_group =
  tg_CampaignID :: uuid
  tg_DeviceGroupID :: uuid
  tg_CreatedAt :: time

record target_device =
  td_CampaignID :: uuid
  td_DeviceID :: uuid
  td_CreatedAt :: time

record assignment =
  asg_CampaignID :: uuid
  asg_DeviceID :: uuid
  asg_Status :: string
  asg_LastReportCode :: "16 word option"
  asg_LastReportMsg :: string
  asg_CreatedAt :: time
  asg_UpdatedAt :: time

subsection \<open>Users and sessions (domain/auth/model)\<close>

record user =
  user_ID :: uuid
  user_Email :: string
  user_PasswordHash :: string
  user_EmailVerifiedAt :: "time option"
  user_TwoFactorEnabled :: bool
  user_DeletionGraceAt :: "time option"
  user_DeletedAt :: "time option"
  user_CreatedAt :: time
  user_UpdatedAt :: time

record user_profile =
  prof_ID :: uuid
  prof_UserID :: uuid
  prof_FirstName :: string
  prof_LastName :: string
  prof_AvatarURL :: string
  prof_CompanyName :: string
  prof_PhoneNumber :: string
  prof_Timezone :: string
  prof_PreferredLanguage :: string
  prof_CreatedAt :: time
  prof_UpdatedAt :: time

record auth_session =
  ses_ID :: uuid
  ses_UserID :: uuid
  ses_RefreshTokenHash :: string
  ses_ExpiresAt :: time
  ses_UserAgent :: string
  ses_IP :: string
  ses_LastSeenAt :: time
  ses_RevokedAt :: "time option"
  ses_ReplacedBySessionID :: "uuid option"
  ses_CreatedAt :: time
  ses_UpdatedAt :: time

text \<open>\<open>EmailVerificationToken\<close> and \<open>PasswordResetToken\<close> have the same fields.\<close>

record one_time_token =
  ott_ID :: uuid
  ott_UserID :: uuid
  ott_TokenHash :: string
  ott_ExpiresAt :: time
  ott_ConsumedAt :: "time option"
  ott_CreatedAt :: time

record auth_throttle =
  thr_ID :: uuid
  thr_EmailKey :: string
  thr_FailedAttempts :: int
  thr_FirstFailedAt :: "time option"
  thr_LockUntil :: "time option"
  thr_UpdatedAt :: time
  thr_CreatedAt :: time

record two_factor =
  tf_ID :: uuid
  tf_UserID :: uuid
  tf_SecretEncrypted :: string
  tf_EnabledAt :: "time option"
  tf_CreatedAt :: time
  tf_UpdatedAt :: time

record recovery_code =
  rc_ID :: uuid
  rc_TwoFactorSettingID :: uuid
  rc_CodeHash :: string
  rc_UsedAt :: "time option"
  rc_CreatedAt :: time

record audit_log =
  aud_ID :: uuid
  aud_ActorUserID :: "uuid option"
  aud_Event :: string
  aud_TargetType :: string
  aud_TargetID :: uuid
  aud_Metadata :: jval
  aud_CreatedAt :: time

subsection \<open>The database\<close>

record db =
  db_permissions :: "permission list"
  db_roles :: "role list"
  db_role_permissions :: "(uuid \<times> uuid) list"
  db_projects :: "project list"
  db_members :: "membership list"
  db_devices :: "device list"
  db_update_reports :: "update_report list"
  db_device_types :: "device_type list"
  db_auth_tokens :: "auth_token list"
  db_conn_logs :: "conn_log list"
  db_block_events :: "block_event list"
  db_groups :: "device_group list"
  db_group_members :: "group_membership list"
  db_ota_tokens :: "ota_token list"
  db_firmwares :: "firmware list"
  db_firmware_types :: "firmware_type list"
  db_campaigns :: "campaign list"
  db_target_groups :: "target_group list"
  db_target_devices :: "target_device list"
  db_assignments :: "assignment list"
  db_users :: "user list"
  db_profiles :: "user_profile list"
  db_sessions :: "auth_session list"
  db_email_tokens :: "one_time_token list"
  db_reset_tokens :: "one_time_token list"
  db_throttles :: "auth_throttle list"
  db_two_factors :: "two_factor list"
  db_recovery_codes :: "recovery_code list"
  db_audit_logs :: "audit_log list"

definition empty_db :: db where
  "empty_db = \<lparr>db_permissions = [], db_roles = [], db_role_permissions = [], db_projects = [], db_members = [],
     db_devices = [], db_update_reports = [], db_device_types = [], db_auth_tokens = [], db_conn_logs = [],
     db_block_events = [], db_groups = [], db_group_members = [], db_ota_tokens = [], db_firmwares = [],
     db_firmware_types = [], db_campaigns = [], db_target_groups = [], db_target_devices = [],
     db_assignments = [], db_users = [], db_profiles = [], db_sessions = [], db_email_tokens = [],
     db_reset_tokens = [], db_throttles = [], db_two_factors = [], db_recovery_codes = [], db_audit_logs = []\<rparr>"

text \<open>What a request takes from its environment: the time it runs at (every \<open>time.Now()\<close> of one
  request is the same instant), the UUIDs it draws (\<open>env_uuid env k\<close> is the value of its
  \<open>k\<close>-th \<open>uuid.New()\<close>) and what \<open>rand.Read\<close> puts into its \<open>k\<close>-th buffer. The theorems hold
  for every environment, also one that repeats a UUID. Where the code makes several writes outside a
  transaction, \<open>env_fault env k\<close> is the error with which the database answers the \<open>k\<close>-th of them
  (counted from 0) although the earlier ones are committed, or \<open>None\<close>; a lost connection is such
  an error.\<close>

record env =
  env_now :: time
  env_uuid :: "nat \<Rightarrow> uuid"
  env_rand :: "nat \<Rightarrow> byte list"
  env_fault :: "nat \<Rightarrow> err option"

text \<open>The \<open>k\<close>-th write, which has its own errors (\<open>f\<close>) or the fault of the environment. The failure of
  an only write leaves nothing behind, so \<open>write_step\<close> stands where writes follow one another.\<close>

definition write_step :: "env \<Rightarrow> nat \<Rightarrow> (db \<Rightarrow> err + 'a) \<Rightarrow> db \<Rightarrow> err + 'a" where
  "write_step env k f db = (case env_fault env k of Some e \<Rightarrow> Inl e | None \<Rightarrow> f db)"

lemma write_step_Inr: "write_step env k f db = Inr x \<longleftrightarrow> env_fault env k = None \<and> f db = Inr x"
  by (auto simp: write_step_def split: option.splits)

subsection \<open>Inserting rows\<close>

text \<open>\<open>Create\<close>: the database rejects a row that violates the primary key or a unique index of its
  table, given as the relation of the rows that exclude each other.\<close>

definition insert_row :: "('r \<Rightarrow> 'r \<Rightarrow> bool) \<Rightarrow> 'r \<Rightarrow> 'r list \<Rightarrow> err + 'r list" where
  "insert_row conflict r t = (if \<exists>x \<in> set t. conflict x r then Inl ErrUnique else Inr (t @ [r]))"

text \<open>Creating several rows in one transaction, in order.\<close>

fun insert_rows :: "('r \<Rightarrow> 'r \<Rightarrow> bool) \<Rightarrow> 'r list \<Rightarrow> 'r list \<Rightarrow> err + 'r list" where
  "insert_rows conflict [] t = Inr t"
| "insert_rows conflict (r # rs) t =
     (case insert_row conflict r t of Inl e \<Rightarrow> Inl e | Inr t' \<Rightarrow> insert_rows conflict rs t')"

lemma insert_row_Inr [simp]:
  "insert_row conflict r t = Inr t' \<longleftrightarrow> (\<forall>x \<in> set t. \<not> conflict x r) \<and> t' = t @ [r]"
  by (auto simp: insert_row_def)

lemma insert_row_Inl [simp]:
  "insert_row conflict r t = Inl e \<longleftrightarrow> (\<exists>x \<in> set t. conflict x r) \<and> e = ErrUnique"
  by (auto simp: insert_row_def)

lemma insert_rows_Inr: "insert_rows conflict rs t = Inr t' \<Longrightarrow> t' = t @ rs"
  by (induction conflict rs t arbitrary: t' rule: insert_rows.induct) (auto split: sum.splits)

text \<open>A table stays keyed under insertion when the conflict relation covers its key.\<close>

lemma keyed_insert_row:
  assumes "insert_row conflict r t = Inr t'" and "keyed key t"
    and "\<And>x. key x = key r \<Longrightarrow> conflict x r"
  shows "keyed key t'"
  using assms by (auto simp: keyed_snoc)

lemma keyed_insert_rows:
  assumes "insert_rows conflict rs t = Inr t'" and "keyed key t"
    and "\<And>x r. key x = key r \<Longrightarrow> conflict x r"
  shows "keyed key t'"
  using assms
proof (induction rs arbitrary: t)
  case (Cons r rs)
  then obtain t1 where t1: "insert_row conflict r t = Inr t1" "insert_rows conflict rs t1 = Inr t'"
    by (auto split: sum.splits)
  have "keyed key t1" by (rule keyed_insert_row [OF t1(1) Cons.prems(2)]) (rule Cons.prems(3))
  with Cons.IH t1(2) Cons.prems(3) show ?case by blast
qed simp

lemma insert_rows_ok:
  assumes "keyed key (t @ rs)" and "\<And>x r. conflict x r \<Longrightarrow> key x = key r"
  shows "insert_rows conflict rs t = Inr (t @ rs)"
  using assms(1)
proof (induction rs arbitrary: t)
  case (Cons r rs)
  have k: "keyed key ((t @ [r]) @ rs)" using Cons.prems by simp
  have "\<not> conflict x r" if "x \<in> set t" for x
  proof
    assume "conflict x r"
    then have "key x = key r" by (rule assms(2))
    with that Cons.prems show False by (auto simp: keyed_def image_iff)
  qed
  then have e: "insert_row conflict r t = Inr (t @ [r])" by auto
  show ?case by (subst insert_rows.simps, subst e) (use Cons.IH [OF k] in simp)
qed simp

subsection \<open>Appending to the audit log (authRepo.AppendAuditLog)\<close>

text \<open>Its error is dropped by every caller, so the model returns the database only.\<close>

definition append_audit ::
    "env \<Rightarrow> nat \<Rightarrow> uuid option \<Rightarrow> string \<Rightarrow> string \<Rightarrow> uuid \<Rightarrow> jval \<Rightarrow> db \<Rightarrow> db" where
  "append_audit env k actor event targetType targetID metadata db =
     (let row = \<lparr>aud_ID = env_uuid env k, aud_ActorUserID = actor, aud_Event = event,
                 aud_TargetType = targetType, aud_TargetID = targetID, aud_Metadata = metadata,
                 aud_CreatedAt = env_now env\<rparr>
      in case insert_row (\<lambda>x y. aud_ID x = aud_ID y) row (db_audit_logs db) of
           Inl _ \<Rightarrow> db
         | Inr t \<Rightarrow> db\<lparr>db_audit_logs := t\<rparr>)"

lemma append_audit_cases:
  "append_audit env k a e ty i m db = db \<or> (\<exists>t. append_audit env k a e ty i m db = db\<lparr>db_audit_logs := t\<rparr>)"
  by (auto simp: append_audit_def Let_def split: sum.split)

lemma append_audit_tables [simp]:
  "db_permissions (append_audit env k a e ty i m db) = db_permissions db"
  "db_roles (append_audit env k a e ty i m db) = db_roles db"
  "db_role_permissions (append_audit env k a e ty i m db) = db_role_permissions db"
  "db_projects (append_audit env k a e ty i m db) = db_projects db"
  "db_members (append_audit env k a e ty i m db) = db_members db"
  "db_devices (append_audit env k a e ty i m db) = db_devices db"
  "db_update_reports (append_audit env k a e ty i m db) = db_update_reports db"
  "db_device_types (append_audit env k a e ty i m db) = db_device_types db"
  "db_auth_tokens (append_audit env k a e ty i m db) = db_auth_tokens db"
  "db_conn_logs (append_audit env k a e ty i m db) = db_conn_logs db"
  "db_block_events (append_audit env k a e ty i m db) = db_block_events db"
  "db_groups (append_audit env k a e ty i m db) = db_groups db"
  "db_group_members (append_audit env k a e ty i m db) = db_group_members db"
  "db_ota_tokens (append_audit env k a e ty i m db) = db_ota_tokens db"
  "db_firmwares (append_audit env k a e ty i m db) = db_firmwares db"
  "db_firmware_types (append_audit env k a e ty i m db) = db_firmware_types db"
  "db_campaigns (append_audit env k a e ty i m db) = db_campaigns db"
  "db_target_groups (append_audit env k a e ty i m db) = db_target_groups db"
  "db_target_devices (append_audit env k a e ty i m db) = db_target_devices db"
  "db_assignments (append_audit env k a e ty i m db) = db_assignments db"
  "db_users (append_audit env k a e ty i m db) = db_users db"
  "db_profiles (append_audit env k a e ty i m db) = db_profiles db"
  "db_sessions (append_audit env k a e ty i m db) = db_sessions db"
  "db_email_tokens (append_audit env k a e ty i m db) = db_email_tokens db"
  "db_reset_tokens (append_audit env k a e ty i m db) = db_reset_tokens db"
  "db_throttles (append_audit env k a e ty i m db) = db_throttles db"
  "db_two_factors (append_audit env k a e ty i m db) = db_two_factors db"
  "db_recovery_codes (append_audit env k a e ty i m db) = db_recovery_codes db"
  using append_audit_cases [of env k a e ty i m db] by auto

end
