(* ===== verification/Rbac.thy ===== *)
theory Rbac
  imports Database
begin

section \<open>Roles, members and the authorizer (domain/rbac)\<close>

text \<open>
  The permission registry, the role and membership queries of
  \<open>rbac/repository/repository.go\<close>, and the \<open>Authorizer\<close> of \<open>rbac/service/authorizer.go\<close> that every
  service calls first. A query returns \<open>err + 'a\<close>; an operation that changes rows in one
  transaction returns \<open>err + db\<close> (an error rolls back).
\<close>

subsection \<open>Permission keys (rbac/permission/registry.go)\<close>

definition ProjectRead :: string where "ProjectRead = ''project.read''"
definition ProjectUpdate :: string where "ProjectUpdate = ''project.update''"
definition ProjectDelete :: string where "ProjectDelete = ''project.delete''"
definition MemberRead :: string where "MemberRead = ''member.read''"
definition MemberInvite :: string where "MemberInvite = ''member.invite''"
definition MemberUpdateRole :: string where "MemberUpdateRole = ''member.update_role''"
definition MemberRemove :: string where "MemberRemove = ''member.remove''"
definition RoleRead :: string where "RoleRead = ''role.read''"
definition RoleCreate :: string where "RoleCreate = ''role.create''"
definition RoleUpdate :: string where "RoleUpdate = ''role.update''"
definition RoleDelete :: string where "RoleDelete = ''role.delete''"
definition DeviceRead :: string where "DeviceRead = ''device.read''"
definition DeviceCreate :: string where "DeviceCreate = ''device.create''"
definition DeviceUpdate :: string where "DeviceUpdate = ''device.update''"
definition DeviceBlock :: string where "DeviceBlock = ''device.block''"
definition DeviceTokenRotate :: string where "DeviceTokenRotate = ''device.token.rotate''"
definition DeviceAssignGroup :: string where "DeviceAssignGroup = ''device.assign_group''"
definition FirmwareRead :: string where "FirmwareRead = ''firmware.read''"
definition FirmwareUpload :: string where "FirmwareUpload = ''firmware.upload''"
definition CampaignRead :: string where "CampaignRead = ''campaign.read''"
definition CampaignCreate :: string where "CampaignCreate = ''campaign.create''"
definition CampaignUpdate :: string where "CampaignUpdate = ''campaign.update''"
definition CampaignPause :: string where "CampaignPause = ''campaign.pause''"
definition CampaignCancel :: string where "CampaignCancel = ''campaign.cancel''"
definition AuditRead :: string where "AuditRead = ''audit.read''"
definition DashboardRead :: string where "DashboardRead = ''dashboard.read''"

definition permission_All :: "string list" where
  "permission_All =
    [ProjectRead, ProjectUpdate, ProjectDelete,
     MemberRead, MemberInvite, MemberUpdateRole, MemberRemove,
     RoleRead, RoleCreate, RoleUpdate, RoleDelete,
     DeviceRead, DeviceCreate, DeviceUpdate, DeviceBlock, DeviceTokenRotate, DeviceAssignGroup,
     FirmwareRead, FirmwareUpload,
     CampaignRead, CampaignCreate, CampaignUpdate, CampaignPause, CampaignCancel,
     AuditRead, DashboardRead]"

lemmas permission_defs = ProjectRead_def ProjectUpdate_def ProjectDelete_def MemberRead_def MemberInvite_def
  MemberUpdateRole_def MemberRemove_def RoleRead_def RoleCreate_def RoleUpdate_def RoleDelete_def DeviceRead_def
  DeviceCreate_def DeviceUpdate_def DeviceBlock_def DeviceTokenRotate_def DeviceAssignGroup_def FirmwareRead_def
  FirmwareUpload_def CampaignRead_def CampaignCreate_def CampaignUpdate_def CampaignPause_def CampaignCancel_def
  AuditRead_def DashboardRead_def

definition SlugOwner :: string where "SlugOwner = ''owner''"
definition SlugAdmin :: string where "SlugAdmin = ''admin''"
definition SlugDeveloper :: string where "SlugDeveloper = ''developer''"
definition SlugViewer :: string where "SlugViewer = ''viewer''"

lemmas slug_defs = SlugOwner_def SlugAdmin_def SlugDeveloper_def SlugViewer_def

subsection \<open>Queries\<close>

text \<open>The zero value of the struct, left by a preload that finds no row.\<close>

definition zero_role :: role where
  "zero_role = \<lparr>role_ID = uuid_Nil, role_ProjectID = None, role_Slug = [], role_Name = [],
     role_NameNormalized = [], role_IsPredefined = False, role_Description = [], role_Permissions = [],
     role_CreatedAt = 0, role_UpdatedAt = 0, role_DeletedAt = None\<rparr>"

definition normalizeRoleName :: "string \<Rightarrow> string" where
  "normalizeRoleName name = to_lower (trim_space name)"

definition GetProject :: "db \<Rightarrow> uuid \<Rightarrow> err + project" where
  "GetProject db projectID =
     (case first_by proj_ID (\<lambda>p. proj_ID p = projectID \<and> proj_DeletedAt p = None) (db_projects db) of
        None \<Rightarrow> Inl ErrRecordNotFound
      | Some p \<Rightarrow> Inr p)"

text \<open>\<open>Preload("Permissions")\<close>.\<close>

definition preload_permissions :: "db \<Rightarrow> role \<Rightarrow> role" where
  "preload_permissions db r =
     r\<lparr>role_Permissions :=
        filter (\<lambda>p. (role_ID r, perm_ID p) \<in> set (db_role_permissions db)) (db_permissions db)\<rparr>"

definition find_role :: "db \<Rightarrow> (role \<Rightarrow> bool) \<Rightarrow> role option" where
  "find_role db P = first_by role_ID (\<lambda>r. P r \<and> role_DeletedAt r = None) (db_roles db)"

text \<open>\<open>Preload("Role", ... Preload("Permissions"))\<close>.\<close>

definition preload_role :: "db \<Rightarrow> membership \<Rightarrow> role" where
  "preload_role db m =
     (case find_role db (\<lambda>r. role_ID r = mem_RoleID m) of
        None \<Rightarrow> zero_role
      | Some r \<Rightarrow> preload_permissions db r)"

definition GetPredefinedRoleBySlug :: "db \<Rightarrow> string \<Rightarrow> err + role" where
  "GetPredefinedRoleBySlug db slug =
     (case find_role db (\<lambda>r. role_IsPredefined r \<and> role_ProjectID r = None \<and> role_Slug r = slug) of
        None \<Rightarrow> Inl ErrRecordNotFound
      | Some r \<Rightarrow> Inr (preload_permissions db r))"

definition GetMembershipForUser :: "db \<Rightarrow> uuid \<Rightarrow> uuid \<Rightarrow> err + (membership \<times> role)" where
  "GetMembershipForUser db projectID userID =
     (case first_by mem_ID (\<lambda>m. mem_ProjectID m = projectID \<and> mem_UserID m = userID) (db_members db) of
        None \<Rightarrow> Inl ErrRecordNotFound
      | Some m \<Rightarrow> Inr (m, preload_role db m))"

definition GetMembershipByID :: "db \<Rightarrow> uuid \<Rightarrow> uuid \<Rightarrow> err + (membership \<times> role)" where
  "GetMembershipByID db projectID membershipID =
     (case first_by mem_ID (\<lambda>m. mem_ProjectID m = projectID \<and> mem_ID m = membershipID) (db_members db) of
        None \<Rightarrow> Inl ErrRecordNotFound
      | Some m \<Rightarrow> Inr (m, preload_role db m))"

definition ListMemberships :: "db \<Rightarrow> uuid \<Rightarrow> (membership \<times> role) list" where
  "ListMemberships db projectID =
     map (\<lambda>m. (m, (preload_role db m)\<lparr>role_Permissions := []\<rparr>))
       (sort_key mem_CreatedAt (filter (\<lambda>m. mem_ProjectID m = projectID) (db_members db)))"

definition CountMembersWithRole :: "db \<Rightarrow> uuid \<Rightarrow> int" where
  "CountMembersWithRole db roleID = count_where (\<lambda>m. mem_RoleID m = roleID) (db_members db)"

text \<open>The Go map of the counts has an entry for every role with a member; a missing entry reads
  as zero.\<close>

definition CountMembersByRoleIDsInProject :: "db \<Rightarrow> uuid \<Rightarrow> uuid list \<Rightarrow> uuid \<Rightarrow> int" where
  "CountMembersByRoleIDsInProject db projectID roleIDs roleID =
     (if roleID \<in> set roleIDs
      then count_where (\<lambda>m. mem_ProjectID m = projectID \<and> mem_RoleID m = roleID) (db_members db) else 0)"

definition CountOwners :: "db \<Rightarrow> uuid \<Rightarrow> uuid \<Rightarrow> int" where
  "CountOwners db projectID ownerRoleID =
     count_where (\<lambda>m. mem_ProjectID m = projectID \<and> mem_RoleID m = ownerRoleID) (db_members db)"

definition GetRole :: "db \<Rightarrow> uuid \<Rightarrow> err + role" where
  "GetRole db roleID =
     (case find_role db (\<lambda>r. role_ID r = roleID) of
        None \<Rightarrow> Inl ErrRecordNotFound
      | Some r \<Rightarrow> Inr (preload_permissions db r))"

text \<open>Text columns are ordered by their bytes (collation C).\<close>

definition ListCustomRoles :: "db \<Rightarrow> uuid \<Rightarrow> role list" where
  "ListCustomRoles db projectID =
     map (preload_permissions db) (sort_key (\<lambda>r. codes (role_Name r))
       (filter (\<lambda>r. role_ProjectID r = Some projectID \<and> \<not> role_IsPredefined r \<and> role_DeletedAt r = None)
         (db_roles db)))"

definition ListPredefinedRoles :: "db \<Rightarrow> role list" where
  "ListPredefinedRoles db =
     map (preload_permissions db)
       (filter (\<lambda>r. role_IsPredefined r \<and> role_ProjectID r = None \<and> role_DeletedAt r = None) (db_roles db))"

definition ListPermissionRegistry :: "db \<Rightarrow> permission list" where
  "ListPermissionRegistry db = sort_key (\<lambda>p. codes (perm_Key p)) (db_permissions db)"

subsection \<open>Changing members\<close>

definition mem_conflict :: "membership \<Rightarrow> membership \<Rightarrow> bool" where
  "mem_conflict x r \<longleftrightarrow> mem_ID x = mem_ID r \<or> (mem_ProjectID x = mem_ProjectID r \<and> mem_UserID x = mem_UserID r)"

definition new_membership :: "env \<Rightarrow> nat \<Rightarrow> uuid \<Rightarrow> uuid \<Rightarrow> uuid \<Rightarrow> membership" where
  "new_membership env k projectID userID roleID =
     \<lparr>mem_ID = env_uuid env k, mem_ProjectID = projectID, mem_UserID = userID, mem_RoleID = roleID,
      mem_CreatedAt = env_now env, mem_UpdatedAt = env_now env\<rparr>"

definition CreateMembership :: "membership \<Rightarrow> db \<Rightarrow> err + db" where
  "CreateMembership m db =
     (case insert_row mem_conflict m (db_members db) of
        Inl e \<Rightarrow> Inl e
      | Inr t \<Rightarrow> Inr (db\<lparr>db_members := t\<rparr>))"

definition UpdateMembershipRole :: "env \<Rightarrow> uuid \<Rightarrow> uuid \<Rightarrow> uuid \<Rightarrow> db \<Rightarrow> db" where
  "UpdateMembershipRole env projectID userID newRoleID db =
     db\<lparr>db_members := update_where (\<lambda>m. mem_ProjectID m = projectID \<and> mem_UserID m = userID)
        (\<lambda>m. m\<lparr>mem_RoleID := newRoleID, mem_UpdatedAt := env_now env\<rparr>) (db_members db)\<rparr>"

definition DeleteMembership :: "uuid \<Rightarrow> uuid \<Rightarrow> db \<Rightarrow> db" where
  "DeleteMembership projectID userID db =
     db\<lparr>db_members := delete_where (\<lambda>m. mem_ProjectID m = projectID \<and> mem_UserID m = userID) (db_members db)\<rparr>"

text \<open>\<open>TransferOwnership\<close> of the repository, in one transaction.\<close>

definition repo_TransferOwnership :: "env \<Rightarrow> uuid \<Rightarrow> uuid \<Rightarrow> uuid \<Rightarrow> uuid \<Rightarrow> uuid \<Rightarrow> db \<Rightarrow> err + db" where
  "repo_TransferOwnership env projectID fromUserID toUserID ownerRoleID adminRoleID db =
     (case first_by mem_ID (\<lambda>m. mem_ProjectID m = projectID \<and> mem_UserID m = fromUserID) (db_members db) of
        None \<Rightarrow> Inl ErrRecordNotFound
      | Some fromMember \<Rightarrow>
     (case find_role db (\<lambda>r. role_ID r = mem_RoleID fromMember) of
        None \<Rightarrow> Inl ErrRecordNotFound
      | Some fromRole \<Rightarrow>
     if \<not> role_IsPredefined fromRole \<or> role_Slug fromRole \<noteq> SlugOwner
     then Inl (ErrMsg ''only owner can transfer ownership'')
     else
     (case first_by mem_ID (\<lambda>m. mem_ProjectID m = projectID \<and> mem_UserID m = toUserID) (db_members db) of
        None \<Rightarrow> Inl ErrRecordNotFound
      | Some toMember \<Rightarrow>
     if fromUserID = toUserID then Inl (ErrMsg ''cannot transfer to self'')
     else
       (let t1 = update_where (\<lambda>m. mem_ID m = mem_ID fromMember)
                   (\<lambda>m. m\<lparr>mem_RoleID := adminRoleID, mem_UpdatedAt := env_now env\<rparr>) (db_members db);
            t2 = update_where (\<lambda>m. mem_ID m = mem_ID toMember)
                   (\<lambda>m. m\<lparr>mem_RoleID := ownerRoleID, mem_UpdatedAt := env_now env\<rparr>) t1
        in Inr (db\<lparr>db_members := t2\<rparr>)))))"

subsection \<open>Custom roles\<close>

definition role_conflict :: "role \<Rightarrow> role \<Rightarrow> bool" where
  "role_conflict x r \<longleftrightarrow> role_ID x = role_ID r \<or>
     (role_DeletedAt x = None \<and> role_DeletedAt r = None \<and>
       (role_IsPredefined x \<and> role_IsPredefined r \<and> role_ProjectID x = None \<and> role_ProjectID r = None
          \<and> role_Slug x = role_Slug r
        \<or> \<not> role_IsPredefined x \<and> \<not> role_IsPredefined r \<and> role_ProjectID x \<noteq> None
          \<and> role_ProjectID x = role_ProjectID r \<and> role_NameNormalized x = role_NameNormalized r))"

definition customRoleNameTaken :: "db \<Rightarrow> uuid \<Rightarrow> string \<Rightarrow> uuid option \<Rightarrow> bool" where
  "customRoleNameTaken db projectID normalized excludeRoleID \<longleftrightarrow>
     count_where (\<lambda>r. role_ProjectID r = Some projectID \<and> \<not> role_IsPredefined r
        \<and> role_NameNormalized r = normalized \<and> role_DeletedAt r = None
        \<and> (case excludeRoleID of None \<Rightarrow> True | Some x \<Rightarrow> role_ID r \<noteq> x)) (db_roles db) > 0"

definition dedupePermissionKeys :: "string list \<Rightarrow> string list" where
  "dedupePermissionKeys keys =
     sort_key codes (rev (remdups (rev (filter (\<lambda>k. k \<noteq> []) (map trim_space keys)))))"

text \<open>\<open>Inr []\<close> for no keys; the count of the rows found is compared with the count of the keys.\<close>

definition permissionsByKeys :: "db \<Rightarrow> string list \<Rightarrow> err + permission list" where
  "permissionsByKeys db keys0 =
     (let keys = dedupePermissionKeys keys0
      in if keys = [] then Inr []
         else let perms = filter (\<lambda>p. perm_Key p \<in> set keys) (db_permissions db)
         in if length perms \<noteq> length keys then Inl (ErrMsg ''unknown permission keys'') else Inr perms)"

text \<open>\<open>Association("Permissions").Replace\<close>.\<close>

definition replace_permissions :: "uuid \<Rightarrow> permission list \<Rightarrow> db \<Rightarrow> db" where
  "replace_permissions roleID perms db =
     db\<lparr>db_role_permissions := delete_where (\<lambda>rp. fst rp = roleID) (db_role_permissions db)
          @ map (\<lambda>p. (roleID, perm_ID p)) perms\<rparr>"

definition repo_CreateCustomRole ::
    "env \<Rightarrow> nat \<Rightarrow> uuid \<Rightarrow> string \<Rightarrow> string \<Rightarrow> string list \<Rightarrow> db \<Rightarrow> err + (db \<times> role)" where
  "repo_CreateCustomRole env k projectID name description permissionKeys db =
     (case permissionsByKeys db permissionKeys of
        Inl e \<Rightarrow> Inl e
      | Inr perms \<Rightarrow>
     (let norm = normalizeRoleName name
      in if norm = [] then Inl (ErrMsg ''invalid role name'')
         else
           (let r = \<lparr>role_ID = env_uuid env k, role_ProjectID = Some projectID, role_Slug = [],
                     role_Name = trim_space name, role_NameNormalized = norm, role_IsPredefined = False,
                     role_Description = trim_space description, role_Permissions = [],
                     role_CreatedAt = env_now env, role_UpdatedAt = env_now env, role_DeletedAt = None\<rparr>
            in if customRoleNameTaken db projectID norm None then Inl (ErrMsg ''duplicate role name'')
               else case insert_row role_conflict r (db_roles db) of
                 Inl e \<Rightarrow> Inl e
               | Inr t \<Rightarrow>
                   (let db1 = replace_permissions (role_ID r) perms (db\<lparr>db_roles := t\<rparr>)
                    in case GetRole db1 (role_ID r) of Inl e \<Rightarrow> Inl e | Inr r1 \<Rightarrow> Inr (db1, r1)))))"

text \<open>\<open>UpdateCustomRole\<close>: a \<open>nil\<close> slice of keys keeps the permissions, an empty one clears them.\<close>

definition repo_UpdateCustomRole ::
    "env \<Rightarrow> uuid \<Rightarrow> uuid \<Rightarrow> string option \<Rightarrow> string option \<Rightarrow> string list option \<Rightarrow> db \<Rightarrow> err + (db \<times> role)" where
  "repo_UpdateCustomRole env projectID roleID name description permissionKeys db =
     (case find_role db (\<lambda>r. role_ID r = roleID \<and> role_ProjectID r = Some projectID \<and> \<not> role_IsPredefined r) of
        None \<Rightarrow> Inl ErrRecordNotFound
      | Some r0 \<Rightarrow>
     (case (case name of None \<Rightarrow> Inr () | Some nm \<Rightarrow>
              if normalizeRoleName nm = [] then Inl (ErrMsg ''invalid role name'')
              else if customRoleNameTaken db projectID (normalizeRoleName nm) (Some roleID)
              then Inl (ErrMsg ''duplicate role name'') else Inr ()) of
        Inl e \<Rightarrow> Inl e
      | Inr _ \<Rightarrow>
     (let db1 = (if name = None \<and> description = None then db
                 else db\<lparr>db_roles := update_where (\<lambda>r. role_ID r = role_ID r0 \<and> role_DeletedAt r = None)
                   (\<lambda>r. r\<lparr>role_UpdatedAt := env_now env,
                         role_Name := (case name of None \<Rightarrow> role_Name r | Some nm \<Rightarrow> trim_space nm),
                         role_NameNormalized := (case name of None \<Rightarrow> role_NameNormalized r
                                                 | Some nm \<Rightarrow> normalizeRoleName nm),
                         role_Description := (case description of None \<Rightarrow> role_Description r
                                              | Some d \<Rightarrow> trim_space d)\<rparr>) (db_roles db)\<rparr>)
      in case (case permissionKeys of None \<Rightarrow> Inr db1 | Some keys \<Rightarrow>
                 (case permissionsByKeys db1 keys of
                    Inl e \<Rightarrow> Inl e
                  | Inr perms \<Rightarrow>
                      (case find_role db1 (\<lambda>r. role_ID r = roleID) of
                         None \<Rightarrow> Inl ErrRecordNotFound
                       | Some _ \<Rightarrow> Inr (replace_permissions roleID perms db1)))) of
           Inl e \<Rightarrow> Inl e
         | Inr db2 \<Rightarrow> (case GetRole db2 roleID of Inl e \<Rightarrow> Inl e | Inr r1 \<Rightarrow> Inr (db2, r1)))))"

definition repo_DeleteCustomRole :: "env \<Rightarrow> uuid \<Rightarrow> uuid \<Rightarrow> db \<Rightarrow> err + db" where
  "repo_DeleteCustomRole env projectID roleID db =
     (case find_role db (\<lambda>r. role_ID r = roleID \<and> role_ProjectID r = Some projectID \<and> \<not> role_IsPredefined r) of
        None \<Rightarrow> Inl ErrRecordNotFound
      | Some r0 \<Rightarrow>
          if CountMembersWithRole db roleID > 0 then Inl (ErrMsg ''role is assigned to members'')
          else Inr (db\<lparr>db_roles := update_where (\<lambda>r. role_ID r = role_ID r0 \<and> role_DeletedAt r = None)
                     (\<lambda>r. r\<lparr>role_DeletedAt := Some (env_now env)\<rparr>) (db_roles db)\<rparr>))"

subsection \<open>The authorizer\<close>

definition RoleHasPermission :: "role \<Rightarrow> string \<Rightarrow> bool" where
  "RoleHasPermission r permissionKey \<longleftrightarrow> (\<exists>p \<in> set (role_Permissions r). perm_Key p = permissionKey)"

definition AuthorizeProject :: "db \<Rightarrow> uuid \<Rightarrow> uuid \<Rightarrow> string \<Rightarrow> err + (membership \<times> role)" where
  "AuthorizeProject db projectID userID permissionKey =
     (case GetMembershipForUser db projectID userID of
        Inl e \<Rightarrow> if e = ErrRecordNotFound then Inl Forbidden else Inl e
      | Inr (m, r) \<Rightarrow> if RoleHasPermission r permissionKey then Inr (m, r) else Inl Forbidden)"

definition IsPredefinedOwner :: "membership \<times> role \<Rightarrow> bool" where
  "IsPredefinedOwner m \<longleftrightarrow> role_IsPredefined (snd m) \<and> role_Slug (snd m) = SlugOwner"

definition ValidateAssignableRole :: "uuid \<Rightarrow> role \<Rightarrow> err + unit" where
  "ValidateAssignableRole projectID r =
     (if role_IsPredefined r \<and> role_ProjectID r = None then Inr ()
      else if \<not> role_IsPredefined r \<and> role_ProjectID r = Some projectID then Inr ()
      else Inl (BadRequest ''role does not belong to this project'' JNull))"

definition MustBeOwner :: "membership \<times> role \<Rightarrow> err + unit" where
  "MustBeOwner m = (if IsPredefinedOwner m then Inr () else Inl Forbidden)"

end
