(* ===== verification/Security.thy ===== *)
theory Security
  imports Database
begin

section \<open>Tokens and passwords (domain/auth/security)\<close>

text \<open>
  \<open>HashToken\<close>, the hash under which every token of the program is stored (SHA-256 in
  lower-case hexadecimal), \<open>GenerateSecureToken\<close> (unpadded URL-safe base64 of random bytes)
  and \<open>ValidatePasswordStrength\<close>. SHA-256 and base64 are the standard library's
  (FIPS 180-4, RFC 4648). The random bytes are arguments.
\<close>

subsection \<open>SHA-256\<close>

text \<open>The constants of the standard: the first 32 bits of the fractional parts of the square roots of
  the first eight primes and of the cube roots of the first sixty-four. \<open>int_root\<close> finds the largest
  \<open>c\<close> with \<open>c ^ k \<le> n\<close> bit by bit; the roots have fewer than 36 bits.\<close>

definition prime_number :: "nat \<Rightarrow> bool" where
  "prime_number n \<longleftrightarrow> 2 \<le> n \<and> list_all (\<lambda>d. n mod d \<noteq> 0) [2..<n]"

definition sha_primes :: "nat list" where
  "sha_primes = filter prime_number [2..<312]"

fun int_root :: "nat \<Rightarrow> int \<Rightarrow> nat \<Rightarrow> int \<Rightarrow> int" where
  "int_root k n 0 c = c"
| "int_root k n (Suc b) c = int_root k n b (if (c + 2 ^ b) ^ k \<le> n then c + 2 ^ b else c)"

definition root_fraction :: "nat \<Rightarrow> nat \<Rightarrow> 32 word" where
  "root_fraction k p = word_of_int (int_root k (int p * 2 ^ (32 * k)) 36 0)"

definition sha_H0 :: "32 word list" where
  "sha_H0 = map (root_fraction 2) [2, 3, 5, 7, 11, 13, 17, 19]"

definition sha_K :: "32 word list" where
  "sha_K = map (root_fraction 3) sha_primes"

definition sha_pad :: "byte list \<Rightarrow> byte list" where
  "sha_pad m = m @ [0x80] @ replicate ((119 - length m mod 64) mod 64) 0 @ be_bytes 8 (8 * length m)"

fun words_of :: "byte list \<Rightarrow> 32 word list" where
  "words_of (a # b # c # d # bs) = be_uint32 [a, b, c, d] # words_of bs"
| "words_of _ = []"

definition sha_s0 :: "32 word \<Rightarrow> 32 word" where
  "sha_s0 x = xor (xor (word_rotr 7 x) (word_rotr 18 x)) (drop_bit 3 x)"

definition sha_s1 :: "32 word \<Rightarrow> 32 word" where
  "sha_s1 x = xor (xor (word_rotr 17 x) (word_rotr 19 x)) (drop_bit 10 x)"

text \<open>The message schedule, built backwards: the newest word first.\<close>

fun sha_extend :: "nat \<Rightarrow> 32 word list \<Rightarrow> 32 word list" where
  "sha_extend 0 ws = ws"
| "sha_extend (Suc n) ws =
     sha_extend n ((sha_s1 (ws ! 1) + ws ! 6 + sha_s0 (ws ! 14) + ws ! 15) # ws)"

definition sha_schedule :: "32 word list \<Rightarrow> 32 word list" where
  "sha_schedule block = rev (sha_extend 48 (rev block))"

definition sha_round :: "32 word list \<Rightarrow> 32 word \<times> 32 word \<Rightarrow> 32 word list" where
  "sha_round s kw =
     (case s of
        [a, b, c, d, e, f, g, h] \<Rightarrow>
          let S1 = xor (xor (word_rotr 6 e) (word_rotr 11 e)) (word_rotr 25 e);
              ch = xor (and e f) (and (not e) g);
              t1 = h + S1 + ch + fst kw + snd kw;
              S0 = xor (xor (word_rotr 2 a) (word_rotr 13 a)) (word_rotr 22 a);
              maj = xor (xor (and a b) (and a c)) (and b c);
              t2 = S0 + maj
          in [t1 + t2, a, b, c, d + t1, e, f, g]
      | _ \<Rightarrow> s)"

definition sha_block :: "32 word list \<Rightarrow> 32 word list \<Rightarrow> 32 word list" where
  "sha_block hs block = map2 (+) hs (foldl sha_round hs (zip sha_K (sha_schedule block)))"

fun sha_blocks :: "nat \<Rightarrow> 32 word list \<Rightarrow> 32 word list \<Rightarrow> 32 word list" where
  "sha_blocks 0 hs ws = hs"
| "sha_blocks (Suc n) hs ws = sha_blocks n (sha_block hs (take 16 ws)) (drop 16 ws)"

definition sha256 :: "byte list \<Rightarrow> byte list" where
  "sha256 m =
     (let ws = words_of (sha_pad m)
      in concat (map (\<lambda>w. be_bytes 4 (unat w)) (sha_blocks (length ws div 16) sha_H0 ws)))"

subsection \<open>Tokens\<close>

definition HashToken :: "string \<Rightarrow> string" where
  "HashToken token = hex_encode (sha256 (bytes_of_string token))"

definition base64url_char :: "nat \<Rightarrow> nat" where
  "base64url_char n =
     (if n < 26 then 65 + n else if n < 52 then 71 + n else if n < 62 then n - 4
      else if n = 62 then 45 else 95)"

fun base64url :: "byte list \<Rightarrow> nat list" where
  "base64url [] = []"
| "base64url [a] =
     (let v = unat a * 16 in [base64url_char (v div 64), base64url_char (v mod 64)])"
| "base64url [a, b] =
     (let v = (unat a * 256 + unat b) * 4
      in [base64url_char (v div 4096), base64url_char (v div 64 mod 64), base64url_char (v mod 64)])"
| "base64url (a # b # c # bs) =
     (let v = unat a * 65536 + unat b * 256 + unat c
      in [base64url_char (v div 262144), base64url_char (v div 4096 mod 64),
          base64url_char (v div 64 mod 64), base64url_char (v mod 64)] @ base64url bs)"

text \<open>\<open>GenerateSecureToken(size)\<close>: the argument is what \<open>rand.Read\<close> filled the buffer with.\<close>

definition GenerateSecureToken :: "byte list \<Rightarrow> string" where
  "GenerateSecureToken rnd = string_of_codes (base64url rnd)"

definition NewRecoveryCodes :: "byte list list \<Rightarrow> string list" where
  "NewRecoveryCodes rnds = map GenerateSecureToken rnds"

subsection \<open>Passwords\<close>

definition is_upper :: "nat \<Rightarrow> bool" where "is_upper c \<longleftrightarrow> 65 \<le> c \<and> c \<le> 90"
definition is_lower :: "nat \<Rightarrow> bool" where "is_lower c \<longleftrightarrow> 97 \<le> c \<and> c \<le> 122"
definition is_digit :: "nat \<Rightarrow> bool" where "is_digit c \<longleftrightarrow> 48 \<le> c \<and> c \<le> 57"

text \<open>The code asks for 12 bytes (\<open>minPasswordLength\<close>), which the message quotes. The four regular
  expressions are character classes; a byte outside ASCII belongs to a rune
  that the negated class matches.\<close>

definition ValidatePasswordStrength :: "string \<Rightarrow> nat \<Rightarrow> err + unit" where
  "ValidatePasswordStrength password minLen =
     (if length password < minLen then Inl (ErrMsg ''password must be at least 12 characters'')
      else if \<not> (\<exists>c \<in> set (codes password). is_upper c) \<or> \<not> (\<exists>c \<in> set (codes password). is_lower c)
        \<or> \<not> (\<exists>c \<in> set (codes password). is_digit c)
        \<or> \<not> (\<exists>c \<in> set (codes password). \<not> (is_upper c \<or> is_lower c \<or> is_digit c))
      then Inl (ErrMsg ''password must include uppercase, lowercase, digit, and symbol'')
      else Inr ())"

subsection \<open>Properties\<close>

lemma length_hex_encode [simp]: "length (hex_encode bs) = 2 * length bs"
  by (induction bs) (auto simp: hex_encode_def string_of_codes_def)

lemma length_sha_round [simp]: "length (sha_round s kw) = length s"
  by (auto simp: sha_round_def Let_def split: list.split)

lemma length_foldl_round [simp]: "length (foldl sha_round s kws) = length s"
  by (induction kws arbitrary: s) auto

lemma length_sha_block [simp]: "length (sha_block hs b) = length hs"
  by (simp add: sha_block_def)

lemma length_sha_blocks [simp]: "length (sha_blocks n hs ws) = length hs"
  by (induction n arbitrary: hs ws) auto

lemma length_concat_be4: "length (concat (map (\<lambda>w. be_bytes 4 (unat (w :: 32 word))) ws)) = 4 * length ws"
  by (induction ws) auto

lemma length_sha256 [simp]: "length (sha256 m) = 32"
  unfolding sha256_def Let_def length_concat_be4 by (simp add: sha_H0_def)

lemma length_HashToken [simp]: "length (HashToken t) = 64"
  by (simp add: HashToken_def)

lemma HashToken_nonempty [simp]: "HashToken t \<noteq> []"
  using length_HashToken [of t] by (metis length_0_conv zero_neq_numeral)

end
