(* ===== verification/DeviceRepo.thy ===== *)
theory DeviceRepo
  imports Security
begin

section \<open>The repository of devices (domain/device/repository)\<close>

text \<open>
  Device types, devices and their tokens, connection logs, groups and OTA download tokens. Queries
  return \<open>err + 'a\<close>, transactions \<open>err + db\<close> or \<open>err + (db \<times> 'a)\<close>.
\<close>

subsection \<open>Device types (repository.go)\<close>

definition ListPredefinedDeviceTypes :: "db \<Rightarrow> device_type list" where
  "ListPredefinedDeviceTypes db =
     sort_key (\<lambda>t. codes (dt_Name t))
       (filter (\<lambda>t. dt_IsPredefined t \<and> dt_ProjectID t = None \<and> dt_DeletedAt t = None) (db_device_types db))"

definition ListCustomDeviceTypes :: "db \<Rightarrow> uuid \<Rightarrow> device_type list" where
  "ListCustomDeviceTypes db projectID =
     sort_key (\<lambda>t. codes (dt_Name t))
       (filter (\<lambda>t. dt_ProjectID t = Some projectID \<and> \<not> dt_IsPredefined t \<and> dt_DeletedAt t = None)
         (db_device_types db))"

definition GetDeviceType :: "db \<Rightarrow> uuid \<Rightarrow> err + device_type" where
  "GetDeviceType db deviceTypeID =
     (case first_by dt_ID (\<lambda>t. dt_ID t = deviceTypeID \<and> dt_DeletedAt t = None) (db_device_types db) of
        None \<Rightarrow> Inl ErrRecordNotFound
      | Some t \<Rightarrow> Inr t)"

definition CustomDeviceTypeNameTaken :: "db \<Rightarrow> uuid \<Rightarrow> string \<Rightarrow> uuid option \<Rightarrow> bool" where
  "CustomDeviceTypeNameTaken db projectID normalizedName excludeID \<longleftrightarrow>
     count_where (\<lambda>t. dt_ProjectID t = Some projectID \<and> \<not> dt_IsPredefined t
        \<and> dt_NameNormalized t = normalizedName \<and> dt_DeletedAt t = None
        \<and> (case excludeID of None \<Rightarrow> True | Some x \<Rightarrow> dt_ID t \<noteq> x)) (db_device_types db) > 0"

definition normalizeDeviceTypeName :: "string \<Rightarrow> string" where
  "normalizeDeviceTypeName name = to_lower (trim_space name)"

definition dt_conflict :: "device_type \<Rightarrow> device_type \<Rightarrow> bool" where
  "dt_conflict x r \<longleftrightarrow> dt_ID x = dt_ID r \<or>
     (dt_DeletedAt x = None \<and> dt_DeletedAt r = None \<and> dt_NameNormalized x = dt_NameNormalized r \<and>
       (dt_IsPredefined x \<and> dt_IsPredefined r \<and> dt_ProjectID x = None \<and> dt_ProjectID r = None
        \<or> \<not> dt_IsPredefined x \<and> \<not> dt_IsPredefined r \<and> dt_ProjectID x \<noteq> None
          \<and> dt_ProjectID x = dt_ProjectID r))"

definition repo_CreateCustomDeviceType ::
    "env \<Rightarrow> nat \<Rightarrow> uuid \<Rightarrow> string \<Rightarrow> string \<Rightarrow> string \<Rightarrow> int \<Rightarrow> string \<Rightarrow> db \<Rightarrow> err + (db \<times> device_type)" where
  "repo_CreateCustomDeviceType env k projectID name arch board flash notes db =
     (let t = \<lparr>dt_ID = env_uuid env k, dt_ProjectID = Some projectID, dt_IsPredefined = False, dt_Name = name,
               dt_NameNormalized = normalizeDeviceTypeName name, dt_ProcessorArchitecture = arch,
               dt_HardwareBoardVersion = board, dt_FlashSizeBytes = flash, dt_MemoryNotes = notes,
               dt_DeletedAt = None, dt_CreatedAt = env_now env, dt_UpdatedAt = env_now env\<rparr>
      in case insert_row dt_conflict t (db_device_types db) of
           Inl e \<Rightarrow> Inl e
         | Inr ts \<Rightarrow>
             (let db1 = db\<lparr>db_device_types := ts\<rparr>
              in case GetDeviceType db1 (dt_ID t) of Inl e \<Rightarrow> Inl e | Inr t1 \<Rightarrow> Inr (db1, t1)))"

definition find_custom_type :: "db \<Rightarrow> uuid \<Rightarrow> uuid \<Rightarrow> device_type option" where
  "find_custom_type db projectID deviceTypeID =
     first_by dt_ID (\<lambda>t. dt_ID t = deviceTypeID \<and> dt_ProjectID t = Some projectID \<and> \<not> dt_IsPredefined t
        \<and> dt_DeletedAt t = None) (db_device_types db)"

text \<open>An update may hit the unique index on the names of the project's custom types.\<close>

definition repo_UpdateCustomDeviceType ::
    "env \<Rightarrow> uuid \<Rightarrow> uuid \<Rightarrow> string option \<Rightarrow> string option \<Rightarrow> string option \<Rightarrow> int option \<Rightarrow> string option
     \<Rightarrow> db \<Rightarrow> err + (db \<times> device_type)" where
  "repo_UpdateCustomDeviceType env projectID deviceTypeID name arch board flash notes db =
     (case find_custom_type db projectID deviceTypeID of
        None \<Rightarrow> Inl ErrRecordNotFound
      | Some t0 \<Rightarrow>
     (let upd = (\<lambda>t. t\<lparr>dt_UpdatedAt := env_now env,
                      dt_Name := (case name of None \<Rightarrow> dt_Name t | Some n \<Rightarrow> n),
                      dt_NameNormalized := (case name of None \<Rightarrow> dt_NameNormalized t
                                            | Some n \<Rightarrow> normalizeDeviceTypeName n),
                      dt_ProcessorArchitecture := (case arch of None \<Rightarrow> dt_ProcessorArchitecture t | Some a \<Rightarrow> a),
                      dt_HardwareBoardVersion := (case board of None \<Rightarrow> dt_HardwareBoardVersion t | Some b \<Rightarrow> b),
                      dt_FlashSizeBytes := (case flash of None \<Rightarrow> dt_FlashSizeBytes t | Some f \<Rightarrow> f),
                      dt_MemoryNotes := (case notes of None \<Rightarrow> dt_MemoryNotes t | Some m \<Rightarrow> m)\<rparr>)
      in if \<exists>x \<in> set (db_device_types db). dt_ID x \<noteq> dt_ID t0 \<and> dt_conflict x (upd t0) then Inl ErrUnique
         else
           (let db1 = db\<lparr>db_device_types := update_where (\<lambda>t. dt_ID t = dt_ID t0 \<and> dt_DeletedAt t = None) upd
                           (db_device_types db)\<rparr>
            in case GetDeviceType db1 deviceTypeID of Inl e \<Rightarrow> Inl e | Inr t1 \<Rightarrow> Inr (db1, t1))))"

definition repo_DeleteCustomDeviceType :: "env \<Rightarrow> uuid \<Rightarrow> uuid \<Rightarrow> db \<Rightarrow> err + db" where
  "repo_DeleteCustomDeviceType env projectID deviceTypeID db =
     (case find_custom_type db projectID deviceTypeID of
        None \<Rightarrow> Inl ErrRecordNotFound
      | Some t0 \<Rightarrow>
          if count_where (\<lambda>d. dev_DeviceTypeID d = deviceTypeID \<and> dev_DeletedAt d = None) (db_devices db) > 0
          then Inl (ErrMsg ''device_type_in_use'')
          else Inr (db\<lparr>db_device_types := update_where (\<lambda>t. dt_ID t = dt_ID t0 \<and> dt_DeletedAt t = None)
                     (\<lambda>t. t\<lparr>dt_DeletedAt := Some (env_now env)\<rparr>) (db_device_types db)\<rparr>))"

subsection \<open>Devices\<close>

definition live_device :: "uuid \<Rightarrow> uuid \<Rightarrow> device \<Rightarrow> bool" where
  "live_device projectID deviceID d \<longleftrightarrow>
     dev_ID d = deviceID \<and> dev_ProjectID d = projectID \<and> dev_DeletedAt d = None"

definition GetDevice :: "db \<Rightarrow> uuid \<Rightarrow> uuid \<Rightarrow> err + device" where
  "GetDevice db projectID deviceID =
     (case first_by dev_ID (live_device projectID deviceID) (db_devices db) of
        None \<Rightarrow> Inl ErrRecordNotFound
      | Some d \<Rightarrow> Inr d)"

text \<open>The device and its token, or the error of the first gate that closes.\<close>

definition GetDeviceByActiveTokenHash :: "db \<Rightarrow> string \<Rightarrow> err + (device \<times> auth_token)" where
  "GetDeviceByActiveTokenHash db tokenHash =
     (case first_by tok_ID (\<lambda>t. tok_TokenHash t = tokenHash \<and> tok_RevokedAt t = None) (db_auth_tokens db) of
        None \<Rightarrow> Inl ErrRecordNotFound
      | Some token \<Rightarrow>
     (case first_by dev_ID (\<lambda>d. dev_ID d = tok_DeviceID token \<and> dev_DeletedAt d = None) (db_devices db) of
        None \<Rightarrow> Inl ErrRecordNotFound
      | Some d \<Rightarrow>
          if dev_Blocked d then Inl (ErrMsg ''device_blocked'')
          else if dev_TokenRevokedAt d \<noteq> None then Inl (ErrMsg ''device_token_revoked'')
          else if dev_PollingDisabledAt d \<noteq> None then Inl (ErrMsg ''device_polling_disabled'')
          else Inr (d, token)))"

definition GetDeviceByHardwareIdentifier :: "db \<Rightarrow> uuid \<Rightarrow> string \<Rightarrow> err + device" where
  "GetDeviceByHardwareIdentifier db projectID hwNorm =
     (case first_by dev_ID (\<lambda>d. dev_ProjectID d = projectID \<and> dev_HardwareIdentifierNorm d = hwNorm
              \<and> dev_DeletedAt d = None) (db_devices db) of
        None \<Rightarrow> Inl ErrRecordNotFound
      | Some d \<Rightarrow> Inr d)"

definition normalizeHardwareIdentifier :: "string \<Rightarrow> string" where
  "normalizeHardwareIdentifier raw = to_lower (trim_space raw)"

text \<open>The unique index on the hardware identifier also covers soft-deleted devices.\<close>

definition dev_conflict :: "device \<Rightarrow> device \<Rightarrow> bool" where
  "dev_conflict x r \<longleftrightarrow> dev_ID x = dev_ID r \<or>
     (dev_ProjectID x = dev_ProjectID r \<and> dev_HardwareIdentifierNorm x = dev_HardwareIdentifierNorm r)"

definition tok_conflict :: "auth_token \<Rightarrow> auth_token \<Rightarrow> bool" where
  "tok_conflict x r \<longleftrightarrow> tok_ID x = tok_ID r \<or> tok_TokenHash x = tok_TokenHash r"

definition update_device :: "env \<Rightarrow> uuid \<Rightarrow> uuid \<Rightarrow> (device \<Rightarrow> device) \<Rightarrow> db \<Rightarrow> db" where
  "update_device env projectID deviceID f db =
     db\<lparr>db_devices := update_where (live_device projectID deviceID)
        (\<lambda>d. (f d)\<lparr>dev_UpdatedAt := env_now env\<rparr>) (db_devices db)\<rparr>"

text \<open>\<open>BeforeCreate\<close> recomputes the normalised hardware identifier. UUID \<open>k\<close> is the token's,
  \<open>Suc k\<close> the device's.\<close>

definition CreateDeviceAndAuthTokenTx ::
    "env \<Rightarrow> nat \<Rightarrow> uuid \<Rightarrow> uuid \<Rightarrow> string \<Rightarrow> string \<Rightarrow> string \<Rightarrow> time \<Rightarrow> uuid option \<Rightarrow> db
     \<Rightarrow> err + (db \<times> device \<times> auth_token)" where
  "CreateDeviceAndAuthTokenTx env k projectID deviceTypeID name hwid rawTokenHash issuedAt actor db =
     (let d = \<lparr>dev_ID = env_uuid env (Suc k), dev_ProjectID = projectID, dev_ConnectionStatus = ''offline'',
               dev_Name = name, dev_DeviceTypeID = deviceTypeID, dev_HardwareIdentifier = hwid,
               dev_HardwareIdentifierNorm = normalizeHardwareIdentifier hwid, dev_Blocked = False,
               dev_BlockedAt = None, dev_LastSeenAt = None, dev_CurrentFirmwareVersion = [],
               dev_ActiveAuthTokenID = Some (env_uuid env k), dev_ActiveAuthTokenIssuedAt = Some issuedAt,
               dev_TokenRevokedAt = None, dev_PollingDisabledAt = None, dev_CreatedAt = env_now env,
               dev_UpdatedAt = env_now env, dev_DeletedAt = None\<rparr>
      in case insert_row dev_conflict d (db_devices db) of
           Inl e \<Rightarrow> Inl e
         | Inr ds \<Rightarrow>
        (let t = \<lparr>tok_ID = env_uuid env k, tok_DeviceID = dev_ID d, tok_TokenHash = rawTokenHash,
                  tok_RevokedAt = None, tok_CreatedAt = issuedAt, tok_ReplacedByTokenID = None,
                  tok_RevokedByUserID = actor\<rparr>
         in case insert_row tok_conflict t (db_auth_tokens db) of
              Inl e \<Rightarrow> Inl e
            | Inr ts \<Rightarrow>
           (let db1 = update_device env projectID (dev_ID d)
                        (\<lambda>d. d\<lparr>dev_ActiveAuthTokenID := Some (env_uuid env k),
                              dev_ActiveAuthTokenIssuedAt := Some issuedAt\<rparr>)
                        (db\<lparr>db_devices := ds, db_auth_tokens := ts\<rparr>)
            in case GetDevice db1 projectID (dev_ID d) of Inl e \<Rightarrow> Inl e | Inr d1 \<Rightarrow> Inr (db1, d1, t))))"

definition SetDeviceBlockedTx :: "env \<Rightarrow> nat \<Rightarrow> uuid \<Rightarrow> uuid \<Rightarrow> bool \<Rightarrow> uuid \<Rightarrow> db \<Rightarrow> err + db" where
  "SetDeviceBlockedTx env k projectID deviceID blocked actor db =
     (case first_by dev_ID (live_device projectID deviceID) (db_devices db) of
        None \<Rightarrow> Inl ErrRecordNotFound
      | Some d \<Rightarrow>
     (let db1 = db\<lparr>db_devices := update_where (\<lambda>x. dev_ID x = dev_ID d \<and> dev_DeletedAt x = None)
                  (\<lambda>x. x\<lparr>dev_Blocked := blocked,
                        dev_BlockedAt := (if blocked then Some (env_now env) else None),
                        dev_UpdatedAt := env_now env\<rparr>) (db_devices db)\<rparr>;
          evt = \<lparr>blk_ID = env_uuid env k, blk_ProjectID = projectID, blk_DeviceID = deviceID,
                 blk_Action = (if blocked then ''blocked'' else ''unblocked''),
                 blk_ActorUserID = Some actor, blk_CreatedAt = env_now env\<rparr>
      in case insert_row (\<lambda>x y. blk_ID x = blk_ID y) evt (db_block_events db1) of
           Inl e \<Rightarrow> Inl e
         | Inr t \<Rightarrow> Inr (db1\<lparr>db_block_events := t\<rparr>)))"

definition RotateDeviceAuthTokenTx ::
    "env \<Rightarrow> uuid \<Rightarrow> uuid \<Rightarrow> uuid \<Rightarrow> string \<Rightarrow> uuid \<Rightarrow> time \<Rightarrow> db \<Rightarrow> err + (db \<times> device \<times> auth_token)" where
  "RotateDeviceAuthTokenTx env projectID deviceID actor newTokenHash newTokenID newIssuedAt db =
     (case first_by dev_ID (live_device projectID deviceID) (db_devices db) of
        None \<Rightarrow> Inl ErrRecordNotFound
      | Some _ \<Rightarrow>
     (let t1 = update_where (\<lambda>t. tok_DeviceID t = deviceID \<and> tok_RevokedAt t = None)
                 (\<lambda>t. t\<lparr>tok_RevokedAt := Some (env_now env), tok_ReplacedByTokenID := Some newTokenID,
                       tok_RevokedByUserID := Some actor\<rparr>) (db_auth_tokens db);
          t = \<lparr>tok_ID = newTokenID, tok_DeviceID = deviceID, tok_TokenHash = newTokenHash,
               tok_RevokedAt = None, tok_CreatedAt = newIssuedAt, tok_ReplacedByTokenID = None,
               tok_RevokedByUserID = Some actor\<rparr>
      in case insert_row tok_conflict t t1 of
           Inl e \<Rightarrow> Inl e
         | Inr ts \<Rightarrow>
        (let db1 = update_device env projectID deviceID
                     (\<lambda>d. d\<lparr>dev_ActiveAuthTokenID := Some newTokenID,
                           dev_ActiveAuthTokenIssuedAt := Some newIssuedAt\<rparr>)
                     (db\<lparr>db_auth_tokens := ts\<rparr>)
         in case GetDevice db1 projectID deviceID of Inl e \<Rightarrow> Inl e | Inr d1 \<Rightarrow> Inr (db1, d1, t))))"

subsection \<open>Connections\<close>

definition CreateDeviceConnectionLog :: "conn_log \<Rightarrow> db \<Rightarrow> err + db" where
  "CreateDeviceConnectionLog l db =
     (case insert_row (\<lambda>x y. log_ID x = log_ID y) l (db_conn_logs db) of
        Inl e \<Rightarrow> Inl e
      | Inr t \<Rightarrow> Inr (db\<lparr>db_conn_logs := t\<rparr>))"

definition UpdateDeviceSeenAndFirmware ::
    "env \<Rightarrow> uuid \<Rightarrow> uuid \<Rightarrow> string option \<Rightarrow> time \<Rightarrow> string \<Rightarrow> db \<Rightarrow> db" where
  "UpdateDeviceSeenAndFirmware env projectID deviceID firmwareVersion lastSeenAt connectionStatus db =
     update_device env projectID deviceID
       (\<lambda>d. d\<lparr>dev_LastSeenAt := Some lastSeenAt, dev_ConnectionStatus := connectionStatus,
             dev_CurrentFirmwareVersion :=
               (case firmwareVersion of None \<Rightarrow> dev_CurrentFirmwareVersion d | Some v \<Rightarrow> v)\<rparr>) db"

definition ListRecentDeviceConnectionLogs :: "db \<Rightarrow> uuid \<Rightarrow> uuid \<Rightarrow> int \<Rightarrow> conn_log list" where
  "ListRecentDeviceConnectionLogs db projectID deviceID limit0 =
     (let limit = (if limit0 \<le> 0 then 10 else limit0)
      in take (nat limit) (rev (sort_key log_CreatedAt
           (filter (\<lambda>l. log_ProjectID l = projectID \<and> log_DeviceID l = deviceID) (db_conn_logs db)))))"

subsection \<open>Campaign scope (campaign_scope.go)\<close>

text \<open>Distinct devices of the project that are members of a listed group.\<close>

definition ListDeviceIDsInGroupsForProject :: "db \<Rightarrow> uuid \<Rightarrow> uuid list \<Rightarrow> uuid list" where
  "ListDeviceIDsInGroupsForProject db projectID groupIDs =
     (if groupIDs = [] then []
      else remdups [gm_DeviceID m. m \<leftarrow> db_group_members db, gm_DeviceGroupID m \<in> set groupIDs,
                    d \<leftarrow> db_devices db, dev_ID d = gm_DeviceID m \<and> dev_ProjectID d = projectID \<and> dev_DeletedAt d = None])"

definition ListDeviceIDsExplicitInProject :: "db \<Rightarrow> uuid \<Rightarrow> uuid list \<Rightarrow> uuid list" where
  "ListDeviceIDsExplicitInProject db projectID deviceIDs =
     map dev_ID (filter (\<lambda>d. dev_ProjectID d = projectID \<and> dev_DeletedAt d = None \<and> dev_ID d \<in> set deviceIDs)
       (db_devices db))"

definition FilterDeviceIDsByCompatibleTypes :: "db \<Rightarrow> uuid \<Rightarrow> uuid list \<Rightarrow> uuid list \<Rightarrow> uuid list" where
  "FilterDeviceIDsByCompatibleTypes db projectID deviceIDs allowedTypes =
     (if deviceIDs = [] \<or> allowedTypes = [] then []
      else map dev_ID (filter (\<lambda>d. dev_ProjectID d = projectID \<and> dev_DeletedAt d = None
             \<and> dev_ID d \<in> set deviceIDs \<and> dev_DeviceTypeID d \<in> set allowedTypes) (db_devices db)))"

definition GetDeviceTypeID :: "db \<Rightarrow> uuid \<Rightarrow> uuid \<Rightarrow> err + uuid" where
  "GetDeviceTypeID db projectID deviceID =
     (case first_by dev_ID (live_device projectID deviceID) (db_devices db) of
        None \<Rightarrow> Inl ErrRecordNotFound
      | Some d \<Rightarrow> Inr (dev_DeviceTypeID d))"

definition DeviceGroupExistsInProject :: "db \<Rightarrow> uuid \<Rightarrow> uuid \<Rightarrow> bool" where
  "DeviceGroupExistsInProject db projectID groupID \<longleftrightarrow>
     count_where (\<lambda>g. grp_ProjectID g = projectID \<and> grp_ID g = groupID \<and> grp_DeletedAt g = None) (db_groups db) > 0"

subsection \<open>OTA download tokens (ota_download_token.go)\<close>

definition ErrOtaTokenNotFound :: err where "ErrOtaTokenNotFound = ErrMsg ''ota_download_token_not_found''"
definition ErrOtaTokenExpired :: err where "ErrOtaTokenExpired = ErrMsg ''ota_download_token_expired''"
definition ErrOtaTokenConsumed :: err where "ErrOtaTokenConsumed = ErrMsg ''ota_download_token_consumed''"
definition ErrOtaDeviceBlocked :: err where "ErrOtaDeviceBlocked = ErrMsg ''ota_download_device_blocked''"

definition ota_conflict :: "ota_token \<Rightarrow> ota_token \<Rightarrow> bool" where
  "ota_conflict x r \<longleftrightarrow> ota_ID x = ota_ID r \<or> ota_TokenHash x = ota_TokenHash r"

definition InsertOtaDownloadToken :: "ota_token \<Rightarrow> db \<Rightarrow> err + db" where
  "InsertOtaDownloadToken row db =
     (case insert_row ota_conflict row (db_ota_tokens db) of
        Inl e \<Rightarrow> Inl e
      | Inr t \<Rightarrow> Inr (db\<lparr>db_ota_tokens := t\<rparr>))"

definition ConsumeOtaDownloadTokenTx :: "string \<Rightarrow> time \<Rightarrow> db \<Rightarrow> err + (db \<times> ota_token)" where
  "ConsumeOtaDownloadTokenTx tokenHash now db =
     (case first_by ota_ID (\<lambda>t. ota_TokenHash t = tokenHash) (db_ota_tokens db) of
        None \<Rightarrow> Inl ErrOtaTokenNotFound
      | Some row \<Rightarrow>
          if ota_ConsumedAt row \<noteq> None then Inl ErrOtaTokenConsumed
          else if \<not> now < ota_ExpiresAt row then Inl ErrOtaTokenExpired
          else if count_where (\<lambda>d. live_device (ota_ProjectID row) (ota_DeviceID row) d \<and> \<not> dev_Blocked d)
                    (db_devices db) = 0
          then Inl ErrOtaDeviceBlocked
          else
            (let P = (\<lambda>t. ota_ID t = ota_ID row \<and> ota_ConsumedAt t = None)
             in if count_where P (db_ota_tokens db) = 0 then Inl ErrOtaTokenConsumed
                else Inr (db\<lparr>db_ota_tokens := update_where P (\<lambda>t. t\<lparr>ota_ConsumedAt := Some now\<rparr>) (db_ota_tokens db)\<rparr>,
                          row\<lparr>ota_ConsumedAt := Some now\<rparr>)))"

subsection \<open>Groups (groups.go)\<close>

definition normalizeGroupName :: "string \<Rightarrow> string" where
  "normalizeGroupName name = to_lower (trim_space name)"

definition live_group :: "uuid \<Rightarrow> uuid \<Rightarrow> device_group \<Rightarrow> bool" where
  "live_group projectID groupID g \<longleftrightarrow> grp_ID g = groupID \<and> grp_ProjectID g = projectID \<and> grp_DeletedAt g = None"

definition GetDeviceGroup :: "db \<Rightarrow> uuid \<Rightarrow> uuid \<Rightarrow> err + device_group" where
  "GetDeviceGroup db projectID groupID =
     (case first_by grp_ID (live_group projectID groupID) (db_groups db) of
        None \<Rightarrow> Inl ErrRecordNotFound
      | Some g \<Rightarrow> Inr g)"

definition DeviceGroupNameTaken :: "db \<Rightarrow> uuid \<Rightarrow> string \<Rightarrow> uuid option \<Rightarrow> bool" where
  "DeviceGroupNameTaken db projectID normalized excludeID \<longleftrightarrow>
     count_where (\<lambda>g. grp_ProjectID g = projectID \<and> grp_NameNormalized g = normalized \<and> grp_DeletedAt g = None
        \<and> (case excludeID of None \<Rightarrow> True | Some x \<Rightarrow> grp_ID g \<noteq> x)) (db_groups db) > 0"

definition grp_conflict :: "device_group \<Rightarrow> device_group \<Rightarrow> bool" where
  "grp_conflict x r \<longleftrightarrow> grp_ID x = grp_ID r \<or>
     (grp_DeletedAt x = None \<and> grp_DeletedAt r = None \<and> grp_ProjectID x = grp_ProjectID r
       \<and> grp_NameNormalized x = grp_NameNormalized r)"

definition repo_CreateDeviceGroup :: "env \<Rightarrow> nat \<Rightarrow> uuid \<Rightarrow> string \<Rightarrow> string \<Rightarrow> db \<Rightarrow> err + (db \<times> device_group)" where
  "repo_CreateDeviceGroup env k projectID name description db =
     (let norm = normalizeGroupName name
      in if norm = [] then Inl (ErrMsg ''invalid group name'')
         else
           (let g = \<lparr>grp_ID = env_uuid env k, grp_ProjectID = projectID, grp_Name = trim_space name,
                     grp_NameNormalized = norm, grp_Description = trim_space description,
                     grp_CreatedAt = env_now env, grp_UpdatedAt = env_now env, grp_DeletedAt = None\<rparr>
            in case insert_row grp_conflict g (db_groups db) of
                 Inl e \<Rightarrow> Inl e
               | Inr gs \<Rightarrow>
                   (let db1 = db\<lparr>db_groups := gs\<rparr>
                    in case GetDeviceGroup db1 projectID (grp_ID g) of Inl e \<Rightarrow> Inl e | Inr g1 \<Rightarrow> Inr (db1, g1))))"

definition repo_UpdateDeviceGroup ::
    "env \<Rightarrow> uuid \<Rightarrow> uuid \<Rightarrow> string option \<Rightarrow> string option \<Rightarrow> db \<Rightarrow> err + (db \<times> device_group)" where
  "repo_UpdateDeviceGroup env projectID groupID name description db =
     (case first_by grp_ID (live_group projectID groupID) (db_groups db) of
        None \<Rightarrow> Inl ErrRecordNotFound
      | Some g0 \<Rightarrow>
          if name = None \<and> description = None then Inr (db, g0)
          else
            (let upd = (\<lambda>g. g\<lparr>grp_UpdatedAt := env_now env,
                            grp_Name := (case name of None \<Rightarrow> grp_Name g | Some n \<Rightarrow> trim_space n),
                            grp_NameNormalized := (case name of None \<Rightarrow> grp_NameNormalized g
                                                   | Some n \<Rightarrow> normalizeGroupName n),
                            grp_Description := (case description of None \<Rightarrow> grp_Description g
                                                | Some d \<Rightarrow> trim_space d)\<rparr>)
             in if \<exists>x \<in> set (db_groups db). grp_ID x \<noteq> grp_ID g0 \<and> grp_conflict x (upd g0) then Inl ErrUnique
                else
                  (let db1 = db\<lparr>db_groups := update_where (\<lambda>g. grp_ID g = grp_ID g0 \<and> grp_DeletedAt g = None) upd
                                 (db_groups db)\<rparr>
                   in case GetDeviceGroup db1 projectID groupID of Inl e \<Rightarrow> Inl e | Inr g1 \<Rightarrow> Inr (db1, g1))))"

definition repo_DeleteDeviceGroup :: "env \<Rightarrow> uuid \<Rightarrow> uuid \<Rightarrow> db \<Rightarrow> err + db" where
  "repo_DeleteDeviceGroup env projectID groupID db =
     (case first_by grp_ID (live_group projectID groupID) (db_groups db) of
        None \<Rightarrow> Inl ErrRecordNotFound
      | Some g0 \<Rightarrow>
          Inr (db\<lparr>db_group_members := delete_where (\<lambda>m. gm_DeviceGroupID m = groupID) (db_group_members db),
                  db_groups := update_where (\<lambda>g. grp_ID g = grp_ID g0 \<and> grp_DeletedAt g = None)
                    (\<lambda>g. g\<lparr>grp_DeletedAt := Some (env_now env)\<rparr>) (db_groups db)\<rparr>))"

definition repo_ListDeviceGroups :: "db \<Rightarrow> uuid \<Rightarrow> device_group list" where
  "repo_ListDeviceGroups db projectID =
     sort_key (\<lambda>g. codes (grp_Name g))
       (filter (\<lambda>g. grp_ProjectID g = projectID \<and> grp_DeletedAt g = None) (db_groups db))"

definition CountMembersByGroupIDs :: "db \<Rightarrow> uuid \<Rightarrow> uuid list \<Rightarrow> uuid \<Rightarrow> int" where
  "CountMembersByGroupIDs db projectID groupIDs groupID =
     (if groupID \<in> set groupIDs
      then int (length [m. m \<leftarrow> db_group_members db, gm_DeviceGroupID m = groupID,
                           g \<leftarrow> db_groups db, grp_ID g = groupID \<and> grp_ProjectID g = projectID \<and> grp_DeletedAt g = None])
      else 0)"

text \<open>\<open>ON CONFLICT DO NOTHING\<close>: a membership that exists is skipped and not counted. The rows are written
  one by one outside a transaction: an error of the \<open>k\<close>-th write leaves those before it.\<close>

definition add_group_member :: "env \<Rightarrow> uuid \<Rightarrow> uuid \<Rightarrow> db \<Rightarrow> db \<times> int" where
  "add_group_member env groupID did db =
     (if \<exists>m \<in> set (db_group_members db). gm_DeviceGroupID m = groupID \<and> gm_DeviceID m = did then (db, 0)
      else (db\<lparr>db_group_members := db_group_members db @
               [\<lparr>gm_DeviceGroupID = groupID, gm_DeviceID = did, gm_CreatedAt = env_now env\<rparr>]\<rparr>, 1))"

fun repo_AddDevicesToGroup :: "env \<Rightarrow> nat \<Rightarrow> uuid \<Rightarrow> uuid list \<Rightarrow> int \<Rightarrow> db \<Rightarrow> db \<times> (err + int)" where
  "repo_AddDevicesToGroup env k groupID [] inserted db = (db, Inr inserted)"
| "repo_AddDevicesToGroup env k groupID (did # dids) inserted db =
     (case write_step env k (\<lambda>db. Inr (add_group_member env groupID did db)) db of
        Inl e \<Rightarrow> (db, Inl e)
      | Inr (db1, n) \<Rightarrow> repo_AddDevicesToGroup env (k + 1) groupID dids (inserted + n) db1)"

definition repo_RemoveDevicesFromGroup :: "uuid \<Rightarrow> uuid list \<Rightarrow> db \<Rightarrow> db \<times> int" where
  "repo_RemoveDevicesFromGroup groupID deviceIDs db =
     (let P = (\<lambda>m. gm_DeviceGroupID m = groupID \<and> gm_DeviceID m \<in> set deviceIDs)
      in (db\<lparr>db_group_members := delete_where P (db_group_members db)\<rparr>, count_where P (db_group_members db)))"

definition CountGroupMembers :: "db \<Rightarrow> uuid \<Rightarrow> int" where
  "CountGroupMembers db groupID = count_where (\<lambda>m. gm_DeviceGroupID m = groupID) (db_group_members db)"

end
