(* ===== verification/Storage.thy ===== *)
theory Storage
  imports Database
begin

section \<open>Object storage (internal/platform/storage)\<close>

text \<open>
  The \<open>ObjectStore\<close> interface as a locale, and \<open>LocalObjectStore\<close>, which keeps each object in
  a file under a base directory, as its interpretation. A path is the list of its components; the
  store is the list of the files with their contents and the list of the directories made.
  Failures of the disk are not modelled, failures caused by the paths (a directory where a file is
  wanted, or the reverse) are.
\<close>

type_synonym path = "string list"

record store =
  st_files :: "(path \<times> byte list) list"
  st_dirs :: "path list"

subsection \<open>Keys and paths\<close>

definition validateKey :: "string \<Rightarrow> err + unit" where
  "validateKey key =
     (if key = [] then Inl (ErrMsg ''storage key is empty'')
      else if contains key ''..'' then Inl (ErrMsg ''invalid storage key'')
      else if has_prefix key ''/'' \<or> has_prefix key [CHR 0x5C] then Inl (ErrMsg ''invalid storage key'')
      else Inr ())"

text \<open>\<open>filepath.Clean\<close> of a rooted path: empty and \<open>.\<close> elements go, \<open>..\<close> removes the element
  before it. The accumulator holds the elements so far, in order.\<close>

fun clean_path :: "path \<Rightarrow> path \<Rightarrow> path" where
  "clean_path acc [] = acc"
| "clean_path acc (x # xs) =
     (if x = [] \<or> x = ''.'' then clean_path acc xs
      else if x = ''..'' then clean_path (butlast acc) xs
      else clean_path (acc @ [x]) xs)"

definition filepath_Join :: "path \<Rightarrow> string \<Rightarrow> path" where
  "filepath_Join base key = clean_path [] (base @ split_char (CHR ''/'') key)"

text \<open>\<open>filepath.Rel(base, full)\<close> of two clean absolute paths: up from the base to the common
  prefix and down from there.\<close>

fun rel_path :: "path \<Rightarrow> path \<Rightarrow> path" where
  "rel_path (b # bs) (f # fs) = (if b = f then rel_path bs fs else replicate (Suc (length bs)) ''..'' @ f # fs)"
| "rel_path bs fs = replicate (length bs) ''..'' @ fs"

definition rel_has_dotdot_prefix :: "path \<Rightarrow> bool" where
  "rel_has_dotdot_prefix rel = (case rel of [] \<Rightarrow> False | x # _ \<Rightarrow> has_prefix x ''..'')"

definition resolve :: "path \<Rightarrow> string \<Rightarrow> err + path" where
  "resolve base key =
     (case validateKey key of
        Inl e \<Rightarrow> Inl e
      | Inr _ \<Rightarrow>
          (let full = filepath_Join base key
           in if rel_has_dotdot_prefix (rel_path base full) then Inl (ErrMsg ''invalid storage key'') else Inr full))"

subsection \<open>The local store\<close>

definition lookup_file :: "store \<Rightarrow> path \<Rightarrow> byte list option" where
  "lookup_file st p = map_of (st_files st) p"

text \<open>The directories above a path.\<close>

definition dirs_of :: "path \<Rightarrow> path list" where
  "dirs_of p = map (\<lambda>i. take i p) [0..<length p]"

text \<open>\<open>MkdirAll\<close>, writing a temporary file, and \<open>Rename\<close> over the object.\<close>

definition store_Put :: "path \<Rightarrow> store \<Rightarrow> string \<Rightarrow> byte list \<Rightarrow> store \<times> (err + int)" where
  "store_Put base st key body =
     (case resolve base key of
        Inl e \<Rightarrow> (st, Inl e)
      | Inr full \<Rightarrow>
          if \<exists>d \<in> set (dirs_of full). lookup_file st d \<noteq> None then (st, Inl (ErrMsg ''not a directory''))
          else
            (let st1 = st\<lparr>st_dirs := dirs_of full @ st_dirs st\<rparr>
             in if full \<in> set (st_dirs st) \<or> full = base then (st1, Inl (ErrMsg ''file exists''))
                else (st1\<lparr>st_files := (full, body) # filter (\<lambda>f. fst f \<noteq> full) (st_files st)\<rparr>,
                      Inr (int (length body)))))"

definition store_Open :: "path \<Rightarrow> store \<Rightarrow> string \<Rightarrow> err + byte list" where
  "store_Open base st key =
     (case resolve base key of
        Inl e \<Rightarrow> Inl e
      | Inr full \<Rightarrow>
          (case lookup_file st full of
             None \<Rightarrow> Inl (ErrMsg ''object not found'')
           | Some b \<Rightarrow> Inr b))"

text \<open>\<open>os.Remove\<close> also removes an empty directory; the objects' directories are never empty keys
  of the program, so a directory is reported as an error here.\<close>

definition store_Delete :: "path \<Rightarrow> store \<Rightarrow> string \<Rightarrow> store \<times> (err + unit)" where
  "store_Delete base st key =
     (case resolve base key of
        Inl e \<Rightarrow> (st, Inl e)
      | Inr full \<Rightarrow>
          if lookup_file st full = None
          then (st, if full \<in> set (st_dirs st) then Inl (ErrMsg ''directory not empty'') else Inr ())
          else (st\<lparr>st_files := filter (\<lambda>f. fst f \<noteq> full) (st_files st)\<rparr>, Inr ()))"

subsection \<open>The interface\<close>

text \<open>The contract of \<open>ObjectStore\<close> its clients rely on; \<open>same k k'\<close> says that two keys name
  the same object.\<close>

locale object_store =
  fixes put :: "'s \<Rightarrow> string \<Rightarrow> byte list \<Rightarrow> 's \<times> (err + int)"
    and get :: "'s \<Rightarrow> string \<Rightarrow> err + byte list"
    and del :: "'s \<Rightarrow> string \<Rightarrow> 's \<times> (err + unit)"
    and same :: "string \<Rightarrow> string \<Rightarrow> bool"
  assumes get_put: "put s k b = (s', Inr n) \<Longrightarrow> get s' k = Inr b \<and> n = int (length b)"
    and get_put_other: "put s k b = (s', r) \<Longrightarrow> \<not> same k k' \<Longrightarrow> get s' k' = get s k'"
    and put_fail: "put s k b = (s', Inl e) \<Longrightarrow> get s' k' = get s k'"
    and get_del: "del s k = (s', Inr u) \<Longrightarrow> \<not> is_ok (get s' k)"
    and get_del_other: "del s k = (s', v) \<Longrightarrow> \<not> same k k' \<Longrightarrow> get s' k' = get s k'"
    and del_fail: "del s k = (s', Inl e) \<Longrightarrow> s' = s"
begin

text \<open>A sequence of stores under other keys does not change what a key holds.\<close>

fun put_all :: "'s \<Rightarrow> (string \<times> byte list) list \<Rightarrow> 's" where
  "put_all s [] = s"
| "put_all s ((k, b) # kbs) = put_all (fst (put s k b)) kbs"

lemma get_put_all:
  "(\<And>k b. (k, b) \<in> set kbs \<Longrightarrow> \<not> same k k') \<Longrightarrow> get (put_all s kbs) k' = get s k'"
proof (induction kbs arbitrary: s)
  case (Cons kb kbs)
  obtain k b where kb: "kb = (k, b)" by fastforce
  obtain s' r where p: "put s k b = (s', r)" by fastforce
  have "\<not> same k k'" using Cons.prems kb by auto
  then have "get s' k' = get s k'" using p get_put_other by blast
  with Cons.IH [of s'] Cons.prems kb p show ?case by auto
qed simp

lemma put_then_del:
  "put s k b = (s1, Inr n) \<Longrightarrow> del s1 k = (s2, Inr u) \<Longrightarrow> \<not> is_ok (get s2 k)"
  by (rule get_del)

end

subsection \<open>The local store implements the interface\<close>

lemma contains_append_left: "contains s p \<Longrightarrow> contains (s @ t) p"
proof (induction s)
  case Nil
  then show ?case by (cases t) auto
next
  case (Cons a s)
  have "prefix p (a # s) \<Longrightarrow> prefix p (a # s @ t)"
    using prefix_prefix [of p "a # s" t] by simp
  with Cons show ?case by auto
qed

lemma contains_prefix: "prefix p s \<Longrightarrow> contains s p"
  by (cases s) auto

lemma contains_suffix: "contains t p \<Longrightarrow> contains (s @ t) p"
  by (induction s) auto

lemma split_char_not_Nil [simp]: "split_char c s \<noteq> []"
  by (induction s) (auto split: list.split)

lemma split_char_contains: "x \<in> set (split_char c s) \<Longrightarrow> contains x p \<Longrightarrow> p \<noteq> [] \<Longrightarrow> c \<notin> set p \<Longrightarrow> contains s p"
proof -
  have hd: "\<exists>t. s = hd (split_char c s) @ t" for s
  proof (induction s)
    case (Cons a s)
    then show ?case by (cases "split_char c s") auto
  qed simp
  show "x \<in> set (split_char c s) \<Longrightarrow> contains x p \<Longrightarrow> p \<noteq> [] \<Longrightarrow> c \<notin> set p \<Longrightarrow> contains s p"
  proof (induction s arbitrary: x)
    case (Cons a s)
    show ?case
    proof (cases "a = c")
      case True
      with Cons show ?thesis by auto
    next
      case False
      obtain p0 ps where sp: "split_char c s = p0 # ps" by (cases "split_char c s") auto
      from hd [of s] sp obtain t where t: "s = p0 @ t" by auto
      from Cons.prems(1) False sp have "x = a # p0 \<or> x \<in> set ps" by simp
      then show ?thesis
      proof
        assume "x = a # p0"
        with Cons.prems(2) have "contains ((a # p0) @ t) p" by (blast intro: contains_append_left)
        with t show ?thesis by simp
      next
        assume "x \<in> set ps"
        with sp have "x \<in> set (split_char c s)" by simp
        then have "contains s p" using Cons.IH Cons.prems(2-4) by blast
        then show ?thesis by simp
      qed
    qed
  qed simp
qed

text \<open>Without a \<open>..\<close> element nothing is removed.\<close>

lemma clean_path_no_dotdot:
  "''..'' \<notin> set xs \<Longrightarrow> clean_path acc xs = acc @ filter (\<lambda>x. x \<noteq> [] \<and> x \<noteq> ''.'') xs"
  by (induction acc xs rule: clean_path.induct) auto

lemma rel_path_prefix [simp]: "rel_path base (base @ xs) = xs"
  by (induction base) (auto simp: neq_Nil_conv elim: rel_path.elims)

definition clean_base :: "path \<Rightarrow> bool" where
  "clean_base base \<longleftrightarrow> (\<forall>x \<in> set base. x \<noteq> [] \<and> x \<noteq> ''.'' \<and> x \<noteq> ''..'')"

definition key_path :: "string \<Rightarrow> path" where
  "key_path key = filter (\<lambda>x. x \<noteq> [] \<and> x \<noteq> ''.'') (split_char (CHR ''/'') key)"

lemma resolve_Inr:
  assumes "clean_base base" and "resolve base key = Inr full"
  shows "validateKey key = Inr ()" and "full = base @ key_path key"
proof -
  from assms(2) show v: "validateKey key = Inr ()"
    by (auto simp: resolve_def split: sum.splits)
  then have nd: "\<not> contains key ''..''" by (auto simp: validateKey_def split: if_splits)
  have "''..'' \<notin> set (split_char (CHR ''/'') key)"
  proof
    assume "''..'' \<in> set (split_char (CHR ''/'') key)"
    moreover have "contains ''..'' ''..''" by simp
    moreover have "CHR ''/'' \<notin> set ''..''" by simp
    ultimately have "contains key ''..''" by (intro split_char_contains [of _ _ key]) auto
    with nd show False by simp
  qed
  moreover have "''..'' \<notin> set base" using assms(1) by (auto simp: clean_base_def)
  moreover have "filter (\<lambda>x. x \<noteq> [] \<and> x \<noteq> ''.'') base = base"
    using assms(1) by (auto simp: clean_base_def filter_id_conv)
  ultimately have "filepath_Join base key = base @ key_path key"
    by (simp add: filepath_Join_def clean_path_no_dotdot key_path_def)
  with assms(2) v show "full = base @ key_path key"
    by (auto simp: resolve_def Let_def split: if_splits)
qed

definition same_object :: "path \<Rightarrow> string \<Rightarrow> string \<Rightarrow> bool" where
  "same_object base k k' \<longleftrightarrow> resolve base k = resolve base k' \<and> is_ok (resolve base k)"

lemma map_of_filter_other: "p \<noteq> q \<Longrightarrow> map_of (filter (\<lambda>f. fst f \<noteq> q) fs) p = map_of fs p"
  by (induction fs) auto

lemma map_of_filter_same: "map_of (filter (\<lambda>f. fst f \<noteq> q) fs) q = None"
  by (induction fs) auto

lemmas store_ops_defs = store_Put_def store_Open_def store_Delete_def lookup_file_def Let_def

interpretation local_store: object_store "store_Put base" "store_Open base" "store_Delete base" "same_object base"
  for base
proof unfold_locales
  fix s k b s' n
  assume "store_Put base s k b = (s', Inr n)"
  then show "store_Open base s' k = Inr b \<and> n = int (length b)"
    by (auto simp: store_ops_defs split: sum.splits if_splits)
next
  fix s k b s' r k'
  assume "store_Put base s k b = (s', r)" and "\<not> same_object base k k'"
  then show "store_Open base s' k' = store_Open base s k'"
    by (auto simp: store_ops_defs same_object_def map_of_filter_other split: sum.splits if_splits)
next
  fix s k b s' e k'
  assume "store_Put base s k b = (s', Inl e)"
  then show "store_Open base s' k' = store_Open base s k'"
    by (auto simp: store_ops_defs split: sum.splits if_splits)
next
  fix s k s' u
  assume "store_Delete base s k = (s', Inr u)"
  then show "\<not> is_ok (store_Open base s' k)"
    by (auto simp: store_ops_defs map_of_filter_same split: sum.splits if_splits option.splits)
next
  fix s k s' v k'
  assume "store_Delete base s k = (s', v)" and "\<not> same_object base k k'"
  then show "store_Open base s' k' = store_Open base s k'"
    by (auto simp: store_ops_defs same_object_def map_of_filter_other split: sum.splits if_splits)
next
  fix s k s' e
  assume "store_Delete base s k = (s', Inl e)"
  then show "s' = s"
    by (auto simp: store_ops_defs split: sum.splits if_splits)
qed

subsection \<open>Properties\<close>

text \<open>C18. A key never reaches a file outside the base directory: whatever key resolves does so to
  a path below the base, made of the key's own elements.\<close>

theorem resolve_inside_base:
  assumes "clean_base base" and "resolve base key = Inr full"
  shows "full = base @ key_path key \<and> ''..'' \<notin> set full \<and> validateKey key = Inr ()"
proof -
  have v: "validateKey key = Inr ()" and full: "full = base @ key_path key"
    using resolve_Inr [OF assms] by auto
  have "''..'' \<notin> set (key_path key)"
  proof
    assume "''..'' \<in> set (key_path key)"
    then have "''..'' \<in> set (split_char (CHR ''/'') key)" by (simp add: key_path_def)
    then have "contains key ''..''" by (rule split_char_contains) auto
    with v show False by (auto simp: validateKey_def split: if_splits)
  qed
  moreover have "''..'' \<notin> set base" using assms(1) by (auto simp: clean_base_def)
  ultimately show ?thesis using full v by simp
qed

theorem resolve_inside_base_witness:
  "[''data'', ''projects'', ''p'', ''blob''] = [''data''] @ key_path ''projects/p/blob''
   \<and> ''..'' \<notin> set [''data'', ''projects'', ''p'', ''blob''] \<and> validateKey ''projects/p/blob'' = Inr ()"
  by (rule resolve_inside_base)
    (simp_all add: clean_base_def resolve_def validateKey_def has_prefix_def filepath_Join_def
      rel_has_dotdot_prefix_def)

end
