(* ===== verification/Firmware.thy ===== *)
theory Firmware
  imports Rbac DeviceRepo Storage
begin

section \<open>Firmware (domain/firmware)\<close>

text \<open>
  The firmware repository, the upload, download and deletion of \<open>firmware/service/service.go\<close>
  and the one-time OTA download of \<open>ota_download.go\<close>. The operations thread the database and
  the object store, which is any implementation of the interface (\<open>put\<close>, \<open>get\<close>, \<open>del\<close>).
  Parsing of semantic versions is the library \<open>Masterminds/semver\<close>: the parameter
  \<open>semver\<close>.
\<close>

subsection \<open>Repository (firmware/repository/repository.go)\<close>

definition FirmwareStorageKey :: "uuid \<Rightarrow> uuid \<Rightarrow> string" where
  "FirmwareStorageKey projectID firmwareID =
     ''projects/'' @ uuid_String projectID @ ''/firmware/'' @ uuid_String firmwareID @ ''/blob''"

definition FirmwareVersionExists :: "db \<Rightarrow> uuid \<Rightarrow> string \<Rightarrow> bool" where
  "FirmwareVersionExists db projectID versionNormalized \<longleftrightarrow>
     count_where (\<lambda>f. fw_ProjectID f = projectID \<and> fw_VersionNormalized f = versionNormalized
        \<and> fw_DeletedAt f = None) (db_firmwares db) > 0"

definition fw_conflict :: "firmware \<Rightarrow> firmware \<Rightarrow> bool" where
  "fw_conflict x r \<longleftrightarrow> fw_ID x = fw_ID r \<or>
     (fw_DeletedAt x = None \<and> fw_DeletedAt r = None \<and>
       (fw_ProjectID x = fw_ProjectID r \<and> fw_VersionNormalized x = fw_VersionNormalized r
        \<or> fw_StorageKey x = fw_StorageKey r))"

definition ft_conflict :: "firmware_type \<Rightarrow> firmware_type \<Rightarrow> bool" where
  "ft_conflict x r \<longleftrightarrow> ft_FirmwareID x = ft_FirmwareID r \<and> ft_DeviceTypeID x = ft_DeviceTypeID r"

definition CreateFirmwareWithTypes :: "env \<Rightarrow> firmware \<Rightarrow> uuid list \<Rightarrow> db \<Rightarrow> err + db" where
  "CreateFirmwareWithTypes env fw deviceTypeIDs db =
     (case insert_row fw_conflict fw (db_firmwares db) of
        Inl e \<Rightarrow> Inl e
      | Inr fs \<Rightarrow>
     (case insert_rows ft_conflict
             (map (\<lambda>dt. \<lparr>ft_FirmwareID = fw_ID fw, ft_DeviceTypeID = dt, ft_CreatedAt = env_now env\<rparr>) deviceTypeIDs)
             (db_firmware_types db) of
        Inl e \<Rightarrow> Inl e
      | Inr ts \<Rightarrow> Inr (db\<lparr>db_firmwares := fs, db_firmware_types := ts\<rparr>)))"

definition repo_GetFirmware :: "db \<Rightarrow> uuid \<Rightarrow> uuid \<Rightarrow> err + firmware" where
  "repo_GetFirmware db projectID firmwareID =
     (case first_by fw_ID (\<lambda>f. fw_ProjectID f = projectID \<and> fw_ID f = firmwareID \<and> fw_DeletedAt f = None)
             (db_firmwares db) of
        None \<Rightarrow> Inl ErrRecordNotFound
      | Some f \<Rightarrow> Inr f)"

definition ListDeviceTypeIDsForFirmware :: "db \<Rightarrow> uuid \<Rightarrow> uuid list" where
  "ListDeviceTypeIDsForFirmware db firmwareID =
     map ft_DeviceTypeID (filter (\<lambda>t. ft_FirmwareID t = firmwareID) (db_firmware_types db))"

definition CountDeviceTypesByFirmwareIDs :: "db \<Rightarrow> uuid list \<Rightarrow> uuid \<Rightarrow> int" where
  "CountDeviceTypesByFirmwareIDs db firmwareIDs firmwareID =
     (if firmwareID \<in> set firmwareIDs
      then count_where (\<lambda>t. ft_FirmwareID t = firmwareID) (db_firmware_types db) else 0)"

text \<open>The ORDER BY clauses. In PostgreSQL NULLs come last in ascending and first in descending
  order unless the clause says otherwise; \<open>null_last\<close> and \<open>null_first\<close> are sort keys.\<close>

definition null_last :: "int option \<Rightarrow> nat \<times> int" where
  "null_last x = (case x of None \<Rightarrow> (1, 0) | Some i \<Rightarrow> (0, i))"

definition null_first :: "int option \<Rightarrow> nat \<times> int" where
  "null_first x = (case x of None \<Rightarrow> (0, 0) | Some i \<Rightarrow> (1, i))"

definition listFirmwareOrder :: "string \<Rightarrow> firmware list \<Rightarrow> firmware list" where
  "listFirmwareOrder srt fs =
     (let s = trim_space srt;
          by_created = sort_key (\<lambda>f. (fw_CreatedAt f, fw_ID f)) fs
      in if s = ''created_at'' then by_created
         else if s = ''-created_at'' \<or> s = [] then rev by_created
         else if s = ''version''
         then sort_key (\<lambda>f. (null_last (fw_SemverMajor f), null_last (fw_SemverMinor f), null_last (fw_SemverPatch f),
                            codes (fw_SemverPrerelease f), codes (fw_VersionNormalized f), fw_CreatedAt f)) fs
         else if s = ''-version''
         then rev (sort_key (\<lambda>f. (null_first (fw_SemverMajor f), null_last (fw_SemverMinor f), null_last (fw_SemverPatch f),
                            codes (fw_SemverPrerelease f), codes (fw_VersionNormalized f), fw_CreatedAt f)) fs)
         else rev by_created)"

definition repo_ListFirmware :: "db \<Rightarrow> uuid \<Rightarrow> int \<Rightarrow> int \<Rightarrow> string \<Rightarrow> firmware list \<times> int" where
  "repo_ListFirmware db projectID page pageSize srt =
     (let q = filter (\<lambda>f. fw_ProjectID f = projectID \<and> fw_DeletedAt f = None) (db_firmwares db)
      in (page_of (page_offset page pageSize) pageSize (listFirmwareOrder srt q), int (length q)))"

definition SoftDeleteFirmwareAndReturnKey :: "env \<Rightarrow> uuid \<Rightarrow> uuid \<Rightarrow> db \<Rightarrow> err + (db \<times> string)" where
  "SoftDeleteFirmwareAndReturnKey env projectID firmwareID db =
     (case repo_GetFirmware db projectID firmwareID of
        Inl e \<Rightarrow> Inl e
      | Inr f0 \<Rightarrow>
          Inr (db\<lparr>db_firmwares := update_where (\<lambda>f. fw_ID f = fw_ID f0 \<and> fw_DeletedAt f = None)
                 (\<lambda>f. f\<lparr>fw_DeletedAt := Some (env_now env)\<rparr>) (db_firmwares db)\<rparr>, fw_StorageKey f0))"

subsection \<open>Views and guards (firmware/service/service.go)\<close>

definition fw_ensureProjectNotArchived :: "db \<Rightarrow> uuid \<Rightarrow> err + unit" where
  "fw_ensureProjectNotArchived db projectID =
     (case GetProject db projectID of
        Inl e \<Rightarrow> if e = ErrRecordNotFound then Inl (NotFound ''project not found'') else Inl e
      | Inr p \<Rightarrow> if proj_ArchivedAt p \<noteq> None
                then Inl (app_new ''project_archived'' ''project is archived; unarchive to modify'' 409 JNull)
                else Inr ())"

definition fw_audit :: "env \<Rightarrow> nat \<Rightarrow> uuid \<Rightarrow> string \<Rightarrow> uuid \<Rightarrow> (string \<times> jval) list \<Rightarrow> db \<Rightarrow> db" where
  "fw_audit env k actor event projectID metadata db =
     append_audit env k (Some actor) event ''project'' projectID (JObj metadata) db"

definition isUniqueViolation :: "err \<Rightarrow> bool" where
  "isUniqueViolation e \<longleftrightarrow> e = ErrUnique"

record firmware_item =
  fi_ID :: uuid
  fi_Version :: string
  fi_FileSizeBytes :: int
  fi_ChecksumSHA256 :: string
  fi_OriginalFilename :: string
  fi_DeviceTypeCount :: int
  fi_IsSemver :: bool
  fi_UploadedByUserID :: uuid
  fi_CreatedAt :: time

record firmware_detail = firmware_item +
  fi_Changelog :: string
  fi_CompatibleDeviceTypeIDs :: "uuid list"

definition ListFirmware :: "db \<Rightarrow> uuid \<Rightarrow> uuid \<Rightarrow> int \<Rightarrow> int \<Rightarrow> string \<Rightarrow> err + (firmware_item list \<times> int)" where
  "ListFirmware db actor projectID page pageSize srt =
     (case AuthorizeProject db projectID actor FirmwareRead of
        Inl e \<Rightarrow> Inl e
      | Inr _ \<Rightarrow>
          (let (fs, n) = repo_ListFirmware db projectID page pageSize srt;
               counts = CountDeviceTypesByFirmwareIDs db (map fw_ID fs)
           in Inr (map (\<lambda>f. \<lparr>fi_ID = fw_ID f, fi_Version = fw_Version f, fi_FileSizeBytes = fw_FileSizeBytes f,
                fi_ChecksumSHA256 = fw_ChecksumSHA256 f, fi_OriginalFilename = fw_OriginalFilename f,
                fi_DeviceTypeCount = counts (fw_ID f), fi_IsSemver = (fw_SemverMajor f \<noteq> None),
                fi_UploadedByUserID = fw_UploadedByUserID f, fi_CreatedAt = fw_CreatedAt f\<rparr>) fs, n)))"

definition GetFirmware :: "db \<Rightarrow> uuid \<Rightarrow> uuid \<Rightarrow> uuid \<Rightarrow> err + firmware_detail" where
  "GetFirmware db actor projectID firmwareID =
     (case AuthorizeProject db projectID actor FirmwareRead of
        Inl e \<Rightarrow> Inl e
      | Inr _ \<Rightarrow>
     (case repo_GetFirmware db projectID firmwareID of
        Inl e \<Rightarrow> if e = ErrRecordNotFound then Inl (NotFound ''firmware not found'') else Inl e
      | Inr f \<Rightarrow>
          (let dtIDs = ListDeviceTypeIDsForFirmware db firmwareID
           in Inr \<lparr>fi_ID = fw_ID f, fi_Version = fw_Version f, fi_FileSizeBytes = fw_FileSizeBytes f,
                fi_ChecksumSHA256 = fw_ChecksumSHA256 f, fi_OriginalFilename = fw_OriginalFilename f,
                fi_DeviceTypeCount = int (length dtIDs), fi_IsSemver = (fw_SemverMajor f \<noteq> None),
                fi_UploadedByUserID = fw_UploadedByUserID f, fi_CreatedAt = fw_CreatedAt f,
                fi_Changelog = fw_Changelog f, fi_CompatibleDeviceTypeIDs = dtIDs\<rparr>)))"

subsection \<open>Upload\<close>

definition maxChangelogRunes :: nat where "maxChangelogRunes = 65535"

definition normalizeVersion :: "string \<Rightarrow> string" where
  "normalizeVersion v = to_lower (trim_space v)"

type_synonym semver_parser = "string \<Rightarrow> (int \<times> int \<times> int \<times> string) option"

definition parseSemverParts :: "semver_parser \<Rightarrow> string \<Rightarrow> int option \<times> int option \<times> int option \<times> string" where
  "parseSemverParts semver raw =
     (case semver (trim_space raw) of
        None \<Rightarrow> (None, None, None, [])
      | Some (mj, mn, pt, pre) \<Rightarrow> (Some (int64 mj), Some (int64 mn), Some (int64 pt), pre))"

fun validateDeviceTypesForProject :: "db \<Rightarrow> uuid \<Rightarrow> uuid list \<Rightarrow> err + unit" where
  "validateDeviceTypesForProject db projectID [] = Inr ()"
| "validateDeviceTypesForProject db projectID (i # is) =
     (case GetDeviceType db i of
        Inl e \<Rightarrow> if e = ErrRecordNotFound
                then Inl (BadRequest ''unknown device_type_id'' (JObj [(''device_type_id'', JUuid i)])) else Inl e
      | Inr dt \<Rightarrow>
          if dt_IsPredefined dt \<and> dt_ProjectID dt = None then validateDeviceTypesForProject db projectID is
          else if \<not> dt_IsPredefined dt \<and> dt_ProjectID dt = Some projectID
          then validateDeviceTypesForProject db projectID is
          else Inl (BadRequest ''device type is not compatible with this project'' (JObj [(''device_type_id'', JUuid i)])))"

text \<open>The loop that rejects \<open>uuid.Nil\<close> and drops repetitions, keeping the first occurrences.\<close>

fun dedup_type_ids :: "uuid list \<Rightarrow> uuid list \<Rightarrow> err + uuid list" where
  "dedup_type_ids acc [] = Inr acc"
| "dedup_type_ids acc (i # is) =
     (if i = uuid_Nil then Inl (BadRequest ''invalid device_type_id'' JNull)
      else if i \<in> set acc then dedup_type_ids acc is
      else dedup_type_ids (acc @ [i]) is)"

text \<open>\<open>writeLimitedTemp\<close> copies at most \<open>max + 1\<close> bytes, a sum of 64-bit integers: for the greatest
  limit it wraps to the least one and nothing is copied. \<open>None\<close> is \<open>errUploadTooLarge\<close>.\<close>

definition writeLimitedTemp :: "byte list \<Rightarrow> int \<Rightarrow> byte list option" where
  "writeLimitedTemp body max_bytes =
     (let limit = (if max_bytes \<ge> int64_max then int64_min else max_bytes + 1);
          copied = take (nat limit) body
      in if int (length copied) > max_bytes then None else Some copied)"

definition sha256Hex :: "byte list \<Rightarrow> string" where
  "sha256Hex content = hex_encode (sha256 content)"

text \<open>\<open>filepath.Base\<close> of a non-empty path.\<close>

definition filepath_Base :: "string \<Rightarrow> string" where
  "filepath_Base p =
     (let q = trim_right_slash p
      in if q = [] then ''/'' else last (split_char (CHR ''/'') q))"

definition upload_filename :: "string \<Rightarrow> string" where
  "upload_filename originalFilename =
     (let o1 = trim_space originalFilename;
          o2 = (if o1 = [] then ''firmware.bin'' else o1);
          o3 = filepath_Base o2
      in if length o3 > 255 then take 255 o3 else o3)"

text \<open>The configuration of the service.\<close>

record fw_config =
  fc_maxUploadBytes :: int
  fc_storageProvider :: string

definition fw_New :: "int \<Rightarrow> string \<Rightarrow> fw_config" where
  "fw_New maxUploadBytes storageProvider =
     \<lparr>fc_maxUploadBytes = (if maxUploadBytes \<le> 0 then 67108864 else maxUploadBytes),
      fc_storageProvider = (if storageProvider = [] then ''local'' else storageProvider)\<rparr>"

definition UploadFirmware ::
    "('s \<Rightarrow> string \<Rightarrow> byte list \<Rightarrow> 's \<times> (err + int)) \<Rightarrow> ('s \<Rightarrow> string \<Rightarrow> 's \<times> (err + unit))
     \<Rightarrow> semver_parser \<Rightarrow> fw_config \<Rightarrow> env \<Rightarrow> uuid \<Rightarrow> uuid \<Rightarrow> string \<Rightarrow> string \<Rightarrow> string \<Rightarrow> uuid list \<Rightarrow> byte list
     \<Rightarrow> db \<times> 's \<Rightarrow> (db \<times> 's) \<times> (err + firmware_detail)" where
  "UploadFirmware put del semver cfg env actor projectID version0 changelog originalFilename deviceTypeIDs body dbs =
     (let (db, st) = dbs in
      case AuthorizeProject db projectID actor FirmwareUpload of
        Inl e \<Rightarrow> (dbs, Inl e)
      | Inr _ \<Rightarrow>
     (case fw_ensureProjectNotArchived db projectID of
        Inl e \<Rightarrow> (dbs, Inl e)
      | Inr _ \<Rightarrow>
     (let version = trim_space version0 in
      if version = [] then (dbs, Inl (BadRequest ''version is required'' JNull))
      else if length version > 128 then (dbs, Inl (BadRequest ''version is too long'' JNull))
      else if rune_count changelog > maxChangelogRunes then (dbs, Inl (BadRequest ''changelog is too long'' JNull))
      else if deviceTypeIDs = [] then (dbs, Inl (BadRequest ''at least one device_type_id is required'' JNull))
      else case dedup_type_ids [] deviceTypeIDs of
        Inl e \<Rightarrow> (dbs, Inl e)
      | Inr dedup \<Rightarrow>
     (case validateDeviceTypesForProject db projectID dedup of
        Inl e \<Rightarrow> (dbs, Inl e)
      | Inr _ \<Rightarrow>
     (let vNorm = normalizeVersion version;
          exists_err = Conflict ''firmware_version_exists'' ''this firmware version already exists in the project''
                         (JObj [(''version'', JStr version)])
      in if FirmwareVersionExists db projectID vNorm then (dbs, Inl exists_err)
      else
     (let fwID = env_uuid env 0; storageKey = FirmwareStorageKey projectID fwID
      in case writeLimitedTemp body (fc_maxUploadBytes cfg) of
        None \<Rightarrow> (dbs, Inl (BadRequest ''firmware file exceeds maximum upload size''
                          (JObj [(''max_bytes'', JInt (fc_maxUploadBytes cfg))])))
      | Some content \<Rightarrow>
     (case put st storageKey content of
        (st1, Inl e) \<Rightarrow> ((db, fst (del st1 storageKey)), Inl e)
      | (st1, Inr n) \<Rightarrow>
          if n = 0 then ((db, fst (del st1 storageKey)), Inl (BadRequest ''empty firmware file'' JNull))
          else
     (let (mj, mn, pt, pre) = parseSemverParts semver version;
          fw = \<lparr>fw_ID = fwID, fw_ProjectID = projectID, fw_Version = version, fw_VersionNormalized = vNorm,
                fw_Changelog = changelog, fw_FileSizeBytes = n, fw_ChecksumSHA256 = sha256Hex content,
                fw_OriginalFilename = upload_filename originalFilename,
                fw_StorageProvider = fc_storageProvider cfg, fw_StorageKey = storageKey,
                fw_SemverMajor = mj, fw_SemverMinor = mn, fw_SemverPatch = pt, fw_SemverPrerelease = pre,
                fw_UploadedByUserID = actor, fw_CreatedAt = env_now env, fw_UpdatedAt = env_now env,
                fw_DeletedAt = None\<rparr>
      in case CreateFirmwareWithTypes env fw dedup db of
        Inl e \<Rightarrow> ((db, fst (del st1 storageKey)), Inl (if isUniqueViolation e then exists_err else e))
      | Inr db1 \<Rightarrow>
          (let db2 = fw_audit env 1 actor ''firmware_uploaded'' projectID
                 [(''firmware_id'', JUuid fwID), (''version'', JStr version),
                  (''checksum_sha256'', JStr (fw_ChecksumSHA256 fw)), (''file_size_bytes'', JInt n),
                  (''device_type_count'', JInt (int (length dedup)))] db1
           in ((db2, st1), GetFirmware db2 actor projectID fwID))))))))))"

subsection \<open>Download and deletion\<close>

definition OpenFirmwareBinary ::
    "('s \<Rightarrow> string \<Rightarrow> err + byte list) \<Rightarrow> env \<Rightarrow> uuid \<Rightarrow> uuid \<Rightarrow> uuid \<Rightarrow> db \<times> 's
     \<Rightarrow> (db \<times> 's) \<times> (err + byte list \<times> firmware)" where
  "OpenFirmwareBinary get env actor projectID firmwareID dbs =
     (let (db, st) = dbs in
      case AuthorizeProject db projectID actor FirmwareRead of
        Inl e \<Rightarrow> (dbs, Inl e)
      | Inr _ \<Rightarrow>
     (case repo_GetFirmware db projectID firmwareID of
        Inl e \<Rightarrow> (dbs, Inl (if e = ErrRecordNotFound then NotFound ''firmware not found'' else e))
      | Inr fw \<Rightarrow>
     (case get st (fw_StorageKey fw) of
        Inl _ \<Rightarrow> (dbs, Inl (app_new ''firmware_storage_unavailable'' ''firmware binary could not be read'' 500 JNull))
      | Inr content \<Rightarrow>
          ((fw_audit env 0 actor ''firmware_downloaded'' projectID
              [(''firmware_id'', JUuid (fw_ID fw)), (''version'', JStr (fw_Version fw)),
               (''checksum_sha256'', JStr (fw_ChecksumSHA256 fw))] db, st), Inr (content, fw)))))"

definition DeleteFirmware ::
    "('s \<Rightarrow> string \<Rightarrow> 's \<times> (err + unit)) \<Rightarrow> env \<Rightarrow> uuid \<Rightarrow> uuid \<Rightarrow> uuid \<Rightarrow> db \<times> 's \<Rightarrow> (db \<times> 's) \<times> (err + unit)" where
  "DeleteFirmware del env actor projectID firmwareID dbs =
     (let (db, st) = dbs in
      case AuthorizeProject db projectID actor FirmwareUpload of
        Inl e \<Rightarrow> (dbs, Inl e)
      | Inr _ \<Rightarrow>
     (case fw_ensureProjectNotArchived db projectID of
        Inl e \<Rightarrow> (dbs, Inl e)
      | Inr _ \<Rightarrow>
     (case SoftDeleteFirmwareAndReturnKey env projectID firmwareID db of
        Inl e \<Rightarrow> (dbs, Inl (if e = ErrRecordNotFound then NotFound ''firmware not found'' else e))
      | Inr (db1, key) \<Rightarrow>
          ((fw_audit env 0 actor ''firmware_deleted'' projectID [(''firmware_id'', JUuid firmwareID)] db1,
            fst (del st key)), Inr ()))))"

subsection \<open>OTA downloads (ota_download.go)\<close>

definition invalid_ota_token :: err where
  "invalid_ota_token = app_new ''invalid_ota_token'' ''invalid or expired download token'' 401 JNull"

text \<open>\<open>secret\<close> is the 32 random bytes.\<close>

definition IssueOtaDownloadToken ::
    "env \<Rightarrow> nat \<Rightarrow> byte list \<Rightarrow> uuid \<Rightarrow> uuid \<Rightarrow> uuid \<Rightarrow> uuid \<Rightarrow> duration \<Rightarrow> db \<Rightarrow> db \<times> (err + string \<times> time)" where
  "IssueOtaDownloadToken env k secret projectID deviceID campaignID firmwareID ttl0 db =
     (let ttl = (if ttl0 \<le> 0 then 15 * time_Minute else ttl0)
      in case repo_GetFirmware db projectID firmwareID of
        Inl e \<Rightarrow> (db, Inl (if e = ErrRecordNotFound then NotFound ''firmware not found'' else e))
      | Inr _ \<Rightarrow>
     (let rawToken = hex_encode secret;
          expiresAt = env_now env + ttl;
          row = \<lparr>ota_ID = env_uuid env k, ota_TokenHash = HashToken rawToken, ota_ProjectID = projectID,
                 ota_DeviceID = deviceID, ota_CampaignID = campaignID, ota_FirmwareID = firmwareID,
                 ota_ExpiresAt = expiresAt, ota_ConsumedAt = None, ota_CreatedAt = env_now env\<rparr>
      in case InsertOtaDownloadToken row db of
           Inl e \<Rightarrow> (db, Inl e)
         | Inr db1 \<Rightarrow> (db1, Inr (rawToken, expiresAt))))"

definition is_hex_code :: "nat \<Rightarrow> bool" where
  "is_hex_code c \<longleftrightarrow> (48 \<le> c \<and> c \<le> 57) \<or> (97 \<le> c \<and> c \<le> 102) \<or> (65 \<le> c \<and> c \<le> 70)"

definition OpenFirmwareWithOtaDownloadToken ::
    "('s \<Rightarrow> string \<Rightarrow> err + byte list) \<Rightarrow> env \<Rightarrow> string \<Rightarrow> db \<times> 's \<Rightarrow> (db \<times> 's) \<times> (err + byte list \<times> firmware)" where
  "OpenFirmwareWithOtaDownloadToken get env rawToken dbs =
     (let (db, st) = dbs in
      if length rawToken \<noteq> 64 then (dbs, Inl invalid_ota_token)
      else if \<not> (\<forall>c \<in> set (codes rawToken). is_hex_code c) then (dbs, Inl invalid_ota_token)
      else case ConsumeOtaDownloadTokenTx (HashToken rawToken) (env_now env) db of
        Inl e \<Rightarrow>
          (dbs, Inl (if e \<in> {ErrOtaTokenNotFound, ErrOtaTokenExpired, ErrOtaTokenConsumed, ErrOtaDeviceBlocked}
                     then invalid_ota_token else e))
      | Inr (db1, row) \<Rightarrow>
     (case repo_GetFirmware db1 (ota_ProjectID row) (ota_FirmwareID row) of
        Inl e \<Rightarrow> ((db1, st), Inl (if e = ErrRecordNotFound then invalid_ota_token else e))
      | Inr fw \<Rightarrow>
          if fw_DeletedAt fw \<noteq> None then ((db1, st), Inl invalid_ota_token)
          else (case get st (fw_StorageKey fw) of
             Inl _ \<Rightarrow> ((db1, st), Inl (app_new ''firmware_storage_unavailable'' ''firmware binary could not be read'' 500 JNull))
           | Inr content \<Rightarrow> ((db1, st), Inr (content, fw)))))"

end
