(* ===== verification/Campaign.thy ===== *)
theory Campaign
  imports Firmware
begin

section \<open>Campaigns (domain/campaign)\<close>

text \<open>
  The campaign state machine (\<open>model/state.go\<close>), the selection of devices
  (\<open>service/selection.go\<close>), the repository, the service (\<open>service/service.go\<close>), the device
  reports (\<open>service/ota_report.go\<close>) and the activation of due campaigns by the scheduler.
\<close>

subsection \<open>States (model/state.go)\<close>

definition StatusDraft :: string where "StatusDraft = ''draft''"
definition StatusScheduled :: string where "StatusScheduled = ''scheduled''"
definition StatusActive :: string where "StatusActive = ''active''"
definition StatusPaused :: string where "StatusPaused = ''paused''"
definition StatusCancelled :: string where "StatusCancelled = ''cancelled''"
definition StatusCompleted :: string where "StatusCompleted = ''completed''"

definition RolloutKindImmediate :: string where "RolloutKindImmediate = ''immediate''"
definition RolloutKindTimeScheduled :: string where "RolloutKindTimeScheduled = ''time_scheduled''"
definition RolloutKindPercentage :: string where "RolloutKindPercentage = ''percentage''"

definition AssignmentPending :: string where "AssignmentPending = ''pending''"
definition AssignmentOffered :: string where "AssignmentOffered = ''offered''"
definition AssignmentDownloaded :: string where "AssignmentDownloaded = ''downloaded''"
definition AssignmentInstalled :: string where "AssignmentInstalled = ''installed''"
definition AssignmentFailed :: string where "AssignmentFailed = ''failed''"

lemmas status_defs = StatusDraft_def StatusScheduled_def StatusActive_def StatusPaused_def
  StatusCancelled_def StatusCompleted_def
lemmas rollout_defs = RolloutKindImmediate_def RolloutKindTimeScheduled_def RolloutKindPercentage_def
lemmas assignment_defs = AssignmentPending_def AssignmentOffered_def AssignmentDownloaded_def
  AssignmentInstalled_def AssignmentFailed_def

definition TerminalAssignment :: "string \<Rightarrow> bool" where
  "TerminalAssignment status \<longleftrightarrow> status = AssignmentInstalled \<or> status = AssignmentFailed"

definition CanTransition :: "string \<Rightarrow> string \<Rightarrow> bool" where
  "CanTransition frm to =
     (if frm = to then True
      else if frm = StatusDraft then to = StatusScheduled \<or> to = StatusActive \<or> to = StatusCancelled
      else if frm = StatusScheduled then to = StatusActive \<or> to = StatusCancelled
      else if frm = StatusActive then to = StatusPaused \<or> to = StatusCancelled \<or> to = StatusCompleted
      else if frm = StatusPaused then to = StatusActive \<or> to = StatusCancelled
      else False)"

definition IsBlockingProjectDelete :: "string \<Rightarrow> bool" where
  "IsBlockingProjectDelete status \<longleftrightarrow> status \<noteq> StatusCompleted \<and> status \<noteq> StatusCancelled"

subsection \<open>Selection (service/selection.go)\<close>

definition sortUUIDs :: "uuid list \<Rightarrow> uuid list" where
  "sortUUIDs ids = sort ids"

text \<open>The code computes with non-negative \<open>int\<close>s; \<open>div\<close> is its division there.\<close>

definition takeStablePercentage :: "uuid list \<Rightarrow> int \<Rightarrow> uuid list" where
  "takeStablePercentage sortedUUIDs percent0 =
     (if sortedUUIDs = [] then []
      else
        (let p1 = (if percent0 < 1 then 1 else percent0);
             percent = (if p1 > 100 then 100 else p1);
             n = int (length sortedUUIDs);
             k0 = (n * percent + 99) div 100;
             k1 = (if k0 < 1 then 1 else k0);
             k = (if k1 > n then n else k1)
         in take (nat k) sortedUUIDs))"

subsection \<open>Repository (repository/repository.go, ota_report.go)\<close>

definition camp_conflict :: "campaign \<Rightarrow> campaign \<Rightarrow> bool" where
  "camp_conflict x r \<longleftrightarrow> camp_ID x = camp_ID r"

definition tg_conflict :: "target_group \<Rightarrow> target_group \<Rightarrow> bool" where
  "tg_conflict x r \<longleftrightarrow> tg_CampaignID x = tg_CampaignID r \<and> tg_DeviceGroupID x = tg_DeviceGroupID r"

definition td_conflict :: "target_device \<Rightarrow> target_device \<Rightarrow> bool" where
  "td_conflict x r \<longleftrightarrow> td_CampaignID x = td_CampaignID r \<and> td_DeviceID x = td_DeviceID r"

definition asg_conflict :: "assignment \<Rightarrow> assignment \<Rightarrow> bool" where
  "asg_conflict x r \<longleftrightarrow> asg_CampaignID x = asg_CampaignID r \<and> asg_DeviceID x = asg_DeviceID r"

definition new_assignment :: "env \<Rightarrow> uuid \<Rightarrow> uuid \<Rightarrow> assignment" where
  "new_assignment env campaignID did =
     \<lparr>asg_CampaignID = campaignID, asg_DeviceID = did, asg_Status = AssignmentPending,
      asg_LastReportCode = None, asg_LastReportMsg = [], asg_CreatedAt = env_now env, asg_UpdatedAt = env_now env\<rparr>"

text \<open>One transaction. The assignments are inserted in batches of 200, in order: together, the
  insertion of all of them.\<close>

definition CreateCampaignBundle :: "env \<Rightarrow> campaign \<Rightarrow> uuid list \<Rightarrow> uuid list \<Rightarrow> uuid list \<Rightarrow> db \<Rightarrow> err + db" where
  "CreateCampaignBundle env c groupIDs deviceIDs assignmentDeviceIDs db =
     (case insert_row camp_conflict c (db_campaigns db) of
        Inl e \<Rightarrow> Inl e
      | Inr cs \<Rightarrow>
     (case insert_rows tg_conflict
             (map (\<lambda>g. \<lparr>tg_CampaignID = camp_ID c, tg_DeviceGroupID = g, tg_CreatedAt = env_now env\<rparr>) groupIDs)
             (db_target_groups db) of
        Inl e \<Rightarrow> Inl e
      | Inr gs \<Rightarrow>
     (case insert_rows td_conflict
             (map (\<lambda>d. \<lparr>td_CampaignID = camp_ID c, td_DeviceID = d, td_CreatedAt = env_now env\<rparr>) deviceIDs)
             (db_target_devices db) of
        Inl e \<Rightarrow> Inl e
      | Inr ds \<Rightarrow>
     (case insert_rows asg_conflict (map (new_assignment env (camp_ID c)) assignmentDeviceIDs) (db_assignments db) of
        Inl e \<Rightarrow> Inl e
      | Inr as \<Rightarrow>
          Inr (db\<lparr>db_campaigns := cs, db_target_groups := gs, db_target_devices := ds, db_assignments := as\<rparr>)))))"

definition live_campaign :: "uuid \<Rightarrow> uuid \<Rightarrow> campaign \<Rightarrow> bool" where
  "live_campaign projectID campaignID c \<longleftrightarrow>
     camp_ProjectID c = projectID \<and> camp_ID c = campaignID \<and> camp_DeletedAt c = None"

definition repo_GetCampaign :: "db \<Rightarrow> uuid \<Rightarrow> uuid \<Rightarrow> err + campaign" where
  "repo_GetCampaign db projectID campaignID =
     (case first_by camp_ID (live_campaign projectID campaignID) (db_campaigns db) of
        None \<Rightarrow> Inl ErrRecordNotFound
      | Some c \<Rightarrow> Inr c)"

definition repo_ListCampaigns :: "db \<Rightarrow> uuid \<Rightarrow> int \<Rightarrow> int \<Rightarrow> campaign list \<times> int" where
  "repo_ListCampaigns db projectID page pageSize =
     (let q = filter (\<lambda>c. camp_ProjectID c = projectID \<and> camp_DeletedAt c = None) (db_campaigns db)
      in (page_of (page_offset page pageSize) pageSize (rev (sort_key (\<lambda>c. (camp_CreatedAt c, camp_ID c)) q)),
          int (length q)))"

text \<open>The guarded update every status change is an instance of: the rows of the campaign whose
  status is in \<open>expectFrom\<close>; no such row is \<open>gorm.ErrRecordNotFound\<close>.\<close>

definition move_campaign :: "env \<Rightarrow> uuid \<Rightarrow> uuid \<Rightarrow> string list \<Rightarrow> (campaign \<Rightarrow> campaign) \<Rightarrow> db \<Rightarrow> err + db" where
  "move_campaign env projectID campaignID expectFrom patch db =
     (let P = (\<lambda>c. live_campaign projectID campaignID c \<and> camp_Status c \<in> set expectFrom)
      in if count_where P (db_campaigns db) = 0 then Inl ErrRecordNotFound
         else Inr (db\<lparr>db_campaigns := update_where P (\<lambda>c. (patch c)\<lparr>camp_UpdatedAt := env_now env\<rparr>)
                       (db_campaigns db)\<rparr>))"

definition TransitionCampaignStatus ::
    "env \<Rightarrow> uuid \<Rightarrow> uuid \<Rightarrow> string \<Rightarrow> string \<Rightarrow> (campaign \<Rightarrow> campaign) \<Rightarrow> db \<Rightarrow> err + db" where
  "TransitionCampaignStatus env projectID campaignID expectFrom to patch db =
     move_campaign env projectID campaignID [expectFrom] (\<lambda>c. (patch c)\<lparr>camp_Status := to\<rparr>) db"

definition MarkCampaignCompleted :: "env \<Rightarrow> uuid \<Rightarrow> uuid \<Rightarrow> db \<Rightarrow> err + db" where
  "MarkCampaignCompleted env projectID campaignID db =
     move_campaign env projectID campaignID [StatusActive]
       (\<lambda>c. c\<lparr>camp_Status := StatusCompleted, camp_CompletedAt := Some (env_now env)\<rparr>) db"

definition repo_PauseCampaign :: "env \<Rightarrow> uuid \<Rightarrow> uuid \<Rightarrow> db \<Rightarrow> err + db" where
  "repo_PauseCampaign env projectID campaignID db =
     move_campaign env projectID campaignID [StatusActive]
       (\<lambda>c. c\<lparr>camp_Status := StatusPaused, camp_PausedAt := Some (env_now env)\<rparr>) db"

definition repo_ResumeCampaign :: "env \<Rightarrow> uuid \<Rightarrow> uuid \<Rightarrow> db \<Rightarrow> err + db" where
  "repo_ResumeCampaign env projectID campaignID db =
     move_campaign env projectID campaignID [StatusPaused]
       (\<lambda>c. c\<lparr>camp_Status := StatusActive, camp_PausedAt := None\<rparr>) db"

definition repo_CancelCampaign :: "env \<Rightarrow> uuid \<Rightarrow> uuid \<Rightarrow> db \<Rightarrow> err + db" where
  "repo_CancelCampaign env projectID campaignID db =
     move_campaign env projectID campaignID [StatusDraft, StatusScheduled, StatusActive, StatusPaused]
       (\<lambda>c. c\<lparr>camp_Status := StatusCancelled, camp_CancelledAt := Some (env_now env)\<rparr>) db"

definition CountAssignmentsByStatus :: "db \<Rightarrow> uuid \<Rightarrow> string \<Rightarrow> int" where
  "CountAssignmentsByStatus db campaignID status =
     count_where (\<lambda>a. asg_CampaignID a = campaignID \<and> asg_Status a = status) (db_assignments db)"

definition CountAssignments :: "db \<Rightarrow> uuid \<Rightarrow> int" where
  "CountAssignments db campaignID = count_where (\<lambda>a. asg_CampaignID a = campaignID) (db_assignments db)"

definition CountNonTerminalAssignments :: "db \<Rightarrow> uuid \<Rightarrow> int" where
  "CountNonTerminalAssignments db campaignID =
     count_where (\<lambda>a. asg_CampaignID a = campaignID \<and> asg_Status a \<notin> {AssignmentInstalled, AssignmentFailed})
       (db_assignments db)"

text \<open>The guarded update of one assignment; \<open>None\<close> for no condition on the status.\<close>

definition asg_of :: "uuid \<Rightarrow> uuid \<Rightarrow> assignment \<Rightarrow> bool" where
  "asg_of campaignID deviceID a \<longleftrightarrow> asg_CampaignID a = campaignID \<and> asg_DeviceID a = deviceID"

definition UpdateAssignmentStatus :: "env \<Rightarrow> uuid \<Rightarrow> uuid \<Rightarrow> string \<Rightarrow> string \<Rightarrow> db \<Rightarrow> err + db" where
  "UpdateAssignmentStatus env campaignID deviceID expectFrom to db =
     (let P = (\<lambda>a. asg_of campaignID deviceID a \<and> asg_Status a = expectFrom)
      in if count_where P (db_assignments db) = 0 then Inl ErrRecordNotFound
         else Inr (db\<lparr>db_assignments := update_where P
                (\<lambda>a. a\<lparr>asg_Status := to, asg_UpdatedAt := env_now env\<rparr>) (db_assignments db)\<rparr>))"

definition SetAssignmentStatus :: "env \<Rightarrow> uuid \<Rightarrow> uuid \<Rightarrow> string \<Rightarrow> db \<Rightarrow> err + db" where
  "SetAssignmentStatus env campaignID deviceID to db =
     (let P = asg_of campaignID deviceID
      in if count_where P (db_assignments db) = 0 then Inl ErrRecordNotFound
         else Inr (db\<lparr>db_assignments := update_where P
                (\<lambda>a. a\<lparr>asg_Status := to, asg_UpdatedAt := env_now env\<rparr>) (db_assignments db)\<rparr>))"

text \<open>The join of a device's assignments with their campaigns and firmwares. The rows of a query
  on it are ordered by a key that is unique in it.\<close>

type_synonym offer_join = "assignment \<times> campaign \<times> firmware"

definition offer_rows :: "db \<Rightarrow> uuid \<Rightarrow> uuid \<Rightarrow> string list \<Rightarrow> offer_join list" where
  "offer_rows db projectID deviceID statuses =
     [(a, c, f).
        a \<leftarrow> db_assignments db, asg_DeviceID a = deviceID \<and> asg_Status a \<in> set statuses,
        c \<leftarrow> db_campaigns db, camp_ID c = asg_CampaignID a \<and> camp_DeletedAt c = None
           \<and> camp_ProjectID c = projectID \<and> camp_Status c = StatusActive,
        f \<leftarrow> db_firmwares db, fw_ID f = camp_FirmwareID c \<and> fw_DeletedAt f = None]"

record offer_row =
  of_CampaignID :: uuid
  of_FirmwareID :: uuid
  of_FirmwareVersion :: string
  of_ChecksumSHA256 :: string
  of_AssignmentStatus :: string

text \<open>A row with the zero campaign id is taken for no row.\<close>

definition FindActivePendingOffer :: "db \<Rightarrow> uuid \<Rightarrow> uuid \<Rightarrow> offer_row option" where
  "FindActivePendingOffer db projectID deviceID =
     (case first_by (\<lambda>(a, c, f). (if asg_Status a = AssignmentPending then 0 else 1::nat, camp_CreatedAt c, camp_ID c))
             (\<lambda>_. True) (offer_rows db projectID deviceID [AssignmentPending, AssignmentOffered]) of
        None \<Rightarrow> None
      | Some (a, c, f) \<Rightarrow>
          if camp_ID c = uuid_Nil then None
          else Some \<lparr>of_CampaignID = camp_ID c, of_FirmwareID = fw_ID f, of_FirmwareVersion = fw_Version f,
                     of_ChecksumSHA256 = fw_ChecksumSHA256 f, of_AssignmentStatus = asg_Status a\<rparr>)"

definition ActivateDueScheduledCampaigns :: "env \<Rightarrow> db \<Rightarrow> db \<times> uuid list" where
  "ActivateDueScheduledCampaigns env db =
     (let now = env_now env;
          ids = map camp_ID (filter (\<lambda>c. camp_Status c = StatusScheduled \<and> camp_DeletedAt c = None
                  \<and> (case camp_ScheduledStartAt c of None \<Rightarrow> False | Some t \<Rightarrow> t \<le> now)) (db_campaigns db))
      in if ids = [] then (db, [])
         else (db\<lparr>db_campaigns := update_where
                 (\<lambda>c. camp_ID c \<in> set ids \<and> camp_Status c = StatusScheduled \<and> camp_DeletedAt c = None)
                 (\<lambda>c. c\<lparr>camp_Status := StatusActive, camp_ActivatedAt := Some now, camp_UpdatedAt := now\<rparr>)
                 (db_campaigns db)\<rparr>, ids))"

definition GetDeviceAssignment :: "db \<Rightarrow> uuid \<Rightarrow> uuid \<Rightarrow> err + assignment" where
  "GetDeviceAssignment db campaignID deviceID =
     (case first_by asg_CampaignID (asg_of campaignID deviceID) (db_assignments db) of
        None \<Rightarrow> Inl ErrRecordNotFound
      | Some a \<Rightarrow> Inr a)"

definition isCampaignActiveInProject :: "db \<Rightarrow> uuid \<Rightarrow> uuid \<Rightarrow> bool" where
  "isCampaignActiveInProject db projectID campaignID \<longleftrightarrow>
     count_where (\<lambda>c. live_campaign projectID campaignID c \<and> camp_Status c = StatusActive) (db_campaigns db) > 0"

definition applyAssignmentStatus ::
    "env \<Rightarrow> uuid \<Rightarrow> uuid \<Rightarrow> uuid \<Rightarrow> string list \<Rightarrow> string \<Rightarrow> 16 word option \<Rightarrow> string \<Rightarrow> db \<Rightarrow> db \<times> int" where
  "applyAssignmentStatus env projectID campaignID deviceID fromStatuses to reportCode reportMsg db =
     (if \<not> isCampaignActiveInProject db projectID campaignID then (db, 0)
      else
        (let P = (\<lambda>a. asg_of campaignID deviceID a \<and> asg_Status a \<in> set fromStatuses)
         in (db\<lparr>db_assignments := update_where P
                (\<lambda>a. a\<lparr>asg_Status := to, asg_UpdatedAt := env_now env, asg_LastReportCode := reportCode,
                      asg_LastReportMsg := reportMsg\<rparr>) (db_assignments db)\<rparr>,
             count_where P (db_assignments db))))"

definition ApplyOtaDownloaded :: "env \<Rightarrow> uuid \<Rightarrow> uuid \<Rightarrow> uuid \<Rightarrow> db \<Rightarrow> db \<times> int" where
  "ApplyOtaDownloaded env projectID campaignID deviceID db =
     applyAssignmentStatus env projectID campaignID deviceID [AssignmentOffered, AssignmentDownloaded]
       AssignmentDownloaded None [] db"

definition ApplyOtaInstalled :: "env \<Rightarrow> uuid \<Rightarrow> uuid \<Rightarrow> uuid \<Rightarrow> db \<Rightarrow> db \<times> int" where
  "ApplyOtaInstalled env projectID campaignID deviceID db =
     applyAssignmentStatus env projectID campaignID deviceID
       [AssignmentOffered, AssignmentDownloaded, AssignmentInstalled] AssignmentInstalled None [] db"

definition ApplyOtaFailed :: "env \<Rightarrow> uuid \<Rightarrow> uuid \<Rightarrow> uuid \<Rightarrow> 16 word option \<Rightarrow> string \<Rightarrow> db \<Rightarrow> db \<times> int" where
  "ApplyOtaFailed env projectID campaignID deviceID reportCode reportMsg db =
     applyAssignmentStatus env projectID campaignID deviceID
       [AssignmentPending, AssignmentOffered, AssignmentDownloaded, AssignmentFailed] AssignmentFailed
       reportCode reportMsg db"

subsection \<open>Service (service/service.go)\<close>

definition camp_ensureProjectNotArchived :: "db \<Rightarrow> uuid \<Rightarrow> err + unit" where
  "camp_ensureProjectNotArchived db projectID =
     (case GetProject db projectID of
        Inl e \<Rightarrow> if e = ErrRecordNotFound then Inl (NotFound ''project not found'') else Inl e
      | Inr p \<Rightarrow> if proj_ArchivedAt p \<noteq> None
                then Inl (app_new ''project_archived'' ''project is archived'' 409 JNull)
                else Inr ())"

definition camp_audit :: "env \<Rightarrow> nat \<Rightarrow> uuid \<Rightarrow> string \<Rightarrow> uuid \<Rightarrow> (string \<times> jval) list \<Rightarrow> db \<Rightarrow> db" where
  "camp_audit env k actor event projectID metadata db =
     append_audit env k (Some actor) event ''project'' projectID (JObj metadata) db"

record campaign_input =
  ci_Name :: string
  ci_FirmwareID :: uuid
  ci_RolloutKind :: string
  ci_RolloutPercent :: "int option"
  ci_ScheduledStartAt :: "time option"
  ci_DeviceGroupIDs :: "uuid list"
  ci_ExplicitDeviceIDs :: "uuid list"

record campaign_view =
  cv_ID :: uuid
  cv_Name :: string
  cv_FirmwareID :: uuid
  cv_RolloutKind :: string
  cv_RolloutPercent :: "int option"
  cv_ScheduledStartAt :: "time option"
  cv_Status :: string
  cv_TargetDeviceCount :: int
  cv_ActivatedAt :: "time option"
  cv_PausedAt :: "time option"
  cv_CancelledAt :: "time option"
  cv_CompletedAt :: "time option"
  cv_CreatedByUserID :: uuid
  cv_CreatedAt :: time

text \<open>The percentages are exact here; the code rounds them to \<open>float64\<close>.\<close>

record progress_view =
  pv_TargetCount :: int
  pv_Pending :: int
  pv_Offered :: int
  pv_Downloaded :: int
  pv_Installed :: int
  pv_Failed :: int
  pv_CompletionPercent :: rat
  pv_SuccessPercent :: rat

record poll_offer =
  po_CampaignID :: uuid
  po_FirmwareID :: uuid
  po_Version :: string
  po_ChecksumSHA256 :: string

definition mapCampaign :: "campaign \<Rightarrow> campaign_view" where
  "mapCampaign c =
     \<lparr>cv_ID = camp_ID c, cv_Name = camp_Name c, cv_FirmwareID = camp_FirmwareID c,
      cv_RolloutKind = camp_RolloutKind c, cv_RolloutPercent = camp_RolloutPercent c,
      cv_ScheduledStartAt = camp_ScheduledStartAt c, cv_Status = camp_Status c,
      cv_TargetDeviceCount = camp_TargetDeviceCount c, cv_ActivatedAt = camp_ActivatedAt c,
      cv_PausedAt = camp_PausedAt c, cv_CancelledAt = camp_CancelledAt c, cv_CompletedAt = camp_CompletedAt c,
      cv_CreatedByUserID = camp_CreatedByUserID c, cv_CreatedAt = camp_CreatedAt c\<rparr>"

definition buildProgress :: "db \<Rightarrow> uuid \<Rightarrow> int \<Rightarrow> progress_view" where
  "buildProgress db campaignID target =
     (let cnt = CountAssignmentsByStatus db campaignID;
          inst = cnt AssignmentInstalled; fail = cnt AssignmentFailed
      in \<lparr>pv_TargetCount = target, pv_Pending = cnt AssignmentPending, pv_Offered = cnt AssignmentOffered,
          pv_Downloaded = cnt AssignmentDownloaded, pv_Installed = inst, pv_Failed = fail,
          pv_CompletionPercent = (if target > 0 then of_int (inst + fail) * 100 / of_int target else 0),
          pv_SuccessPercent = (if target > 0 then of_int inst * 100 / of_int target else 0)\<rparr>)"

definition GetCampaignDetail :: "db \<Rightarrow> uuid \<Rightarrow> uuid \<Rightarrow> uuid \<Rightarrow> err + (campaign_view \<times> progress_view)" where
  "GetCampaignDetail db actor projectID campaignID =
     (case AuthorizeProject db projectID actor CampaignRead of
        Inl e \<Rightarrow> Inl e
      | Inr _ \<Rightarrow>
     (case repo_GetCampaign db projectID campaignID of
        Inl e \<Rightarrow> if e = ErrRecordNotFound then Inl (NotFound ''campaign not found'') else Inl e
      | Inr c \<Rightarrow> Inr (mapCampaign c, buildProgress db campaignID (camp_TargetDeviceCount c))))"

definition ListCampaigns :: "db \<Rightarrow> uuid \<Rightarrow> uuid \<Rightarrow> int \<Rightarrow> int \<Rightarrow> err + (campaign_view list \<times> int)" where
  "ListCampaigns db actor projectID page pageSize =
     (case AuthorizeProject db projectID actor CampaignRead of
        Inl e \<Rightarrow> Inl e
      | Inr _ \<Rightarrow> (let (cs, n) = repo_ListCampaigns db projectID page pageSize in Inr (map mapCampaign cs, n)))"

text \<open>The checks on the rollout (the \<open>switch\<close> on its kind).\<close>

definition check_rollout :: "campaign_input \<Rightarrow> err + unit" where
  "check_rollout inp =
     (if ci_RolloutKind inp = RolloutKindImmediate \<or> ci_RolloutKind inp = RolloutKindPercentage
      then (if ci_RolloutKind inp = RolloutKindPercentage
               \<and> (case ci_RolloutPercent inp of None \<Rightarrow> True | Some p \<Rightarrow> p < 1 \<or> p > 100)
            then Inl (BadRequest ''rollout_percent must be between 1 and 100 for percentage rollout'' JNull)
            else Inr ())
      else if ci_RolloutKind inp = RolloutKindTimeScheduled
      then (if ci_ScheduledStartAt inp = None
            then Inl (BadRequest ''scheduled_start_at is required for time_scheduled rollout'' JNull) else Inr ())
      else Inl (BadRequest ''invalid rollout_kind'' JNull))"

fun check_groups :: "db \<Rightarrow> uuid \<Rightarrow> uuid list \<Rightarrow> err + unit" where
  "check_groups db projectID [] = Inr ()"
| "check_groups db projectID (g # gs) =
     (if DeviceGroupExistsInProject db projectID g then check_groups db projectID gs
      else Inl (BadRequest ''unknown device_group_id'' (JObj [(''device_group_id'', JUuid g)])))"

text \<open>The devices the campaign may address: the members of the groups and the explicit devices,
  of the project, of a compatible type, without repetition, in order.\<close>

definition compatible_devices :: "db \<Rightarrow> uuid \<Rightarrow> uuid list \<Rightarrow> campaign_input \<Rightarrow> uuid list" where
  "compatible_devices db projectID allowed inp =
     (let fromGroups = ListDeviceIDsInGroupsForProject db projectID (ci_DeviceGroupIDs inp);
          fromExplicit = ListDeviceIDsExplicitInProject db projectID (ci_ExplicitDeviceIDs inp);
          allIDs = remdups (fromGroups @ fromExplicit)
      in sortUUIDs (FilterDeviceIDsByCompatibleTypes db projectID allIDs allowed))"

definition CreateCampaign ::
    "env \<Rightarrow> uuid \<Rightarrow> uuid \<Rightarrow> campaign_input \<Rightarrow> db \<Rightarrow> db \<times> (err + campaign_view \<times> progress_view)" where
  "CreateCampaign env actor projectID inp db =
     (case AuthorizeProject db projectID actor CampaignCreate of
        Inl e \<Rightarrow> (db, Inl e)
      | Inr _ \<Rightarrow>
     (case camp_ensureProjectNotArchived db projectID of
        Inl e \<Rightarrow> (db, Inl e)
      | Inr _ \<Rightarrow>
     (let name = trim_space (ci_Name inp) in
      if name = [] then (db, Inl (BadRequest ''name is required'' JNull))
      else if ci_FirmwareID inp = uuid_Nil then (db, Inl (BadRequest ''firmware_id is required'' JNull))
      else if ci_DeviceGroupIDs inp = [] \<and> ci_ExplicitDeviceIDs inp = []
      then (db, Inl (BadRequest ''at least one device_group_id or device_id is required'' JNull))
      else case check_rollout inp of
        Inl e \<Rightarrow> (db, Inl e)
      | Inr _ \<Rightarrow>
     (case check_groups db projectID (ci_DeviceGroupIDs inp) of
        Inl e \<Rightarrow> (db, Inl e)
      | Inr _ \<Rightarrow>
     (case repo_GetFirmware db projectID (ci_FirmwareID inp) of
        Inl e \<Rightarrow> (db, Inl (if e = ErrRecordNotFound then NotFound ''firmware not found'' else e))
      | Inr fw \<Rightarrow>
     (let allowed = ListDeviceTypeIDsForFirmware db (fw_ID fw) in
      if allowed = [] then (db, Inl (BadRequest ''firmware has no compatible device types'' JNull))
      else
     (let compatible = compatible_devices db projectID allowed inp in
      if compatible = []
      then (db, Inl (BadRequest ''no compatible devices for this firmware in the selected scope'' JNull))
      else
     (let assignIDs = (if ci_RolloutKind inp = RolloutKindPercentage
                       then takeStablePercentage compatible (the (ci_RolloutPercent inp)) else compatible);
          now = env_now env;
          status = (case ci_ScheduledStartAt inp of
                      Some t \<Rightarrow> if t > now then StatusScheduled else StatusActive
                    | None \<Rightarrow> StatusActive);
          c = \<lparr>camp_ID = env_uuid env 0, camp_ProjectID = projectID, camp_Name = name, camp_FirmwareID = fw_ID fw,
               camp_RolloutKind = ci_RolloutKind inp, camp_RolloutPercent = ci_RolloutPercent inp,
               camp_ScheduledStartAt = ci_ScheduledStartAt inp, camp_Status = status,
               camp_TargetDeviceCount = int (length assignIDs),
               camp_ActivatedAt = (if status = StatusActive then Some now else None),
               camp_PausedAt = None, camp_CancelledAt = None, camp_CompletedAt = None,
               camp_CreatedByUserID = actor, camp_CreatedAt = now, camp_UpdatedAt = now, camp_DeletedAt = None\<rparr>
      in case CreateCampaignBundle env c (ci_DeviceGroupIDs inp) (ci_ExplicitDeviceIDs inp) assignIDs db of
        Inl e \<Rightarrow> (db, Inl e)
      | Inr db1 \<Rightarrow>
          (let db2 = camp_audit env 1 actor ''campaign_created'' projectID
                 [(''campaign_id'', JUuid (camp_ID c)), (''firmware_id'', JUuid (fw_ID fw)),
                  (''rollout'', JStr (ci_RolloutKind inp)), (''targets'', JInt (int (length assignIDs)))] db1
           in (db2, GetCampaignDetail db2 actor projectID (camp_ID c)))))))))))"

text \<open>Pausing, resuming and cancelling differ in their permission, update, message and event.\<close>

definition change_campaign ::
    "string \<Rightarrow> (env \<Rightarrow> uuid \<Rightarrow> uuid \<Rightarrow> db \<Rightarrow> err + db) \<Rightarrow> string \<Rightarrow> string
     \<Rightarrow> env \<Rightarrow> uuid \<Rightarrow> uuid \<Rightarrow> uuid \<Rightarrow> db \<Rightarrow> db \<times> (err + unit)" where
  "change_campaign perm f msg event env actor projectID campaignID db =
     (case AuthorizeProject db projectID actor perm of
        Inl e \<Rightarrow> (db, Inl e)
      | Inr _ \<Rightarrow>
     (case f env projectID campaignID db of
        Inl e \<Rightarrow> (db, Inl (if e = ErrRecordNotFound then BadRequest msg JNull else e))
      | Inr db1 \<Rightarrow>
          (camp_audit env 0 actor event projectID [(''campaign_id'', JUuid campaignID)] db1, Inr ())))"

definition PauseCampaign :: "env \<Rightarrow> uuid \<Rightarrow> uuid \<Rightarrow> uuid \<Rightarrow> db \<Rightarrow> db \<times> (err + unit)" where
  "PauseCampaign = change_campaign CampaignPause repo_PauseCampaign
     ''campaign cannot be paused from its current state'' ''campaign_paused''"

definition ResumeCampaign :: "env \<Rightarrow> uuid \<Rightarrow> uuid \<Rightarrow> uuid \<Rightarrow> db \<Rightarrow> db \<times> (err + unit)" where
  "ResumeCampaign = change_campaign CampaignUpdate repo_ResumeCampaign
     ''campaign cannot be resumed from its current state'' ''campaign_resumed''"

definition CancelCampaign :: "env \<Rightarrow> uuid \<Rightarrow> uuid \<Rightarrow> uuid \<Rightarrow> db \<Rightarrow> db \<times> (err + unit)" where
  "CancelCampaign = change_campaign CampaignCancel repo_CancelCampaign
     ''campaign cannot be cancelled from its current state'' ''campaign_cancelled''"

definition ActivateDueCampaigns :: "env \<Rightarrow> db \<Rightarrow> db \<times> uuid list" where
  "ActivateDueCampaigns env db = ActivateDueScheduledCampaigns env db"

text \<open>The error of \<open>tryAutoComplete\<close> is dropped by every caller, and with it that of
  \<open>MarkCampaignCompleted\<close>.\<close>

definition tryAutoComplete :: "env \<Rightarrow> uuid \<Rightarrow> uuid \<Rightarrow> db \<Rightarrow> db \<times> (err + unit)" where
  "tryAutoComplete env projectID campaignID db =
     (case repo_GetCampaign db projectID campaignID of
        Inl e \<Rightarrow> (db, Inl e)
      | Inr c \<Rightarrow>
          if camp_Status c \<noteq> StatusActive then (db, Inr ())
          else if CountNonTerminalAssignments db campaignID = 0 \<and> camp_TargetDeviceCount c > 0
          then (case MarkCampaignCompleted env projectID campaignID db of
                  Inl _ \<Rightarrow> (db, Inr ())
                | Inr db1 \<Rightarrow> (db1, Inr ()))
          else (db, Inr ()))"

definition BuildPollOffer :: "env \<Rightarrow> uuid \<Rightarrow> uuid \<Rightarrow> db \<Rightarrow> db \<times> (err + poll_offer option)" where
  "BuildPollOffer env projectID deviceID db =
     (case FindActivePendingOffer db projectID deviceID of
        None \<Rightarrow> (db, Inr None)
      | Some row \<Rightarrow>
     (case (if of_AssignmentStatus row = AssignmentPending
            then UpdateAssignmentStatus env (of_CampaignID row) deviceID AssignmentPending AssignmentOffered db
            else Inr db) of
        Inl e \<Rightarrow> (db, Inl e)
      | Inr db1 \<Rightarrow>
          (fst (tryAutoComplete env projectID (of_CampaignID row) db1),
           Inr (Some \<lparr>po_CampaignID = of_CampaignID row, po_FirmwareID = of_FirmwareID row,
                      po_Version = of_FirmwareVersion row, po_ChecksumSHA256 = of_ChecksumSHA256 row\<rparr>))))"

definition OnDeviceReportFirmware :: "env \<Rightarrow> uuid \<Rightarrow> uuid \<Rightarrow> string \<Rightarrow> db \<Rightarrow> db \<times> (err + unit)" where
  "OnDeviceReportFirmware env projectID deviceID reportedVersion db =
     (case first_by (\<lambda>(a, c, f). (camp_CreatedAt c, camp_ID c)) (\<lambda>_. True)
             (offer_rows db projectID deviceID [AssignmentOffered, AssignmentDownloaded]) of
        None \<Rightarrow> (db, Inr ())
      | Some (a, c, f) \<Rightarrow>
          if camp_ID c = uuid_Nil then (db, Inr ())
          else if \<not> equal_fold (trim_space reportedVersion) (trim_space (fw_Version f)) then (db, Inr ())
          else
            (let db1 = (case SetAssignmentStatus env (camp_ID c) deviceID AssignmentInstalled db of
                          Inl _ \<Rightarrow> db | Inr d \<Rightarrow> d)
             in (fst (tryAutoComplete env projectID (camp_ID c) db1), Inr ())))"

subsection \<open>Device reports (service/ota_report.go)\<close>

definition OtaReportDownloaded :: string where "OtaReportDownloaded = ''downloaded''"
definition OtaReportInstalled :: string where "OtaReportInstalled = ''installed''"
definition OtaReportFailed :: string where "OtaReportFailed = ''failed''"

text \<open>The installed branch up to its error or the version of the firmware; the assignment stays
  installed if a later step fails.\<close>

definition apply_installed :: "env \<Rightarrow> uuid \<Rightarrow> uuid \<Rightarrow> uuid \<Rightarrow> db \<Rightarrow> db \<times> (err + string)" where
  "apply_installed env projectID deviceID campaignID db =
     (let (db1, rows) = ApplyOtaInstalled env projectID campaignID deviceID db
      in if rows > 0
         then (case repo_GetCampaign db1 projectID campaignID of
                 Inl e \<Rightarrow> (db1, Inl e)
               | Inr camp \<Rightarrow>
              (case repo_GetFirmware db1 projectID (camp_FirmwareID camp) of
                 Inl e \<Rightarrow> (db1, Inl (if e = ErrRecordNotFound then NotFound ''firmware not found'' else e))
               | Inr fw \<Rightarrow>
                   (let ver = trim_space (fw_Version fw)
                    in case write_step env 1 (\<lambda>d. Inr (UpdateDeviceSeenAndFirmware env projectID deviceID (Some ver)
                               (env_now env) ''online'' d)) db1 of
                         Inl e \<Rightarrow> (db1, Inl e)
                       | Inr db2 \<Rightarrow> (db2, Inr ver))))
         else (db1, Inr []))"

definition ApplyOtaDeviceReport ::
    "env \<Rightarrow> uuid \<Rightarrow> uuid \<Rightarrow> uuid \<Rightarrow> string \<Rightarrow> 16 word option \<Rightarrow> string \<Rightarrow> db \<Rightarrow> db \<times> (err + string)" where
  "ApplyOtaDeviceReport env projectID deviceID campaignID st errCode errMsg db =
     (let m0 = trim_space errMsg;
          msg = (if length m0 > 256 then take 256 m0 else m0)
      in case GetDeviceAssignment db campaignID deviceID of
        Inl e \<Rightarrow> (db, Inl (if e = ErrRecordNotFound then BadRequest ''unknown campaign assignment'' JNull else e))
      | Inr _ \<Rightarrow>
     (case (if st = OtaReportDownloaded
            then (fst (ApplyOtaDownloaded env projectID campaignID deviceID db), Inr [])
            else if st = OtaReportInstalled then apply_installed env projectID deviceID campaignID db
            else if st = OtaReportFailed
            then (fst (ApplyOtaFailed env projectID campaignID deviceID errCode msg db), Inr [])
            else (db, Inl (BadRequest ''invalid ota report status'' JNull))) of
        (db1, Inl e) \<Rightarrow> (db1, Inl e)
      | (db1, Inr ver) \<Rightarrow> (fst (tryAutoComplete env projectID campaignID db1), Inr ver)))"

subsection \<open>The scheduler (service/scheduler.go)\<close>

text \<open>\<open>RunScheduler\<close> as the activations of its ticks, in order; the ticks stop when the context is
  cancelled.\<close>

fun run_scheduler :: "env list \<Rightarrow> db \<Rightarrow> db" where
  "run_scheduler [] db = db"
| "run_scheduler (env # envs) db = run_scheduler envs (fst (ActivateDueCampaigns env db))"

end
