(* ===== verification/DeviceService.thy ===== *)
theory DeviceService
  imports Rbac DeviceRepo
begin

section \<open>Devices (domain/device/service, repository/device_query.go)\<close>

text \<open>
  The device service: device types, registration and tokens, blocking, the device twin, the
  connections of devices, groups, the filtered listing and the bulk operations.
\<close>

definition onlineThreshold :: duration where "onlineThreshold = 5 * time_Minute"

definition dev_ensureProjectNotArchived :: "db \<Rightarrow> uuid \<Rightarrow> err + unit" where
  "dev_ensureProjectNotArchived db projectID =
     (case GetProject db projectID of
        Inl e \<Rightarrow> if e = ErrRecordNotFound then Inl (NotFound ''project not found'') else Inl e
      | Inr p \<Rightarrow> if proj_ArchivedAt p \<noteq> None
                then Inl (app_new ''project_archived'' ''project is archived; unarchive to modify'' 409 JNull)
                else Inr ())"

text \<open>The two checks that open every modifying operation.\<close>

definition guard_device :: "db \<Rightarrow> uuid \<Rightarrow> uuid \<Rightarrow> string \<Rightarrow> err + unit" where
  "guard_device db projectID actor perm =
     (case AuthorizeProject db projectID actor perm of
        Inl e \<Rightarrow> Inl e
      | Inr _ \<Rightarrow> dev_ensureProjectNotArchived db projectID)"

definition dev_audit :: "env \<Rightarrow> nat \<Rightarrow> uuid \<Rightarrow> string \<Rightarrow> uuid \<Rightarrow> (string \<times> jval) list \<Rightarrow> db \<Rightarrow> db" where
  "dev_audit env k actor event projectID metadata db =
     append_audit env k (Some actor) event ''project'' projectID (JObj metadata) db"

definition isOnline :: "time option \<Rightarrow> time \<Rightarrow> bool" where
  "isOnline lastSeenAt now = (case lastSeenAt of None \<Rightarrow> False | Some t \<Rightarrow> \<not> t < now - onlineThreshold)"

subsection \<open>Device types\<close>

record device_type_view =
  dtv_ID :: uuid
  dtv_Name :: string
  dtv_Type :: string
  dtv_ProcessorArchitecture :: string
  dtv_HardwareBoardVersion :: string
  dtv_FlashSizeBytes :: int
  dtv_MemoryNotes :: string

definition mapDeviceTypeView :: "device_type \<Rightarrow> device_type_view" where
  "mapDeviceTypeView dt =
     \<lparr>dtv_ID = dt_ID dt, dtv_Name = dt_Name dt,
      dtv_Type = (if dt_IsPredefined dt then ''system'' else ''custom''),
      dtv_ProcessorArchitecture = dt_ProcessorArchitecture dt,
      dtv_HardwareBoardVersion = dt_HardwareBoardVersion dt, dtv_FlashSizeBytes = dt_FlashSizeBytes dt,
      dtv_MemoryNotes = dt_MemoryNotes dt\<rparr>"

definition ListDeviceTypes :: "db \<Rightarrow> uuid \<Rightarrow> uuid \<Rightarrow> err + device_type_view list" where
  "ListDeviceTypes db actor projectID =
     (case AuthorizeProject db projectID actor DeviceRead of
        Inl e \<Rightarrow> Inl e
      | Inr _ \<Rightarrow> Inr (map mapDeviceTypeView (ListPredefinedDeviceTypes db @ ListCustomDeviceTypes db projectID)))"

definition duplicate_type_name :: err where
  "duplicate_type_name = app_new ''duplicate_device_type_name''
     ''a device type with this name already exists in this project'' 409 JNull"

definition CreateCustomDeviceType ::
    "env \<Rightarrow> uuid \<Rightarrow> uuid \<Rightarrow> string \<Rightarrow> string \<Rightarrow> string \<Rightarrow> int \<Rightarrow> string option \<Rightarrow> db \<Rightarrow> db \<times> (err + device_type_view)" where
  "CreateCustomDeviceType env actor projectID name arch board flash notes db =
     (case guard_device db projectID actor DeviceCreate of
        Inl e \<Rightarrow> (db, Inl e)
      | Inr _ \<Rightarrow>
     (let norm = to_lower (trim_space name)
      in if norm = [] then (db, Inl (BadRequest ''device type name is required'' JNull))
         else if CustomDeviceTypeNameTaken db projectID norm None then (db, Inl duplicate_type_name)
         else case repo_CreateCustomDeviceType env 0 projectID name arch board flash
                     (case notes of None \<Rightarrow> [] | Some m \<Rightarrow> m) db of
            Inl e \<Rightarrow> (db, Inl e)
          | Inr (db1, dt) \<Rightarrow>
              (dev_audit env 1 actor ''device_type.created'' projectID
                 [(''device_type_id'', JUuid (dt_ID dt)), (''name'', JStr name)] db1, Inr (mapDeviceTypeView dt))))"

definition check_custom_type :: "db \<Rightarrow> uuid \<Rightarrow> uuid \<Rightarrow> string \<Rightarrow> err + unit" where
  "check_custom_type db projectID deviceTypeID msg =
     (case GetDeviceType db deviceTypeID of
        Inl e \<Rightarrow> Inl e
      | Inr dt \<Rightarrow> if dt_IsPredefined dt \<or> dt_ProjectID dt \<noteq> Some projectID
                 then Inl (BadRequest msg JNull) else Inr ())"

definition UpdateCustomDeviceType ::
    "env \<Rightarrow> uuid \<Rightarrow> uuid \<Rightarrow> uuid \<Rightarrow> string option \<Rightarrow> string option \<Rightarrow> string option \<Rightarrow> int option \<Rightarrow> string option
     \<Rightarrow> db \<Rightarrow> db \<times> (err + device_type_view)" where
  "UpdateCustomDeviceType env actor projectID deviceTypeID name arch board flash notes db =
     (case guard_device db projectID actor DeviceUpdate of
        Inl e \<Rightarrow> (db, Inl e)
      | Inr _ \<Rightarrow>
     (case check_custom_type db projectID deviceTypeID ''system device types cannot be modified'' of
        Inl e \<Rightarrow> (db, Inl e)
      | Inr _ \<Rightarrow>
          if (case name of None \<Rightarrow> False
              | Some n \<Rightarrow> CustomDeviceTypeNameTaken db projectID (to_lower (trim_space n)) (Some deviceTypeID))
          then (db, Inl duplicate_type_name)
          else case repo_UpdateCustomDeviceType env projectID deviceTypeID name arch board flash notes db of
            Inl e \<Rightarrow> (db, Inl e)
          | Inr (db1, dt) \<Rightarrow>
              (dev_audit env 0 actor ''device_type.updated'' projectID [(''device_type_id'', JUuid deviceTypeID)] db1,
               Inr (mapDeviceTypeView dt))))"

definition DeleteCustomDeviceType :: "env \<Rightarrow> uuid \<Rightarrow> uuid \<Rightarrow> uuid \<Rightarrow> db \<Rightarrow> db \<times> (err + unit)" where
  "DeleteCustomDeviceType env actor projectID deviceTypeID db =
     (case guard_device db projectID actor DeviceUpdate of
        Inl e \<Rightarrow> (db, Inl e)
      | Inr _ \<Rightarrow>
     (case check_custom_type db projectID deviceTypeID ''system device types cannot be deleted'' of
        Inl e \<Rightarrow> (db, Inl e)
      | Inr _ \<Rightarrow>
     (case repo_DeleteCustomDeviceType env projectID deviceTypeID db of
        Inl e \<Rightarrow> (db, Inl (if e = ErrMsg ''device_type_in_use''
                          then app_new ''device_type_in_use''
                            ''cannot delete device type while devices are registered with it'' 409 JNull else e))
      | Inr db1 \<Rightarrow>
          (dev_audit env 0 actor ''device_type.deleted'' projectID [(''device_type_id'', JUuid deviceTypeID)] db1,
           Inr ()))))"

subsection \<open>Devices\<close>

record conn_log_view =
  clv_ID :: uuid
  clv_DeviceID :: uuid
  clv_IP :: string
  clv_UserAgent :: string
  clv_Action :: string
  clv_Endpoint :: string
  clv_At :: time

record device_twin =
  dtw_ID :: uuid
  dtw_Name :: string
  dtw_HardwareIdentifier :: string
  dtw_DeviceType :: device_type_view
  dtw_Blocked :: bool
  dtw_Online :: bool
  dtw_CurrentFirmwareVersion :: string
  dtw_LastSeenAt :: "time option"
  dtw_RecentConnectionLogs :: "conn_log_view list"
  dtw_AuthTokenMetadata :: "(uuid \<times> time option) option"

definition GetDeviceTwin :: "env \<Rightarrow> db \<Rightarrow> uuid \<Rightarrow> uuid \<Rightarrow> uuid \<Rightarrow> err + device_twin" where
  "GetDeviceTwin env db actor projectID deviceID =
     (case AuthorizeProject db projectID actor DeviceRead of
        Inl e \<Rightarrow> Inl e
      | Inr _ \<Rightarrow>
     (case GetDevice db projectID deviceID of
        Inl e \<Rightarrow> Inl e
      | Inr d \<Rightarrow>
     (case GetDeviceType db (dev_DeviceTypeID d) of
        Inl e \<Rightarrow> Inl e
      | Inr dt \<Rightarrow>
          Inr \<lparr>dtw_ID = dev_ID d, dtw_Name = dev_Name d, dtw_HardwareIdentifier = dev_HardwareIdentifier d,
               dtw_DeviceType = mapDeviceTypeView dt, dtw_Blocked = dev_Blocked d,
               dtw_Online = isOnline (dev_LastSeenAt d) (env_now env),
               dtw_CurrentFirmwareVersion = dev_CurrentFirmwareVersion d, dtw_LastSeenAt = dev_LastSeenAt d,
               dtw_RecentConnectionLogs = map (\<lambda>l. \<lparr>clv_ID = log_ID l, clv_DeviceID = log_DeviceID l,
                  clv_IP = log_IP l, clv_UserAgent = log_UserAgent l, clv_Action = log_Action l,
                  clv_Endpoint = log_Endpoint l, clv_At = log_CreatedAt l\<rparr>)
                  (ListRecentDeviceConnectionLogs db projectID deviceID 20),
               dtw_AuthTokenMetadata = (case dev_ActiveAuthTokenID d of None \<Rightarrow> None
                  | Some i \<Rightarrow> Some (i, dev_ActiveAuthTokenIssuedAt d))\<rparr>)))"

definition RegisterDevice ::
    "env \<Rightarrow> uuid \<Rightarrow> uuid \<Rightarrow> uuid \<Rightarrow> string \<Rightarrow> string \<Rightarrow> db \<Rightarrow> db \<times> (err + device_twin \<times> string)" where
  "RegisterDevice env actor projectID deviceTypeID name hardwareIdentifier db =
     (case guard_device db projectID actor DeviceCreate of
        Inl e \<Rightarrow> (db, Inl e)
      | Inr _ \<Rightarrow>
     (case GetDeviceType db deviceTypeID of
        Inl e \<Rightarrow> (db, Inl e)
      | Inr dt \<Rightarrow>
          if \<not> dt_IsPredefined dt \<and> dt_ProjectID dt \<noteq> Some projectID
          then (db, Inl (BadRequest ''device type does not belong to this project'' JNull))
          else
     (let hwNorm = normalizeHardwareIdentifier hardwareIdentifier
      in if hwNorm = [] then (db, Inl (BadRequest ''hardware identifier is required'' JNull))
         else case GetDeviceByHardwareIdentifier db projectID hwNorm of
           Inr _ \<Rightarrow> (db, Inl (app_new ''hardware_id_in_use''
                       ''a device with this hardware identifier already exists in this project'' 409 JNull))
         | Inl e0 \<Rightarrow>
             if e0 \<noteq> ErrRecordNotFound then (db, Inl e0)
             else
               (let rawToken = GenerateSecureToken (env_rand env 0)
                in case CreateDeviceAndAuthTokenTx env 0 projectID deviceTypeID name hardwareIdentifier
                          (HashToken rawToken) (env_now env) (Some actor) db of
                     Inl e \<Rightarrow> (db, Inl e)
                   | Inr (db1, d, _) \<Rightarrow>
                       (let db2 = dev_audit env 2 actor ''device.created'' projectID
                              [(''device_id'', JUuid (dev_ID d)), (''device_type_id'', JUuid deviceTypeID),
                               (''hardware_id_norm'', JStr hwNorm)] db1
                        in (db2, case GetDeviceTwin env db2 actor projectID (dev_ID d) of
                                   Inl e \<Rightarrow> Inl e
                                 | Inr twin \<Rightarrow> Inr (twin, rawToken)))))))"

definition RotateDeviceToken :: "env \<Rightarrow> uuid \<Rightarrow> uuid \<Rightarrow> uuid \<Rightarrow> db \<Rightarrow> db \<times> (err + device_twin \<times> string)" where
  "RotateDeviceToken env actor projectID deviceID db =
     (case guard_device db projectID actor DeviceTokenRotate of
        Inl e \<Rightarrow> (db, Inl e)
      | Inr _ \<Rightarrow>
     (case GetDevice db projectID deviceID of
        Inl e \<Rightarrow> (db, Inl e)
      | Inr _ \<Rightarrow>
     (let rawToken = GenerateSecureToken (env_rand env 0)
      in case RotateDeviceAuthTokenTx env projectID deviceID actor (HashToken rawToken) (env_uuid env 0)
                (env_now env) db of
           Inl e \<Rightarrow> (db, Inl e)
         | Inr (db1, _, _) \<Rightarrow>
             (let db2 = dev_audit env 1 actor ''device.token_rotated'' projectID
                    [(''device_id'', JUuid deviceID), (''token_issued'', JInt (env_now env))] db1
              in (db2, case GetDeviceTwin env db2 actor projectID deviceID of
                         Inl e \<Rightarrow> Inl e
                       | Inr twin \<Rightarrow> Inr (twin, rawToken))))))"

definition setDeviceBlocked :: "env \<Rightarrow> uuid \<Rightarrow> uuid \<Rightarrow> uuid \<Rightarrow> bool \<Rightarrow> db \<Rightarrow> db \<times> (err + unit)" where
  "setDeviceBlocked env actor projectID deviceID blocked db =
     (case guard_device db projectID actor DeviceBlock of
        Inl e \<Rightarrow> (db, Inl e)
      | Inr _ \<Rightarrow>
     (case SetDeviceBlockedTx env 0 projectID deviceID blocked actor db of
        Inl e \<Rightarrow> (db, Inl e)
      | Inr db1 \<Rightarrow>
          (dev_audit env 1 actor (if blocked then ''device.blocked'' else ''device.unblocked'') projectID
             [(''device_id'', JUuid deviceID)] db1, Inr ())))"

definition BlockDevice :: "env \<Rightarrow> uuid \<Rightarrow> uuid \<Rightarrow> uuid \<Rightarrow> db \<Rightarrow> db \<times> (err + unit)" where
  "BlockDevice env actor projectID deviceID db = setDeviceBlocked env actor projectID deviceID True db"

definition UnblockDevice :: "env \<Rightarrow> uuid \<Rightarrow> uuid \<Rightarrow> uuid \<Rightarrow> db \<Rightarrow> db \<times> (err + unit)" where
  "UnblockDevice env actor projectID deviceID db = setDeviceBlocked env actor projectID deviceID False db"

subsection \<open>Connections of devices\<close>

definition recordDeviceConnection ::
    "env \<Rightarrow> nat \<Rightarrow> uuid \<Rightarrow> uuid \<Rightarrow> string \<Rightarrow> string \<Rightarrow> string \<Rightarrow> string \<Rightarrow> string option \<Rightarrow> db \<Rightarrow> db \<times> (err + unit)" where
  "recordDeviceConnection env k projectID deviceID ip userAgent endpoint action firmwareVersion db =
     (case GetDevice db projectID deviceID of
        Inl e \<Rightarrow> (db, Inl e)
      | Inr d \<Rightarrow>
          if dev_Blocked d then (db, Inl (app_new ''device_blocked'' ''device is blocked'' 403 JNull))
          else
            (let now = env_now env;
                 connStatus = (if isOnline (Some now) now then ''online'' else ''offline'');
                 db1 = UpdateDeviceSeenAndFirmware env projectID deviceID firmwareVersion now connStatus db
             in case CreateDeviceConnectionLog
                       \<lparr>log_ID = env_uuid env k, log_ProjectID = projectID, log_DeviceID = deviceID, log_IP = ip,
                        log_UserAgent = userAgent, log_Action = action, log_Endpoint = endpoint,
                        log_CreatedAt = now\<rparr> db1 of
                  Inl e \<Rightarrow> (db1, Inl e)
                | Inr db2 \<Rightarrow> (db2, Inr ())))"

definition DevicePoll :: "env \<Rightarrow> uuid \<Rightarrow> uuid \<Rightarrow> string \<Rightarrow> string \<Rightarrow> string \<Rightarrow> db \<Rightarrow> db \<times> (err + unit)" where
  "DevicePoll env projectID deviceID ip userAgent endpoint db =
     recordDeviceConnection env 0 projectID deviceID ip userAgent endpoint ''poll'' None db"

definition DeviceReport :: "env \<Rightarrow> uuid \<Rightarrow> uuid \<Rightarrow> string \<Rightarrow> string \<Rightarrow> string \<Rightarrow> string \<Rightarrow> db \<Rightarrow> db \<times> (err + unit)" where
  "DeviceReport env projectID deviceID firmwareVersion ip userAgent endpoint db =
     (let fw = trim_space firmwareVersion
      in if fw = [] then (db, Inl (BadRequest ''current_firmware_version is required'' JNull))
         else recordDeviceConnection env 0 projectID deviceID ip userAgent endpoint ''report'' (Some fw) db)"

definition DeviceOtaPoll :: "env \<Rightarrow> uuid \<Rightarrow> uuid \<Rightarrow> string \<Rightarrow> string \<Rightarrow> db \<Rightarrow> db \<times> (err + unit)" where
  "DeviceOtaPoll env projectID deviceID remoteIP endpoint db =
     recordDeviceConnection env 0 projectID deviceID remoteIP [] endpoint ''ota_poll'' None db"

definition DeviceOtaReportTouch ::
    "env \<Rightarrow> uuid \<Rightarrow> uuid \<Rightarrow> string \<Rightarrow> string \<Rightarrow> string option \<Rightarrow> db \<Rightarrow> db \<times> (err + unit)" where
  "DeviceOtaReportTouch env projectID deviceID remoteIP endpoint firmwareVersion db =
     recordDeviceConnection env 0 projectID deviceID remoteIP [] endpoint ''ota_report'' firmwareVersion db"

end
