(* ===== verification/TcpHandler.thy ===== *)
theory TcpHandler
  imports Campaign DeviceService
begin

section \<open>The OTA server over TCP (transport/devotcp/handler.go)\<close>

text \<open>
  \<open>ServeConn\<close> as a function of the bytes the device sends: the bytes the server sends, and
  the database afterwards. A write beyond the size limit of a frame sends nothing, as in the code,
  which drops that error. Between two frames other requests may change the database; they
  are the function that comes with the environment of the next frame.
\<close>

record tcp_handler =
  h_CampaignSvc :: bool
  h_FirmwareSvc :: bool
  h_PublicDownloadBaseURL :: string
  h_TokenTTL :: duration

text \<open>The bytes of \<open>_ = writeFrame(...)\<close>.\<close>

definition sent :: "frame_error + byte list \<Rightarrow> byte list" where
  "sent r = (case r of Inl _ \<Rightarrow> [] | Inr out \<Rightarrow> out)"

definition authenticateDevice :: "db \<Rightarrow> string \<Rightarrow> err + device" where
  "authenticateDevice db rawToken =
     (case GetDeviceByActiveTokenHash db (HashToken rawToken) of
        Inl e \<Rightarrow> Inl e
      | Inr (d, _) \<Rightarrow> Inr d)"

definition mapDeviceAuthErr :: "err \<Rightarrow> 32 word \<times> string" where
  "mapDeviceAuthErr e =
     (if e = ErrRecordNotFound then (ErrCodeUnauthorized, ''unauthorized'')
      else if e = ErrMsg ''device_blocked'' then (ErrCodeBlocked, ''device blocked'')
      else if e = ErrMsg ''device_token_revoked'' then (ErrCodeRevokedOrDisabled, ''token revoked'')
      else if e = ErrMsg ''device_polling_disabled'' then (ErrCodeRevokedOrDisabled, ''polling disabled'')
      else (ErrCodeUnauthorized, ''unauthorized''))"

definition download_path :: string where
  "download_path = ''/api/v1/device/firmware-download?token=''"

definition download_url :: "string \<Rightarrow> string \<Rightarrow> string" where
  "download_url publicBase rawDL =
     (let base = trim_right_slash (trim_space publicBase); path = download_path @ rawDL
      in if base \<noteq> [] then base @ path else path)"

text \<open>UUID 0 of a poll is the connection log's, UUID 1 the download token's.\<close>

definition handlePoll ::
    "tcp_handler \<Rightarrow> env \<Rightarrow> 32 word \<Rightarrow> uuid \<Rightarrow> uuid \<Rightarrow> string \<Rightarrow> byte list \<Rightarrow> db \<Rightarrow> db \<times> byte list" where
  "handlePoll h env reqID projectID deviceID ip payload db =
     (case decodePollPayload payload of
        Inl _ \<Rightarrow> (db, sent (writeErr reqID ErrCodeBadPayload ''invalid poll payload''))
      | Inr _ \<Rightarrow>
     (case DeviceOtaPoll env projectID deviceID ip ''tcp/ota'' db of
        (db1, Inl _) \<Rightarrow> (db1, sent (writeErr reqID ErrCodeInternal ''poll failed''))
      | (db1, Inr _) \<Rightarrow>
          if \<not> h_CampaignSvc h then (db1, sent (writeFrame MsgPollResp reqID [0]))
          else
     (case BuildPollOffer env projectID deviceID db1 of
        (db2, Inl _) \<Rightarrow> (db2, sent (writeErr reqID ErrCodeInternal ''campaign poll failed''))
      | (db2, Inr None) \<Rightarrow> (db2, sent (writeFrame MsgPollResp reqID [0]))
      | (db2, Inr (Some offer)) \<Rightarrow>
          if \<not> h_FirmwareSvc h then (db2, sent (writeFrame MsgPollResp reqID [0]))
          else
     (let ttl = (if h_TokenTTL h \<le> 0 then 15 * time_Minute else h_TokenTTL h)
      in case IssueOtaDownloadToken env 1 (env_rand env 0) projectID deviceID (po_CampaignID offer)
                (po_FirmwareID offer) ttl db2 of
           (db3, Inl _) \<Rightarrow> (db3, sent (writeErr reqID ErrCodeInternal ''token issue failed''))
         | (db3, Inr (rawDL, expiry)) \<Rightarrow>
     (case sha256HexTo32 (po_ChecksumSHA256 offer) of
        Inl _ \<Rightarrow> (db3, sent (writeErr reqID ErrCodeInternal ''bad firmware checksum''))
      | Inr checksum \<Rightarrow>
     (let body = encodePollResponse True (po_Version offer) (download_url (h_PublicDownloadBaseURL h) rawDL) checksum
                   (po_CampaignID offer) (po_FirmwareID offer) (word_of_int (expiry div time_Second))
      in if body = [] then (db3, sent (writeErr reqID ErrCodeInternal ''encode failed''))
         else (db3, sent (writeFrame MsgPollResp reqID body))))))))"

definition report_status :: "byte \<Rightarrow> string option" where
  "report_status st =
     (if st = 1 then Some OtaReportDownloaded else if st = 2 then Some OtaReportInstalled
      else if st = 3 then Some OtaReportFailed else None)"

definition non_empty :: "string \<Rightarrow> string option" where
  "non_empty s = (if s \<noteq> [] then Some s else None)"

definition handleReport ::
    "tcp_handler \<Rightarrow> env \<Rightarrow> 32 word \<Rightarrow> uuid \<Rightarrow> uuid \<Rightarrow> string \<Rightarrow> byte list \<Rightarrow> db \<Rightarrow> db \<times> byte list" where
  "handleReport h env reqID projectID deviceID ip payload db =
     (case decodeReportPayload payload of
        Inl _ \<Rightarrow> (db, sent (writeErr reqID ErrCodeBadPayload ''invalid report payload''))
      | Inr r \<Rightarrow>
     (case report_status (rep_status r) of
        None \<Rightarrow> (db, sent (writeErr reqID ErrCodeBadPayload ''invalid status''))
      | Some st \<Rightarrow>
     (let code = (if rep_errCode r \<noteq> 0 then Some (rep_errCode r) else None)
      in case (if h_CampaignSvc h
               then ApplyOtaDeviceReport env projectID deviceID (rep_campaignID r) st code (rep_errMsg r) db
               else (db, Inr [])) of
           (db1, Inl _) \<Rightarrow> (db1, sent (writeErr reqID ErrCodeInternal ''report apply failed''))
         | (db1, Inr installedVer) \<Rightarrow>
             (let fw = (if h_CampaignSvc h \<and> st = OtaReportInstalled \<and> installedVer \<noteq> [] then Some installedVer
                        else non_empty (rep_currentVer r))
              in case DeviceOtaReportTouch env projectID deviceID ip ''tcp/ota'' fw db1 of
                   (db2, Inl _) \<Rightarrow> (db2, sent (writeErr reqID ErrCodeInternal ''report touch failed''))
                 | (db2, Inr _) \<Rightarrow> (db2, sent (writeFrame MsgReportResp reqID [1]))))))"

subsection \<open>The connection\<close>

text \<open>One frame of an authenticated connection.\<close>

definition serve_frame ::
    "tcp_handler \<Rightarrow> env \<Rightarrow> uuid \<Rightarrow> uuid \<Rightarrow> string \<Rightarrow> frame \<Rightarrow> db \<Rightarrow> db \<times> byte list" where
  "serve_frame h env projectID deviceID ip fr db =
     (if MsgType fr = MsgPollReq then handlePoll h env (ReqID fr) projectID deviceID ip (Payload fr) db
      else if MsgType fr = MsgReportReq then handleReport h env (ReqID fr) projectID deviceID ip (Payload fr) db
      else (db, sent (writeErr (ReqID fr) ErrCodeBadPayload ''unknown message type'')))"

text \<open>The loop. The list holds the environment of each iteration and what other requests did to
  the database before it; it ends when the context of the server is cancelled.\<close>

fun serve_loop ::
    "tcp_handler \<Rightarrow> uuid \<Rightarrow> uuid \<Rightarrow> string \<Rightarrow> (env \<times> (db \<Rightarrow> db)) list \<Rightarrow> byte list \<Rightarrow> db \<Rightarrow> db \<times> byte list" where
  "serve_loop h projectID deviceID ip [] input db = (db, [])"
| "serve_loop h projectID deviceID ip ((env, others) # steps) input db =
     (case readFrame input of
        (Inl _, _) \<Rightarrow> (db, [])
      | (Inr fr, rest) \<Rightarrow>
          (let (db1, out) = serve_frame h env projectID deviceID ip fr (others db);
               (db2, outs) = serve_loop h projectID deviceID ip steps rest db1
           in (db2, out @ outs)))"

definition ServeConn ::
    "tcp_handler \<Rightarrow> string \<Rightarrow> (env \<times> (db \<Rightarrow> db)) list \<Rightarrow> byte list \<Rightarrow> db \<Rightarrow> db \<times> byte list" where
  "ServeConn h ip steps input db =
     (case readFrame input of
        (Inl _, _) \<Rightarrow> (db, [])
      | (Inr fr, rest) \<Rightarrow>
          if MsgType fr \<noteq> MsgAuthReq then (db, sent (writeErr (ReqID fr) ErrCodeBadPayload ''auth frame required''))
          else (case decodeAuthPayload (Payload fr) of
             Inl _ \<Rightarrow> (db, sent (writeErr (ReqID fr) ErrCodeBadPayload ''invalid auth payload''))
           | Inr rawToken \<Rightarrow>
               if rawToken = [] then (db, sent (writeErr (ReqID fr) ErrCodeBadPayload ''invalid auth payload''))
               else (case authenticateDevice db rawToken of
                  Inl e \<Rightarrow> (db, sent (writeErr (ReqID fr) (fst (mapDeviceAuthErr e)) (snd (mapDeviceAuthErr e))))
                | Inr d \<Rightarrow>
               (case writeFrame MsgAuthOK (ReqID fr) [] of
                  Inl _ \<Rightarrow> (db, [])
                | Inr ok \<Rightarrow>
                    (let (db1, out) = serve_loop h (dev_ProjectID d) (dev_ID d) ip steps rest db
                     in (db1, ok @ out))))))"

end
