(* ===== verification/AuthRepo.thy ===== *)
theory AuthRepo
  imports Security
begin

section \<open>The repository of users and sessions (domain/auth/repository/repository.go)\<close>

text \<open>
  One definition per query and per transaction. A transaction returns \<open>err + db\<close> (or a pair):
  an error leaves the database as it was. gorm sets \<open>updated_at\<close> on every update of a table
  that has the column.
\<close>

definition NormalizeEmail :: "string \<Rightarrow> string" where
  "NormalizeEmail email = to_lower (trim_space email)"

subsection \<open>Users\<close>

text \<open>The unique index on the email also covers soft-deleted users.\<close>

definition user_conflict :: "user \<Rightarrow> user \<Rightarrow> bool" where
  "user_conflict x r \<longleftrightarrow> user_ID x = user_ID r \<or> user_Email x = user_Email r"

definition profile_conflict :: "user_profile \<Rightarrow> user_profile \<Rightarrow> bool" where
  "profile_conflict x r \<longleftrightarrow> prof_ID x = prof_ID r \<or> prof_UserID x = prof_UserID r"

definition CreateUserWithProfile :: "user \<Rightarrow> user_profile \<Rightarrow> db \<Rightarrow> err + db" where
  "CreateUserWithProfile u p db =
     (case insert_row user_conflict u (db_users db) of
        Inl e \<Rightarrow> Inl e
      | Inr us \<Rightarrow>
     (case insert_row profile_conflict (p\<lparr>prof_UserID := user_ID u\<rparr>) (db_profiles db) of
        Inl e \<Rightarrow> Inl e
      | Inr ps \<Rightarrow> Inr (db\<lparr>db_users := us, db_profiles := ps\<rparr>)))"

definition FindUserByEmail :: "db \<Rightarrow> string \<Rightarrow> err + user" where
  "FindUserByEmail db email =
     (case first_by user_ID (\<lambda>u. user_Email u = NormalizeEmail email \<and> user_DeletedAt u = None) (db_users db) of
        None \<Rightarrow> Inl ErrRecordNotFound
      | Some u \<Rightarrow> Inr u)"

definition FindUserByID :: "db \<Rightarrow> uuid \<Rightarrow> err + user" where
  "FindUserByID db userID =
     (case first_by user_ID (\<lambda>u. user_ID u = userID \<and> user_DeletedAt u = None) (db_users db) of
        None \<Rightarrow> Inl ErrRecordNotFound
      | Some u \<Rightarrow> Inr u)"

definition auth_GetProfile :: "db \<Rightarrow> uuid \<Rightarrow> err + user_profile" where
  "auth_GetProfile db userID =
     (case first_by prof_ID (\<lambda>p. prof_UserID p = userID) (db_profiles db) of
        None \<Rightarrow> Inl ErrRecordNotFound
      | Some p \<Rightarrow> Inr p)"

text \<open>\<open>Save\<close> of a loaded row: every column is written to the row of the same id.\<close>

definition repo_UpdateProfile :: "env \<Rightarrow> user_profile \<Rightarrow> db \<Rightarrow> db" where
  "repo_UpdateProfile env p db =
     db\<lparr>db_profiles := update_where (\<lambda>x. prof_ID x = prof_ID p) (\<lambda>_. p\<lparr>prof_UpdatedAt := env_now env\<rparr>)
        (db_profiles db)\<rparr>"

text \<open>An update of the users that are not soft-deleted.\<close>

definition update_user :: "env \<Rightarrow> uuid \<Rightarrow> (user \<Rightarrow> user) \<Rightarrow> db \<Rightarrow> db" where
  "update_user env userID f db =
     db\<lparr>db_users := update_where (\<lambda>u. user_ID u = userID \<and> user_DeletedAt u = None)
        (\<lambda>u. (f u)\<lparr>user_UpdatedAt := env_now env\<rparr>) (db_users db)\<rparr>"

definition UpdatePassword :: "env \<Rightarrow> uuid \<Rightarrow> string \<Rightarrow> db \<Rightarrow> db" where
  "UpdatePassword env userID newHash db = update_user env userID (\<lambda>u. u\<lparr>user_PasswordHash := newHash\<rparr>) db"

subsection \<open>One-time tokens\<close>

definition ott_conflict :: "one_time_token \<Rightarrow> one_time_token \<Rightarrow> bool" where
  "ott_conflict x r \<longleftrightarrow> ott_ID x = ott_ID r \<or> ott_TokenHash x = ott_TokenHash r"

definition CreateEmailVerificationToken :: "one_time_token \<Rightarrow> db \<Rightarrow> err + db" where
  "CreateEmailVerificationToken tok db =
     (case insert_row ott_conflict tok (db_email_tokens db) of
        Inl e \<Rightarrow> Inl e
      | Inr t \<Rightarrow> Inr (db\<lparr>db_email_tokens := t\<rparr>))"

definition CreateResetToken :: "one_time_token \<Rightarrow> db \<Rightarrow> err + db" where
  "CreateResetToken tok db =
     (case insert_row ott_conflict tok (db_reset_tokens db) of
        Inl e \<Rightarrow> Inl e
      | Inr t \<Rightarrow> Inr (db\<lparr>db_reset_tokens := t\<rparr>))"

definition find_live_ott :: "env \<Rightarrow> string \<Rightarrow> one_time_token list \<Rightarrow> one_time_token option" where
  "find_live_ott env tokenHash t =
     first_by ott_ID (\<lambda>x. ott_TokenHash x = tokenHash \<and> ott_ConsumedAt x = None \<and> ott_ExpiresAt x > env_now env) t"

definition mark_ott :: "env \<Rightarrow> uuid \<Rightarrow> one_time_token list \<Rightarrow> one_time_token list" where
  "mark_ott env i t = update_where (\<lambda>x. ott_ID x = i) (\<lambda>x. x\<lparr>ott_ConsumedAt := Some (env_now env)\<rparr>) t"

definition ConsumeEmailVerificationToken :: "env \<Rightarrow> string \<Rightarrow> db \<Rightarrow> err + (db \<times> user)" where
  "ConsumeEmailVerificationToken env tokenHash db =
     (case find_live_ott env tokenHash (db_email_tokens db) of
        None \<Rightarrow> Inl ErrRecordNotFound
      | Some token \<Rightarrow>
     (let db1 = db\<lparr>db_email_tokens := mark_ott env (ott_ID token) (db_email_tokens db)\<rparr>
      in case FindUserByID db1 (ott_UserID token) of
           Inl e \<Rightarrow> Inl e
         | Inr u \<Rightarrow> Inr (update_user env (user_ID u) (\<lambda>u. u\<lparr>user_EmailVerifiedAt := Some (env_now env)\<rparr>) db1, u)))"

subsection \<open>Sessions\<close>

definition session_conflict :: "auth_session \<Rightarrow> auth_session \<Rightarrow> bool" where
  "session_conflict x r \<longleftrightarrow> ses_ID x = ses_ID r \<or> ses_RefreshTokenHash x = ses_RefreshTokenHash r"

definition CreateSession :: "auth_session \<Rightarrow> db \<Rightarrow> err + db" where
  "CreateSession s db =
     (case insert_row session_conflict s (db_sessions db) of
        Inl e \<Rightarrow> Inl e
      | Inr t \<Rightarrow> Inr (db\<lparr>db_sessions := t\<rparr>))"

definition GetSessionByRefreshHash :: "env \<Rightarrow> db \<Rightarrow> string \<Rightarrow> err + auth_session" where
  "GetSessionByRefreshHash env db hash =
     (case first_by ses_ID (\<lambda>s. ses_RefreshTokenHash s = hash \<and> ses_RevokedAt s = None \<and> ses_ExpiresAt s > env_now env)
             (db_sessions db) of
        None \<Rightarrow> Inl ErrRecordNotFound
      | Some s \<Rightarrow> Inr s)"

definition revoke_sessions :: "env \<Rightarrow> (auth_session \<Rightarrow> bool) \<Rightarrow> db \<Rightarrow> db" where
  "revoke_sessions env P db =
     db\<lparr>db_sessions := update_where (\<lambda>s. P s \<and> ses_RevokedAt s = None)
        (\<lambda>s. s\<lparr>ses_RevokedAt := Some (env_now env), ses_UpdatedAt := env_now env\<rparr>) (db_sessions db)\<rparr>"

definition repo_RevokeSession :: "env \<Rightarrow> uuid \<Rightarrow> db \<Rightarrow> db" where
  "repo_RevokeSession env sessionID db =
     db\<lparr>db_sessions := update_where (\<lambda>s. ses_ID s = sessionID \<and> ses_RevokedAt s = None)
        (\<lambda>s. s\<lparr>ses_RevokedAt := Some (env_now env), ses_LastSeenAt := env_now env, ses_UpdatedAt := env_now env\<rparr>)
        (db_sessions db)\<rparr>"

text \<open>\<open>RotateSession\<close> creates the new session and revokes the old one, in one transaction.\<close>

definition RotateSession :: "env \<Rightarrow> uuid \<Rightarrow> auth_session \<Rightarrow> db \<Rightarrow> err + db" where
  "RotateSession env oldSessionID newSession db =
     (case insert_row session_conflict newSession (db_sessions db) of
        Inl e \<Rightarrow> Inl e
      | Inr t \<Rightarrow>
          Inr (db\<lparr>db_sessions := update_where (\<lambda>s. ses_ID s = oldSessionID \<and> ses_RevokedAt s = None)
             (\<lambda>s. s\<lparr>ses_RevokedAt := Some (env_now env), ses_ReplacedBySessionID := Some (ses_ID newSession),
                   ses_UpdatedAt := env_now env\<rparr>) t\<rparr>))"

definition RevokeAllOtherSessions :: "env \<Rightarrow> uuid \<Rightarrow> uuid \<Rightarrow> db \<Rightarrow> db" where
  "RevokeAllOtherSessions env userID currentSessionID db =
     revoke_sessions env (\<lambda>s. ses_UserID s = userID \<and> ses_ID s \<noteq> currentSessionID) db"

definition RevokeAllSessions :: "env \<Rightarrow> uuid \<Rightarrow> db \<Rightarrow> db" where
  "RevokeAllSessions env userID db = revoke_sessions env (\<lambda>s. ses_UserID s = userID) db"

definition ListActiveSessions :: "db \<Rightarrow> uuid \<Rightarrow> auth_session list" where
  "ListActiveSessions db userID =
     rev (sort_key ses_CreatedAt (filter (\<lambda>s. ses_UserID s = userID \<and> ses_RevokedAt s = None) (db_sessions db)))"

definition ConsumeResetTokenAndSetPassword :: "env \<Rightarrow> string \<Rightarrow> string \<Rightarrow> db \<Rightarrow> err + (db \<times> uuid)" where
  "ConsumeResetTokenAndSetPassword env tokenHash passwordHash db =
     (case find_live_ott env tokenHash (db_reset_tokens db) of
        None \<Rightarrow> Inl ErrRecordNotFound
      | Some token \<Rightarrow>
     (let db1 = db\<lparr>db_reset_tokens := mark_ott env (ott_ID token) (db_reset_tokens db)\<rparr>;
          db2 = update_user env (ott_UserID token) (\<lambda>u. u\<lparr>user_PasswordHash := passwordHash\<rparr>) db1;
          db3 = revoke_sessions env (\<lambda>s. ses_UserID s = ott_UserID token) db2
      in Inr (db3, ott_UserID token)))"

subsection \<open>Login throttling\<close>

definition thr_conflict :: "auth_throttle \<Rightarrow> auth_throttle \<Rightarrow> bool" where
  "thr_conflict x r \<longleftrightarrow> thr_ID x = thr_ID r \<or> thr_EmailKey x = thr_EmailKey r"

definition save_throttle :: "env \<Rightarrow> auth_throttle \<Rightarrow> db \<Rightarrow> db" where
  "save_throttle env th db =
     db\<lparr>db_throttles := update_where (\<lambda>x. thr_ID x = thr_ID th) (\<lambda>_. th\<lparr>thr_UpdatedAt := env_now env\<rparr>)
        (db_throttles db)\<rparr>"

text \<open>The result pair: whether this failure locked the account, and until when (0 for Go's zero
  time). \<open>k\<close> is the index of the UUID of a new row.\<close>

definition CreateOrIncrementThrottle ::
    "env \<Rightarrow> nat \<Rightarrow> string \<Rightarrow> duration \<Rightarrow> int \<Rightarrow> db \<Rightarrow> err + (db \<times> bool \<times> time)" where
  "CreateOrIncrementThrottle env k email window maxAttempts db =
     (let key = NormalizeEmail email; t = env_now env
      in case first_by thr_ID (\<lambda>x. thr_EmailKey x = key) (db_throttles db) of
           None \<Rightarrow>
             (case insert_row thr_conflict
                \<lparr>thr_ID = env_uuid env k, thr_EmailKey = key, thr_FailedAttempts = 1, thr_FirstFailedAt = None,
                 thr_LockUntil = None, thr_UpdatedAt = t, thr_CreatedAt = t\<rparr> (db_throttles db) of
                Inl e \<Rightarrow> Inl e
              | Inr ts \<Rightarrow> Inr (db\<lparr>db_throttles := ts\<rparr>, False, 0))
         | Some th \<Rightarrow>
             if (case thr_FirstFailedAt th of None \<Rightarrow> True | Some f \<Rightarrow> t - f > window)
             then Inr (save_throttle env (th\<lparr>thr_FailedAttempts := 1, thr_FirstFailedAt := Some t,
                         thr_LockUntil := None\<rparr>) db, False, 0)
             else
               (let th1 = th\<lparr>thr_FailedAttempts := thr_FailedAttempts th + 1\<rparr>
                in if thr_FailedAttempts th1 \<ge> maxAttempts
                   then Inr (save_throttle env (th1\<lparr>thr_LockUntil := Some (t + window)\<rparr>) db, True, t + window)
                   else Inr (save_throttle env th1 db, False, 0)))"

definition IsEmailLocked :: "env \<Rightarrow> db \<Rightarrow> string \<Rightarrow> bool \<times> time" where
  "IsEmailLocked env db email =
     (case first_by thr_ID (\<lambda>x. thr_EmailKey x = NormalizeEmail email) (db_throttles db) of
        None \<Rightarrow> (False, 0)
      | Some th \<Rightarrow> (case thr_LockUntil th of
           Some l \<Rightarrow> if l > env_now env then (True, l) else (False, 0)
         | None \<Rightarrow> (False, 0)))"

definition ResetThrottle :: "string \<Rightarrow> db \<Rightarrow> db" where
  "ResetThrottle email db =
     db\<lparr>db_throttles := delete_where (\<lambda>x. thr_EmailKey x = NormalizeEmail email) (db_throttles db)\<rparr>"

subsection \<open>Two-factor authentication\<close>

definition tf_conflict :: "two_factor \<Rightarrow> two_factor \<Rightarrow> bool" where
  "tf_conflict x r \<longleftrightarrow> tf_ID x = tf_ID r \<or> tf_UserID x = tf_UserID r"

definition rc_conflict :: "recovery_code \<Rightarrow> recovery_code \<Rightarrow> bool" where
  "rc_conflict x r \<longleftrightarrow> rc_ID x = rc_ID r \<or> rc_CodeHash x = rc_CodeHash r"

definition UpsertTwoFactor :: "two_factor \<Rightarrow> db \<Rightarrow> err + db" where
  "UpsertTwoFactor tfa db =
     (let t = delete_where (\<lambda>x. tf_UserID x = tf_UserID tfa) (db_two_factors db)
      in case insert_row tf_conflict tfa t of
           Inl e \<Rightarrow> Inl e
         | Inr t' \<Rightarrow> Inr (db\<lparr>db_two_factors := t'\<rparr>))"

definition ReplaceRecoveryCodes :: "env \<Rightarrow> nat \<Rightarrow> uuid \<Rightarrow> string list \<Rightarrow> db \<Rightarrow> err + db" where
  "ReplaceRecoveryCodes env k settingID hashes db =
     (let t = delete_where (\<lambda>x. rc_TwoFactorSettingID x = settingID) (db_recovery_codes db);
          rows = map (\<lambda>(i, h). \<lparr>rc_ID = env_uuid env (k + i), rc_TwoFactorSettingID = settingID, rc_CodeHash = h,
                                rc_UsedAt = None, rc_CreatedAt = env_now env\<rparr>) (enumerate 0 hashes)
      in case insert_rows rc_conflict rows t of
           Inl e \<Rightarrow> Inl e
         | Inr t' \<Rightarrow> Inr (db\<lparr>db_recovery_codes := t'\<rparr>))"

definition GetTwoFactorByUser :: "db \<Rightarrow> uuid \<Rightarrow> err + two_factor" where
  "GetTwoFactorByUser db userID =
     (case first_by tf_ID (\<lambda>x. tf_UserID x = userID) (db_two_factors db) of
        None \<Rightarrow> Inl ErrRecordNotFound
      | Some s \<Rightarrow> Inr s)"

definition MarkTwoFactorEnabled :: "env \<Rightarrow> uuid \<Rightarrow> db \<Rightarrow> db" where
  "MarkTwoFactorEnabled env userID db =
     update_user env userID (\<lambda>u. u\<lparr>user_TwoFactorEnabled := True\<rparr>)
       (db\<lparr>db_two_factors := update_where (\<lambda>x. tf_UserID x = userID)
          (\<lambda>x. x\<lparr>tf_EnabledAt := Some (env_now env), tf_UpdatedAt := env_now env\<rparr>) (db_two_factors db)\<rparr>)"

definition ConsumeRecoveryCode :: "env \<Rightarrow> uuid \<Rightarrow> string \<Rightarrow> db \<Rightarrow> db \<times> bool" where
  "ConsumeRecoveryCode env settingID hash db =
     (let P = (\<lambda>x. rc_TwoFactorSettingID x = settingID \<and> rc_CodeHash x = hash \<and> rc_UsedAt x = None)
      in (db\<lparr>db_recovery_codes := update_where P (\<lambda>x. x\<lparr>rc_UsedAt := Some (env_now env)\<rparr>) (db_recovery_codes db)\<rparr>,
          count_where P (db_recovery_codes db) > 0))"

definition DisableTwoFactor :: "env \<Rightarrow> uuid \<Rightarrow> db \<Rightarrow> err + db" where
  "DisableTwoFactor env userID db =
     (case GetTwoFactorByUser db userID of
        Inl e \<Rightarrow> Inl e
      | Inr setting \<Rightarrow>
          Inr (update_user env userID (\<lambda>u. u\<lparr>user_TwoFactorEnabled := False\<rparr>)
            (db\<lparr>db_recovery_codes := delete_where (\<lambda>x. rc_TwoFactorSettingID x = tf_ID setting) (db_recovery_codes db),
                db_two_factors := delete_where (\<lambda>x. tf_ID x = tf_ID setting) (db_two_factors db)\<rparr>)))"

subsection \<open>Deleting an account\<close>

definition SoftDeleteUser :: "env \<Rightarrow> uuid \<Rightarrow> time option \<Rightarrow> db \<Rightarrow> db" where
  "SoftDeleteUser env userID grace db =
     revoke_sessions env (\<lambda>s. ses_UserID s = userID)
       (db\<lparr>db_users := update_where (\<lambda>u. user_ID u = userID \<and> user_DeletedAt u = None)
          (\<lambda>u. u\<lparr>user_DeletionGraceAt := grace, user_DeletedAt := Some (env_now env),
                user_UpdatedAt := env_now env\<rparr>) (db_users db)\<rparr>)"

end
