(* ===== verification/AuthManagers.thy ===== *)
theory AuthManagers
  imports AuthRepo
begin

section \<open>Access tokens and TOTP secrets (domain/auth/security/jwt.go, totp.go)\<close>

text \<open>
  The code under \<open>src/\<close> around the libraries for JSON web tokens, bcrypt, TOTP and QR codes and
  around AES-GCM. What the libraries compute is a parameter, collected in the record \<open>auth_lib\<close>;
  the program's own part is modelled: which claims are signed, when an access token expires, the
  layout \<open>base64(nonce, ciphertext)\<close> of a stored TOTP secret, and the recovery codes.
\<close>

record access_claims =
  clm_UserID :: string
  clm_SessionID :: string
  clm_Issuer :: string
  clm_Subject :: string
  clm_IssuedAt :: int
  clm_ExpiresAt :: int

text \<open>The libraries: bcrypt (\<open>lib_HashPassword cost password\<close>, \<open>lib_ComparePassword hash password\<close>),
  HS256 signing and verification of claims under a secret (verification at a time), TOTP
  generation (\<open>issuer\<close>, \<open>account\<close>; the result is secret, URL and the PNG of its QR code) and
  validation at a time, the seal and open of AES-GCM under a key and a nonce, and the host's
  time zone database.\<close>

record auth_lib =
  lib_HashPassword :: "int \<Rightarrow> string \<Rightarrow> err + string"
  lib_ComparePassword :: "string \<Rightarrow> string \<Rightarrow> bool"
  lib_JwtSign :: "string \<Rightarrow> access_claims \<Rightarrow> err + string"
  lib_JwtParse :: "string \<Rightarrow> time \<Rightarrow> string \<Rightarrow> err + access_claims"
  lib_TotpGenerate :: "string \<Rightarrow> string \<Rightarrow> err + (string \<times> string \<times> byte list)"
  lib_TotpValidate :: "time \<Rightarrow> string \<Rightarrow> string \<Rightarrow> bool"
  lib_GcmSeal :: "byte list \<Rightarrow> byte list \<Rightarrow> byte list \<Rightarrow> byte list"
  lib_GcmOpen :: "byte list \<Rightarrow> byte list \<Rightarrow> byte list \<Rightarrow> byte list option"
  lib_TimeZone :: "string \<Rightarrow> bool"

subsection \<open>Access tokens\<close>

record token_manager =
  tm_issuer :: string
  tm_secret :: string
  tm_ttl :: duration

text \<open>\<open>jwt.NewNumericDate\<close> cuts a time to seconds.\<close>

definition IssueAccessToken :: "auth_lib \<Rightarrow> token_manager \<Rightarrow> time \<Rightarrow> uuid \<Rightarrow> uuid \<Rightarrow> err + (string \<times> time)" where
  "IssueAccessToken lib m now userID sessionID =
     (let exp = now + tm_ttl m;
          claims = \<lparr>clm_UserID = uuid_String userID, clm_SessionID = uuid_String sessionID,
                    clm_Issuer = tm_issuer m, clm_Subject = uuid_String userID,
                    clm_IssuedAt = now div time_Second, clm_ExpiresAt = exp div time_Second\<rparr>
      in case lib_JwtSign lib (tm_secret m) claims of
           Inl e \<Rightarrow> Inl e
         | Inr tokenString \<Rightarrow> Inr (tokenString, exp))"

definition ParseAccessToken :: "auth_lib \<Rightarrow> token_manager \<Rightarrow> time \<Rightarrow> string \<Rightarrow> err + access_claims" where
  "ParseAccessToken lib m now raw = lib_JwtParse lib (tm_secret m) now raw"

subsection \<open>base64.StdEncoding\<close>

definition b64_char :: "nat \<Rightarrow> nat" where
  "b64_char n =
     (if n < 26 then 65 + n else if n < 52 then 71 + n else if n < 62 then n - 4
      else if n = 62 then 43 else 47)"

definition b64_val :: "nat \<Rightarrow> nat option" where
  "b64_val c =
     (if 65 \<le> c \<and> c \<le> 90 then Some (c - 65) else if 97 \<le> c \<and> c \<le> 122 then Some (c - 71)
      else if 48 \<le> c \<and> c \<le> 57 then Some (c + 4) else if c = 43 then Some 62
      else if c = 47 then Some 63 else None)"

fun b64_encode :: "byte list \<Rightarrow> nat list" where
  "b64_encode [] = []"
| "b64_encode [a] =
     (let v = unat a * 16 in [b64_char (v div 64), b64_char (v mod 64), 61, 61])"
| "b64_encode [a, b] =
     (let v = (unat a * 256 + unat b) * 4
      in [b64_char (v div 4096), b64_char (v div 64 mod 64), b64_char (v mod 64), 61])"
| "b64_encode (a # b # c # bs) =
     (let v = unat a * 65536 + unat b * 256 + unat c
      in [b64_char (v div 262144), b64_char (v div 4096 mod 64), b64_char (v div 64 mod 64), b64_char (v mod 64)]
         @ b64_encode bs)"

text \<open>The decoder asks for padding and ignores trailing bits; carriage returns and newlines are
  skipped.\<close>

fun b64_quanta :: "nat list \<Rightarrow> byte list option" where
  "b64_quanta [] = Some []"
| "b64_quanta (p # q # r # s # rest) =
     (case (b64_val p, b64_val q) of
        (Some x, Some y) \<Rightarrow>
          if r = 61 then (if s = 61 \<and> rest = [] then Some [word_of_nat ((x * 64 + y) div 16)] else None)
          else (case b64_val r of
             None \<Rightarrow> None
           | Some z \<Rightarrow>
               if s = 61
               then (if rest = []
                     then (let v = (x * 4096 + y * 64 + z) div 4 in Some [word_of_nat (v div 256), word_of_nat (v mod 256)])
                     else None)
               else (case b64_val s of
                  None \<Rightarrow> None
                | Some w \<Rightarrow>
                    (case b64_quanta rest of
                       None \<Rightarrow> None
                     | Some bs \<Rightarrow>
                         let v = x * 262144 + y * 4096 + z * 64 + w
                         in Some (word_of_nat (v div 65536) # word_of_nat (v div 256 mod 256) # word_of_nat (v mod 256) # bs))))
      | _ \<Rightarrow> None)"
| "b64_quanta _ = None"

definition b64_decode :: "nat list \<Rightarrow> byte list option" where
  "b64_decode cs = b64_quanta (filter (\<lambda>c. c \<noteq> 10 \<and> c \<noteq> 13) cs)"

subsection \<open>TOTP\<close>

record totp_manager =
  tp_issuer :: string
  tp_key :: "byte list"

definition gcm_NonceSize :: nat where "gcm_NonceSize = 12"

text \<open>\<open>aes.NewCipher\<close> accepts keys of 16, 24 and 32 bytes.\<close>

definition aes_key_ok :: "byte list \<Rightarrow> bool" where
  "aes_key_ok key \<longleftrightarrow> length key \<in> {16, 24, 32}"

text \<open>\<open>Generate\<close>, with the data URL of the QR code.\<close>

definition TotpGenerate :: "auth_lib \<Rightarrow> totp_manager \<Rightarrow> string \<Rightarrow> err + (string \<times> string \<times> string)" where
  "TotpGenerate lib t email =
     (case lib_TotpGenerate lib (tp_issuer t) email of
        Inl e \<Rightarrow> Inl e
      | Inr (secret, url, png) \<Rightarrow>
          Inr (secret, url, ''data:image/png;base64,'' @ string_of_codes (b64_encode png)))"

definition TotpVerify :: "auth_lib \<Rightarrow> time \<Rightarrow> string \<Rightarrow> string \<Rightarrow> bool" where
  "TotpVerify lib now secret code = lib_TotpValidate lib now code secret"

text \<open>\<open>nonce\<close> is what \<open>rand.Reader\<close> delivers.\<close>

definition TotpEncrypt :: "auth_lib \<Rightarrow> totp_manager \<Rightarrow> byte list \<Rightarrow> string \<Rightarrow> err + string" where
  "TotpEncrypt lib t nonce secret =
     (if \<not> aes_key_ok (tp_key t) then Inl (ErrMsg ''crypto/aes: invalid key size'')
      else Inr (string_of_codes (b64_encode (nonce @ lib_GcmSeal lib (tp_key t) nonce (bytes_of_string secret)))))"

definition TotpDecrypt :: "auth_lib \<Rightarrow> totp_manager \<Rightarrow> string \<Rightarrow> err + string" where
  "TotpDecrypt lib t enc =
     (case b64_decode (codes enc) of
        None \<Rightarrow> Inl (ErrMsg ''illegal base64 data'')
      | Some raw \<Rightarrow>
          if \<not> aes_key_ok (tp_key t) then Inl (ErrMsg ''crypto/aes: invalid key size'')
          else if length raw < gcm_NonceSize then Inl (ErrMsg ''invalid ciphertext'')
          else (case lib_GcmOpen lib (tp_key t) (take gcm_NonceSize raw) (drop gcm_NonceSize raw) of
             None \<Rightarrow> Inl (ErrMsg ''cipher: message authentication failed'')
           | Some plain \<Rightarrow> Inr (string_of_bytes plain)))"

subsection \<open>Lemmas\<close>

lemma b64_char_val: "n < 64 \<Longrightarrow> b64_val (b64_char n) = Some n"
  by (auto simp: b64_char_def b64_val_def)

lemma b64_char_range: "n < 64 \<Longrightarrow> b64_char n \<noteq> 61 \<and> b64_char n \<noteq> 10 \<and> b64_char n \<noteq> 13 \<and> b64_char n < 128"
  by (auto simp: b64_char_def)

lemma unat_byte: "unat (a :: byte) < 256"
  using unsigned_less [of a] by simp

lemma b64_char_ok: "n < 64 \<Longrightarrow> c = b64_char n \<Longrightarrow> c \<noteq> 10 \<and> c \<noteq> 13 \<and> c < 128"
  using b64_char_range by simp

lemma b64_encode_range: "c \<in> set (b64_encode bs) \<Longrightarrow> c \<noteq> 10 \<and> c \<noteq> 13 \<and> c < 128"
proof (induction bs rule: b64_encode.induct)
  case (2 a)
  have v: "unat a * 16 div 64 < 64" using unat_byte [of a] by (intro less_mult_imp_div_less) linarith
  from 2 show ?case using b64_char_ok [OF v] b64_char_ok [OF mod_less_divisor]
    by (fastforce simp: Let_def simp del: One_nat_def)
next
  case (3 a b)
  have v: "(unat a * 256 + unat b) * 4 div 4096 < 64"
  proof (rule less_mult_imp_div_less)
    have "unat a * 256 + unat b < 65536" using unat_byte [of a] unat_byte [of b] by linarith
    then show "(unat a * 256 + unat b) * 4 < 64 * 4096" by simp
  qed
  from 3 show ?case unfolding b64_encode.simps Let_def using b64_char_ok [OF v] b64_char_ok [OF mod_less_divisor]
    by fastforce
next
  case (4 a b c' bs)
  have v: "(unat a * 65536 + unat b * 256 + unat c') div 262144 < 64"
    using unat_byte [of a] unat_byte [of b] unat_byte [of c'] by (intro less_mult_imp_div_less) linarith
  from 4 show ?case unfolding b64_encode.simps Let_def set_append Un_iff
    using b64_char_ok [OF v] b64_char_ok [OF mod_less_divisor] by fastforce
qed simp

text \<open>A quantum of 24 bits, split into digits of 6 bits and put together again.\<close>

lemma quantum_sum:
  "(v div 262144) * 262144 + (v div 4096 mod 64) * 4096 + (v div 64 mod 64) * 64 + v mod 64 = (v :: nat)"
proof -
  have e: "v div 4096 = (v div 64) div 64" "v div 262144 = (v div 64) div 64 div 64"
    by (simp_all add: div_mult2_eq [symmetric])
  show ?thesis unfolding e
    using div_mult_mod_eq [of v 64] div_mult_mod_eq [of "v div 64" 64] div_mult_mod_eq [of "v div 64 div 64" 64]
    by linarith
qed

lemma quantum_bytes:
  assumes "a < 256" "b < 256" "c < (256 :: nat)"
  shows "(a * 65536 + b * 256 + c) div 65536 = a" "(a * 65536 + b * 256 + c) div 256 mod 256 = b"
    "(a * 65536 + b * 256 + c) mod 256 = c"
proof -
  have r: "a * 65536 + b * 256 + c = c + 256 * (b + 256 * a)" by simp
  have d: "(a * 65536 + b * 256 + c) div 256 = b + 256 * a"
    unfolding r using assms(3) by (simp add: div_mult_self2)
  then show "(a * 65536 + b * 256 + c) div 256 mod 256 = b" using assms by simp
  show "(a * 65536 + b * 256 + c) mod 256 = c"
    unfolding r using assms(3) by (simp only: mod_mult_self2 mod_less)
  have "(a * 65536 + b * 256 + c) div 65536 = (a * 65536 + b * 256 + c) div 256 div 256"
    by (simp add: div_mult2_eq [symmetric])
  with d assms show "(a * 65536 + b * 256 + c) div 65536 = a" by simp
qed

lemma b64_quanta_encode: "b64_quanta (b64_encode bs) = Some bs"
proof (induction bs rule: b64_encode.induct)
  case 1
  show ?case by simp
next
  case (2 a)
  have lt: "unat a * 16 div 64 < 64"
    using unat_byte [of a] by (auto intro: less_mult_imp_div_less)
  have m: "n mod 64 < 64" for n :: nat by simp
  show ?case unfolding b64_encode.simps Let_def b64_quanta.simps
    by (simp only: b64_char_val [OF lt] b64_char_val [OF m] option.case prod.case if_True div_mult_mod_eq simp_thms) simp
next
  case (3 a b)
  let ?w = "unat a * 256 + unat b"
  have w: "?w < 65536" using unat_byte [of a] unat_byte [of b] by linarith
  then have lt: "?w * 4 div 4096 < 64" by (intro less_mult_imp_div_less) simp
  have s: "?w * 4 div 4096 * 4096 + ?w * 4 div 64 mod 64 * 64 + ?w * 4 mod 64 = ?w * 4"
    using quantum_sum [of "?w * 4"] w by simp
  have "?w div 256 = unat a" "?w mod 256 = unat b" using unat_byte [of b] by simp_all
  moreover have "?w * 4 div 4 = ?w" by simp
  moreover have m: "n mod 64 < 64" for n :: nat by simp
  ultimately show ?case unfolding b64_encode.simps Let_def b64_quanta.simps
    by (simp only: b64_char_val [OF lt] b64_char_val [OF m] option.case prod.case b64_char_range [OF m] if_True if_False
        simp_thms s) simp
next
  case (4 a b c bs)
  let ?v = "unat a * 65536 + unat b * 256 + unat c"
  have lt: "?v div 262144 < 64"
    using unat_byte [of a] unat_byte [of b] unat_byte [of c] by (intro less_mult_imp_div_less) linarith
  note q = quantum_bytes [OF unat_byte [of a] unat_byte [of b] unat_byte [of c]]
  have m: "n mod 64 < 64" for n :: nat by simp
  show ?case unfolding b64_encode.simps Let_def append.simps b64_quanta.simps
    by (simp only: b64_char_val [OF lt] b64_char_val [OF m] option.case prod.case b64_char_range [OF m] if_False
        4 quantum_sum q Let_def) simp
qed

lemma b64_decode_encode: "b64_decode (codes (string_of_codes (b64_encode bs))) = Some bs"
proof -
  have c: "codes (string_of_codes (b64_encode bs)) = b64_encode bs"
  proof (rule codes_string_of_codes)
    fix c assume "c \<in> set (b64_encode bs)"
    then have "c < 128" using b64_encode_range by blast
    then show "c < 256" by simp
  qed
  have "filter (\<lambda>c. c \<noteq> 10 \<and> c \<noteq> 13) (b64_encode bs) = b64_encode bs"
    by (rule filter_True) (use b64_encode_range in blast)
  then show ?thesis by (simp add: c b64_decode_def b64_quanta_encode)
qed

text \<open>Decryption undoes encryption, for any seal and open that do.\<close>

lemma TotpDecrypt_Encrypt:
  assumes "TotpEncrypt lib t nonce secret = Inr enc" and "length nonce = 12"
    and "\<And>k n m. lib_GcmOpen lib k n (lib_GcmSeal lib k n m) = Some m"
  shows "TotpDecrypt lib t enc = Inr secret"
  using assms
  by (auto simp: TotpEncrypt_def TotpDecrypt_def b64_decode_encode gcm_NonceSize_def split: if_splits)

end
