(* ===== verification/AuthService.thy ===== *)
theory AuthService
  imports AuthManagers
begin

section \<open>The authentication service (domain/auth/service/service.go)\<close>

text \<open>
  One definition per method of the service, from the database to the new database and the
  method's result. \<open>cfg\<close> is the configuration, \<open>lib\<close> the libraries. The order of the draws of a
  request is fixed: the UUIDs \<open>env_uuid env k\<close> of the rows it creates, the buffers \<open>env_rand env k\<close>
  of its tokens. Mails and log lines are sent from goroutines after the database work and are
  not part of the result.
\<close>

record auth_config =
  cfg_JWTIssuer :: string
  cfg_JWTSecret :: string
  cfg_AccessTokenTTL :: duration
  cfg_RefreshTokenTTL :: duration
  cfg_BcryptCost :: int
  cfg_EnableTOTP :: bool
  cfg_TOTPEncryptionKey :: string
  cfg_MaxLoginAttempts :: int
  cfg_LoginAttemptWindow :: duration

definition minPasswordLength :: nat where "minPasswordLength = 12"

record session_meta =
  sm_UserAgent :: string
  sm_IP :: string

record token_pair =
  tp_AccessToken :: string
  tp_AccessExpiresAt :: time
  tp_RefreshToken :: string
  tp_RefreshExpiresAt :: time
  tp_SessionID :: uuid
  tp_TwoFactorRequired :: bool

text \<open>The managers \<open>New\<close> builds from the configuration.\<close>

definition jwt_manager :: "auth_config \<Rightarrow> token_manager" where
  "jwt_manager cfg = \<lparr>tm_issuer = cfg_JWTIssuer cfg, tm_secret = cfg_JWTSecret cfg, tm_ttl = cfg_AccessTokenTTL cfg\<rparr>"

definition totp_of :: "auth_config \<Rightarrow> totp_manager" where
  "totp_of cfg = \<lparr>tp_issuer = cfg_JWTIssuer cfg, tp_key = bytes_of_string (cfg_TOTPEncryptionKey cfg)\<rparr>"

text \<open>The message of an error, as \<open>err.Error()\<close> gives it where the service passes it on.\<close>

definition as_bad_request :: "err \<Rightarrow> err" where
  "as_bad_request e = (case e of ErrMsg m \<Rightarrow> BadRequest m JNull | _ \<Rightarrow> e)"

definition email_in_use :: err where
  "email_in_use = app_new ''email_in_use'' ''email already in use'' 409 JNull"

definition account_locked :: err where
  "account_locked = app_new ''account_locked'' ''too many failed attempts; try again later'' 429 JNull"

definition email_not_verified :: err where
  "email_not_verified = app_new ''email_not_verified'' ''email is not verified'' 403 JNull"

definition invalid_token :: err where
  "invalid_token = BadRequest ''invalid or expired token'' JNull"

subsection \<open>Registration and verification\<close>

definition Register :: "auth_config \<Rightarrow> auth_lib \<Rightarrow> env \<Rightarrow> string \<Rightarrow> string \<Rightarrow> db \<Rightarrow> db \<times> (err + unit)" where
  "Register cfg lib env rawEmail password db =
     (let email = NormalizeEmail rawEmail
      in case ValidatePasswordStrength password minPasswordLength of
           Inl e \<Rightarrow> (db, Inl (as_bad_request e))
         | Inr _ \<Rightarrow>
     (case lib_HashPassword lib (cfg_BcryptCost cfg) password of
        Inl e \<Rightarrow> (db, Inl e)
      | Inr hash \<Rightarrow>
     (let t = env_now env; userID = env_uuid env 0;
          user = \<lparr>user_ID = userID, user_Email = email, user_PasswordHash = hash, user_EmailVerifiedAt = None,
                  user_TwoFactorEnabled = False, user_DeletionGraceAt = None, user_DeletedAt = None,
                  user_CreatedAt = t, user_UpdatedAt = t\<rparr>;
          profile = \<lparr>prof_ID = env_uuid env 1, prof_UserID = uuid_Nil, prof_FirstName = [], prof_LastName = [],
                     prof_AvatarURL = [], prof_CompanyName = [], prof_PhoneNumber = [],
                     prof_Timezone = ''UTC'', prof_PreferredLanguage = ''en'',
                     prof_CreatedAt = t, prof_UpdatedAt = t\<rparr>
      in case CreateUserWithProfile user profile db of
           Inl e \<Rightarrow> (db, Inl (if e = ErrUnique then email_in_use else e))
         | Inr db1 \<Rightarrow>
     (let rawToken = GenerateSecureToken (env_rand env 0);
          token = \<lparr>ott_ID = env_uuid env 2, ott_UserID = userID, ott_TokenHash = HashToken rawToken,
                   ott_ExpiresAt = t + 24 * time_Hour, ott_ConsumedAt = None, ott_CreatedAt = t\<rparr>
      in case CreateEmailVerificationToken token db1 of
           Inl e \<Rightarrow> (db1, Inl e)
         | Inr db2 \<Rightarrow>
             (append_audit env 3 (Some userID) ''auth.registered'' ''user'' userID
                (JObj [(''email'', JStr email)]) db2, Inr ())))))"

definition VerifyEmail :: "env \<Rightarrow> string \<Rightarrow> db \<Rightarrow> db \<times> (err + unit)" where
  "VerifyEmail env rawToken db =
     (case ConsumeEmailVerificationToken env (HashToken rawToken) db of
        Inl e \<Rightarrow> (db, Inl (if e = ErrRecordNotFound then invalid_token else e))
      | Inr (db', _) \<Rightarrow> (db', Inr ()))"

subsection \<open>Sessions\<close>

definition new_session :: "auth_config \<Rightarrow> env \<Rightarrow> uuid \<Rightarrow> string \<Rightarrow> session_meta \<Rightarrow> auth_session" where
  "new_session cfg env userID refresh m =
     \<lparr>ses_ID = env_uuid env 0, ses_UserID = userID, ses_RefreshTokenHash = HashToken refresh,
      ses_ExpiresAt = env_now env + cfg_RefreshTokenTTL cfg, ses_UserAgent = sm_UserAgent m, ses_IP = sm_IP m,
      ses_LastSeenAt = env_now env, ses_RevokedAt = None, ses_ReplacedBySessionID = None,
      ses_CreatedAt = env_now env, ses_UpdatedAt = env_now env\<rparr>"

text \<open>The pair returned with a new session, and the error of the signing library if it has one:
  the session is stored by then.\<close>

definition token_pair_of :: "auth_config \<Rightarrow> auth_lib \<Rightarrow> env \<Rightarrow> uuid \<Rightarrow> uuid \<Rightarrow> string \<Rightarrow> err + token_pair" where
  "token_pair_of cfg lib env userID sessionID refresh =
     (case IssueAccessToken lib (jwt_manager cfg) (env_now env) userID sessionID of
        Inl e \<Rightarrow> Inl e
      | Inr (access, accessExp) \<Rightarrow>
          Inr \<lparr>tp_AccessToken = access, tp_AccessExpiresAt = accessExp, tp_RefreshToken = refresh,
               tp_RefreshExpiresAt = env_now env + cfg_RefreshTokenTTL cfg, tp_SessionID = sessionID,
               tp_TwoFactorRequired = False\<rparr>)"

definition issueSessionTokens ::
    "auth_config \<Rightarrow> auth_lib \<Rightarrow> env \<Rightarrow> uuid \<Rightarrow> session_meta \<Rightarrow> db \<Rightarrow> db \<times> (err + token_pair)" where
  "issueSessionTokens cfg lib env userID m db =
     (let refresh = GenerateSecureToken (env_rand env 0);
          session = new_session cfg env userID refresh m
      in case CreateSession session db of
           Inl e \<Rightarrow> (db, Inl e)
         | Inr db1 \<Rightarrow> (db1, token_pair_of cfg lib env userID (ses_ID session) refresh))"

definition two_factor_pending :: token_pair where
  "two_factor_pending = \<lparr>tp_AccessToken = [], tp_AccessExpiresAt = 0, tp_RefreshToken = [], tp_RefreshExpiresAt = 0,
     tp_SessionID = uuid_Nil, tp_TwoFactorRequired = True\<rparr>"

text \<open>A failed attempt is counted; the error of the counting itself is dropped.\<close>

definition count_failure :: "auth_config \<Rightarrow> env \<Rightarrow> string \<Rightarrow> db \<Rightarrow> db" where
  "count_failure cfg env email db =
     (case CreateOrIncrementThrottle env 0 email (cfg_LoginAttemptWindow cfg) (cfg_MaxLoginAttempts cfg) db of
        Inl _ \<Rightarrow> db
      | Inr (db', _) \<Rightarrow> db')"

text \<open>The second factor of a login or of \<open>Disable2FA\<close>: a TOTP code first, a recovery code if the
  code is missing or wrong.\<close>

definition use_recovery_code :: "env \<Rightarrow> uuid \<Rightarrow> string \<Rightarrow> bool \<Rightarrow> db \<Rightarrow> db \<times> bool" where
  "use_recovery_code env settingID recoveryCode ok db =
     (if \<not> ok \<and> recoveryCode \<noteq> [] then ConsumeRecoveryCode env settingID (HashToken recoveryCode) db
      else (db, ok))"

definition check_second_factor ::
    "auth_config \<Rightarrow> auth_lib \<Rightarrow> env \<Rightarrow> user \<Rightarrow> string \<Rightarrow> string \<Rightarrow> db \<Rightarrow> db \<times> (err + unit)" where
  "check_second_factor cfg lib env u totpCode recoveryCode db =
     (case GetTwoFactorByUser db (user_ID u) of
        Inl _ \<Rightarrow> (db, Inl Unauthorized)
      | Inr setting \<Rightarrow>
     (case TotpDecrypt lib (totp_of cfg) (tf_SecretEncrypted setting) of
        Inl e \<Rightarrow> (db, Inl e)
      | Inr secret \<Rightarrow>
     (let ok = (totpCode \<noteq> [] \<and> TotpVerify lib (env_now env) secret totpCode);
          (db1, ok1) = use_recovery_code env (tf_ID setting) recoveryCode ok db
      in if ok1 then (db1, Inr ()) else (db1, Inl Unauthorized))))"

definition Login ::
    "auth_config \<Rightarrow> auth_lib \<Rightarrow> env \<Rightarrow> string \<Rightarrow> string \<Rightarrow> string \<Rightarrow> string \<Rightarrow> session_meta \<Rightarrow> db
       \<Rightarrow> db \<times> (err + token_pair)" where
  "Login cfg lib env rawEmail password totpCode recoveryCode m db =
     (let email = NormalizeEmail rawEmail
      in if fst (IsEmailLocked env db email) then (db, Inl account_locked)
         else (case FindUserByEmail db email of
           Inl _ \<Rightarrow> (count_failure cfg env email db, Inl Unauthorized)
         | Inr u \<Rightarrow>
             if user_EmailVerifiedAt u = None then (db, Inl email_not_verified)
             else if \<not> lib_ComparePassword lib (user_PasswordHash u) password
             then (count_failure cfg env email db, Inl Unauthorized)
             else if user_TwoFactorEnabled u \<and> totpCode = [] \<and> recoveryCode = [] then (db, Inr two_factor_pending)
             else (case (if user_TwoFactorEnabled u then check_second_factor cfg lib env u totpCode recoveryCode db
                         else (db, Inr ())) of
                     (db1, Inl e) \<Rightarrow> (db1, Inl e)
                   | (db1, Inr _) \<Rightarrow> issueSessionTokens cfg lib env (user_ID u) m (ResetThrottle email db1))))"

definition Refresh ::
    "auth_config \<Rightarrow> auth_lib \<Rightarrow> env \<Rightarrow> string \<Rightarrow> session_meta \<Rightarrow> db \<Rightarrow> db \<times> (err + token_pair)" where
  "Refresh cfg lib env refreshToken m db =
     (case GetSessionByRefreshHash env db (HashToken refreshToken) of
        Inl _ \<Rightarrow> (db, Inl Unauthorized)
      | Inr current \<Rightarrow>
     (let newRefresh = GenerateSecureToken (env_rand env 0);
          session = new_session cfg env (ses_UserID current) newRefresh m
      in case RotateSession env (ses_ID current) session db of
           Inl e \<Rightarrow> (db, Inl e)
         | Inr db1 \<Rightarrow> (db1, token_pair_of cfg lib env (ses_UserID current) (ses_ID session) newRefresh)))"

definition Logout :: "env \<Rightarrow> string \<Rightarrow> db \<Rightarrow> db \<times> (err + unit)" where
  "Logout env refreshToken db =
     (case GetSessionByRefreshHash env db (HashToken refreshToken) of
        Inl _ \<Rightarrow> (db, Inr ())
      | Inr s \<Rightarrow> (repo_RevokeSession env (ses_ID s) db, Inr ()))"

record session_view =
  sv_session_id :: uuid
  sv_ip :: string
  sv_user_agent :: string
  sv_created_at :: time
  sv_last_seen_at :: time
  sv_is_current :: bool

definition ListSessions :: "db \<Rightarrow> uuid \<Rightarrow> uuid \<Rightarrow> session_view list" where
  "ListSessions db userID currentSessionID =
     map (\<lambda>s. \<lparr>sv_session_id = ses_ID s, sv_ip = ses_IP s, sv_user_agent = ses_UserAgent s,
               sv_created_at = ses_CreatedAt s, sv_last_seen_at = ses_LastSeenAt s,
               sv_is_current = (ses_ID s = currentSessionID)\<rparr>) (ListActiveSessions db userID)"

definition RevokeSession :: "env \<Rightarrow> uuid \<Rightarrow> uuid \<Rightarrow> db \<Rightarrow> db \<times> (err + unit)" where
  "RevokeSession env userID sessionID db =
     (if \<exists>s \<in> set (ListActiveSessions db userID). ses_ID s = sessionID
      then (repo_RevokeSession env sessionID db, Inr ())
      else (db, Inl (NotFound ''session not found'')))"

definition RevokeOtherSessions :: "env \<Rightarrow> uuid \<Rightarrow> uuid \<Rightarrow> db \<Rightarrow> db \<times> (err + unit)" where
  "RevokeOtherSessions env userID currentSessionID db = (RevokeAllOtherSessions env userID currentSessionID db, Inr ())"

subsection \<open>Passwords\<close>

definition ForgotPassword :: "env \<Rightarrow> string \<Rightarrow> db \<Rightarrow> db \<times> (err + unit)" where
  "ForgotPassword env rawEmail db =
     (case FindUserByEmail db (NormalizeEmail rawEmail) of
        Inl _ \<Rightarrow> (db, Inr ())
      | Inr u \<Rightarrow>
     (let raw = GenerateSecureToken (env_rand env 0);
          token = \<lparr>ott_ID = env_uuid env 0, ott_UserID = user_ID u, ott_TokenHash = HashToken raw,
                   ott_ExpiresAt = env_now env + time_Hour, ott_ConsumedAt = None, ott_CreatedAt = env_now env\<rparr>
      in case CreateResetToken token db of
           Inl e \<Rightarrow> (db, Inl e)
         | Inr db1 \<Rightarrow> (db1, Inr ())))"

definition ResetPassword ::
    "auth_config \<Rightarrow> auth_lib \<Rightarrow> env \<Rightarrow> string \<Rightarrow> string \<Rightarrow> db \<Rightarrow> db \<times> (err + unit)" where
  "ResetPassword cfg lib env rawToken newPassword db =
     (case ValidatePasswordStrength newPassword minPasswordLength of
        Inl e \<Rightarrow> (db, Inl (as_bad_request e))
      | Inr _ \<Rightarrow>
     (case lib_HashPassword lib (cfg_BcryptCost cfg) newPassword of
        Inl e \<Rightarrow> (db, Inl e)
      | Inr hash \<Rightarrow>
     (case ConsumeResetTokenAndSetPassword env (HashToken rawToken) hash db of
        Inl e \<Rightarrow> (db, Inl (if e = ErrRecordNotFound then invalid_token else e))
      | Inr (db1, uid) \<Rightarrow> (append_audit env 0 (Some uid) ''auth.password_reset'' ''user'' uid JNull db1, Inr ()))))"

text \<open>Two writes without a transaction: the sessions can outlive the old password.\<close>

definition ChangePassword ::
    "auth_config \<Rightarrow> auth_lib \<Rightarrow> env \<Rightarrow> uuid \<Rightarrow> uuid \<Rightarrow> string \<Rightarrow> string \<Rightarrow> db \<Rightarrow> db \<times> (err + unit)" where
  "ChangePassword cfg lib env userID currentSessionID currentPassword newPassword db =
     (case ValidatePasswordStrength newPassword minPasswordLength of
        Inl e \<Rightarrow> (db, Inl (as_bad_request e))
      | Inr _ \<Rightarrow>
     (case FindUserByID db userID of
        Inl _ \<Rightarrow> (db, Inl Unauthorized)
      | Inr u \<Rightarrow>
          if \<not> lib_ComparePassword lib (user_PasswordHash u) currentPassword then (db, Inl Unauthorized)
          else (case lib_HashPassword lib (cfg_BcryptCost cfg) newPassword of
             Inl e \<Rightarrow> (db, Inl e)
           | Inr hash \<Rightarrow>
          (case write_step env 0 (\<lambda>d. Inr (UpdatePassword env userID hash d)) db of
             Inl e \<Rightarrow> (db, Inl e)
           | Inr db1 \<Rightarrow>
          (case write_step env 1 (\<lambda>d. Inr (RevokeAllOtherSessions env userID currentSessionID d)) db1 of
             Inl e \<Rightarrow> (db1, Inl e)
           | Inr db2 \<Rightarrow>
               (append_audit env 0 (Some userID) ''auth.password_changed'' ''user'' userID
                  (JObj [(''policy'', JStr ''revoke_other_sessions'')]) db2, Inr ()))))))"

subsection \<open>Profiles\<close>

definition keep_if_empty :: "string \<Rightarrow> string \<Rightarrow> string" where
  "keep_if_empty new old = (if new \<noteq> [] then new else old)"

definition UpdateProfile ::
    "auth_lib \<Rightarrow> env \<Rightarrow> uuid \<Rightarrow> user_profile \<Rightarrow> db \<Rightarrow> db \<times> (err + user_profile)" where
  "UpdateProfile lib env userID inp db =
     (if prof_Timezone inp \<noteq> [] \<and> \<not> lib_TimeZone lib (prof_Timezone inp)
      then (db, Inl (BadRequest ''invalid timezone'' JNull))
      else (case auth_GetProfile db userID of
        Inl e \<Rightarrow> (db, Inl e)
      | Inr p \<Rightarrow>
          (let p' = p\<lparr>prof_FirstName := keep_if_empty (prof_FirstName inp) (prof_FirstName p),
                      prof_LastName := keep_if_empty (prof_LastName inp) (prof_LastName p),
                      prof_AvatarURL := keep_if_empty (prof_AvatarURL inp) (prof_AvatarURL p),
                      prof_CompanyName := keep_if_empty (prof_CompanyName inp) (prof_CompanyName p),
                      prof_PhoneNumber := keep_if_empty (prof_PhoneNumber inp) (prof_PhoneNumber p),
                      prof_Timezone := keep_if_empty (prof_Timezone inp) (prof_Timezone p),
                      prof_PreferredLanguage := keep_if_empty (prof_PreferredLanguage inp) (prof_PreferredLanguage p),
                      prof_UpdatedAt := env_now env\<rparr>
           in (repo_UpdateProfile env p' db, Inr p'))))"

subsection \<open>Two-factor authentication\<close>

definition BeginEnable2FA ::
    "auth_config \<Rightarrow> auth_lib \<Rightarrow> env \<Rightarrow> uuid \<Rightarrow> string \<Rightarrow> db \<Rightarrow> db \<times> (err + (string \<times> string))" where
  "BeginEnable2FA cfg lib env userID password db =
     (case FindUserByID db userID of
        Inl _ \<Rightarrow> (db, Inl Unauthorized)
      | Inr u \<Rightarrow>
          if \<not> lib_ComparePassword lib (user_PasswordHash u) password then (db, Inl Unauthorized)
          else (case TotpGenerate lib (totp_of cfg) (user_Email u) of
             Inl e \<Rightarrow> (db, Inl e)
           | Inr (secret, uri, qr) \<Rightarrow>
          (case TotpEncrypt lib (totp_of cfg) (take gcm_NonceSize (env_rand env 0)) secret of
             Inl e \<Rightarrow> (db, Inl e)
           | Inr enc \<Rightarrow>
          (case UpsertTwoFactor \<lparr>tf_ID = env_uuid env 0, tf_UserID = userID, tf_SecretEncrypted = enc,
                    tf_EnabledAt = None, tf_CreatedAt = env_now env, tf_UpdatedAt = env_now env\<rparr> db of
             Inl e \<Rightarrow> (db, Inl e)
           | Inr db1 \<Rightarrow> (db1, Inr (uri, qr))))))"

text \<open>Two transactions: the codes can be replaced although the second factor is not enabled.\<close>

definition ConfirmEnable2FA ::
    "auth_config \<Rightarrow> auth_lib \<Rightarrow> env \<Rightarrow> uuid \<Rightarrow> string \<Rightarrow> db \<Rightarrow> db \<times> (err + string list)" where
  "ConfirmEnable2FA cfg lib env userID code db =
     (case GetTwoFactorByUser db userID of
        Inl _ \<Rightarrow> (db, Inl (BadRequest ''2fa setup not initialized'' JNull))
      | Inr setting \<Rightarrow>
     (case TotpDecrypt lib (totp_of cfg) (tf_SecretEncrypted setting) of
        Inl e \<Rightarrow> (db, Inl e)
      | Inr secret \<Rightarrow>
          if \<not> TotpVerify lib (env_now env) secret code then (db, Inl (BadRequest ''invalid 2fa code'' JNull))
          else (let recovery = NewRecoveryCodes (map (env_rand env) [0..<8])
                in case write_step env 0 (ReplaceRecoveryCodes env 0 (tf_ID setting) (map HashToken recovery)) db of
                     Inl e \<Rightarrow> (db, Inl e)
                   | Inr db1 \<Rightarrow>
                  (case write_step env 1 (\<lambda>d. Inr (MarkTwoFactorEnabled env userID d)) db1 of
                     Inl e \<Rightarrow> (db1, Inl e)
                   | Inr db2 \<Rightarrow> (db2, Inr recovery)))))"

text \<open>A recovery code that was used stays used if disabling fails.\<close>

definition Disable2FA ::
    "auth_config \<Rightarrow> auth_lib \<Rightarrow> env \<Rightarrow> uuid \<Rightarrow> string \<Rightarrow> string \<Rightarrow> string \<Rightarrow> db \<Rightarrow> db \<times> (err + unit)" where
  "Disable2FA cfg lib env userID password totpCode recoveryCode db =
     (case FindUserByID db userID of
        Inl _ \<Rightarrow> (db, Inl Unauthorized)
      | Inr u \<Rightarrow>
          if \<not> lib_ComparePassword lib (user_PasswordHash u) password then (db, Inl Unauthorized)
          else (case GetTwoFactorByUser db userID of
             Inl _ \<Rightarrow> (db, Inl (BadRequest ''2fa is not enabled'' JNull))
           | Inr setting \<Rightarrow>
          (let valid = (totpCode \<noteq> [] \<and>
                 (case TotpDecrypt lib (totp_of cfg) (tf_SecretEncrypted setting) of
                    Inl _ \<Rightarrow> False
                  | Inr secret \<Rightarrow> TotpVerify lib (env_now env) secret totpCode));
               (db1, valid1) = use_recovery_code env (tf_ID setting) recoveryCode valid db
           in if \<not> valid1 then (db1, Inl (BadRequest ''invalid 2fa confirmation'' JNull))
              else (case write_step env 1 (DisableTwoFactor env userID) db1 of
                 Inl e \<Rightarrow> (db1, Inl e)
               | Inr db2 \<Rightarrow> (db2, Inr ())))))"

subsection \<open>Deleting the account\<close>

text \<open>The grace period is a product of 64-bit integers.\<close>

definition DeleteAccount :: "auth_lib \<Rightarrow> env \<Rightarrow> uuid \<Rightarrow> string \<Rightarrow> int \<Rightarrow> db \<Rightarrow> db \<times> (err + unit)" where
  "DeleteAccount lib env userID password graceDays db =
     (case FindUserByID db userID of
        Inl _ \<Rightarrow> (db, Inl Unauthorized)
      | Inr u \<Rightarrow>
          if \<not> lib_ComparePassword lib (user_PasswordHash u) password then (db, Inl Unauthorized)
          else (let grace = (if graceDays > 0 then Some (env_now env + int64 (int64 (graceDays * 24) * time_Hour)) else None)
                in (append_audit env 0 (Some userID) ''auth.account_deleted'' ''user'' userID
                      (JObj [(''grace_days'', JInt graceDays)]) (SoftDeleteUser env userID grace db), Inr ())))"

end
