(* ===== verification/Middleware.thy ===== *)
theory Middleware
  imports AuthService Rbac DeviceRepo
begin

section \<open>The middleware of the HTTP server (internal/middleware)\<close>

text \<open>
  The handlers that authenticate and authorise a request before its own handler runs. A
  middleware is a function of what it reads from the request (a header, a path parameter, the
  context) that gives the response it aborts with (\<open>Inl\<close>) or what it puts into the context
  (\<open>Inr\<close>). \<open>parse\<close> is \<open>uuid.Parse\<close> of the library \<open>google/uuid\<close>.
\<close>

type_synonym http_response = "int \<times> error_payload"

subsection \<open>Users (auth.go)\<close>

definition bearer_prefix :: string where "bearer_prefix = ''Bearer ''"

definition RequireAuth ::
    "auth_config \<Rightarrow> auth_lib \<Rightarrow> time \<Rightarrow> string option \<Rightarrow> string \<Rightarrow> http_response + (string \<times> string)" where
  "RequireAuth cfg lib now reqID authz =
     (if \<not> prefix bearer_prefix authz then Inl (Fail reqID Unauthorized)
      else (case ParseAccessToken lib (jwt_manager cfg) now (drop (length bearer_prefix) authz) of
        Inl _ \<Rightarrow> Inl (Fail reqID Unauthorized)
      | Inr claims \<Rightarrow> Inr (clm_UserID claims, clm_SessionID claims)))"

text \<open>\<open>authContext\<close> of the authentication handlers: the ids the middleware stored.\<close>

definition authContext :: "(string \<Rightarrow> uuid option) \<Rightarrow> string \<times> string \<Rightarrow> err + (uuid \<times> uuid)" where
  "authContext parse ctx =
     (case parse (fst ctx) of
        None \<Rightarrow> Inl Unauthorized
      | Some userID \<Rightarrow>
     (case parse (snd ctx) of
        None \<Rightarrow> Inl Unauthorized
      | Some sessionID \<Rightarrow> Inr (userID, sessionID)))"

subsection \<open>Project permissions (project\_rbac.go)\<close>

definition RequireProjectPermission ::
    "(string \<Rightarrow> uuid option) \<Rightarrow> db \<Rightarrow> string \<Rightarrow> string option \<Rightarrow> string \<Rightarrow> string
     \<Rightarrow> http_response + membership \<times> role" where
  "RequireProjectPermission parse db permissionKey reqID projectParam authUserID =
     (case parse projectParam of
        None \<Rightarrow> Inl (Fail reqID (BadRequest ''invalid project id'' JNull))
      | Some pid \<Rightarrow>
     (case parse authUserID of
        None \<Rightarrow> Inl (Fail reqID Unauthorized)
      | Some uid \<Rightarrow>
     (case AuthorizeProject db pid uid permissionKey of
        Inl e \<Rightarrow> Inl (Fail reqID e)
      | Inr m \<Rightarrow> Inr m)))"

subsection \<open>Devices (device\_auth.go)\<close>

definition device_prefix :: string where "device_prefix = ''Device ''"

definition RequireDeviceAuth :: "db \<Rightarrow> string option \<Rightarrow> string \<Rightarrow> http_response + device" where
  "RequireDeviceAuth db reqID authz =
     (if \<not> prefix device_prefix authz then Inl (Fail reqID Unauthorized)
      else
        (let raw = trim_space (drop (length device_prefix) authz)
         in if raw = [] then Inl (Fail reqID Unauthorized)
            else (case GetDeviceByActiveTokenHash db (HashToken raw) of
               Inr (d, _) \<Rightarrow> Inr d
             | Inl e \<Rightarrow>
                 Inl (Fail reqID
                   (if e = ErrMsg ''device_blocked''
                    then app_new ''device_blocked'' ''device is blocked'' 403 JNull
                    else if e = ErrMsg ''device_polling_disabled''
                    then app_new ''device_polling_disabled'' ''device polling is disabled'' 403 JNull
                    else if e = ErrMsg ''device_token_revoked''
                    then app_new ''device_token_revoked'' ''device token has been revoked'' 401 JNull
                    else Unauthorized)))))"

subsection \<open>Request ids and errors (request\_id.go)\<close>

text \<open>\<open>fresh\<close> is the value of \<open>uuid.NewString\<close>. The id is put into the context and into the
  response header.\<close>

definition RequestID :: "uuid \<Rightarrow> string \<Rightarrow> string" where
  "RequestID fresh header = (if header = [] then uuid_String fresh else header)"

text \<open>After the handlers, the last error they recorded is reported.\<close>

definition ErrorHandler :: "string option \<Rightarrow> err list \<Rightarrow> http_response option" where
  "ErrorHandler reqID errs = (if errs = [] then None else Some (Fail reqID (last errs)))"

end
