(* ===== verification/Projects.thy ===== *)
theory Projects
  imports Rbac AuthRepo
begin

section \<open>Projects and memberships (domain/rbac/service, rbac/repository/project_queries.go)\<close>

text \<open>
  \<open>ProjectService\<close>: projects, members, custom roles and the transfer of ownership. Each
  operation takes the actor, its arguments and the database and returns the new database with an
  error or the value; the UUIDs of a request are numbered in the order the code draws them. An
  operation that returns an error before its first write returns the database unchanged.
\<close>

subsection \<open>Repository operations on projects\<close>

definition proj_conflict :: "project \<Rightarrow> project \<Rightarrow> bool" where
  "proj_conflict x r \<longleftrightarrow> proj_ID x = proj_ID r"

definition update_project :: "env \<Rightarrow> uuid \<Rightarrow> (project \<Rightarrow> project) \<Rightarrow> db \<Rightarrow> db" where
  "update_project env projectID f db =
     db\<lparr>db_projects := update_where (\<lambda>p. proj_ID p = projectID \<and> proj_DeletedAt p = None)
        (\<lambda>p. (f p)\<lparr>proj_UpdatedAt := env_now env\<rparr>) (db_projects db)\<rparr>"

definition UpdateProjectFields :: "env \<Rightarrow> uuid \<Rightarrow> string option \<Rightarrow> string option \<Rightarrow> db \<Rightarrow> db" where
  "UpdateProjectFields env projectID name description db =
     (if name = None \<and> description = None then db
      else update_project env projectID
        (\<lambda>p. p\<lparr>proj_Name := (case name of None \<Rightarrow> proj_Name p | Some n \<Rightarrow> trim_space n),
              proj_Description := (case description of None \<Rightarrow> proj_Description p | Some d \<Rightarrow> d)\<rparr>) db)"

definition SetProjectArchived :: "env \<Rightarrow> uuid \<Rightarrow> bool \<Rightarrow> db \<Rightarrow> db" where
  "SetProjectArchived env projectID archived db =
     update_project env projectID
       (\<lambda>p. p\<lparr>proj_ArchivedAt := (if archived then Some (env_now env) else None)\<rparr>) db"

definition update_project_devices :: "env \<Rightarrow> uuid \<Rightarrow> (device \<Rightarrow> device) \<Rightarrow> db \<Rightarrow> db" where
  "update_project_devices env projectID f db =
     db\<lparr>db_devices := update_where (\<lambda>d. dev_ProjectID d = projectID \<and> dev_DeletedAt d = None)
        (\<lambda>d. (f d)\<lparr>dev_UpdatedAt := env_now env\<rparr>) (db_devices db)\<rparr>"

definition RevokeDevicesAndDisablePolling :: "env \<Rightarrow> uuid \<Rightarrow> db \<Rightarrow> db" where
  "RevokeDevicesAndDisablePolling env projectID db =
     update_project_devices env projectID
       (\<lambda>d. d\<lparr>dev_TokenRevokedAt := Some (env_now env), dev_PollingDisabledAt := Some (env_now env)\<rparr>) db"

definition SetDevicesPollingForArchive :: "env \<Rightarrow> uuid \<Rightarrow> bool \<Rightarrow> db \<Rightarrow> db" where
  "SetDevicesPollingForArchive env projectID disable db =
     update_project_devices env projectID
       (\<lambda>d. d\<lparr>dev_PollingDisabledAt := (if disable then Some (env_now env) else None)\<rparr>) db"

text \<open>A campaign blocks the deletion of its project unless it is completed or cancelled.\<close>

definition countBlockingCampaigns :: "db \<Rightarrow> uuid \<Rightarrow> int" where
  "countBlockingCampaigns db projectID =
     count_where (\<lambda>c. camp_ProjectID c = projectID \<and> camp_DeletedAt c = None
        \<and> camp_Status c \<notin> {''completed'', ''cancelled''}) (db_campaigns db)"

definition DeleteProjectSoft :: "env \<Rightarrow> uuid \<Rightarrow> db \<Rightarrow> err + db" where
  "DeleteProjectSoft env projectID db =
     (if countBlockingCampaigns db projectID > 0 then Inl (ErrMsg ''blocking_campaigns'')
      else
        (let db1 = RevokeDevicesAndDisablePolling env projectID db
         in Inr (db1\<lparr>db_projects := update_where (\<lambda>p. proj_ID p = projectID \<and> proj_DeletedAt p = None)
                   (\<lambda>p. p\<lparr>proj_DeletedAt := Some (env_now env)\<rparr>) (db_projects db1)\<rparr>)))"

record summary =
  sum_DevicesTotal :: int
  sum_DevicesOnline :: int
  sum_DevicesOffline :: int
  sum_UpdatesSuccess24h :: int
  sum_UpdatesFailure24h :: int

definition repo_GetProjectSummary :: "env \<Rightarrow> db \<Rightarrow> uuid \<Rightarrow> summary" where
  "repo_GetProjectSummary env db projectID =
     (let mine = (\<lambda>d. dev_ProjectID d = projectID \<and> dev_DeletedAt d = None);
          threshold = env_now env - 5 * time_Minute;
          since = env_now env - 24 * time_Hour
      in \<lparr>sum_DevicesTotal = count_where mine (db_devices db),
          sum_DevicesOnline = count_where (\<lambda>d. mine d \<and>
             (case dev_LastSeenAt d of None \<Rightarrow> False | Some t \<Rightarrow> t \<ge> threshold)) (db_devices db),
          sum_DevicesOffline = count_where (\<lambda>d. mine d \<and>
             (case dev_LastSeenAt d of None \<Rightarrow> True | Some t \<Rightarrow> t < threshold)) (db_devices db),
          sum_UpdatesSuccess24h = count_where (\<lambda>u. upd_ProjectID u = projectID \<and> upd_Outcome u = ''success''
             \<and> upd_CreatedAt u \<ge> since) (db_update_reports db),
          sum_UpdatesFailure24h = count_where (\<lambda>u. upd_ProjectID u = projectID \<and> upd_Outcome u = ''failure''
             \<and> upd_CreatedAt u \<ge> since) (db_update_reports db)\<rparr>)"

subsection \<open>Guards of the service\<close>

definition proj_ensureProjectNotArchived :: "db \<Rightarrow> uuid \<Rightarrow> err + unit" where
  "proj_ensureProjectNotArchived db projectID =
     (case GetProject db projectID of
        Inl e \<Rightarrow> if e = ErrRecordNotFound then Inl (NotFound ''project not found'') else Inl e
      | Inr p \<Rightarrow> if proj_ArchivedAt p \<noteq> None
                then Inl (app_new ''project_archived'' ''project is archived; unarchive to modify'' 409 JNull)
                else Inr ())"

definition mustBeProjectOwner :: "db \<Rightarrow> uuid \<Rightarrow> uuid \<Rightarrow> err + unit" where
  "mustBeProjectOwner db projectID userID =
     (case GetMembershipForUser db projectID userID of
        Inl e \<Rightarrow> Inl e
      | Inr m \<Rightarrow> MustBeOwner m)"

text \<open>The two guards that open every modifying operation: the permission and the archive check.\<close>

definition guard_project :: "db \<Rightarrow> uuid \<Rightarrow> uuid \<Rightarrow> string \<Rightarrow> err + unit" where
  "guard_project db projectID actor perm =
     (case AuthorizeProject db projectID actor perm of
        Inl e \<Rightarrow> Inl e
      | Inr _ \<Rightarrow> proj_ensureProjectNotArchived db projectID)"

definition proj_audit :: "env \<Rightarrow> nat \<Rightarrow> uuid \<Rightarrow> string \<Rightarrow> uuid \<Rightarrow> (string \<times> jval) list \<Rightarrow> db \<Rightarrow> db" where
  "proj_audit env k actor event projectID metadata db =
     append_audit env k (Some actor) event ''project'' projectID (JObj metadata) db"

subsection \<open>Projects\<close>

definition CreateProject :: "env \<Rightarrow> uuid \<Rightarrow> string \<Rightarrow> string \<Rightarrow> db \<Rightarrow> db \<times> (err + project)" where
  "CreateProject env actor name0 description db =
     (let name = trim_space name0
      in if name = [] then (db, Inl (BadRequest ''project name is required'' JNull))
      else case GetPredefinedRoleBySlug db SlugOwner of
        Inl e \<Rightarrow> (db, Inl e)
      | Inr ownerRole \<Rightarrow>
     (let p = \<lparr>proj_ID = env_uuid env 0, proj_Name = name, proj_Description = trim_space description,
               proj_ArchivedAt = None, proj_CreatedAt = env_now env, proj_UpdatedAt = env_now env,
               proj_DeletedAt = None\<rparr>
      in case insert_row proj_conflict p (db_projects db) of
        Inl e \<Rightarrow> (db, Inl e)
      | Inr ps \<Rightarrow>
     (case CreateMembership (new_membership env 1 (proj_ID p) actor (role_ID ownerRole)) (db\<lparr>db_projects := ps\<rparr>) of
        Inl e \<Rightarrow> (db, Inl e)
      | Inr db1 \<Rightarrow>
          (proj_audit env 2 actor ''project.created'' (proj_ID p)
             [(''name'', JStr name), (''description'', JStr (proj_Description p))] db1, Inr p))))"

record role_brief =
  rb_ID :: uuid
  rb_Slug :: string
  rb_Name :: string

definition brief_of :: "role \<Rightarrow> role_brief" where
  "brief_of r = \<lparr>rb_ID = role_ID r, rb_Slug = role_Slug r, rb_Name = role_Name r\<rparr>"

definition GetProjectDetail :: "db \<Rightarrow> uuid \<Rightarrow> uuid \<Rightarrow> err + (project \<times> role_brief)" where
  "GetProjectDetail db actor projectID =
     (case AuthorizeProject db projectID actor ProjectRead of
        Inl e \<Rightarrow> Inl e
      | Inr (m, r) \<Rightarrow>
     (case GetProject db projectID of
        Inl e \<Rightarrow> Inl e
      | Inr p \<Rightarrow> Inr (p, brief_of r)))"

definition parseProjectSort :: "string \<Rightarrow> string \<times> bool" where
  "parseProjectSort raw0 =
     (let raw = trim_space raw0
      in if raw = [] then (''created_at'', True)
         else
           (let desc = has_prefix raw ''-'';
                raw1 = (if desc then trim_prefix raw ''-''
                        else if has_prefix raw ''+'' then trim_prefix raw ''+'' else raw);
                f = to_lower raw1
            in if f \<in> {''name'', ''updated_at'', ''created_at''} then (f, desc) else (''created_at'', True)))"

text \<open>The listing of a user's projects. \<open>name_matches search name\<close> is the database's
  \<open>LOWER(projects.name) LIKE '%' || lower(search) || '%'\<close>; a projects row is joined to each
  membership by its primary key.\<close>

definition ListMembershipsWithProjects ::
    "(string \<Rightarrow> string \<Rightarrow> bool) \<Rightarrow> db \<Rightarrow> uuid \<Rightarrow> string \<Rightarrow> string \<Rightarrow> bool \<Rightarrow> int \<Rightarrow> int
     \<Rightarrow> (membership \<times> project) list \<times> int" where
  "ListMembershipsWithProjects name_matches db userID search sortField desc offset limit =
     (let base = [(m, p). m \<leftarrow> db_members db, mem_UserID m = userID,
                          p \<leftarrow> db_projects db, proj_ID p = mem_ProjectID m \<and> proj_DeletedAt p = None
                            \<and> (search = [] \<or> name_matches search (proj_Name p))];
          sorted = (if sortField = ''name'' then sort_key (\<lambda>mp. codes (proj_Name (snd mp))) base
                    else if sortField = ''updated_at'' then sort_key (\<lambda>mp. proj_UpdatedAt (snd mp)) base
                    else sort_key (\<lambda>mp. proj_CreatedAt (snd mp)) base)
      in (page_of offset limit (if desc then rev sorted else sorted), int (length base)))"

definition ListMyProjects ::
    "(string \<Rightarrow> string \<Rightarrow> bool) \<Rightarrow> db \<Rightarrow> uuid \<Rightarrow> string \<Rightarrow> string \<Rightarrow> int \<Rightarrow> int \<Rightarrow> (project \<times> role_brief) list \<times> int" where
  "ListMyProjects name_matches db actor search sortRaw page0 pageSize0 =
     (let (field, desc) = parseProjectSort sortRaw;
          page = (if page0 < 1 then 1 else page0);
          size1 = (if pageSize0 < 1 then 20 else pageSize0);
          pageSize = (if size1 > 100 then 100 else size1);
          (ms, n) = ListMembershipsWithProjects name_matches db actor search field desc
                      (page_offset page pageSize) pageSize
      in (map (\<lambda>(m, p). (p, brief_of (preload_role db m))) ms, n))"

definition UpdateProject :: "env \<Rightarrow> uuid \<Rightarrow> uuid \<Rightarrow> string option \<Rightarrow> string option \<Rightarrow> db \<Rightarrow> db \<times> (err + unit)" where
  "UpdateProject env actor projectID name description db =
     (case guard_project db projectID actor ProjectUpdate of
        Inl e \<Rightarrow> (db, Inl e)
      | Inr _ \<Rightarrow>
          (proj_audit env 0 actor ''project.updated'' projectID
             [(''name'', case name of None \<Rightarrow> JNull | Some n \<Rightarrow> JStr n),
              (''description'', case description of None \<Rightarrow> JNull | Some d \<Rightarrow> JStr d)]
             (UpdateProjectFields env projectID name description db), Inr ()))"

text \<open>The project and its devices are written one after the other, not in a transaction: if the second
  write fails, the project is archived and its devices still poll.\<close>

definition ArchiveProject :: "env \<Rightarrow> uuid \<Rightarrow> uuid \<Rightarrow> bool \<Rightarrow> db \<Rightarrow> db \<times> (err + unit)" where
  "ArchiveProject env actor projectID archive db =
     (case AuthorizeProject db projectID actor ProjectUpdate of
        Inl e \<Rightarrow> (db, Inl e)
      | Inr _ \<Rightarrow>
     (case GetProject db projectID of
        Inl e \<Rightarrow> (db, Inl e)
      | Inr p \<Rightarrow>
          if archive \<and> proj_ArchivedAt p \<noteq> None then (db, Inr ())
          else if \<not> archive \<and> proj_ArchivedAt p = None then (db, Inr ())
          else
            (case write_step env 0 (\<lambda>d. Inr (SetProjectArchived env projectID archive d)) db of
               Inl e \<Rightarrow> (db, Inl e)
             | Inr db1 \<Rightarrow>
            (case write_step env 1 (\<lambda>d. Inr (SetDevicesPollingForArchive env projectID archive d)) db1 of
               Inl e \<Rightarrow> (db1, Inl e)
             | Inr db2 \<Rightarrow>
                 (proj_audit env 0 actor (if archive then ''project.archived'' else ''project.unarchived'')
                   projectID [(''archived'', JBool archive)] db2, Inr ())))))"

definition mapDeleteProjectError :: "err \<Rightarrow> err" where
  "mapDeleteProjectError e =
     (if e = ErrMsg ''blocking_campaigns''
      then app_new ''campaigns_active''
        ''cannot delete project while OTA campaigns are in a non-terminal state (not completed or cancelled)'' 409 JNull
      else e)"

definition DeleteProject :: "env \<Rightarrow> uuid \<Rightarrow> uuid \<Rightarrow> db \<Rightarrow> db \<times> (err + unit)" where
  "DeleteProject env actor projectID db =
     (case AuthorizeProject db projectID actor ProjectDelete of
        Inl e \<Rightarrow> (db, Inl e)
      | Inr _ \<Rightarrow>
     (case mustBeProjectOwner db projectID actor of
        Inl e \<Rightarrow> (db, Inl e)
      | Inr _ \<Rightarrow>
     (case DeleteProjectSoft env projectID db of
        Inl e \<Rightarrow> (db, Inl (mapDeleteProjectError e))
      | Inr db1 \<Rightarrow>
          (proj_audit env 0 actor ''project.deleted'' projectID
             [(''strategy'', JStr ''soft_delete_with_device_revocation'')] db1, Inr ()))))"

definition GetProjectSummary :: "env \<Rightarrow> db \<Rightarrow> uuid \<Rightarrow> uuid \<Rightarrow> err + summary" where
  "GetProjectSummary env db actor projectID =
     (case AuthorizeProject db projectID actor DashboardRead of
        Inl e \<Rightarrow> Inl e
      | Inr _ \<Rightarrow> Inr (repo_GetProjectSummary env db projectID))"

subsection \<open>Audit log\<close>

record audit_filters =
  af_TargetType :: string
  af_TargetID :: "uuid option"
  af_ActorID :: "uuid option"
  af_EventPrefix :: string
  af_From :: "time option"
  af_To :: "time option"
  af_Offset :: int
  af_Limit :: int

text \<open>\<open>event_like prefix event\<close> is the database's \<open>event LIKE prefix || '%'\<close>.\<close>

definition ListAuditLogs :: "(string \<Rightarrow> string \<Rightarrow> bool) \<Rightarrow> db \<Rightarrow> audit_filters \<Rightarrow> audit_log list \<times> int" where
  "ListAuditLogs event_like db f =
     (let q = filter (\<lambda>a.
                (af_TargetType f = [] \<or> aud_TargetType a = af_TargetType f)
              \<and> (case af_TargetID f of None \<Rightarrow> True | Some i \<Rightarrow> aud_TargetID a = i)
              \<and> (case af_ActorID f of None \<Rightarrow> True | Some i \<Rightarrow> aud_ActorUserID a = Some i)
              \<and> (af_EventPrefix f = [] \<or> event_like (af_EventPrefix f) (aud_Event a))
              \<and> (case af_From f of None \<Rightarrow> True | Some t \<Rightarrow> aud_CreatedAt a \<ge> t)
              \<and> (case af_To f of None \<Rightarrow> True | Some t \<Rightarrow> aud_CreatedAt a \<le> t)) (db_audit_logs db);
          lim1 = (if af_Limit f \<le> 0 then 20 else af_Limit f);
          lim = (if lim1 > 100 then 100 else lim1)
      in (page_of (af_Offset f) lim (rev (sort_key aud_CreatedAt q)), int (length q)))"

definition ListProjectAuditLogs ::
    "(string \<Rightarrow> string \<Rightarrow> bool) \<Rightarrow> db \<Rightarrow> uuid \<Rightarrow> uuid \<Rightarrow> uuid option \<Rightarrow> string \<Rightarrow> time option \<Rightarrow> time option
     \<Rightarrow> int \<Rightarrow> int \<Rightarrow> err + (audit_log list \<times> int)" where
  "ListProjectAuditLogs event_like db actor projectID actorFilter eventPrefix tfrom tto page0 pageSize0 =
     (case AuthorizeProject db projectID actor AuditRead of
        Inl e \<Rightarrow> Inl e
      | Inr _ \<Rightarrow>
          (let page = (if page0 < 1 then 1 else page0);
               size1 = (if pageSize0 < 1 then 20 else pageSize0);
               pageSize = (if size1 > 100 then 100 else size1)
           in Inr (ListAuditLogs event_like db
                \<lparr>af_TargetType = ''project'', af_TargetID = Some projectID, af_ActorID = actorFilter,
                 af_EventPrefix = eventPrefix, af_From = tfrom, af_To = tto,
                 af_Offset = page_offset page pageSize, af_Limit = pageSize\<rparr>)))"

subsection \<open>Members\<close>

definition is_owner_role :: "role \<Rightarrow> bool" where
  "is_owner_role r \<longleftrightarrow> role_IsPredefined r \<and> role_Slug r = SlugOwner"

definition InviteMember :: "env \<Rightarrow> uuid \<Rightarrow> uuid \<Rightarrow> string \<Rightarrow> uuid \<Rightarrow> db \<Rightarrow> db \<times> (err + unit)" where
  "InviteMember env actor projectID email roleID db =
     (case guard_project db projectID actor MemberInvite of
        Inl e \<Rightarrow> (db, Inl e)
      | Inr _ \<Rightarrow>
     (case GetRole db roleID of
        Inl _ \<Rightarrow> (db, Inl (BadRequest ''invalid role'' JNull))
      | Inr r \<Rightarrow>
     (case ValidateAssignableRole projectID r of
        Inl e \<Rightarrow> (db, Inl e)
      | Inr _ \<Rightarrow>
     (case (if is_owner_role r
            then (case GetMembershipForUser db projectID actor of
                    Inl e \<Rightarrow> Inl e
                  | Inr m \<Rightarrow> (case MustBeOwner m of Inl _ \<Rightarrow> Inl Forbidden | Inr _ \<Rightarrow> Inr ()))
            else Inr ()) of
        Inl e \<Rightarrow> (db, Inl e)
      | Inr _ \<Rightarrow>
     (case FindUserByEmail db email of
        Inl e \<Rightarrow> (db, Inl (if e = ErrRecordNotFound then NotFound ''user not found'' else e))
      | Inr u \<Rightarrow>
     (case first_by mem_ID (\<lambda>m. mem_ProjectID m = projectID \<and> mem_UserID m = user_ID u) (db_members db) of
        Some _ \<Rightarrow> (db, Inl (app_new ''already_member'' ''user is already a member'' 409 JNull))
      | None \<Rightarrow>
     (case CreateMembership (new_membership env 0 projectID (user_ID u) roleID) db of
        Inl e \<Rightarrow> (db, Inl e)
      | Inr db1 \<Rightarrow>
          (proj_audit env 1 actor ''member.invited'' projectID
             [(''target_user_id'', JUuid (user_ID u)), (''role_id'', JUuid roleID)] db1, Inr ()))))))))"

definition check_last_owner :: "db \<Rightarrow> uuid \<Rightarrow> string \<Rightarrow> err + unit" where
  "check_last_owner db projectID msg =
     (case GetPredefinedRoleBySlug db SlugOwner of
        Inl e \<Rightarrow> Inl e
      | Inr ownerRole \<Rightarrow>
          if CountOwners db projectID (role_ID ownerRole) \<le> 1 then Inl (app_new ''last_owner'' msg 409 JNull)
          else Inr ())"

definition UpdateMemberRole :: "env \<Rightarrow> uuid \<Rightarrow> uuid \<Rightarrow> uuid \<Rightarrow> uuid \<Rightarrow> db \<Rightarrow> db \<times> (err + unit)" where
  "UpdateMemberRole env actor projectID targetUserID newRoleID db =
     (case guard_project db projectID actor MemberUpdateRole of
        Inl e \<Rightarrow> (db, Inl e)
      | Inr _ \<Rightarrow>
     (case GetRole db newRoleID of
        Inl _ \<Rightarrow> (db, Inl (BadRequest ''invalid role'' JNull))
      | Inr newRole \<Rightarrow>
     (case ValidateAssignableRole projectID newRole of
        Inl e \<Rightarrow> (db, Inl e)
      | Inr _ \<Rightarrow>
     (case GetMembershipForUser db projectID targetUserID of
        Inl e \<Rightarrow> (db, Inl (if e = ErrRecordNotFound then NotFound ''member not found'' else e))
      | Inr (targetMem, _) \<Rightarrow>
     (case GetRole db (mem_RoleID targetMem) of
        Inl e \<Rightarrow> (db, Inl e)
      | Inr oldRole \<Rightarrow>
     (case (if is_owner_role newRole
            then (case GetMembershipForUser db projectID actor of
                    Inl e \<Rightarrow> Inl e
                  | Inr m \<Rightarrow> (case MustBeOwner m of Inl _ \<Rightarrow> Inl Forbidden | Inr _ \<Rightarrow> Inr ()))
            else Inr ()) of
        Inl e \<Rightarrow> (db, Inl e)
      | Inr _ \<Rightarrow>
     (case (if is_owner_role oldRole \<and> \<not> is_owner_role newRole
            then check_last_owner db projectID ''cannot remove the last owner role'' else Inr ()) of
        Inl e \<Rightarrow> (db, Inl e)
      | Inr _ \<Rightarrow>
          (proj_audit env 0 actor ''member.role_updated'' projectID
             [(''target_user_id'', JUuid targetUserID), (''new_role_id'', JUuid newRoleID)]
             (UpdateMembershipRole env projectID targetUserID newRoleID db), Inr ()))))))))"

definition RemoveMember :: "env \<Rightarrow> uuid \<Rightarrow> uuid \<Rightarrow> uuid \<Rightarrow> db \<Rightarrow> db \<times> (err + unit)" where
  "RemoveMember env actor projectID targetUserID db =
     (case guard_project db projectID actor MemberRemove of
        Inl e \<Rightarrow> (db, Inl e)
      | Inr _ \<Rightarrow>
     (case GetMembershipForUser db projectID targetUserID of
        Inl e \<Rightarrow> (db, Inl (if e = ErrRecordNotFound then NotFound ''member not found'' else e))
      | Inr (targetMem, _) \<Rightarrow>
     (case GetRole db (mem_RoleID targetMem) of
        Inl e \<Rightarrow> (db, Inl e)
      | Inr r \<Rightarrow>
     (case (if is_owner_role r then check_last_owner db projectID ''cannot remove the last owner'' else Inr ()) of
        Inl e \<Rightarrow> (db, Inl e)
      | Inr _ \<Rightarrow>
          (proj_audit env 0 actor ''member.removed'' projectID [(''target_user_id'', JUuid targetUserID)]
             (DeleteMembership projectID targetUserID db), Inr ())))))"

definition TransferOwnership :: "env \<Rightarrow> uuid \<Rightarrow> uuid \<Rightarrow> uuid \<Rightarrow> db \<Rightarrow> db \<times> (err + unit)" where
  "TransferOwnership env actor projectID newOwnerUserID db =
     (case proj_ensureProjectNotArchived db projectID of
        Inl e \<Rightarrow> (db, Inl e)
      | Inr _ \<Rightarrow>
     (case GetMembershipForUser db projectID actor of
        Inl e \<Rightarrow> (db, Inl e)
      | Inr actorMem \<Rightarrow>
     (case MustBeOwner actorMem of
        Inl _ \<Rightarrow> (db, Inl Forbidden)
      | Inr _ \<Rightarrow>
     (case GetPredefinedRoleBySlug db SlugOwner of
        Inl e \<Rightarrow> (db, Inl e)
      | Inr ownerRole \<Rightarrow>
     (case GetPredefinedRoleBySlug db SlugAdmin of
        Inl e \<Rightarrow> (db, Inl e)
      | Inr adminRole \<Rightarrow>
     (case GetMembershipForUser db projectID newOwnerUserID of
        Inl e \<Rightarrow> (db, Inl (if e = ErrRecordNotFound
                          then BadRequest ''new owner must already be a member'' JNull else e))
      | Inr _ \<Rightarrow>
     (case repo_TransferOwnership env projectID actor newOwnerUserID (role_ID ownerRole) (role_ID adminRole) db of
        Inl e \<Rightarrow> (db, Inl (if e = ErrRecordNotFound then BadRequest ''invalid transfer state'' JNull else e))
      | Inr db1 \<Rightarrow>
          (proj_audit env 0 actor ''project.ownership_transferred'' projectID
             [(''new_owner_user_id'', JUuid newOwnerUserID)] db1, Inr ()))))))))"

definition ListMembers :: "db \<Rightarrow> uuid \<Rightarrow> uuid \<Rightarrow> err + (membership \<times> role) list" where
  "ListMembers db actor projectID =
     (case AuthorizeProject db projectID actor MemberRead of
        Inl e \<Rightarrow> Inl e
      | Inr _ \<Rightarrow> Inr (ListMemberships db projectID))"

end
