(* ===== verification/Roles.thy ===== *)
theory Roles
  imports Projects
begin

section \<open>Custom roles and the permission registry (rbac/service, rbac/model/seed.go)\<close>

text \<open>
  The role operations of \<open>ProjectService\<close>, the role views of \<open>role_management.go\<close> and the
  seeding of permissions and predefined roles at start-up.
\<close>

subsection \<open>Views (role_management.go)\<close>

record grant =
  gr_Key :: string
  gr_Description :: string

record catalog_item =
  ci_Key :: string
  ci_Description :: string
  ci_Group :: string

record role_view =
  rv_ID :: uuid
  rv_Name :: string
  rv_Type :: string
  rv_Slug :: string
  rv_Description :: string
  rv_Permissions :: "grant list"
  rv_AssignedUserCount :: int

definition hasNonEmptyPermissionKey :: "string list \<Rightarrow> bool" where
  "hasNonEmptyPermissionKey keys \<longleftrightarrow> (\<exists>k \<in> set keys. trim_space k \<noteq> [])"

definition permissionGroupFromKey :: "string \<Rightarrow> string" where
  "permissionGroupFromKey key =
     (case index_char key (CHR ''.'') of
        None \<Rightarrow> ''other''
      | Some i \<Rightarrow> if i > 0 then take i key else ''other'')"

definition slug_rank :: "string \<Rightarrow> nat" where
  "slug_rank slug =
     (if slug = SlugOwner then 0 else if slug = SlugAdmin then 1
      else if slug = SlugDeveloper then 2 else if slug = SlugViewer then 3 else 4)"

definition sortPredefinedRoles :: "role list \<Rightarrow> role list" where
  "sortPredefinedRoles roles = sort_key (\<lambda>r. slug_rank (role_Slug r)) roles"

definition roleToGrants :: "role \<Rightarrow> grant list" where
  "roleToGrants r = map (\<lambda>p. \<lparr>gr_Key = perm_Key p, gr_Description = perm_Description p\<rparr>) (role_Permissions r)"

definition buildPermissionCatalog :: "db \<Rightarrow> catalog_item list" where
  "buildPermissionCatalog db =
     map (\<lambda>p. \<lparr>ci_Key = perm_Key p, ci_Description = perm_Description p,
              ci_Group = permissionGroupFromKey (perm_Key p)\<rparr>) (ListPermissionRegistry db)"

definition projectRoleView :: "role \<Rightarrow> (uuid \<Rightarrow> int) \<Rightarrow> role_view" where
  "projectRoleView r counts =
     \<lparr>rv_ID = role_ID r, rv_Name = role_Name r,
      rv_Type = (if role_IsPredefined r then ''system'' else ''custom''),
      rv_Slug = role_Slug r, rv_Description = role_Description r,
      rv_Permissions = roleToGrants r, rv_AssignedUserCount = counts (role_ID r)\<rparr>"

definition roleViewByID :: "db \<Rightarrow> uuid \<Rightarrow> uuid \<Rightarrow> err + role_view" where
  "roleViewByID db projectID roleID =
     (case GetRole db roleID of
        Inl e \<Rightarrow> Inl e
      | Inr r \<Rightarrow> Inr (projectRoleView r (CountMembersByRoleIDsInProject db projectID [roleID])))"

definition ListProjectRoles :: "db \<Rightarrow> uuid \<Rightarrow> uuid \<Rightarrow> err + (role_view list \<times> catalog_item list)" where
  "ListProjectRoles db actor projectID =
     (case AuthorizeProject db projectID actor RoleRead of
        Inl e \<Rightarrow> Inl e
      | Inr _ \<Rightarrow>
          (let pre = sortPredefinedRoles (ListPredefinedRoles db);
               custom = ListCustomRoles db projectID;
               counts = CountMembersByRoleIDsInProject db projectID (map role_ID pre @ map role_ID custom)
           in Inr (map (\<lambda>r. projectRoleView r counts) pre @ map (\<lambda>r. projectRoleView r counts) custom,
                   buildPermissionCatalog db)))"

definition validateMutableCustomRole :: "db \<Rightarrow> uuid \<Rightarrow> uuid \<Rightarrow> err + role" where
  "validateMutableCustomRole db projectID roleID =
     (case GetRole db roleID of
        Inl e \<Rightarrow> if e = ErrRecordNotFound then Inl (NotFound ''role not found'') else Inl e
      | Inr r \<Rightarrow>
          if role_IsPredefined r then Inl (BadRequest ''system roles cannot be modified'' JNull)
          else if role_ProjectID r \<noteq> Some projectID
          then Inl (BadRequest ''role does not belong to this project'' JNull)
          else Inr r)"

subsection \<open>Operations (project_service.go)\<close>

definition mapRepositoryError :: "err \<Rightarrow> err" where
  "mapRepositoryError e =
     (if e = ErrRecordNotFound then NotFound ''role not found''
      else if e = ErrMsg ''role is assigned to members''
      then app_new ''role_in_use'' ''cannot delete this role while users are assigned to it'' 409 JNull
      else if e = ErrMsg ''unknown permission keys''
      then BadRequest ''one or more permission keys are invalid'' JNull
      else if e = ErrMsg ''duplicate role name''
      then app_new ''duplicate_role_name'' ''a role with this name already exists in this project'' 409 JNull
      else if e = ErrMsg ''invalid role name'' then BadRequest ''invalid role name'' JNull
      else e)"

definition CreateCustomRole ::
    "env \<Rightarrow> uuid \<Rightarrow> uuid \<Rightarrow> string \<Rightarrow> string \<Rightarrow> string list \<Rightarrow> db \<Rightarrow> db \<times> (err + role_view)" where
  "CreateCustomRole env actor projectID name description permissionKeys db =
     (case guard_project db projectID actor RoleCreate of
        Inl e \<Rightarrow> (db, Inl e)
      | Inr _ \<Rightarrow>
          if \<not> hasNonEmptyPermissionKey permissionKeys
          then (db, Inl (BadRequest ''at least one permission is required'' JNull))
          else case repo_CreateCustomRole env 0 projectID name description permissionKeys db of
            Inl e \<Rightarrow> (db, Inl (mapRepositoryError e))
          | Inr (db1, r) \<Rightarrow>
              (let db2 = proj_audit env 1 actor ''role.created'' projectID
                           [(''role_id'', JUuid (role_ID r)), (''name'', JStr name)] db1
               in (db2, roleViewByID db2 projectID (role_ID r))))"

definition UpdateCustomRole ::
    "env \<Rightarrow> uuid \<Rightarrow> uuid \<Rightarrow> uuid \<Rightarrow> string option \<Rightarrow> string option \<Rightarrow> string list option \<Rightarrow> db
     \<Rightarrow> db \<times> (err + role_view)" where
  "UpdateCustomRole env actor projectID roleID name description permissionKeys db =
     (case guard_project db projectID actor RoleUpdate of
        Inl e \<Rightarrow> (db, Inl e)
      | Inr _ \<Rightarrow>
     (case validateMutableCustomRole db projectID roleID of
        Inl e \<Rightarrow> (db, Inl e)
      | Inr _ \<Rightarrow>
     (case repo_UpdateCustomRole env projectID roleID name description permissionKeys db of
        Inl e \<Rightarrow> (db, Inl (mapRepositoryError e))
      | Inr (db1, _) \<Rightarrow>
          (let db2 = proj_audit env 0 actor ''role.updated'' projectID [(''role_id'', JUuid roleID)] db1
           in (db2, roleViewByID db2 projectID roleID)))))"

definition DeleteCustomRole :: "env \<Rightarrow> uuid \<Rightarrow> uuid \<Rightarrow> uuid \<Rightarrow> db \<Rightarrow> db \<times> (err + unit)" where
  "DeleteCustomRole env actor projectID roleID db =
     (case guard_project db projectID actor RoleDelete of
        Inl e \<Rightarrow> (db, Inl e)
      | Inr _ \<Rightarrow>
     (case validateMutableCustomRole db projectID roleID of
        Inl e \<Rightarrow> (db, Inl e)
      | Inr _ \<Rightarrow>
     (case repo_DeleteCustomRole env projectID roleID db of
        Inl e \<Rightarrow> (db, Inl (mapRepositoryError e))
      | Inr db1 \<Rightarrow>
          (proj_audit env 0 actor ''role.deleted'' projectID [(''role_id'', JUuid roleID)] db1, Inr ()))))"

fun predefined_by_slugs :: "db \<Rightarrow> string list \<Rightarrow> err + role list" where
  "predefined_by_slugs db [] = Inr []"
| "predefined_by_slugs db (s # ss) =
     (case GetPredefinedRoleBySlug db s of
        Inl e \<Rightarrow> Inl e
      | Inr r \<Rightarrow> (case predefined_by_slugs db ss of Inl e \<Rightarrow> Inl e | Inr rs \<Rightarrow> Inr (r # rs)))"

definition ListAssignableRoles :: "db \<Rightarrow> uuid \<Rightarrow> uuid \<Rightarrow> err + role list" where
  "ListAssignableRoles db actor projectID =
     (case AuthorizeProject db projectID actor MemberRead of
        Inl e \<Rightarrow> Inl e
      | Inr _ \<Rightarrow>
     (case predefined_by_slugs db [SlugOwner, SlugAdmin, SlugDeveloper, SlugViewer] of
        Inl e \<Rightarrow> Inl e
      | Inr predefined \<Rightarrow> Inr (predefined @ ListCustomRoles db projectID)))"

subsection \<open>Seeding (rbac/model/seed.go)\<close>

definition perm_conflict :: "permission \<Rightarrow> permission \<Rightarrow> bool" where
  "perm_conflict x r \<longleftrightarrow> perm_ID x = perm_ID r \<or> perm_Key x = perm_Key r"

text \<open>\<open>k\<close> numbers the UUIDs drawn so far. Every row is created by a statement of its own, so a seeding
  that fails leaves the rows before the failure. The error message of the database is not kept.\<close>

fun seed_permissions :: "env \<Rightarrow> nat \<Rightarrow> string list \<Rightarrow> db \<Rightarrow> db \<times> (err + nat)" where
  "seed_permissions env k [] db = (db, Inr k)"
| "seed_permissions env k (key # keys) db =
     (case first_by perm_ID (\<lambda>p. perm_Key p = key) (db_permissions db) of
        Some _ \<Rightarrow> seed_permissions env k keys db
      | None \<Rightarrow>
     (case insert_row perm_conflict
             \<lparr>perm_ID = env_uuid env k, perm_Key = key, perm_Description = key,
              perm_CreatedAt = env_now env, perm_UpdatedAt = env_now env\<rparr> (db_permissions db) of
        Inl e \<Rightarrow> (db, Inl (ErrMsg (''seed permission '' @ key)))
      | Inr t \<Rightarrow> seed_permissions env (Suc k) keys (db\<lparr>db_permissions := t\<rparr>)))"

definition viewerKeys :: "string list" where
  "viewerKeys = [ProjectRead, DashboardRead, DeviceRead, FirmwareRead, CampaignRead]"

definition developerKeys :: "string list" where
  "developerKeys = viewerKeys @
     [DeviceCreate, DeviceUpdate, DeviceBlock, DeviceTokenRotate, DeviceAssignGroup,
      FirmwareUpload, CampaignCreate, CampaignUpdate, CampaignPause]"

definition adminKeys :: "string list" where
  "adminKeys = developerKeys @
     [MemberRead, MemberInvite, MemberUpdateRole, MemberRemove,
      RoleRead, RoleCreate, RoleUpdate, RoleDelete, ProjectUpdate, AuditRead]"

definition ownerKeys :: "string list" where
  "ownerKeys = adminKeys @ [ProjectDelete, CampaignCancel]"

definition keysToIDs :: "db \<Rightarrow> string list \<Rightarrow> uuid list" where
  "keysToIDs db keys =
     map perm_ID (concat (map (\<lambda>k. case filter (\<lambda>p. perm_Key p = k) (db_permissions db) of
                                      [] \<Rightarrow> [] | p # ps \<Rightarrow> [last (p # ps)]) keys))"

definition seed_replaceRolePermissions :: "uuid \<Rightarrow> uuid list \<Rightarrow> db \<Rightarrow> err + db" where
  "seed_replaceRolePermissions roleID permIDs db =
     (case find_role db (\<lambda>r. role_ID r = roleID) of
        None \<Rightarrow> Inl ErrRecordNotFound
      | Some _ \<Rightarrow>
          Inr (replace_permissions roleID (filter (\<lambda>p. perm_ID p \<in> set permIDs) (db_permissions db)) db))"

definition role_defs :: "(string \<times> string \<times> string list) list" where
  "role_defs = [(SlugOwner, ''Owner'', ownerKeys), (SlugAdmin, ''Admin'', adminKeys),
     (SlugDeveloper, ''Developer'', developerKeys), (SlugViewer, ''Viewer'', viewerKeys)]"

fun seed_roles :: "env \<Rightarrow> nat \<Rightarrow> (string \<times> string \<times> string list) list \<Rightarrow> db \<Rightarrow> db \<times> (err + unit)" where
  "seed_roles env k [] db = (db, Inr ())"
| "seed_roles env k ((slug, name, keys) # defs) db =
     (case find_role db (\<lambda>r. role_IsPredefined r \<and> role_ProjectID r = None \<and> role_Slug r = slug) of
        Some r \<Rightarrow>
          (case seed_replaceRolePermissions (role_ID r) (keysToIDs db keys) db of
             Inl e \<Rightarrow> (db, Inl e)
           | Inr db1 \<Rightarrow> seed_roles env k defs db1)
      | None \<Rightarrow>
          (let r = \<lparr>role_ID = env_uuid env k, role_ProjectID = None, role_Slug = slug, role_Name = name,
                    role_NameNormalized = slug, role_IsPredefined = True, role_Description = ''Predefined role'',
                    role_Permissions = [], role_CreatedAt = env_now env, role_UpdatedAt = env_now env,
                    role_DeletedAt = None\<rparr>
           in case insert_row role_conflict r (db_roles db) of
                Inl e \<Rightarrow> (db, Inl (ErrMsg (''seed role '' @ slug)))
              | Inr t \<Rightarrow>
                  (case seed_replaceRolePermissions (role_ID r) (keysToIDs db keys) (db\<lparr>db_roles := t\<rparr>) of
                     Inl e \<Rightarrow> (db\<lparr>db_roles := t\<rparr>, Inl e)
                   | Inr db1 \<Rightarrow> seed_roles env (Suc k) defs db1)))"

definition SeedRegistry :: "env \<Rightarrow> db \<Rightarrow> db \<times> (err + unit)" where
  "SeedRegistry env db =
     (case seed_permissions env 0 permission_All db of
        (db1, Inl e) \<Rightarrow> (db1, Inl e)
      | (db1, Inr k) \<Rightarrow> seed_roles env k role_defs db1)"

end
