(* ===== verification/DeviceBulk.thy ===== *)
theory DeviceBulk
  imports DeviceService
begin

section \<open>Groups, listing and bulk operations (device_groups_bulk.go, device_query.go)\<close>

text \<open>
  Device groups, the filter shared by the listing and the bulk operations, and the bulk operations
  themselves. Parsing of UUIDs and of RFC 3339 times is done before: their results are arguments.
\<close>

subsection \<open>Groups\<close>

record group_view =
  gv_ID :: uuid
  gv_Name :: string
  gv_Description :: string
  gv_MemberCount :: int

definition duplicate_group_name :: err where
  "duplicate_group_name = app_new ''duplicate_group_name''
     ''a device group with this name already exists in this project'' 409 JNull"

definition ListDeviceGroups :: "db \<Rightarrow> uuid \<Rightarrow> uuid \<Rightarrow> err + group_view list" where
  "ListDeviceGroups db actor projectID =
     (case AuthorizeProject db projectID actor DeviceRead of
        Inl e \<Rightarrow> Inl e
      | Inr _ \<Rightarrow>
          (let groups = repo_ListDeviceGroups db projectID;
               counts = CountMembersByGroupIDs db projectID (map grp_ID groups)
           in Inr (map (\<lambda>g. \<lparr>gv_ID = grp_ID g, gv_Name = grp_Name g, gv_Description = grp_Description g,
                            gv_MemberCount = counts (grp_ID g)\<rparr>) groups)))"

definition CreateDeviceGroup :: "env \<Rightarrow> uuid \<Rightarrow> uuid \<Rightarrow> string \<Rightarrow> string \<Rightarrow> db \<Rightarrow> db \<times> (err + group_view)" where
  "CreateDeviceGroup env actor projectID name description db =
     (case guard_device db projectID actor DeviceUpdate of
        Inl e \<Rightarrow> (db, Inl e)
      | Inr _ \<Rightarrow>
     (let norm = to_lower (trim_space name)
      in if norm = [] then (db, Inl (BadRequest ''group name is required'' JNull))
         else if DeviceGroupNameTaken db projectID norm None then (db, Inl duplicate_group_name)
         else case repo_CreateDeviceGroup env 0 projectID name description db of
            Inl e \<Rightarrow> (db, Inl e)
          | Inr (db1, g) \<Rightarrow>
              (dev_audit env 1 actor ''device_group.created'' projectID
                 [(''group_id'', JUuid (grp_ID g)), (''name'', JStr name)] db1,
               Inr \<lparr>gv_ID = grp_ID g, gv_Name = grp_Name g, gv_Description = grp_Description g,
                    gv_MemberCount = 0\<rparr>)))"

definition UpdateDeviceGroup ::
    "env \<Rightarrow> uuid \<Rightarrow> uuid \<Rightarrow> uuid \<Rightarrow> string option \<Rightarrow> string option \<Rightarrow> db \<Rightarrow> db \<times> (err + group_view)" where
  "UpdateDeviceGroup env actor projectID groupID name description db =
     (case guard_device db projectID actor DeviceUpdate of
        Inl e \<Rightarrow> (db, Inl e)
      | Inr _ \<Rightarrow>
          if (case name of None \<Rightarrow> False
              | Some n \<Rightarrow> DeviceGroupNameTaken db projectID (to_lower (trim_space n)) (Some groupID))
          then (db, Inl duplicate_group_name)
          else case repo_UpdateDeviceGroup env projectID groupID name description db of
            Inl e \<Rightarrow> (db, Inl e)
          | Inr (db1, g) \<Rightarrow>
              (let db2 = dev_audit env 0 actor ''device_group.updated'' projectID [(''group_id'', JUuid groupID)] db1
               in (db2, Inr \<lparr>gv_ID = grp_ID g, gv_Name = grp_Name g, gv_Description = grp_Description g,
                             gv_MemberCount = CountGroupMembers db2 groupID\<rparr>)))"

definition DeleteDeviceGroup :: "env \<Rightarrow> uuid \<Rightarrow> uuid \<Rightarrow> uuid \<Rightarrow> db \<Rightarrow> db \<times> (err + unit)" where
  "DeleteDeviceGroup env actor projectID groupID db =
     (case guard_device db projectID actor DeviceUpdate of
        Inl e \<Rightarrow> (db, Inl e)
      | Inr _ \<Rightarrow>
     (case repo_DeleteDeviceGroup env projectID groupID db of
        Inl e \<Rightarrow> (db, Inl e)
      | Inr db1 \<Rightarrow>
          (dev_audit env 0 actor ''device_group.deleted'' projectID [(''group_id'', JUuid groupID)] db1, Inr ())))"

subsection \<open>Filtered listing (device_query.go)\<close>

definition MaxBulkDevicesSync :: int where "MaxBulkDevicesSync = 500"

record device_filter =
  df_Online :: "bool option"
  df_DeviceTypeID :: "uuid option"
  df_GroupID :: "uuid option"
  df_Blocked :: "bool option"
  df_FirmwareVersion :: "string option"
  df_LastSeenFrom :: "time option"
  df_LastSeenTo :: "time option"
  df_Search :: "string option"

text \<open>What the listing leaves to the database and to gorm: \<open>q_like s col\<close> is
  \<open>LOWER(col) LIKE '%' || s || '%'\<close>, \<open>q_wrap\<close> says whether gorm puts the search condition,
  three comparisons joined with OR over several lines, in parentheses when it joins it to the
  other conditions with AND, and \<open>q_rank env offset\<close> is the order in which PostgreSQL happens to put
  the rows that are equal in the sort column, in the query of this request with this offset.\<close>

record query_env =
  q_like :: "string \<Rightarrow> string \<Rightarrow> bool"
  q_wrap :: bool
  q_rank :: "env \<Rightarrow> int \<Rightarrow> device \<Rightarrow> nat"

text \<open>The conditions before the search.\<close>

definition device_conds :: "db \<Rightarrow> uuid \<Rightarrow> device_filter \<Rightarrow> time \<Rightarrow> device \<Rightarrow> bool" where
  "device_conds db projectID f now d \<longleftrightarrow>
     dev_ProjectID d = projectID \<and> dev_DeletedAt d = None \<and>
     (case df_DeviceTypeID f of None \<Rightarrow> True | Some t \<Rightarrow> dev_DeviceTypeID d = t) \<and>
     (case df_Blocked f of None \<Rightarrow> True | Some b \<Rightarrow> dev_Blocked d = b) \<and>
     (case df_FirmwareVersion f of None \<Rightarrow> True
      | Some v \<Rightarrow> trim_space v = [] \<or> dev_CurrentFirmwareVersion d = trim_space v) \<and>
     (case df_LastSeenFrom f of None \<Rightarrow> True
      | Some t \<Rightarrow> (case dev_LastSeenAt d of None \<Rightarrow> False | Some l \<Rightarrow> l \<ge> t)) \<and>
     (case df_LastSeenTo f of None \<Rightarrow> True
      | Some t \<Rightarrow> (case dev_LastSeenAt d of None \<Rightarrow> False | Some l \<Rightarrow> l \<le> t)) \<and>
     (case df_Online f of None \<Rightarrow> True
      | Some True \<Rightarrow> (case dev_LastSeenAt d of None \<Rightarrow> False | Some l \<Rightarrow> l \<ge> now - onlineThreshold)
      | Some False \<Rightarrow> (case dev_LastSeenAt d of None \<Rightarrow> True | Some l \<Rightarrow> l < now - onlineThreshold)) \<and>
     (case df_GroupID f of None \<Rightarrow> True
      | Some g \<Rightarrow> (\<exists>m \<in> set (db_group_members db). gm_DeviceID m = dev_ID d \<and> gm_DeviceGroupID m = g \<and>
           (\<exists>x \<in> set (db_groups db). grp_ID x = g \<and> grp_DeletedAt x = None \<and> grp_ProjectID x = projectID)))"

definition applyDeviceListFilter :: "query_env \<Rightarrow> db \<Rightarrow> uuid \<Rightarrow> device_filter \<Rightarrow> time \<Rightarrow> device list" where
  "applyDeviceListFilter q db projectID f now =
     (let conds = device_conds db projectID f now;
          like = (\<lambda>s col. q_like q (to_lower s) col)
      in filter (\<lambda>d. case df_Search f of
             None \<Rightarrow> conds d
           | Some s0 \<Rightarrow>
               (let s = trim_space s0
                in if s = [] then conds d
                   else if q_wrap q
                   then conds d \<and> (like s (dev_Name d) \<or> like s (dev_HardwareIdentifier d)
                                   \<or> like s (dev_HardwareIdentifierNorm d))
                   else (conds d \<and> like s (dev_Name d)) \<or> like s (dev_HardwareIdentifier d)
                        \<or> like s (dev_HardwareIdentifierNorm d)))
           (db_devices db))"

datatype sort_column = ColName | ColLastSeen | ColFirmware | ColCreated

definition parseDeviceSort :: "string \<Rightarrow> sort_column \<times> bool" where
  "parseDeviceSort raw0 =
     (let raw = trim_space raw0
      in if raw = [] then (ColCreated, True)
         else
           (let desc = has_prefix raw ''-'';
                raw1 = (if desc then trim_prefix raw ''-''
                        else if has_prefix raw ''+'' then trim_prefix raw ''+'' else raw);
                f = to_lower raw1
            in if f = ''name'' then (ColName, desc)
               else if f = ''last_seen_at'' \<or> f = ''last_seen'' then (ColLastSeen, desc)
               else if f = ''current_firmware_version'' \<or> f = ''firmware'' then (ColFirmware, desc)
               else if f = ''created_at'' then (ColCreated, desc)
               else (ColCreated, True)))"

text \<open>NULL is the greatest value of a column.\<close>

definition last_seen_key :: "device \<Rightarrow> nat \<times> int" where
  "last_seen_key d = (case dev_LastSeenAt d of None \<Rightarrow> (1, 0) | Some t \<Rightarrow> (0, t))"

text \<open>The value of the sort column, in one ordered type for the four of them.\<close>

definition sort_value :: "sort_column \<Rightarrow> device \<Rightarrow> nat list \<times> nat \<times> int" where
  "sort_value col d =
     (case col of
        ColName \<Rightarrow> (codes (dev_Name d), 0, 0)
      | ColLastSeen \<Rightarrow> ([], last_seen_key d)
      | ColFirmware \<Rightarrow> (codes (dev_CurrentFirmwareVersion d), 0, 0)
      | ColCreated \<Rightarrow> ([], 0, dev_CreatedAt d))"

text \<open>\<open>ORDER BY\<close> one column, without a tie-breaker: equal rows come in the order \<open>rank\<close> that PostgreSQL
  chooses for this query.\<close>

definition order_devices :: "(device \<Rightarrow> nat) \<Rightarrow> sort_column \<Rightarrow> bool \<Rightarrow> device list \<Rightarrow> device list" where
  "order_devices rank col desc ds =
     (let s = sort_key (\<lambda>d. (sort_value col d, rank d)) ds in if desc then rev s else s)"

definition CountDevicesWithFilter :: "query_env \<Rightarrow> env \<Rightarrow> db \<Rightarrow> uuid \<Rightarrow> device_filter \<Rightarrow> int" where
  "CountDevicesWithFilter q env db projectID f = int (length (applyDeviceListFilter q db projectID f (env_now env)))"

definition ListDevicesWithFilter ::
    "query_env \<Rightarrow> env \<Rightarrow> db \<Rightarrow> uuid \<Rightarrow> device_filter \<Rightarrow> int \<Rightarrow> int \<Rightarrow> string \<Rightarrow> device list" where
  "ListDevicesWithFilter q env db projectID f page0 pageSize0 sortRaw =
     (let page = (if page0 < 1 then 1 else page0);
          size1 = (if pageSize0 < 1 then 20 else pageSize0);
          pageSize = (if size1 > 100 then 100 else size1);
          (col, desc) = parseDeviceSort sortRaw
      in page_of (page_offset page pageSize) pageSize
           (order_devices (q_rank q env (page_offset page pageSize)) col desc (applyDeviceListFilter q db projectID f (env_now env))))"

definition ListDeviceIDsWithFilter :: "query_env \<Rightarrow> env \<Rightarrow> db \<Rightarrow> uuid \<Rightarrow> device_filter \<Rightarrow> int \<Rightarrow> uuid list" where
  "ListDeviceIDsWithFilter q env db projectID f limit0 =
     (let l1 = (if limit0 < 1 then MaxBulkDevicesSync else limit0);
          limit = (if l1 > MaxBulkDevicesSync then MaxBulkDevicesSync else l1)
      in map dev_ID (take (nat limit)
           (sort_key (\<lambda>d. (dev_CreatedAt d, q_rank q env 0 d)) (applyDeviceListFilter q db projectID f (env_now env)))))"

definition DevicesBelongToProject :: "db \<Rightarrow> uuid \<Rightarrow> uuid list \<Rightarrow> bool" where
  "DevicesBelongToProject db projectID deviceIDs \<longleftrightarrow>
     (if deviceIDs = [] then True
      else count_where (\<lambda>d. dev_ProjectID d = projectID \<and> dev_DeletedAt d = None \<and> dev_ID d \<in> set deviceIDs)
             (db_devices db) = int (length deviceIDs))"

definition FilterDevicesInProject :: "db \<Rightarrow> uuid \<Rightarrow> uuid list \<Rightarrow> uuid list \<times> uuid list" where
  "FilterDevicesInProject db projectID deviceIDs =
     (let found = map dev_ID (filter (\<lambda>d. dev_ProjectID d = projectID \<and> dev_DeletedAt d = None
                    \<and> dev_ID d \<in> set deviceIDs) (db_devices db))
      in (filter (\<lambda>i. i \<in> set found) deviceIDs, filter (\<lambda>i. i \<notin> set found) deviceIDs))"

record device_item =
  di_ID :: uuid
  di_Name :: string
  di_HardwareIdentifier :: string
  di_DeviceType :: device_type_view
  di_Blocked :: bool
  di_Online :: bool
  di_CurrentFirmwareVersion :: string
  di_LastSeenAt :: "time option"
  di_GroupIDs :: "uuid list"

definition loadGroupIDsForDevices :: "db \<Rightarrow> uuid \<Rightarrow> uuid list \<Rightarrow> uuid \<Rightarrow> uuid list" where
  "loadGroupIDsForDevices db projectID deviceIDs deviceID =
     (if deviceID \<notin> set deviceIDs then []
      else sort [gm_DeviceGroupID m. m \<leftarrow> db_group_members db, gm_DeviceID m = deviceID,
                 g \<leftarrow> db_groups db, grp_ID g = gm_DeviceGroupID m \<and> grp_ProjectID g = projectID \<and> grp_DeletedAt g = None])"

text \<open>A device whose type is gone shows the zero type.\<close>

definition zero_device_type :: device_type where
  "zero_device_type = \<lparr>dt_ID = uuid_Nil, dt_ProjectID = None, dt_IsPredefined = False, dt_Name = [],
     dt_NameNormalized = [], dt_ProcessorArchitecture = [], dt_HardwareBoardVersion = [], dt_FlashSizeBytes = 0,
     dt_MemoryNotes = [], dt_DeletedAt = None, dt_CreatedAt = 0, dt_UpdatedAt = 0\<rparr>"

definition buildDeviceListViews :: "env \<Rightarrow> db \<Rightarrow> uuid \<Rightarrow> device list \<Rightarrow> device_item list" where
  "buildDeviceListViews env db projectID devices =
     (let groups = loadGroupIDsForDevices db projectID (map dev_ID devices)
      in map (\<lambda>d. let dt = (case GetDeviceType db (dev_DeviceTypeID d) of Inl _ \<Rightarrow> zero_device_type | Inr t \<Rightarrow> t)
                  in \<lparr>di_ID = dev_ID d, di_Name = dev_Name d, di_HardwareIdentifier = dev_HardwareIdentifier d,
                      di_DeviceType = mapDeviceTypeView dt, di_Blocked = dev_Blocked d,
                      di_Online = isOnline (dev_LastSeenAt d) (env_now env),
                      di_CurrentFirmwareVersion = dev_CurrentFirmwareVersion d, di_LastSeenAt = dev_LastSeenAt d,
                      di_GroupIDs = groups (dev_ID d)\<rparr>) devices)"

definition ListDevices ::
    "query_env \<Rightarrow> env \<Rightarrow> db \<Rightarrow> uuid \<Rightarrow> uuid \<Rightarrow> device_filter \<Rightarrow> int \<Rightarrow> int \<Rightarrow> string \<Rightarrow> err + (device_item list \<times> int)" where
  "ListDevices q env db actor projectID f page pageSize srt =
     (case AuthorizeProject db projectID actor DeviceRead of
        Inl e \<Rightarrow> Inl e
      | Inr _ \<Rightarrow>
          Inr (buildDeviceListViews env db projectID (ListDevicesWithFilter q env db projectID f page pageSize srt),
               CountDevicesWithFilter q env db projectID f))"

subsection \<open>Members of groups\<close>

definition AddDevicesToGroup :: "env \<Rightarrow> uuid \<Rightarrow> uuid \<Rightarrow> uuid \<Rightarrow> uuid list \<Rightarrow> db \<Rightarrow> db \<times> (err + unit)" where
  "AddDevicesToGroup env actor projectID groupID deviceIDs db =
     (case guard_device db projectID actor DeviceAssignGroup of
        Inl e \<Rightarrow> (db, Inl e)
      | Inr _ \<Rightarrow>
     (case GetDeviceGroup db projectID groupID of
        Inl e \<Rightarrow> (db, Inl e)
      | Inr _ \<Rightarrow>
          if \<not> DevicesBelongToProject db projectID deviceIDs
          then (db, Inl (BadRequest ''one or more devices are not in this project'' JNull))
          else (case repo_AddDevicesToGroup env 0 groupID deviceIDs 0 db of
            (db1, Inl e) \<Rightarrow> (db1, Inl e)
          | (db1, Inr _) \<Rightarrow>
              (dev_audit env 0 actor ''device_group.members_added'' projectID
                 [(''group_id'', JUuid groupID), (''device_ids'', JList (map JUuid deviceIDs)),
                  (''count'', JInt (int (length deviceIDs)))] db1, Inr ()))))"

definition RemoveDevicesFromGroup :: "env \<Rightarrow> uuid \<Rightarrow> uuid \<Rightarrow> uuid \<Rightarrow> uuid list \<Rightarrow> db \<Rightarrow> db \<times> (err + unit)" where
  "RemoveDevicesFromGroup env actor projectID groupID deviceIDs db =
     (case guard_device db projectID actor DeviceAssignGroup of
        Inl e \<Rightarrow> (db, Inl e)
      | Inr _ \<Rightarrow>
     (case GetDeviceGroup db projectID groupID of
        Inl e \<Rightarrow> (db, Inl e)
      | Inr _ \<Rightarrow>
          (dev_audit env 0 actor ''device_group.members_removed'' projectID
             [(''group_id'', JUuid groupID), (''device_ids'', JList (map JUuid deviceIDs))]
             (fst (repo_RemoveDevicesFromGroup groupID deviceIDs db)), Inr ())))"

subsection \<open>Bulk operations\<close>

record bulk_failure =
  bf_DeviceID :: uuid
  bf_Code :: string
  bf_Error :: "err option"

record bulk_result =
  br_Action :: string
  br_Matched :: int
  br_Processed :: int
  br_Succeeded :: int
  br_Failed :: "bulk_failure list"
  br_TokensByDeviceID :: "(uuid \<times> string) list"

text \<open>The rotation of one token in a bulk operation. It draws one buffer and two UUIDs, the
  \<open>n\<close>-th of the request's buffers and the UUIDs from \<open>k\<close> on.\<close>

definition rotateDeviceTokenRaw :: "env \<Rightarrow> nat \<Rightarrow> nat \<Rightarrow> uuid \<Rightarrow> uuid \<Rightarrow> uuid \<Rightarrow> db \<Rightarrow> db \<times> (err + string)" where
  "rotateDeviceTokenRaw env n k actor projectID deviceID db =
     (case GetDevice db projectID deviceID of
        Inl e \<Rightarrow> (db, Inl e)
      | Inr _ \<Rightarrow>
     (let rawToken = GenerateSecureToken (env_rand env n)
      in case RotateDeviceAuthTokenTx env projectID deviceID actor (HashToken rawToken) (env_uuid env k)
                (env_now env) db of
           Inl e \<Rightarrow> (db, Inl e)
         | Inr (db1, _, _) \<Rightarrow>
             (dev_audit env (Suc k) actor ''device.token_rotated'' projectID
                [(''device_id'', JUuid deviceID), (''bulk'', JBool True)] db1, Inr rawToken)))"

text \<open>The loop over the devices of the actions that change devices one by one. A map entry of the
  same device is overwritten.\<close>

fun bulk_loop ::
    "env \<Rightarrow> nat \<Rightarrow> uuid \<Rightarrow> uuid \<Rightarrow> string \<Rightarrow> uuid list \<Rightarrow> db \<times> bulk_result \<Rightarrow> db \<times> bulk_result" where
  "bulk_loop env n actor projectID action [] s = s"
| "bulk_loop env n actor projectID action (did # dids) (db, res) =
     (if action = ''rotate_tokens''
      then (case rotateDeviceTokenRaw env n (2 * n) actor projectID did db of
              (db1, Inl e) \<Rightarrow>
                bulk_loop env (Suc n) actor projectID action dids
                  (db1, res\<lparr>br_Failed := br_Failed res @
                     [\<lparr>bf_DeviceID = did, bf_Code = (if e = ErrRecordNotFound then ''not_found'' else ''error''),
                       bf_Error = Some e\<rparr>]\<rparr>)
            | (db1, Inr raw) \<Rightarrow>
                bulk_loop env (Suc n) actor projectID action dids
                  (db1, res\<lparr>br_TokensByDeviceID := (did, raw) # filter (\<lambda>t. fst t \<noteq> did) (br_TokensByDeviceID res),
                            br_Succeeded := br_Succeeded res + 1\<rparr>))
      else (case SetDeviceBlockedTx env n projectID did (action = ''block'') actor db of
              Inl e \<Rightarrow>
                bulk_loop env (Suc n) actor projectID action dids
                  (db, res\<lparr>br_Failed := br_Failed res @
                     [\<lparr>bf_DeviceID = did, bf_Code = ''error'', bf_Error = Some e\<rparr>]\<rparr>)
            | Inr db1 \<Rightarrow>
                bulk_loop env (Suc n) actor projectID action dids
                  (db1, res\<lparr>br_Succeeded := br_Succeeded res + 1\<rparr>)))"

definition bulk_perm :: "string \<Rightarrow> string option" where
  "bulk_perm action =
     (if action = ''add_to_group'' \<or> action = ''remove_from_group'' then Some DeviceAssignGroup
      else if action = ''block'' \<or> action = ''unblock'' then Some DeviceBlock
      else if action = ''rotate_tokens'' then Some DeviceTokenRotate
      else None)"

text \<open>The devices a bulk operation is for: by filter or by the given list, at most 500.
  \<open>deviceIDs\<close> is the parsed list, blank entries skipped, or the error of the first entry that is
  no UUID. The message of \<open>bulk_too_large\<close> carries the numbers in its details.\<close>

definition bulk_targets ::
    "query_env \<Rightarrow> env \<Rightarrow> db \<Rightarrow> uuid \<Rightarrow> bool \<Rightarrow> device_filter \<Rightarrow> err + uuid list \<Rightarrow> err + int \<times> uuid list" where
  "bulk_targets q env db projectID applyToFilter f deviceIDs =
     (if applyToFilter
      then (let n = CountDevicesWithFilter q env db projectID f
            in if n > MaxBulkDevicesSync
               then Inl (app_new ''bulk_too_large'' ''filter matches too many devices'' 400
                      (JObj [(''matched'', JInt n), (''sync_cap'', JInt MaxBulkDevicesSync)]))
               else Inr (n, ListDeviceIDsWithFilter q env db projectID f n))
      else (case deviceIDs of
              Inl e \<Rightarrow> Inl e
            | Inr ids \<Rightarrow>
                if ids = [] then Inl (BadRequest ''device_ids is required when apply_to_filter is false'' JNull)
                else if int (length ids) > MaxBulkDevicesSync
                then Inl (app_new ''bulk_too_large'' ''too many device_ids (max 500)'' 400
                       (JObj [(''sync_cap'', JInt MaxBulkDevicesSync)]))
                else Inr (0, ids)))"

definition not_in_project :: "uuid \<Rightarrow> bulk_failure" where
  "not_in_project i = \<lparr>bf_DeviceID = i, bf_Code = ''not_found'', bf_Error = None\<rparr>"

definition BulkDevices ::
    "query_env \<Rightarrow> env \<Rightarrow> uuid \<Rightarrow> uuid \<Rightarrow> string \<Rightarrow> bool \<Rightarrow> device_filter \<Rightarrow> err + uuid list \<Rightarrow> uuid option
     \<Rightarrow> db \<Rightarrow> db \<times> (err + bulk_result)" where
  "BulkDevices q env actor projectID action applyToFilter f deviceIDStrs groupID db =
     (case bulk_perm action of
        None \<Rightarrow> (db, Inl (BadRequest ''unsupported bulk action'' JNull))
      | Some perm \<Rightarrow>
     (case guard_device db projectID actor perm of
        Inl e \<Rightarrow> (db, Inl e)
      | Inr _ \<Rightarrow>
          if (action = ''add_to_group'' \<or> action = ''remove_from_group'')
             \<and> (groupID = None \<or> groupID = Some uuid_Nil)
          then (db, Inl (BadRequest ''group_id is required for this action'' JNull))
          else case (if groupID \<noteq> None \<and> groupID \<noteq> Some uuid_Nil
                     then (case GetDeviceGroup db projectID (the groupID) of
                             Inl e \<Rightarrow> Inl (if e = ErrRecordNotFound then NotFound ''device group not found'' else e)
                           | Inr _ \<Rightarrow> Inr ())
                     else Inr ()) of
            Inl e \<Rightarrow> (db, Inl e)
          | Inr _ \<Rightarrow>
     (case bulk_targets q env db projectID applyToFilter f deviceIDStrs of
        Inl e \<Rightarrow> (db, Inl e)
      | Inr (matched, deviceIDs) \<Rightarrow>
     (let res = \<lparr>br_Action = action, br_Matched = matched, br_Processed = int (length deviceIDs),
                 br_Succeeded = 0, br_Failed = [], br_TokensByDeviceID = []\<rparr>
      in if action = ''add_to_group'' \<or> action = ''remove_from_group''
         then
           (let (valid, missing) = FilterDevicesInProject db projectID deviceIDs in
            case (if action = ''add_to_group'' then repo_AddDevicesToGroup env 0 (the groupID) valid 0 db
                  else map_prod id Inr (repo_RemoveDevicesFromGroup (the groupID) valid db)) of
              (db1, Inl e) \<Rightarrow> (db1, Inl e)
            | (db1, Inr _) \<Rightarrow>
           (let db2 = dev_audit env 0 actor
                        (if action = ''add_to_group'' then ''device_group.bulk_members_added''
                         else ''device_group.bulk_members_removed'') projectID
                        [(''group_id'', JUuid (the groupID)), (''requested'', JInt (int (length deviceIDs))),
                         (if action = ''add_to_group'' then ''added'' else ''removed'', JInt (int (length valid))),
                         (''missing'', JInt (int (length missing)))] db1
            in (db2, Inr (res\<lparr>br_Failed := map not_in_project missing, br_Succeeded := int (length valid)\<rparr>))))
         else
           (let (db1, res1) = bulk_loop env 0 actor projectID action deviceIDs (db, res);
                db2 = dev_audit env (2 * length deviceIDs) actor
                        (if action = ''block'' then ''device.bulk_blocked''
                         else if action = ''unblock'' then ''device.bulk_unblocked''
                         else ''device.bulk_tokens_rotated'') projectID
                        [(''count'', JInt (br_Succeeded res1))] db1
            in (db2, Inr res1))))))"

end
