(* ===== verification/DeviceCatalog.thy ===== *)
theory DeviceCatalog
  imports DeviceRepo
begin

section \<open>The predefined device types (domain/device/model/migrate.go)\<close>

text \<open>
  \<open>SeedPredefinedDeviceTypes\<close>, run at every start: each definition that is not in the table yet
  is created; the first error ends it. UUID \<open>k\<close> belongs to the definition at index \<open>k\<close>.
\<close>

record seed_def =
  sd_name :: string
  sd_processorArchitecture :: string
  sd_boardVersion :: string
  sd_flashSizeBytes :: int
  sd_memoryNotes :: string

definition seed_defs :: "seed_def list" where
  "seed_defs =
     [\<lparr>sd_name = ''Cortex-M4 (Generic)'', sd_processorArchitecture = ''arm_cortex_m4'', sd_boardVersion = ''revA'',
       sd_flashSizeBytes = 1048576, sd_memoryNotes = ''Default MCU settings for Cortex-M4 class devices.''\<rparr>,
      \<lparr>sd_name = ''Cortex-M3 (Generic)'', sd_processorArchitecture = ''arm_cortex_m3'', sd_boardVersion = ''revA'',
       sd_flashSizeBytes = 524288, sd_memoryNotes = ''Default MCU settings for Cortex-M3 class devices.''\<rparr>,
      \<lparr>sd_name = ''ESP32 (Generic)'', sd_processorArchitecture = ''xtensa_esp32'', sd_boardVersion = ''revA'',
       sd_flashSizeBytes = 4194304, sd_memoryNotes = ''Default MCU settings for ESP32 class devices.''\<rparr>]"

definition normalizeName :: "string \<Rightarrow> string" where
  "normalizeName s = to_lower (trim_space s)"

definition is_predefined_named :: "string \<Rightarrow> device_type \<Rightarrow> bool" where
  "is_predefined_named nname t \<longleftrightarrow>
     dt_IsPredefined t \<and> dt_ProjectID t = None \<and> dt_NameNormalized t = nname \<and> dt_DeletedAt t = None"

fun seed_types :: "env \<Rightarrow> nat \<Rightarrow> seed_def list \<Rightarrow> db \<Rightarrow> db \<times> (err + unit)" where
  "seed_types env k [] db = (db, Inr ())"
| "seed_types env k (d # ds) db =
     (let nname = normalizeName (sd_name d)
      in case first_by dt_ID (is_predefined_named nname) (db_device_types db) of
           Some _ \<Rightarrow> seed_types env (Suc k) ds db
         | None \<Rightarrow>
             (case insert_row dt_conflict
                \<lparr>dt_ID = env_uuid env k, dt_ProjectID = None, dt_IsPredefined = True, dt_Name = sd_name d,
                 dt_NameNormalized = nname, dt_ProcessorArchitecture = sd_processorArchitecture d,
                 dt_HardwareBoardVersion = sd_boardVersion d, dt_FlashSizeBytes = sd_flashSizeBytes d,
                 dt_MemoryNotes = sd_memoryNotes d, dt_DeletedAt = None, dt_CreatedAt = env_now env,
                 dt_UpdatedAt = env_now env\<rparr> (db_device_types db) of
                Inl e \<Rightarrow> (db, Inl e)
              | Inr ts \<Rightarrow> seed_types env (Suc k) ds (db\<lparr>db_device_types := ts\<rparr>)))"

definition SeedPredefinedDeviceTypes :: "env \<Rightarrow> db \<Rightarrow> db \<times> (err + unit)" where
  "SeedPredefinedDeviceTypes env db = seed_types env 0 seed_defs db"

end
