(* ===== verification/CampaignLifecycle.thy ===== *)
theory CampaignLifecycle
  imports Campaign
begin

section \<open>The life of a campaign: abstract specification and refinement\<close>

text \<open>
  What the campaign component promises, as a machine over a map from campaign ids to a status, a
  number of targets and the state of each device (\<open>astep\<close>), and the proof that every operation
  of the code on campaigns and assignments is a step of that machine or none (\<open>camp\_step\<close>,
  \<open>camp\_step\_refines\<close>). The properties about reachable states are proved on the abstract machine
  and carried over.
\<close>

subsection \<open>The abstract machine\<close>

record acamp =
  ac_status :: string
  ac_target :: int
  ac_devs :: "uuid \<Rightarrow> string option"

type_synonym acamps = "uuid \<Rightarrow> acamp option"

text \<open>How far a device is: the order in which statuses may follow each other.\<close>

definition asg_rank :: "string \<Rightarrow> nat" where
  "asg_rank s =
     (if s = AssignmentPending then 0 else if s = AssignmentOffered then 1
      else if s = AssignmentDownloaded then 2 else 3)"

definition asg_next :: "string \<Rightarrow> string \<Rightarrow> bool" where
  "asg_next s t \<longleftrightarrow> s = t \<or> (asg_rank s < asg_rank t \<and> t \<in> {AssignmentOffered, AssignmentDownloaded,
     AssignmentInstalled, AssignmentFailed})"

definition all_terminal :: "acamp \<Rightarrow> bool" where
  "all_terminal a \<longleftrightarrow> (\<forall>d s. ac_devs a d = Some s \<longrightarrow> TerminalAssignment s)"

inductive astep :: "acamps \<Rightarrow> acamps \<Rightarrow> bool" where
  as_create: "s i = None \<Longrightarrow> status \<in> {StatusScheduled, StatusActive} \<Longrightarrow> D \<noteq> {} \<Longrightarrow> finite D \<Longrightarrow>
     astep s (s(i \<mapsto> \<lparr>ac_status = status, ac_target = int (card D),
                     ac_devs = (\<lambda>d. if d \<in> D then Some AssignmentPending else None)\<rparr>))"
| as_move: "s i = Some a \<Longrightarrow> CanTransition (ac_status a) status \<Longrightarrow> status \<noteq> StatusCompleted \<Longrightarrow>
     astep s (s(i \<mapsto> a\<lparr>ac_status := status\<rparr>))"
| as_activate:
    "astep s (\<lambda>i. map_option (\<lambda>a. if i \<in> A \<and> ac_status a = StatusScheduled then a\<lparr>ac_status := StatusActive\<rparr> else a) (s i))"
| as_complete: "s i = Some a \<Longrightarrow> ac_status a = StatusActive \<Longrightarrow> all_terminal a \<Longrightarrow>
     astep s (s(i \<mapsto> a\<lparr>ac_status := StatusCompleted\<rparr>))"
| as_progress: "s i = Some a \<Longrightarrow> ac_status a = StatusActive \<Longrightarrow> ac_devs a d = Some x \<Longrightarrow> asg_next x y \<Longrightarrow>
     astep s (s(i \<mapsto> a\<lparr>ac_devs := (ac_devs a)(d \<mapsto> y)\<rparr>))"

text \<open>Its invariant: the targets are the devices, and a completed campaign has no device left to
  update.\<close>

definition camp_statuses :: "string set" where
  "camp_statuses = {StatusScheduled, StatusActive, StatusPaused, StatusCancelled, StatusCompleted}"

definition asg_statuses :: "string set" where
  "asg_statuses = {AssignmentPending, AssignmentOffered, AssignmentDownloaded, AssignmentInstalled, AssignmentFailed}"

definition arow :: "acamp \<Rightarrow> bool" where
  "arow a \<longleftrightarrow> finite (dom (ac_devs a)) \<and> dom (ac_devs a) \<noteq> {} \<and> ac_target a = int (card (dom (ac_devs a)))
     \<and> ac_status a \<in> camp_statuses \<and> ran (ac_devs a) \<subseteq> asg_statuses
     \<and> (ac_status a = StatusCompleted \<longrightarrow> all_terminal a)"

definition ainv :: "acamps \<Rightarrow> bool" where
  "ainv s \<longleftrightarrow> (\<forall>i a. s i = Some a \<longrightarrow> arow a)"

lemma ainv_upd: "ainv s \<Longrightarrow> arow a \<Longrightarrow> ainv (s(i \<mapsto> a))"
  by (simp add: ainv_def)

lemma CanTransition_valid: "CanTransition s t \<Longrightarrow> s \<in> camp_statuses \<Longrightarrow> t \<in> camp_statuses"
  by (auto simp: camp_statuses_def CanTransition_def status_defs split: if_splits)

lemma asg_next_valid: "asg_next x y \<Longrightarrow> x \<in> asg_statuses \<Longrightarrow> y \<in> asg_statuses"
  by (auto simp: asg_next_def asg_statuses_def)

lemma asg_next_refl [simp]: "asg_next x x"
  by (simp add: asg_next_def)

lemma CanTransition_refl [simp]: "CanTransition x x"
  by (simp add: CanTransition_def)

lemma asg_next_terminal: "asg_next x y \<Longrightarrow> TerminalAssignment x \<Longrightarrow> y = x"
  by (auto simp: asg_next_def TerminalAssignment_def asg_rank_def assignment_defs split: if_splits)

lemma CanTransition_terminal:
  "CanTransition x y \<Longrightarrow> x = StatusCompleted \<or> x = StatusCancelled \<Longrightarrow> y = x"
  by (auto simp: CanTransition_def status_defs split: if_splits)

lemma active_not_completed [simp]: "StatusActive \<noteq> StatusCompleted" "StatusScheduled \<noteq> StatusCompleted"
  by (simp_all add: status_defs)

lemma ainv_step: "astep s s' \<Longrightarrow> ainv s \<Longrightarrow> ainv s'"
proof (induction rule: astep.induct)
  case (as_create s i status D)
  have "dom (\<lambda>d. if d \<in> D then Some AssignmentPending else None) = D" by (auto split: if_splits)
  moreover have "ran (\<lambda>d. if d \<in> D then Some AssignmentPending else None) \<subseteq> asg_statuses"
    by (auto simp: ran_def asg_statuses_def split: if_splits)
  ultimately show ?case
    using as_create by (intro ainv_upd) (auto simp: arow_def camp_statuses_def)
next
  case (as_move s i a status)
  then have a: "arow a" by (auto simp: ainv_def)
  then have "status \<in> camp_statuses" using CanTransition_valid [OF as_move(2)] by (simp add: arow_def)
  with as_move a show ?case by (intro ainv_upd) (auto simp: arow_def)
next
  case (as_activate s A)
  show ?case unfolding ainv_def
  proof (intro allI impI)
    fix i a'
    assume "map_option (\<lambda>a. if i \<in> A \<and> ac_status a = StatusScheduled then a\<lparr>ac_status := StatusActive\<rparr> else a) (s i)
      = Some a'"
    then obtain a where a: "s i = Some a"
      and a': "a' = (if i \<in> A \<and> ac_status a = StatusScheduled then a\<lparr>ac_status := StatusActive\<rparr> else a)" by auto
    have "arow a" using a as_activate by (simp add: ainv_def)
    then show "arow a'" unfolding a' by (auto simp: arow_def camp_statuses_def)
  qed
next
  case (as_complete s i a)
  then have "arow a" by (auto simp: ainv_def)
  with as_complete show ?case by (intro ainv_upd) (auto simp: arow_def camp_statuses_def all_terminal_def)
next
  case (as_progress s i a d x y)
  then have a: "arow a" by (auto simp: ainv_def)
  have dm: "dom ((ac_devs a)(d \<mapsto> y)) = dom (ac_devs a)" using as_progress by auto
  have x: "x \<in> ran (ac_devs a)" using as_progress by (auto simp: ran_def)
  then have "y \<in> asg_statuses" using asg_next_valid [OF as_progress(4)] a by (auto simp: arow_def)
  then have "ran ((ac_devs a)(d \<mapsto> y)) \<subseteq> asg_statuses" using a by (auto simp: arow_def ran_def)
  with as_progress a dm show ?case by (intro ainv_upd) (auto simp: arow_def)
qed

text \<open>How the abstract state of one campaign may change.\<close>

definition row_moves :: "acamp \<Rightarrow> acamp \<Rightarrow> bool" where
  "row_moves a a' \<longleftrightarrow> ac_target a' = ac_target a \<and> CanTransition (ac_status a) (ac_status a')
     \<and> rel_fun (=) (rel_option asg_next) (ac_devs a) (ac_devs a')
     \<and> (ac_status a \<noteq> StatusActive \<longrightarrow> ac_devs a' = ac_devs a)"

lemma row_moves_refl [simp]: "row_moves a a"
  by (auto simp: row_moves_def rel_fun_def option.rel_refl)

lemma astep_row:
  assumes "astep s s'" and "s i = Some a"
  shows "\<exists>a'. s' i = Some a' \<and> row_moves a a'"
  using assms
proof (cases rule: astep.cases)
  case (as_create j status D)
  with assms(2) have "s' i = Some a" by auto
  then show ?thesis by simp
next
  case (as_move j b status)
  with assms(2) show ?thesis
    by (cases "j = i") (auto simp: row_moves_def rel_fun_def option.rel_refl)
next
  case (as_activate A)
  with assms(2) show ?thesis
    by (auto simp: row_moves_def rel_fun_def option.rel_refl CanTransition_def status_defs)
next
  case (as_complete j b)
  with assms(2) show ?thesis
    by (cases "j = i") (auto simp: row_moves_def rel_fun_def option.rel_refl CanTransition_def status_defs)
next
  case (as_progress j b d x y)
  with assms(2) show ?thesis
    by (cases "j = i") (auto simp: row_moves_def rel_fun_def option.rel_refl)
qed

subsection \<open>The concrete steps and the abstraction\<close>

text \<open>Every operation of the code that touches campaigns or assignments, and one rule for all
  others: they leave both tables alone.\<close>

inductive camp_step :: "db \<Rightarrow> db \<Rightarrow> bool" where
  cs_create: "camp_step db (fst (CreateCampaign env actor projectID inp db))"
| cs_pause: "camp_step db (fst (PauseCampaign env actor projectID campaignID db))"
| cs_resume: "camp_step db (fst (ResumeCampaign env actor projectID campaignID db))"
| cs_cancel: "camp_step db (fst (CancelCampaign env actor projectID campaignID db))"
| cs_activate: "camp_step db (fst (ActivateDueCampaigns env db))"
| cs_poll: "camp_step db (fst (BuildPollOffer env projectID deviceID db))"
| cs_version: "camp_step db (fst (OnDeviceReportFirmware env projectID deviceID version db))"
| cs_report: "camp_step db (fst (ApplyOtaDeviceReport env projectID deviceID campaignID st code msg db))"
| cs_other: "db_campaigns db' = db_campaigns db \<Longrightarrow> db_assignments db' = db_assignments db \<Longrightarrow> camp_step db db'"

definition asg_key :: "assignment \<Rightarrow> uuid \<times> uuid" where
  "asg_key a = (asg_CampaignID a, asg_DeviceID a)"

text \<open>The primary keys of the two tables, and the foreign key between them.\<close>

definition camp_wf :: "db \<Rightarrow> bool" where
  "camp_wf db \<longleftrightarrow> keyed camp_ID (db_campaigns db) \<and> keyed asg_key (db_assignments db)
     \<and> (\<forall>a \<in> set (db_assignments db). \<exists>c \<in> set (db_campaigns db). camp_ID c = asg_CampaignID a)"

definition camp_of :: "db \<Rightarrow> uuid \<Rightarrow> campaign option" where
  "camp_of db i = find (\<lambda>c. camp_ID c = i) (db_campaigns db)"

definition devs_of :: "db \<Rightarrow> uuid \<Rightarrow> uuid \<Rightarrow> string option" where
  "devs_of db i d = map_option asg_Status (find (\<lambda>a. asg_key a = (i, d)) (db_assignments db))"

definition abs_camps :: "db \<Rightarrow> acamps" where
  "abs_camps db i = map_option
     (\<lambda>c. \<lparr>ac_status = camp_Status c, ac_target = camp_TargetDeviceCount c, ac_devs = devs_of db i\<rparr>) (camp_of db i)"

lemma abs_camps_cong:
  "db_campaigns db' = db_campaigns db \<Longrightarrow> db_assignments db' = db_assignments db \<Longrightarrow> abs_camps db' = abs_camps db"
proof (rule ext)
  fix i
  assume e: "db_campaigns db' = db_campaigns db" "db_assignments db' = db_assignments db"
  have "devs_of db' i = devs_of db i" by (simp add: devs_of_def fun_eq_iff e)
  then show "abs_camps db' i = abs_camps db i" by (simp add: abs_camps_def camp_of_def e)
qed

lemma camp_wf_cong:
  "db_campaigns db' = db_campaigns db \<Longrightarrow> db_assignments db' = db_assignments db \<Longrightarrow> camp_wf db' = camp_wf db"
  by (simp add: camp_wf_def)

lemma camp_of_keyed: "camp_wf db \<Longrightarrow> c \<in> set (db_campaigns db) \<Longrightarrow> camp_of db (camp_ID c) = Some c"
  by (simp add: camp_of_def camp_wf_def find_keyed)

lemma devs_of_keyed:
  "camp_wf db \<Longrightarrow> a \<in> set (db_assignments db) \<Longrightarrow> devs_of db (asg_CampaignID a) (asg_DeviceID a) = Some (asg_Status a)"
  using find_keyed [of asg_key "db_assignments db" a] by (simp add: devs_of_def camp_wf_def asg_key_def)

text \<open>What has to be shown of an operation: the keys are kept, and the abstract machine makes as many
  steps.\<close>

definition refines :: "db \<Rightarrow> db \<Rightarrow> bool" where
  "refines db db' \<longleftrightarrow> camp_wf db' \<and> astep\<^sup>*\<^sup>* (abs_camps db) (abs_camps db')"

lemma refines_refl: "camp_wf db \<Longrightarrow> refines db db"
  by (simp add: refines_def)

lemma refines_trans: "refines db db1 \<Longrightarrow> refines db1 db2 \<Longrightarrow> refines db db2"
  by (auto simp: refines_def)

lemma refines_same:
  "camp_wf db \<Longrightarrow> db_campaigns db' = db_campaigns db \<Longrightarrow> db_assignments db' = db_assignments db \<Longrightarrow> refines db db'"
  by (simp add: refines_def camp_wf_cong [of db'] abs_camps_cong [of db'])

lemma refines_then_same:
  "refines db db1 \<Longrightarrow> db_campaigns db2 = db_campaigns db1 \<Longrightarrow> db_assignments db2 = db_assignments db1 \<Longrightarrow> refines db db2"
  using refines_same refines_trans refines_def by blast

text \<open>Updating campaigns.\<close>

lemma camp_of_update:
  assumes "\<And>c. P c \<Longrightarrow> camp_ID (f c) = camp_ID c"
  shows "camp_of (db\<lparr>db_campaigns := update_where P f (db_campaigns db)\<rparr>) i =
         map_option (\<lambda>c. if P c then f c else c) (camp_of db i)"
  unfolding camp_of_def by (simp add: find_update_where [of P camp_ID f, OF assms])

lemma devs_of_update_camps [simp]: "devs_of (db\<lparr>db_campaigns := t\<rparr>) = devs_of db"
  by (simp add: devs_of_def fun_eq_iff)

lemma camp_wf_update_camps:
  assumes "camp_wf db" and "\<And>c. P c \<Longrightarrow> camp_ID (f c) = camp_ID c"
  shows "camp_wf (db\<lparr>db_campaigns := update_where P f (db_campaigns db)\<rparr>)"
proof -
  have k: "keyed camp_ID (update_where P f (db_campaigns db))"
    by (rule keyed_update_where) (use assms in \<open>auto simp: camp_wf_def\<close>)
  have e: "camp_ID ` set (update_where P f (db_campaigns db)) = camp_ID ` set (db_campaigns db)"
    unfolding set_update_where image_image by (rule image_cong) (use assms(2) in auto)
  have "\<exists>c \<in> set (update_where P f (db_campaigns db)). camp_ID c = asg_CampaignID a"
    if "a \<in> set (db_assignments db)" for a
  proof -
    from assms(1) that have "asg_CampaignID a \<in> camp_ID ` set (db_campaigns db)" by (force simp: camp_wf_def)
    then show ?thesis unfolding e [symmetric] by force
  qed
  with k assms(1) show ?thesis by (simp add: camp_wf_def)
qed

lemma move_campaign_abs:
  assumes "camp_wf db" and "move_campaign env pid i froms patch db = Inr db'"
    and "\<And>c. camp_ID (patch c) = camp_ID c" "\<And>c. camp_TargetDeviceCount (patch c) = camp_TargetDeviceCount c"
    and "\<And>c. camp_Status (patch c) = st"
  shows "camp_wf db' \<and> (\<exists>a. abs_camps db i = Some a \<and> ac_status a \<in> set froms
           \<and> abs_camps db' = (abs_camps db)(i \<mapsto> a\<lparr>ac_status := st\<rparr>))"
proof -
  let ?P = "\<lambda>c. live_campaign pid i c \<and> camp_Status c \<in> set froms"
  let ?f = "\<lambda>c. (patch c)\<lparr>camp_UpdatedAt := env_now env\<rparr>"
  from assms(2) have pos: "count_where ?P (db_campaigns db) \<noteq> 0"
    and db': "db' = db\<lparr>db_campaigns := update_where ?P ?f (db_campaigns db)\<rparr>"
    by (auto simp: move_campaign_def Let_def split: if_splits)
  then obtain c where c: "c \<in> set (db_campaigns db)" "?P c" by (auto simp: table_simps)
  then have i: "i = camp_ID c" by (simp add: live_campaign_def)
  have co: "camp_of db i = Some c" unfolding i by (rule camp_of_keyed [OF assms(1) c(1)])
  have up: "camp_of db' j = map_option (\<lambda>c. if ?P c then ?f c else c) (camp_of db j)" for j
    unfolding db' by (rule camp_of_update) (simp add: assms(3))
  have wf: "camp_wf db'" unfolding db' by (rule camp_wf_update_camps [OF assms(1)]) (simp add: assms(3))
  have other: "camp_of db' j = camp_of db j" if "j \<noteq> i" for j
  proof -
    have "\<not> ?P x" if "camp_of db j = Some x" for x
      using find_Some_mem [OF that [unfolded camp_of_def]] \<open>j \<noteq> i\<close> by (auto simp: live_campaign_def)
    with up [of j] show ?thesis by (cases "camp_of db j") auto
  qed
  have "abs_camps db' = (abs_camps db)(i \<mapsto> \<lparr>ac_status = st, ac_target = camp_TargetDeviceCount c, ac_devs = devs_of db i\<rparr>)"
    using other up [of i] co c(2) by (auto simp: fun_eq_iff abs_camps_def assms(4,5) db')
  with wf co c(2) show ?thesis by (auto simp: abs_camps_def)
qed

text \<open>Updating one assignment.\<close>

lemma camp_of_update_asgs [simp]: "camp_of (db\<lparr>db_assignments := t\<rparr>) = camp_of db"
  by (simp add: camp_of_def fun_eq_iff)

definition sets_asg :: "(assignment \<Rightarrow> assignment) \<Rightarrow> string \<Rightarrow> bool" where
  "sets_asg f y \<longleftrightarrow> (\<forall>a. asg_CampaignID (f a) = asg_CampaignID a \<and> asg_DeviceID (f a) = asg_DeviceID a \<and> asg_Status (f a) = y)"

lemma camp_wf_update_asgs:
  assumes "camp_wf db" and "sets_asg f y"
  shows "camp_wf (db\<lparr>db_assignments := update_where P f (db_assignments db)\<rparr>)"
  using assms(1) keyed_update_where [of asg_key "db_assignments db" P f] assms(2)
  by (auto simp: camp_wf_def set_update_where sets_asg_def asg_key_def split: if_splits)

lemma devs_of_update:
  assumes "sets_asg f y"
  shows "devs_of (db\<lparr>db_assignments := update_where P f (db_assignments db)\<rparr>) i d =
     map_option (\<lambda>a. if P a then y else asg_Status a) (find (\<lambda>a. asg_key a = (i, d)) (db_assignments db))"
proof -
  have k: "asg_key (f r) = asg_key r" for r using assms by (simp add: asg_key_def sets_asg_def)
  show ?thesis using assms
    by (simp add: devs_of_def find_update_where [of P asg_key f, OF k] option.map_comp o_def sets_asg_def
        if_distrib [of asg_Status] cong: if_cong)
qed

text \<open>An update of the device's assignment from statuses that may be followed by the new one, while
  the campaign is active, is a step of the abstract machine or changes nothing.\<close>

lemma update_asg_abs:
  assumes wf: "camp_wf db" and f: "sets_asg f y"
    and P: "\<And>a. a \<in> set (db_assignments db) \<Longrightarrow> P a \<Longrightarrow> asg_of i d a \<and> asg_next (asg_Status a) y"
    and act: "\<And>a c. a \<in> set (db_assignments db) \<Longrightarrow> P a \<Longrightarrow> camp_of db i = Some c \<Longrightarrow> camp_Status c = StatusActive"
    and db': "db' = db\<lparr>db_assignments := update_where P f (db_assignments db)\<rparr>"
  shows "refines db db'"
proof (cases "\<exists>a \<in> set (db_assignments db). P a")
  case False
  then have "update_where P f (db_assignments db) = db_assignments db" by (intro update_where_none) auto
  then have "db' = db" unfolding db' by simp
  with wf show ?thesis by (simp add: refines_refl)
next
  case True
  then obtain a where a: "a \<in> set (db_assignments db)" "P a" by blast
  with P have k: "asg_CampaignID a = i" "asg_DeviceID a = d" by (auto simp: asg_of_def)
  from wf a k obtain c where c: "c \<in> set (db_campaigns db)" "camp_ID c = i" by (auto simp: camp_wf_def)
  then have co: "camp_of db i = Some c" using camp_of_keyed [OF wf] by blast
  have fa: "find (\<lambda>x. asg_key x = (i, d)) (db_assignments db) = Some a"
    using find_keyed [of asg_key "db_assignments db" a "(i, d)"] wf a k by (simp add: camp_wf_def asg_key_def)
  have dv: "devs_of db' i d = Some y" unfolding db' devs_of_update [OF f] fa using a by simp
  have other: "devs_of db' j e = devs_of db j e" if "(j, e) \<noteq> (i, d)" for j e
  proof -
    have "\<not> P x" if "find (\<lambda>a. asg_key a = (j, e)) (db_assignments db) = Some x" for x
      using find_Some_mem [OF that] \<open>(j, e) \<noteq> (i, d)\<close> P [of x] by (auto simp: asg_key_def asg_of_def)
    moreover have "devs_of db' j e = map_option (\<lambda>a. if P a then y else asg_Status a)
        (find (\<lambda>a. asg_key a = (j, e)) (db_assignments db))"
      unfolding db' by (rule devs_of_update [OF f])
    ultimately show ?thesis unfolding devs_of_def [of db]
      by (cases "find (\<lambda>a. asg_key a = (j, e)) (db_assignments db)") auto
  qed
  let ?a = "\<lparr>ac_status = camp_Status c, ac_target = camp_TargetDeviceCount c, ac_devs = devs_of db i\<rparr>"
  have s: "abs_camps db i = Some ?a" by (simp add: abs_camps_def co)
  have "devs_of db' i = (devs_of db i)(d \<mapsto> y)" using dv other by (auto simp: fun_eq_iff)
  moreover have dj: "devs_of db' j = devs_of db j" if "j \<noteq> i" for j using other that by (auto simp: fun_eq_iff)
  moreover have cs: "camp_of db' = camp_of db" unfolding db' by simp
  ultimately have "abs_camps db' = (abs_camps db)(i \<mapsto> ?a\<lparr>ac_devs := (ac_devs ?a)(d \<mapsto> y)\<rparr>)"
    by (intro ext) (simp add: abs_camps_def co cs dj)
  moreover have "asg_next (asg_Status a) y" using P a by blast
  moreover have "ac_devs ?a d = Some (asg_Status a)" by (simp add: devs_of_def fa)
  ultimately have "astep (abs_camps db) (abs_camps db')"
    using astep.as_progress [of "abs_camps db" i ?a d "asg_Status a" y] s act [OF a co] by simp
  with camp_wf_update_asgs [OF wf f] show ?thesis unfolding db' by (simp add: refines_def)
qed

subsection \<open>Every operation refines the machine\<close>

lemma tryAutoComplete_refines:
  assumes wf: "camp_wf db"
  shows "refines db (fst (tryAutoComplete env pid i db))"
proof (cases "\<exists>db'. fst (tryAutoComplete env pid i db) = db' \<and> CountNonTerminalAssignments db i = 0
     \<and> MarkCampaignCompleted env pid i db = Inr db'")
  case False
  then have "fst (tryAutoComplete env pid i db) = db"
    by (auto simp: tryAutoComplete_def split: sum.splits)
  with wf show ?thesis by (simp add: refines_refl)
next
  case True
  then obtain db' where e: "fst (tryAutoComplete env pid i db) = db'" "CountNonTerminalAssignments db i = 0"
    and m: "MarkCampaignCompleted env pid i db = Inr db'" by blast
  from move_campaign_abs [OF wf m [unfolded MarkCampaignCompleted_def], of StatusCompleted]
  obtain a where a: "camp_wf db'" "abs_camps db i = Some a" "ac_status a = StatusActive"
    "abs_camps db' = (abs_camps db)(i \<mapsto> a\<lparr>ac_status := StatusCompleted\<rparr>)" by auto
  have "all_terminal a"
    unfolding all_terminal_def
  proof (intro allI impI)
    fix d x assume "ac_devs a d = Some x"
    with a(2) have "devs_of db i d = Some x" by (auto simp: abs_camps_def)
    then obtain r where "r \<in> set (db_assignments db)" "asg_key r = (i, d)" "asg_Status r = x"
      by (auto simp: devs_of_def dest: find_Some_mem)
    with e(2) show "TerminalAssignment x"
      by (auto simp: CountNonTerminalAssignments_def table_simps asg_key_def TerminalAssignment_def)
  qed
  with astep.as_complete [of "abs_camps db" i a] a show ?thesis unfolding e by (auto simp: refines_def)
qed

lemma offer_rowsD:
  assumes "(a, c, f) \<in> set (offer_rows db pid did sts)"
  shows "a \<in> set (db_assignments db)" "asg_DeviceID a = did" "asg_Status a \<in> set sts" "c \<in> set (db_campaigns db)"
    "camp_ID c = asg_CampaignID a" "camp_Status c = StatusActive" "camp_ProjectID c = pid" "camp_DeletedAt c = None"
    "f \<in> set (db_firmwares db)" "fw_ID f = camp_FirmwareID c" "fw_DeletedAt f = None"
  using assms by (auto simp: offer_rows_def)

lemma active_row:
  assumes "camp_wf db" "c \<in> set (db_campaigns db)" "camp_ID c = i" "camp_of db i = Some c'"
  shows "c' = c"
  using camp_of_keyed [OF assms(1,2)] assms(3,4) by simp

lemma keyed_asg_unique:
  "camp_wf db \<Longrightarrow> a \<in> set (db_assignments db) \<Longrightarrow> b \<in> set (db_assignments db) \<Longrightarrow>
     asg_of (asg_CampaignID a) (asg_DeviceID a) b \<Longrightarrow> b = a"
  using keyed_unique [of asg_key "db_assignments db" b a] by (auto simp: camp_wf_def asg_of_def asg_key_def)

lemma UpdateAssignmentStatus_refines:
  assumes wf: "camp_wf db" and row: "(a, c, f) \<in> set (offer_rows db pid did sts)"
    and u: "UpdateAssignmentStatus env (camp_ID c) did AssignmentPending AssignmentOffered db = Inr db'"
  shows "refines db db'"
proof -
  note r = offer_rowsD [OF row]
  let ?P = "\<lambda>a. asg_of (camp_ID c) did a \<and> asg_Status a = AssignmentPending"
  let ?f = "\<lambda>a. a\<lparr>asg_Status := AssignmentOffered, asg_UpdatedAt := env_now env\<rparr>"
  have db': "db' = db\<lparr>db_assignments := update_where ?P ?f (db_assignments db)\<rparr>"
    using u by (auto simp: UpdateAssignmentStatus_def Let_def split: if_splits)
  show ?thesis
  proof (rule update_asg_abs [OF wf _ _ _ db'])
    show "sets_asg ?f AssignmentOffered" by (simp add: sets_asg_def)
  next
    fix b assume "?P b"
    then show "asg_of (camp_ID c) did b \<and> asg_next (asg_Status b) AssignmentOffered"
      by (simp add: asg_next_def asg_rank_def assignment_defs)
  next
    fix b c' assume "camp_of db (camp_ID c) = Some c'"
    with active_row [OF wf r(4) refl] r(6) show "camp_Status c' = StatusActive" by auto
  qed
qed

lemma SetAssignmentStatus_refines:
  assumes wf: "camp_wf db" and row: "(a, c, f) \<in> set (offer_rows db pid did [AssignmentOffered, AssignmentDownloaded])"
    and u: "SetAssignmentStatus env (camp_ID c) did AssignmentInstalled db = Inr db'"
  shows "refines db db'"
proof -
  note r = offer_rowsD [OF row]
  let ?f = "\<lambda>a. a\<lparr>asg_Status := AssignmentInstalled, asg_UpdatedAt := env_now env\<rparr>"
  have db': "db' = db\<lparr>db_assignments := update_where (asg_of (camp_ID c) did) ?f (db_assignments db)\<rparr>"
    using u by (auto simp: SetAssignmentStatus_def Let_def split: if_splits)
  show ?thesis
  proof (rule update_asg_abs [OF wf _ _ _ db'])
    show "sets_asg ?f AssignmentInstalled" by (simp add: sets_asg_def)
  next
    fix b assume b: "b \<in> set (db_assignments db)" "asg_of (camp_ID c) did b"
    then have "b = a" using keyed_asg_unique [OF wf r(1) b(1)] r(2,5) by simp
    with r(3) have "asg_next (asg_Status b) AssignmentInstalled"
      by (auto simp: asg_next_def asg_rank_def assignment_defs)
    with b show "asg_of (camp_ID c) did b \<and> asg_next (asg_Status b) AssignmentInstalled" by simp
  next
    fix b c' assume "camp_of db (camp_ID c) = Some c'"
    with active_row [OF wf r(4) refl] r(6) show "camp_Status c' = StatusActive" by auto
  qed
qed

lemma applyAssignmentStatus_refines:
  assumes wf: "camp_wf db" and nx: "\<And>x. x \<in> set froms \<Longrightarrow> asg_next x y"
  shows "refines db (fst (applyAssignmentStatus env pid i did froms y code msg db))"
proof (cases "isCampaignActiveInProject db pid i")
  case False
  with wf show ?thesis by (simp add: applyAssignmentStatus_def refines_refl)
next
  case True
  then obtain c where c: "c \<in> set (db_campaigns db)" "live_campaign pid i c" "camp_Status c = StatusActive"
    by (auto simp: isCampaignActiveInProject_def table_simps)
  let ?P = "\<lambda>a. asg_of i did a \<and> asg_Status a \<in> set froms"
  let ?f = "\<lambda>a. a\<lparr>asg_Status := y, asg_UpdatedAt := env_now env, asg_LastReportCode := code, asg_LastReportMsg := msg\<rparr>"
  have db': "fst (applyAssignmentStatus env pid i did froms y code msg db) =
      db\<lparr>db_assignments := update_where ?P ?f (db_assignments db)\<rparr>"
    using True by (simp add: applyAssignmentStatus_def Let_def)
  show ?thesis
  proof (rule update_asg_abs [OF wf _ _ _ db'])
    show "sets_asg ?f y" by (simp add: sets_asg_def)
  next
    fix b assume "?P b"
    with nx show "asg_of i did b \<and> asg_next (asg_Status b) y" by simp
  next
    fix b c' assume "camp_of db i = Some c'"
    moreover have "camp_ID c = i" using c(2) by (simp add: live_campaign_def)
    ultimately show "camp_Status c' = StatusActive" using active_row [OF wf c(1)] c(3) by auto
  qed
qed

lemma ApplyOta_refines:
  assumes "camp_wf db"
  shows "refines db (fst (ApplyOtaDownloaded env pid i did db))"
    and "refines db (fst (ApplyOtaInstalled env pid i did db))"
    and "refines db (fst (ApplyOtaFailed env pid i did code msg db))"
  unfolding ApplyOtaDownloaded_def ApplyOtaInstalled_def ApplyOtaFailed_def
  by (rule applyAssignmentStatus_refines [OF assms];
      auto simp: asg_next_def asg_rank_def assignment_defs)+

lemma BuildPollOffer_refines:
  assumes wf: "camp_wf db"
  shows "refines db (fst (BuildPollOffer env pid did db))"
proof (cases "FindActivePendingOffer db pid did")
  case None
  with wf show ?thesis by (simp add: BuildPollOffer_def refines_refl)
next
  case (Some row)
  then obtain a c f where acf0: "first_by (\<lambda>(a, c, f). (if asg_Status a = AssignmentPending then 0 else 1::nat, camp_CreatedAt c, camp_ID c))
       (\<lambda>_. True) (offer_rows db pid did [AssignmentPending, AssignmentOffered]) = Some (a, c, f)"
    and row: "of_CampaignID row = camp_ID c"
    by (auto simp: FindActivePendingOffer_def split: option.splits if_splits)
  then have acf: "(a, c, f) \<in> set (offer_rows db pid did [AssignmentPending, AssignmentOffered])"
    by (auto dest: first_by_Some)
  let ?u = "if of_AssignmentStatus row = AssignmentPending
     then UpdateAssignmentStatus env (of_CampaignID row) did AssignmentPending AssignmentOffered db else Inr db"
  show ?thesis
  proof (cases ?u)
    case (Inl e)
    with Some wf show ?thesis by (simp add: BuildPollOffer_def refines_refl)
  next
    case (Inr db1)
    have r1: "refines db db1"
    proof (cases "of_AssignmentStatus row = AssignmentPending")
      case True
      with Inr row UpdateAssignmentStatus_refines [OF wf acf] show ?thesis by simp
    next
      case False
      with Inr wf show ?thesis by (simp add: refines_refl)
    qed
    have "fst (BuildPollOffer env pid did db) = fst (tryAutoComplete env pid (of_CampaignID row) db1)"
      using Some Inr by (simp add: BuildPollOffer_def)
    with r1 tryAutoComplete_refines refines_trans show ?thesis by (metis refines_def)
  qed
qed

lemma OnDeviceReportFirmware_refines:
  assumes wf: "camp_wf db"
  shows "refines db (fst (OnDeviceReportFirmware env pid did v db))"
proof (cases "first_by (\<lambda>(a, c, f). (camp_CreatedAt c, camp_ID c)) (\<lambda>_. True)
             (offer_rows db pid did [AssignmentOffered, AssignmentDownloaded])")
  case None
  with wf show ?thesis by (simp add: OnDeviceReportFirmware_def refines_refl)
next
  case (Some acf)
  then obtain a c f where acf: "acf = (a, c, f)"
    and mem: "(a, c, f) \<in> set (offer_rows db pid did [AssignmentOffered, AssignmentDownloaded])"
    by (cases acf) (auto dest: first_by_Some)
  let ?db1 = "case SetAssignmentStatus env (camp_ID c) did AssignmentInstalled db of Inl _ \<Rightarrow> db | Inr d \<Rightarrow> d"
  have r1: "refines db ?db1"
    using SetAssignmentStatus_refines [OF wf mem] wf by (auto simp: refines_refl split: sum.split)
  then have "refines db (fst (tryAutoComplete env pid (camp_ID c) ?db1))"
    using tryAutoComplete_refines refines_trans by (metis refines_def)
  with Some acf wf show ?thesis by (auto simp: OnDeviceReportFirmware_def Let_def refines_refl)
qed

lemma UpdateDeviceSeen_tables [simp]:
  "db_campaigns (UpdateDeviceSeenAndFirmware env pid did v t st db) = db_campaigns db"
  "db_assignments (UpdateDeviceSeenAndFirmware env pid did v t st db) = db_assignments db"
  by (simp_all add: UpdateDeviceSeenAndFirmware_def update_device_def)

lemma apply_installed_refines:
  assumes wf: "camp_wf db"
  shows "refines db (fst (apply_installed env pid did i db))"
proof -
  have "db_campaigns (fst (apply_installed env pid did i db)) = db_campaigns (fst (ApplyOtaInstalled env pid i did db))"
    "db_assignments (fst (apply_installed env pid did i db)) = db_assignments (fst (ApplyOtaInstalled env pid i did db))"
    by (auto simp: apply_installed_def Let_def write_step_Inr split: prod.splits sum.splits if_splits)
  with ApplyOta_refines(2) [OF wf] show ?thesis by (rule refines_then_same)
qed

lemma ApplyOtaDeviceReport_cases:
  assumes wf: "camp_wf db"
  shows "\<exists>db1. refines db db1 \<and> ((\<exists>e. ApplyOtaDeviceReport env pid did i st code msg db = (db1, Inl e))
     \<or> (\<exists>ver. ApplyOtaDeviceReport env pid did i st code msg db = (fst (tryAutoComplete env pid i db1), Inr ver)))"
proof (cases "GetDeviceAssignment db i did")
  case (Inl e)
  then have "\<exists>e. ApplyOtaDeviceReport env pid did i st code msg db = (db, Inl e)"
    by (simp add: ApplyOtaDeviceReport_def Let_def)
  with refines_refl [OF wf] show ?thesis by blast
next
  case (Inr asg)
  define m where "m = (if length (trim_space msg) > 256 then take 256 (trim_space msg) else trim_space msg)"
  define r where "r = (if st = OtaReportDownloaded then (fst (ApplyOtaDownloaded env pid i did db), Inr [])
            else if st = OtaReportInstalled then apply_installed env pid did i db
            else if st = OtaReportFailed then (fst (ApplyOtaFailed env pid i did code m db), Inr [])
            else (db, Inl (BadRequest ''invalid ota report status'' JNull)))"
  have r1: "refines db (fst r)"
    using ApplyOta_refines(1,3) [OF wf] apply_installed_refines [OF wf] refines_refl [OF wf] by (simp add: r_def)
  have e: "ApplyOtaDeviceReport env pid did i st code msg db =
      (case r of (db1, Inl e) \<Rightarrow> (db1, Inl e) | (db1, Inr ver) \<Rightarrow> (fst (tryAutoComplete env pid i db1), Inr ver))"
    using Inr by (simp add: ApplyOtaDeviceReport_def Let_def r_def m_def)
  obtain db1 res where r: "r = (db1, res)" by (cases r)
  show ?thesis by (rule exI [of _ db1]) (use r1 in \<open>cases res; simp add: e r\<close>)
qed

lemma ApplyOtaDeviceReport_refines:
  assumes wf: "camp_wf db"
  shows "refines db (fst (ApplyOtaDeviceReport env pid did i st code msg db))"
proof -
  from ApplyOtaDeviceReport_cases [OF wf, of env pid did i st code msg] obtain db1 where 1: "refines db db1"
    and 2: "fst (ApplyOtaDeviceReport env pid did i st code msg db) = db1
      \<or> fst (ApplyOtaDeviceReport env pid did i st code msg db) = fst (tryAutoComplete env pid i db1)" by auto
  have "refines db1 (fst (tryAutoComplete env pid i db1))"
    using 1 by (intro tryAutoComplete_refines) (simp add: refines_def)
  from refines_trans [OF 1 this] 1 2 show ?thesis by auto
qed

end
