(* ===== verification/CampaignRefinement.thy ===== *)
theory CampaignRefinement
  imports CampaignLifecycle
begin

section \<open>Every campaign operation refines the machine\<close>

text \<open>
  The remaining operations of the service (pausing, resuming, cancelling, activating, creating)
  and the refinement theorem over \<open>camp\_step\<close>, with the properties of reachable states that
  follow from the abstract machine.
\<close>

lemma change_campaign_refines:
  assumes wf: "camp_wf db"
    and f: "\<And>db'. f env pid i db = Inr db' \<Longrightarrow> refines db db'"
  shows "refines db (fst (change_campaign perm f msg event env actor pid i db))"
proof (cases "AuthorizeProject db pid actor perm")
  case (Inl e)
  with wf show ?thesis by (simp add: change_campaign_def refines_refl)
next
  case auth: (Inr x)
  show ?thesis
  proof (cases "f env pid i db")
    case (Inl e)
    with auth wf show ?thesis by (simp add: change_campaign_def refines_refl)
  next
    case (Inr db1)
    have "db_campaigns (fst (change_campaign perm f msg event env actor pid i db)) = db_campaigns db1"
      "db_assignments (fst (change_campaign perm f msg event env actor pid i db)) = db_assignments db1"
      using auth Inr by (simp_all add: change_campaign_def camp_audit_def)
    with f [OF Inr] show ?thesis by (rule refines_then_same)
  qed
qed

lemma move_refines:
  assumes wf: "camp_wf db" and m: "move_campaign env pid i froms patch db = Inr db'"
    and keep: "\<And>c. camp_ID (patch c) = camp_ID c" "\<And>c. camp_TargetDeviceCount (patch c) = camp_TargetDeviceCount c"
    and st: "\<And>c. camp_Status (patch c) = st" "st \<noteq> StatusCompleted" "\<And>x. x \<in> set froms \<Longrightarrow> CanTransition x st"
  shows "refines db db'"
proof -
  from move_campaign_abs [OF wf m keep st(1)] obtain a where a: "camp_wf db'" "abs_camps db i = Some a"
    "ac_status a \<in> set froms" "abs_camps db' = (abs_camps db)(i \<mapsto> a\<lparr>ac_status := st\<rparr>)" by auto
  with astep.as_move [of "abs_camps db" i a st] st(2) st(3) [OF a(3)] show ?thesis by (auto simp: refines_def)
qed

lemma transitions:
  "CanTransition StatusActive StatusPaused" "CanTransition StatusPaused StatusActive"
  "CanTransition StatusDraft StatusCancelled" "CanTransition StatusScheduled StatusCancelled"
  "CanTransition StatusActive StatusCancelled" "CanTransition StatusPaused StatusCancelled"
  "CanTransition StatusScheduled StatusActive" "CanTransition StatusActive StatusCompleted"
  by (simp_all add: CanTransition_def status_defs)

lemma not_completed:
  "StatusPaused \<noteq> StatusCompleted" "StatusActive \<noteq> StatusCompleted" "StatusCancelled \<noteq> StatusCompleted"
  by (simp_all add: status_defs)

lemma PauseCampaign_refines:
  assumes wf: "camp_wf db"
  shows "refines db (fst (PauseCampaign env actor pid i db))"
  unfolding PauseCampaign_def
proof (rule change_campaign_refines [OF wf])
  fix db' assume "repo_PauseCampaign env pid i db = Inr db'"
  from move_refines [OF wf this [unfolded repo_PauseCampaign_def], of StatusPaused] not_completed
  show "refines db db'" by (auto simp: transitions)
qed

lemma ResumeCampaign_refines:
  assumes wf: "camp_wf db"
  shows "refines db (fst (ResumeCampaign env actor pid i db))"
  unfolding ResumeCampaign_def
proof (rule change_campaign_refines [OF wf])
  fix db' assume "repo_ResumeCampaign env pid i db = Inr db'"
  from move_refines [OF wf this [unfolded repo_ResumeCampaign_def], of StatusActive] not_completed
  show "refines db db'" by (auto simp: transitions)
qed

lemma CancelCampaign_refines:
  assumes wf: "camp_wf db"
  shows "refines db (fst (CancelCampaign env actor pid i db))"
  unfolding CancelCampaign_def
proof (rule change_campaign_refines [OF wf])
  fix db' assume "repo_CancelCampaign env pid i db = Inr db'"
  from move_refines [OF wf this [unfolded repo_CancelCampaign_def], of StatusCancelled] not_completed
  show "refines db db'" using transitions by auto
qed

definition activated :: "env \<Rightarrow> campaign \<Rightarrow> campaign" where
  "activated env c = c\<lparr>camp_Status := StatusActive, camp_ActivatedAt := Some (env_now env), camp_UpdatedAt := env_now env\<rparr>"

lemma activated_sel [simp]:
  "camp_ID (activated env c) = camp_ID c" "camp_Status (activated env c) = StatusActive"
  "camp_TargetDeviceCount (activated env c) = camp_TargetDeviceCount c"
  by (simp_all add: activated_def)

definition due :: "env \<Rightarrow> campaign \<Rightarrow> bool" where
  "due env c \<longleftrightarrow> camp_Status c = StatusScheduled \<and> camp_DeletedAt c = None
     \<and> (case camp_ScheduledStartAt c of None \<Rightarrow> False | Some t \<Rightarrow> t \<le> env_now env)"

lemma ActivateDue_unfold:
  "ActivateDueCampaigns env db =
     (let ids = map camp_ID (filter (due env) (db_campaigns db))
      in if ids = [] then (db, [])
         else (db\<lparr>db_campaigns := update_where
                 (\<lambda>c. camp_ID c \<in> set ids \<and> camp_Status c = StatusScheduled \<and> camp_DeletedAt c = None)
                 (activated env) (db_campaigns db)\<rparr>, ids))"
  unfolding ActivateDueCampaigns_def ActivateDueScheduledCampaigns_def due_def [abs_def] activated_def [abs_def] Let_def
  by (rule refl)

lemma ActivateDue_ids: "snd (ActivateDueCampaigns env db) = map camp_ID (filter (due env) (db_campaigns db))"
  by (simp only: ActivateDue_unfold Let_def snd_conv split: if_split) simp

lemma ActivateDue_upd:
  assumes "camp_wf db"
  shows "fst (ActivateDueCampaigns env db) = db\<lparr>db_campaigns := update_where (due env) (activated env) (db_campaigns db)\<rparr>"
proof -
  let ?ids = "map camp_ID (filter (due env) (db_campaigns db))"
  let ?P = "\<lambda>c. camp_ID c \<in> set ?ids \<and> camp_Status c = StatusScheduled \<and> camp_DeletedAt c = None"
  have P: "?P c \<longleftrightarrow> due env c" if "c \<in> set (db_campaigns db)" for c
  proof
    assume "?P c"
    then obtain x where "x \<in> set (db_campaigns db)" "due env x" "camp_ID x = camp_ID c" by auto
    with that assms keyed_unique [of camp_ID "db_campaigns db" x c] show "due env c" by (auto simp: camp_wf_def)
  qed (use that in \<open>auto simp: due_def\<close>)
  have u: "update_where ?P (activated env) (db_campaigns db) = update_where (due env) (activated env) (db_campaigns db)"
    unfolding update_where_def by (rule map_cong) (simp_all only: P)
  show ?thesis
  proof (cases "?ids = []")
    case True
    then have "\<And>c. c \<in> set (db_campaigns db) \<Longrightarrow> \<not> due env c" by (auto simp: filter_empty_conv)
    then have "update_where (due env) (activated env) (db_campaigns db) = db_campaigns db" by (rule update_where_none)
    moreover have "fst (ActivateDueCampaigns env db) = db" by (simp only: ActivateDue_unfold Let_def True if_True fst_conv simp_thms)
    ultimately show ?thesis by simp
  next
    case False
    then have "fst (ActivateDueCampaigns env db) = db\<lparr>db_campaigns := update_where ?P (activated env) (db_campaigns db)\<rparr>"
      by (simp only: ActivateDue_unfold Let_def if_False fst_conv)
    then show ?thesis unfolding u .
  qed
qed

lemma ActivateDue_refines:
  assumes wf: "camp_wf db"
  shows "refines db (fst (ActivateDueCampaigns env db))"
proof -
  have e: "fst (ActivateDueCampaigns env db) = db\<lparr>db_campaigns := update_where (due env) (activated env) (db_campaigns db)\<rparr>"
    by (rule ActivateDue_upd [OF wf])
  let ?A = "{i. \<exists>c. camp_of db i = Some c \<and> due env c}"
  have up: "camp_of (fst (ActivateDueCampaigns env db)) i =
      map_option (\<lambda>c. if due env c then activated env c else c) (camp_of db i)" for i
    unfolding e by (rule camp_of_update) simp
  have dv: "devs_of (fst (ActivateDueCampaigns env db)) = devs_of db" unfolding e by simp
  have "abs_camps (fst (ActivateDueCampaigns env db)) i =
     map_option (\<lambda>a. if i \<in> ?A \<and> ac_status a = StatusScheduled then a\<lparr>ac_status := StatusActive\<rparr> else a) (abs_camps db i)" for i
    unfolding abs_camps_def up dv by (cases "camp_of db i") (auto simp: due_def)
  then have "astep (abs_camps db) (abs_camps (fst (ActivateDueCampaigns env db)))"
    using astep.as_activate [of "abs_camps db" ?A] by (metis (no_types, lifting) ext)
  moreover have "camp_wf (fst (ActivateDueCampaigns env db))"
    unfolding e by (rule camp_wf_update_camps [OF wf]) simp
  ultimately show ?thesis by (simp add: refines_def r_into_rtranclp)
qed

lemma takeStablePercentage_nonempty: "ids \<noteq> [] \<Longrightarrow> takeStablePercentage ids p \<noteq> []"
proof -
  assume "ids \<noteq> []"
  then have "1 \<le> int (length ids)" by (cases ids) auto
  then show ?thesis using \<open>ids \<noteq> []\<close> by (auto simp: takeStablePercentage_def Let_def)
qed

lemma CreateCampaignBundle_refines:
  assumes wf: "camp_wf db" and b: "CreateCampaignBundle env c gs ds ids db = Inr db'"
    and st: "camp_Status c \<in> {StatusScheduled, StatusActive}" and n: "camp_TargetDeviceCount c = int (length ids)"
    and ids: "ids \<noteq> []"
  shows "refines db db'"
proof -
  let ?news = "map (new_assignment env (camp_ID c)) ids"
  have ok: "insert_row camp_conflict c (db_campaigns db) = Inr (db_campaigns db')"
    "insert_rows asg_conflict ?news (db_assignments db) = Inr (db_assignments db')"
    using b by (auto simp: CreateCampaignBundle_def split: sum.splits)
  then have t: "db_campaigns db' = db_campaigns db @ [c]" "db_assignments db' = db_assignments db @ ?news"
    by (auto dest: insert_rows_Inr)
  have fresh: "camp_ID x \<noteq> camp_ID c" if "x \<in> set (db_campaigns db)" for x
    using ok(1) that by (auto simp: camp_conflict_def)
  have kc: "keyed camp_ID (db_campaigns db')"
    using keyed_insert_row [OF ok(1)] wf by (auto simp: camp_wf_def camp_conflict_def)
  have ka: "keyed asg_key (db_assignments db')"
    by (rule keyed_insert_rows [OF ok(2)]) (use wf in \<open>auto simp: camp_wf_def asg_conflict_def asg_key_def\<close>)
  have wf': "camp_wf db'"
    using wf kc ka by (auto simp: camp_wf_def t new_assignment_def)
  have orph: "asg_CampaignID a \<noteq> camp_ID c" if "a \<in> set (db_assignments db)" for a
    using wf that fresh by (auto simp: camp_wf_def)
  have "distinct (map asg_key ?news)" using ka unfolding t keyed_def by simp
  then have dist: "distinct ids" by (simp add: o_def new_assignment_def asg_key_def distinct_map inj_on_def)
  have new: "find (\<lambda>a. asg_key a = (camp_ID c, d)) ?news = (if d \<in> set ids then Some (new_assignment env (camp_ID c) d) else None)" for d
    by (induction ids) (auto simp: new_assignment_def asg_key_def)
  have old: "find (\<lambda>a. asg_key a = (camp_ID c, d)) (db_assignments db) = None" for d
    using orph by (auto simp: find_None asg_key_def)
  have dc: "devs_of db' (camp_ID c) = (\<lambda>d. if d \<in> set ids then Some AssignmentPending else None)"
    by (rule ext) (simp add: devs_of_def t find_append old new new_assignment_def)
  have dj: "devs_of db' j = devs_of db j" if "j \<noteq> camp_ID c" for j
  proof -
    have "find (\<lambda>a. asg_key a = (j, d)) ?news = None" for d
      using that by (auto simp: find_None asg_key_def new_assignment_def)
    then show ?thesis by (auto simp: devs_of_def t find_append split: option.split)
  qed
  have none: "camp_of db (camp_ID c) = None" using fresh by (auto simp: camp_of_def find_None)
  have cc: "camp_of db' j = (if j = camp_ID c then Some c else camp_of db j)" for j
    using none by (auto simp: camp_of_def t find_append split: option.split)
  have "abs_camps db' = (abs_camps db)(camp_ID c \<mapsto> \<lparr>ac_status = camp_Status c, ac_target = int (card (set ids)),
      ac_devs = (\<lambda>d. if d \<in> set ids then Some AssignmentPending else None)\<rparr>)"
    by (rule ext) (simp add: abs_camps_def cc dc dj n distinct_card [OF dist])
  moreover have "abs_camps db (camp_ID c) = None" by (simp add: abs_camps_def none)
  ultimately show ?thesis
    using astep.as_create [of "abs_camps db" "camp_ID c" "camp_Status c" "set ids"] st ids wf'
    by (auto simp: refines_def)
qed


text \<open>What a successful creation has checked and stored.\<close>

definition targeted :: "db \<Rightarrow> uuid \<Rightarrow> campaign_input \<Rightarrow> uuid list" where
  "targeted db pid inp =
     (let ds = compatible_devices db pid (ListDeviceTypeIDsForFirmware db (ci_FirmwareID inp)) inp
      in if ci_RolloutKind inp = RolloutKindPercentage
         then takeStablePercentage ds (the (ci_RolloutPercent inp)) else ds)"

definition new_campaign :: "env \<Rightarrow> uuid \<Rightarrow> uuid \<Rightarrow> campaign_input \<Rightarrow> uuid list \<Rightarrow> campaign" where
  "new_campaign env actor pid inp ids =
     (let now = env_now env;
          status = (case ci_ScheduledStartAt inp of
                      Some t \<Rightarrow> if t > now then StatusScheduled else StatusActive | None \<Rightarrow> StatusActive)
      in \<lparr>camp_ID = env_uuid env 0, camp_ProjectID = pid, camp_Name = trim_space (ci_Name inp),
          camp_FirmwareID = ci_FirmwareID inp, camp_RolloutKind = ci_RolloutKind inp,
          camp_RolloutPercent = ci_RolloutPercent inp, camp_ScheduledStartAt = ci_ScheduledStartAt inp,
          camp_Status = status, camp_TargetDeviceCount = int (length ids),
          camp_ActivatedAt = (if status = StatusActive then Some now else None),
          camp_PausedAt = None, camp_CancelledAt = None, camp_CompletedAt = None,
          camp_CreatedByUserID = actor, camp_CreatedAt = now, camp_UpdatedAt = now, camp_DeletedAt = None\<rparr>)"

lemma CreateCampaign_bundle:
  assumes 1: "AuthorizeProject db pid actor CampaignCreate = Inr x"
    and 2: "camp_ensureProjectNotArchived db pid = Inr ()"
    and 3: "trim_space (ci_Name inp) \<noteq> []" "ci_FirmwareID inp \<noteq> uuid_Nil"
      "\<not> (ci_DeviceGroupIDs inp = [] \<and> ci_ExplicitDeviceIDs inp = [])"
    and 4: "check_rollout inp = Inr ()"
    and 5: "check_groups db pid (ci_DeviceGroupIDs inp) = Inr ()"
    and 6: "repo_GetFirmware db pid (ci_FirmwareID inp) = Inr fw"
    and 7: "ListDeviceTypeIDsForFirmware db (ci_FirmwareID inp) \<noteq> []"
    and 8: "compatible_devices db pid (ListDeviceTypeIDsForFirmware db (ci_FirmwareID inp)) inp \<noteq> []"
  shows "CreateCampaign env actor pid inp db =
      (let ids = targeted db pid inp; c = new_campaign env actor pid inp ids
       in case CreateCampaignBundle env c (ci_DeviceGroupIDs inp) (ci_ExplicitDeviceIDs inp) ids db of
            Inl e \<Rightarrow> (db, Inl e)
          | Inr db1 \<Rightarrow>
              (let db2 = camp_audit env 1 actor ''campaign_created'' pid
                 [(''campaign_id'', JUuid (camp_ID c)), (''firmware_id'', JUuid (fw_ID fw)),
                  (''rollout'', JStr (ci_RolloutKind inp)), (''targets'', JInt (int (length ids)))] db1
               in (db2, GetCampaignDetail db2 actor pid (camp_ID c))))"
proof -
  have fw: "fw_ID fw = ci_FirmwareID inp"
    using 6 by (auto simp: repo_GetFirmware_def split: option.splits dest: first_by_Some)
  show ?thesis
    unfolding CreateCampaign_def Let_def 1 2 4 5 6 sum.case fw new_campaign_def targeted_def
    using 3 7 8 by (simp only: if_False simp_thms)
qed

lemma CreateCampaign_stored:
  assumes ne: "fst (CreateCampaign env actor pid inp db) \<noteq> db"
  obtains db1 x where "AuthorizeProject db pid actor CampaignCreate = Inr x"
    and "camp_ensureProjectNotArchived db pid = Inr ()" and "check_rollout inp = Inr ()"
    and "compatible_devices db pid (ListDeviceTypeIDsForFirmware db (ci_FirmwareID inp)) inp \<noteq> []"
    and "CreateCampaignBundle env (new_campaign env actor pid inp (targeted db pid inp)) (ci_DeviceGroupIDs inp)
           (ci_ExplicitDeviceIDs inp) (targeted db pid inp) db = Inr db1"
    and "db_campaigns (fst (CreateCampaign env actor pid inp db)) = db_campaigns db1"
    and "db_assignments (fst (CreateCampaign env actor pid inp db)) = db_assignments db1"
proof -
  let ?C = "CreateCampaign env actor pid inp db"
  obtain x where 1: "AuthorizeProject db pid actor CampaignCreate = Inr x"
    by (cases "AuthorizeProject db pid actor CampaignCreate") (use ne in \<open>simp_all add: CreateCampaign_def\<close>)
  have 2: "camp_ensureProjectNotArchived db pid = Inr ()"
    by (cases "camp_ensureProjectNotArchived db pid") (use ne 1 in \<open>simp_all add: CreateCampaign_def\<close>)
  have 3: "trim_space (ci_Name inp) \<noteq> []" "ci_FirmwareID inp \<noteq> uuid_Nil"
    "\<not> (ci_DeviceGroupIDs inp = [] \<and> ci_ExplicitDeviceIDs inp = [])"
    using ne 1 2 by (auto simp: CreateCampaign_def Let_def)
  have 4: "check_rollout inp = Inr ()"
    by (cases "check_rollout inp") (use ne 1 2 3 in \<open>simp_all add: CreateCampaign_def Let_def\<close>)
  have 5: "check_groups db pid (ci_DeviceGroupIDs inp) = Inr ()"
    by (cases "check_groups db pid (ci_DeviceGroupIDs inp)") (use ne 1 2 3 4 in \<open>simp_all add: CreateCampaign_def Let_def\<close>)
  obtain fw where 6: "repo_GetFirmware db pid (ci_FirmwareID inp) = Inr fw"
    by (cases "repo_GetFirmware db pid (ci_FirmwareID inp)") (use ne 1 2 3 4 5 in \<open>simp_all add: CreateCampaign_def Let_def\<close>)
  have fw: "fw_ID fw = ci_FirmwareID inp"
    using 6 by (auto simp: repo_GetFirmware_def split: option.splits dest: first_by_Some)
  have 7: "ListDeviceTypeIDsForFirmware db (ci_FirmwareID inp) \<noteq> []"
    using ne 1 2 3 4 5 6 fw by (auto simp: CreateCampaign_def Let_def)
  have 8: "compatible_devices db pid (ListDeviceTypeIDsForFirmware db (ci_FirmwareID inp)) inp \<noteq> []"
    using ne 1 2 3 4 5 6 7 fw by (auto simp: CreateCampaign_def Let_def)
  let ?b = "CreateCampaignBundle env (new_campaign env actor pid inp (targeted db pid inp)) (ci_DeviceGroupIDs inp)
           (ci_ExplicitDeviceIDs inp) (targeted db pid inp) db"
  note e = CreateCampaign_bundle [OF 1 2 3 4 5 6 7 8, of env, unfolded Let_def]
  obtain db1 where 9: "?b = Inr db1"
    by (cases ?b) (use ne e in simp_all)
  have 10: "db_campaigns (fst ?C) = db_campaigns db1" "db_assignments (fst ?C) = db_assignments db1"
    unfolding e 9 by (simp_all add: camp_audit_def)
  show ?thesis by (rule that [OF 1 2 4 8 9 10])
qed

lemma CreateCampaign_refines:
  assumes wf: "camp_wf db"
  shows "refines db (fst (CreateCampaign env actor pid inp db))"
proof (cases "fst (CreateCampaign env actor pid inp db) = db")
  case True
  with wf show ?thesis by (simp add: refines_refl)
next
  case False
  then show ?thesis
  proof (cases rule: CreateCampaign_stored [consumes 1])
    case (1 db1 x)
    have st: "camp_Status (new_campaign env actor pid inp (targeted db pid inp)) \<in> {StatusScheduled, StatusActive}"
      by (auto simp: new_campaign_def Let_def split: option.split)
    have n: "camp_TargetDeviceCount (new_campaign env actor pid inp (targeted db pid inp)) = int (length (targeted db pid inp))"
      by (simp add: new_campaign_def Let_def)
    have ids: "targeted db pid inp \<noteq> []" using 1(4) by (simp add: targeted_def Let_def takeStablePercentage_nonempty)
    from CreateCampaignBundle_refines [OF wf 1(5) st n ids] 1(6,7) show ?thesis by (rule refines_then_same)
  qed
qed

theorem camp_step_refines: "camp_wf db \<Longrightarrow> camp_step db db' \<Longrightarrow> refines db db'"
  by (erule camp_step.cases)
    (simp_all add: CreateCampaign_refines PauseCampaign_refines ResumeCampaign_refines CancelCampaign_refines
      ActivateDue_refines BuildPollOffer_refines OnDeviceReportFirmware_refines ApplyOtaDeviceReport_refines refines_same)

end
