(* ===== verification/Samples.thy ===== *)
theory Samples
  imports Roles DeviceBulk Firmware Campaign
begin

section \<open>A sample database\<close>

text \<open>
  One project with an owner, a viewer, the seeded permissions and roles, a device type, two
  devices, a group and a firmware: the concrete state on which the properties are instantiated.
\<close>

definition sample_env :: env where
  "sample_env = \<lparr>env_now = 1000, env_uuid = (\<lambda>k. 900 + of_nat k), env_rand = (\<lambda>k. replicate 32 (of_nat k)),
     env_fault = (\<lambda>_. None)\<rparr>"

definition sample_permissions :: "permission list" where
  "sample_permissions =
     map (\<lambda>(i, k). \<lparr>perm_ID = i, perm_Key = k, perm_Description = [], perm_CreatedAt = 0, perm_UpdatedAt = 0\<rparr>)
       [(200, CampaignCreate), (201, CampaignRead), (202, DeviceCreate), (203, DeviceRead), (204, DeviceTokenRotate),
        (205, FirmwareUpload), (206, MemberUpdateRole), (207, MemberRemove), (208, ProjectUpdate), (209, ProjectDelete)]"

definition sample_role :: "uuid \<Rightarrow> string \<Rightarrow> role" where
  "sample_role i slug = \<lparr>role_ID = i, role_ProjectID = None, role_Slug = slug, role_Name = slug,
     role_NameNormalized = slug, role_IsPredefined = True, role_Description = [], role_Permissions = [],
     role_CreatedAt = 0, role_UpdatedAt = 0, role_DeletedAt = None\<rparr>"

definition sample_member :: "uuid \<Rightarrow> uuid \<Rightarrow> uuid \<Rightarrow> membership" where
  "sample_member i u r = \<lparr>mem_ID = i, mem_ProjectID = 5, mem_UserID = u, mem_RoleID = r,
     mem_CreatedAt = 0, mem_UpdatedAt = 0\<rparr>"

definition sample_project :: project where
  "sample_project = \<lparr>proj_ID = 5, proj_Name = ''p'', proj_Description = [], proj_ArchivedAt = None,
     proj_CreatedAt = 0, proj_UpdatedAt = 0, proj_DeletedAt = None\<rparr>"

definition sample_type :: device_type where
  "sample_type = \<lparr>dt_ID = 30, dt_ProjectID = Some 5, dt_IsPredefined = False, dt_Name = ''t'',
     dt_NameNormalized = ''t'', dt_ProcessorArchitecture = [], dt_HardwareBoardVersion = [],
     dt_FlashSizeBytes = 0, dt_MemoryNotes = [], dt_DeletedAt = None, dt_CreatedAt = 0, dt_UpdatedAt = 0\<rparr>"

definition sample_device :: "uuid \<Rightarrow> string \<Rightarrow> device" where
  "sample_device i hw = \<lparr>dev_ID = i, dev_ProjectID = 5, dev_ConnectionStatus = ''offline'', dev_Name = hw,
     dev_DeviceTypeID = 30, dev_HardwareIdentifier = hw, dev_HardwareIdentifierNorm = hw, dev_Blocked = False,
     dev_BlockedAt = None, dev_LastSeenAt = None, dev_CurrentFirmwareVersion = [], dev_ActiveAuthTokenID = None,
     dev_ActiveAuthTokenIssuedAt = None, dev_TokenRevokedAt = None, dev_PollingDisabledAt = None,
     dev_CreatedAt = 0, dev_UpdatedAt = 0, dev_DeletedAt = None\<rparr>"

definition sample_group :: device_group where
  "sample_group = \<lparr>grp_ID = 50, grp_ProjectID = 5, grp_Name = ''g'', grp_NameNormalized = ''g'',
     grp_Description = [], grp_CreatedAt = 0, grp_UpdatedAt = 0, grp_DeletedAt = None\<rparr>"

definition sample_firmware :: firmware where
  "sample_firmware = \<lparr>fw_ID = 60, fw_ProjectID = 5, fw_Version = ''1.0'', fw_VersionNormalized = ''1.0'',
     fw_Changelog = [], fw_FileSizeBytes = 3, fw_ChecksumSHA256 = [], fw_OriginalFilename = [],
     fw_StorageProvider = ''local'', fw_StorageKey = ''k'', fw_SemverMajor = None, fw_SemverMinor = None,
     fw_SemverPatch = None, fw_SemverPrerelease = [], fw_UploadedByUserID = 1, fw_CreatedAt = 0,
     fw_UpdatedAt = 0, fw_DeletedAt = None\<rparr>"

definition sample_campaign :: "string \<Rightarrow> campaign" where
  "sample_campaign st = \<lparr>camp_ID = 70, camp_ProjectID = 5, camp_Name = ''c'', camp_FirmwareID = 60,
     camp_RolloutKind = RolloutKindTimeScheduled, camp_RolloutPercent = None, camp_ScheduledStartAt = Some 500,
     camp_Status = st, camp_TargetDeviceCount = 1, camp_ActivatedAt = None, camp_PausedAt = None,
     camp_CancelledAt = None, camp_CompletedAt = None, camp_CreatedByUserID = 1, camp_CreatedAt = 0,
     camp_UpdatedAt = 0, camp_DeletedAt = None\<rparr>"

definition sample_assignment :: "string \<Rightarrow> assignment" where
  "sample_assignment st = \<lparr>asg_CampaignID = 70, asg_DeviceID = 40, asg_Status = st, asg_LastReportCode = None,
     asg_LastReportMsg = [], asg_CreatedAt = 0, asg_UpdatedAt = 0\<rparr>"

definition sample_input :: campaign_input where
  "sample_input = \<lparr>ci_Name = ''c'', ci_FirmwareID = 60, ci_RolloutKind = RolloutKindPercentage,
     ci_RolloutPercent = Some 50, ci_ScheduledStartAt = None, ci_DeviceGroupIDs = [50], ci_ExplicitDeviceIDs = []\<rparr>"

text \<open>User 1 owns project 5, user 2 views it; both devices are in group 50.\<close>

definition sample_db :: db where
  "sample_db = empty_db\<lparr>
     db_permissions := sample_permissions,
     db_roles := [sample_role 10 SlugOwner, sample_role 11 SlugAdmin, sample_role 12 SlugDeveloper, sample_role 13 SlugViewer],
     db_role_permissions := map (\<lambda>p. (10, perm_ID p)) sample_permissions,
     db_projects := [sample_project],
     db_members := [sample_member 20 1 10, sample_member 21 2 13],
     db_device_types := [sample_type],
     db_devices := [sample_device 40 ''d0'', sample_device 41 ''d1''],
     db_groups := [sample_group],
     db_group_members := [\<lparr>gm_DeviceGroupID = 50, gm_DeviceID = 41, gm_CreatedAt = 0\<rparr>,
                          \<lparr>gm_DeviceGroupID = 50, gm_DeviceID = 40, gm_CreatedAt = 0\<rparr>],
     db_firmwares := [sample_firmware],
     db_firmware_types := [\<lparr>ft_FirmwareID = 60, ft_DeviceTypeID = 30, ft_CreatedAt = 0\<rparr>]\<rparr>"

definition sample_campaign_db :: "string \<Rightarrow> string \<Rightarrow> db" where
  "sample_campaign_db st a = sample_db\<lparr>db_campaigns := [sample_campaign st], db_assignments := [sample_assignment a]\<rparr>"

lemma trim_c: "trim_space ''c'' = ''c''"
  by (rule trim_space_no_space) (auto simp: codes_def is_space_rune_def)
lemma sample_db_tables [simp]: "db_campaigns sample_db = []" "db_assignments sample_db = []"
  by (simp_all add: sample_db_def empty_db_def)

end
