(* ===== verification/CampaignSafety.thy ===== *)
theory CampaignSafety
  imports CampaignRefinement Samples
begin

section \<open>What holds of campaigns in every reachable state\<close>

text \<open>
  The interpretations of \<open>lifecycle\<close> by campaigns and by assignments, the transfer of the
  invariant of the abstract machine, and the properties of the campaign component: the refinement,
  the invariant of reachable states, final statuses, the selection of devices, what creation
  stores and what the scheduler activates.
\<close>

subsection \<open>Runs\<close>

lemma wf_run: "camp_step\<^sup>*\<^sup>* db db' \<Longrightarrow> camp_wf db \<Longrightarrow> (\<lambda>x y. camp_wf x \<and> camp_step x y)\<^sup>*\<^sup>* db db' \<and> refines db db'"
proof (induction rule: rtranclp_induct)
  case base
  then show ?case by (simp add: refines_refl)
next
  case (step db1 db2)
  then have r: "(\<lambda>x y. camp_wf x \<and> camp_step x y)\<^sup>*\<^sup>* db db1" "refines db db1" by blast+
  have wf: "camp_wf db1" using r(2) by (simp add: refines_def)
  have "refines db1 db2" by (rule camp_step_refines [OF wf step(2)])
  with r(2) have "refines db db2" by (rule refines_trans)
  moreover have "(\<lambda>x y. camp_wf x \<and> camp_step x y)\<^sup>*\<^sup>* db db2"
    using r(1) wf step(2) by (simp add: rtranclp.rtrancl_into_rtrancl)
  ultimately show ?case by simp
qed

lemma astep_rows:
  "astep\<^sup>*\<^sup>* s s' \<Longrightarrow> s i = Some a \<Longrightarrow> \<exists>a'. s' i = Some a' \<and> CanTransition\<^sup>*\<^sup>* (ac_status a) (ac_status a')
     \<and> (\<forall>d x. ac_devs a d = Some x \<longrightarrow> (\<exists>y. ac_devs a' d = Some y \<and> asg_next\<^sup>*\<^sup>* x y))"
proof (induction rule: rtranclp_induct)
  case base
  then show ?case by auto
next
  case (step s1 s2)
  then obtain a1 where a1: "s1 i = Some a1" "CanTransition\<^sup>*\<^sup>* (ac_status a) (ac_status a1)"
    "\<And>d x. ac_devs a d = Some x \<Longrightarrow> \<exists>y. ac_devs a1 d = Some y \<and> asg_next\<^sup>*\<^sup>* x y" by blast
  from astep_row [OF step(2) a1(1)] obtain a2 where a2: "s2 i = Some a2" "row_moves a1 a2" by blast
  have "\<exists>z. ac_devs a2 d = Some z \<and> asg_next\<^sup>*\<^sup>* x z" if x: "ac_devs a d = Some x" for d x
  proof -
    from a1(3) [OF x] obtain y where y: "ac_devs a1 d = Some y" "asg_next\<^sup>*\<^sup>* x y" by blast
    from a2(2) have "rel_option asg_next (ac_devs a1 d) (ac_devs a2 d)" by (simp add: row_moves_def rel_fun_def)
    with y(1) obtain z where "ac_devs a2 d = Some z" "asg_next y z" by (auto simp: option_rel_Some1)
    with y(2) show ?thesis by (meson rtranclp.rtrancl_into_rtrancl)
  qed
  moreover have "CanTransition\<^sup>*\<^sup>* (ac_status a) (ac_status a2)"
    using a1(2) a2(2) by (simp add: row_moves_def rtranclp.rtrancl_into_rtrancl)
  ultimately show ?case using a2(1) by blast
qed

text \<open>Campaigns and assignments have a lifecycle.\<close>

definition camp_final :: "string \<Rightarrow> bool" where
  "camp_final s \<longleftrightarrow> s = StatusCompleted \<or> s = StatusCancelled"

definition camp_status :: "db \<Rightarrow> uuid \<Rightarrow> string option" where
  "camp_status db i = map_option camp_Status (camp_of db i)"

definition dev_status :: "db \<Rightarrow> uuid \<times> uuid \<Rightarrow> string option" where
  "dev_status db = (\<lambda>(i, d). devs_of db i d)"

interpretation campaign_life: lifecycle "\<lambda>x y. camp_wf x \<and> camp_step x y" camp_status CanTransition camp_final
proof
  fix db db' i v
  assume s: "camp_wf db \<and> camp_step db db'" and "camp_status db i = Some v"
  then obtain c where c: "camp_of db i = Some c" "v = camp_Status c" by (auto simp: camp_status_def)
  have "abs_camps db i = Some \<lparr>ac_status = v, ac_target = camp_TargetDeviceCount c, ac_devs = devs_of db i\<rparr>"
    by (simp add: abs_camps_def c)
  moreover have "astep\<^sup>*\<^sup>* (abs_camps db) (abs_camps db')"
    using camp_step_refines [of db db'] s by (simp add: refines_def)
  ultimately obtain a where "abs_camps db' i = Some a" "CanTransition\<^sup>*\<^sup>* v (ac_status a)"
    using astep_rows by (metis acamp.select_convs(1))
  then show "\<exists>v'. camp_status db' i = Some v' \<and> CanTransition\<^sup>*\<^sup>* v v'"
    by (auto simp: abs_camps_def camp_status_def)
next
  show "v' = v" if "camp_final v" "CanTransition v v'" for v v'
    using CanTransition_terminal [OF that(2)] that(1) by (simp add: camp_final_def)
qed

interpretation assignment_life: lifecycle "\<lambda>x y. camp_wf x \<and> camp_step x y" dev_status asg_next TerminalAssignment
proof
  fix db db' id v
  assume s: "camp_wf db \<and> camp_step db db'" and v: "dev_status db id = Some v"
  obtain i d where id: "id = (i, d)" by (cases id)
  with v have dv: "devs_of db i d = Some v" by (simp add: dev_status_def)
  then obtain r where r: "r \<in> set (db_assignments db)" "asg_key r = (i, d)"
    by (auto simp: devs_of_def dest: find_Some_mem)
  with s obtain c where c: "c \<in> set (db_campaigns db)" "camp_ID c = i" by (auto simp: camp_wf_def asg_key_def)
  then have co: "camp_of db i = Some c" using camp_of_keyed [of db c] s by simp
  have "abs_camps db i = Some \<lparr>ac_status = camp_Status c, ac_target = camp_TargetDeviceCount c, ac_devs = devs_of db i\<rparr>"
    by (simp add: abs_camps_def co)
  moreover have "astep\<^sup>*\<^sup>* (abs_camps db) (abs_camps db')"
    using camp_step_refines [of db db'] s by (simp add: refines_def)
  ultimately obtain a y where "abs_camps db' i = Some a" "ac_devs a d = Some y" "asg_next\<^sup>*\<^sup>* v y"
    using astep_rows [of "abs_camps db" "abs_camps db'" i] dv by fastforce
  then show "\<exists>v'. dev_status db' id = Some v' \<and> asg_next\<^sup>*\<^sup>* v v'"
    by (auto simp: abs_camps_def dev_status_def id)
next
  show "v' = v" if "TerminalAssignment v" "asg_next v v'" for v v'
    using asg_next_terminal that by blast
qed

subsection \<open>A campaign created on the sample database\<close>

lemma sample_input_ok: "trim_space (ci_Name sample_input) \<noteq> []" "ci_FirmwareID sample_input \<noteq> uuid_Nil"
      "\<not> (ci_DeviceGroupIDs sample_input = [] \<and> ci_ExplicitDeviceIDs sample_input = [])" by (simp_all add: sample_input_def uuid_Nil_def trim_c)
lemma sample_targeted: "targeted sample_db 5 sample_input = [40]" by code_simp
definition sample_created :: campaign where
  "sample_created = (sample_campaign StatusActive)\<lparr>camp_ID := 900, camp_RolloutKind := RolloutKindPercentage,
     camp_RolloutPercent := Some 50, camp_ScheduledStartAt := None, camp_ActivatedAt := Some 1000,
     camp_CreatedAt := 1000, camp_UpdatedAt := 1000\<rparr>"

lemma sample_new_campaign: "new_campaign sample_env 1 5 sample_input [40] = sample_created"
  by (simp add: new_campaign_def sample_env_def sample_input_def sample_created_def sample_campaign_def trim_c)
lemma sample_bundle: "map_sum id (\<lambda>d. (db_campaigns d, map asg_DeviceID (db_assignments d))) (CreateCampaignBundle sample_env sample_created [50] [] [40] sample_db) = Inr ([sample_created], [40])" by code_simp
lemma sample_guards: "is_ok (AuthorizeProject sample_db 5 1 CampaignCreate)" "camp_ensureProjectNotArchived sample_db 5 = Inr ()"
  "check_rollout sample_input = Inr ()" "check_groups sample_db 5 [50] = Inr ()" "repo_GetFirmware sample_db 5 60 = Inr sample_firmware"
  "ListDeviceTypeIDsForFirmware sample_db 60 = [30]" "compatible_devices sample_db 5 [30] sample_input = [40,41]"
  by code_simp+
lemma sample_CreateCampaign:
  "db_campaigns (fst (CreateCampaign sample_env 1 5 sample_input sample_db)) = [sample_created]"
  "map asg_DeviceID (db_assignments (fst (CreateCampaign sample_env 1 5 sample_input sample_db))) = [40]"
proof -
  obtain x where a: "AuthorizeProject sample_db 5 1 CampaignCreate = Inr x" using sample_guards(1) by (auto simp: is_ok_iff)
  have i: "ci_DeviceGroupIDs sample_input = [50]" "ci_ExplicitDeviceIDs sample_input = []" "ci_FirmwareID sample_input = 60" by (simp_all add: sample_input_def)
  obtain d where d: "CreateCampaignBundle sample_env sample_created [50] [] [40] sample_db = Inr d"
    "db_campaigns d = [sample_created]" "map asg_DeviceID (db_assignments d) = [40]"
    using sample_bundle by (cases "CreateCampaignBundle sample_env sample_created [50] [] [40] sample_db") auto
  have "db_campaigns (fst (CreateCampaign sample_env 1 5 sample_input sample_db)) = db_campaigns d \<and>
    db_assignments (fst (CreateCampaign sample_env 1 5 sample_input sample_db)) = db_assignments d"
    by (subst (1 2) CreateCampaign_bundle [OF a sample_guards(2) sample_input_ok sample_guards(3)])
      (simp_all add: i sample_targeted sample_new_campaign sample_guards d camp_audit_def Let_def del: check_groups.simps)
  then show   "db_campaigns (fst (CreateCampaign sample_env 1 5 sample_input sample_db)) = [sample_created]"
  "map asg_DeviceID (db_assignments (fst (CreateCampaign sample_env 1 5 sample_input sample_db))) = [40]" using d by simp_all
qed

subsection \<open>Counting the assignments of a campaign\<close>

lemma inj_asg: "camp_wf db \<Longrightarrow> inj_on asg_DeviceID (set (filter (\<lambda>a. asg_CampaignID a = i) (db_assignments db)))"
  by (auto simp: inj_on_def camp_wf_def asg_key_def dest: keyed_unique)

lemma dom_devs_of: "dom (devs_of db i) = asg_DeviceID ` set (filter (\<lambda>a. asg_CampaignID a = i) (db_assignments db))"
  by (auto simp: devs_of_def asg_key_def dom_def find_None dest: find_Some_mem)

lemma CountAssignments_card: "camp_wf db \<Longrightarrow> CountAssignments db i = int (card (dom (devs_of db i)))"
proof -
  assume wf: "camp_wf db"
  let ?l = "filter (\<lambda>a. asg_CampaignID a = i) (db_assignments db)"
  have "distinct (db_assignments db)" using wf by (simp add: camp_wf_def keyed_def distinct_map)
  then have "card (set ?l) = length ?l" by (intro distinct_card) simp
  with card_image [OF inj_asg [OF wf, of i]] show ?thesis
    by (simp add: CountAssignments_def count_where_def dom_devs_of)
qed

lemma all_terminal_count:
  assumes "camp_wf db" and "\<And>d s. devs_of db i d = Some s \<Longrightarrow> TerminalAssignment s"
  shows "CountNonTerminalAssignments db i = 0"
  using devs_of_keyed [OF assms(1)] assms(2)
  by (force simp: CountNonTerminalAssignments_def table_simps TerminalAssignment_def)

lemma arow_campaign:
  assumes wf: "camp_wf db" and inv: "ainv (abs_camps db)" and c: "c \<in> set (db_campaigns db)"
  shows "camp_TargetDeviceCount c = CountAssignments db (camp_ID c) \<and> 0 < camp_TargetDeviceCount c
    \<and> camp_Status c \<in> camp_statuses
    \<and> (camp_Status c = StatusCompleted \<longrightarrow> CountNonTerminalAssignments db (camp_ID c) = 0)"
proof -
  let ?a = "\<lparr>ac_status = camp_Status c, ac_target = camp_TargetDeviceCount c, ac_devs = devs_of db (camp_ID c)\<rparr>"
  have "abs_camps db (camp_ID c) = Some ?a" by (simp add: abs_camps_def camp_of_keyed [OF wf c])
  then have a: "arow ?a" using inv by (simp add: ainv_def)
  then have t: "camp_TargetDeviceCount c = int (card (dom (devs_of db (camp_ID c))))"
    and f: "finite (dom (devs_of db (camp_ID c)))" "dom (devs_of db (camp_ID c)) \<noteq> {}" by (simp_all add: arow_def)
  then have "0 < camp_TargetDeviceCount c" by (simp add: card_gt_0_iff)
  moreover have "CountNonTerminalAssignments db (camp_ID c) = 0" if "camp_Status c = StatusCompleted"
    using a that by (intro all_terminal_count [OF wf]) (simp add: arow_def all_terminal_def)
  ultimately show ?thesis using a t CountAssignments_card [OF wf] by (simp add: arow_def)
qed

lemma reach_inv:
  assumes "db_campaigns db0 = []" "db_assignments db0 = []" "camp_step\<^sup>*\<^sup>* db0 db"
  shows "camp_wf db \<and> ainv (abs_camps db)"
proof -
  have wf: "camp_wf db0" using assms by (simp add: camp_wf_def)
  have i: "ainv (abs_camps db0)" using assms(1) by (simp add: ainv_def abs_camps_def camp_of_def)
  have "refines db0 db" using wf_run [OF assms(3) wf] by blast
  then have "camp_wf db" and run: "astep\<^sup>*\<^sup>* (abs_camps db0) (abs_camps db)" by (simp_all add: refines_def)
  moreover from run i have "ainv (abs_camps db)"
    by (induction rule: rtranclp_induct) (auto intro: ainv_step)
  ultimately show ?thesis by simp
qed

subsection \<open>Properties\<close>

lemma sample_wf: "camp_wf (sample_campaign_db st a)"
  by (simp add: camp_wf_def sample_campaign_db_def sample_campaign_def sample_assignment_def keyed_def)

text \<open>C32. Refinement: every operation of the program on campaigns and assignments, whatever its
  arguments and outcome, keeps the primary and foreign keys of the two tables and is zero or more
  steps of the abstract campaign machine.\<close>

theorem campaigns_refine_machine:
  assumes "camp_wf db" and "camp_step db db'"
  shows "camp_wf db' \<and> astep\<^sup>*\<^sup>* (abs_camps db) (abs_camps db')"
  using camp_step_refines [OF assms] by (simp add: refines_def)

theorem campaigns_refine_machine_witness:
  "astep\<^sup>*\<^sup>* (abs_camps (sample_campaign_db StatusScheduled AssignmentPending))
     (abs_camps (fst (ActivateDueCampaigns sample_env (sample_campaign_db StatusScheduled AssignmentPending))))"
  using campaigns_refine_machine [OF sample_wf cs_activate] by blast

text \<open>C33. In every state reachable from one without campaigns: the recorded number of targets of a
  campaign is its number of assignments and positive, its status is one of the five the machine
  knows, and a completed campaign has no assignment that is not installed or failed.\<close>

theorem campaign_invariant:
  assumes "db_campaigns db0 = []" and "db_assignments db0 = []" and "camp_step\<^sup>*\<^sup>* db0 db"
    and "c \<in> set (db_campaigns db)"
  shows "camp_TargetDeviceCount c = CountAssignments db (camp_ID c) \<and> 0 < camp_TargetDeviceCount c
    \<and> camp_Status c \<in> {StatusScheduled, StatusActive, StatusPaused, StatusCancelled, StatusCompleted}
    \<and> (camp_Status c = StatusCompleted \<longrightarrow> CountNonTerminalAssignments db (camp_ID c) = 0)"
  using arow_campaign [OF _ _ assms(4)] reach_inv [OF assms(1-3)] by (simp add: camp_statuses_def)

theorem campaign_invariant_witness:
  "CountAssignments (fst (CreateCampaign sample_env 1 5 sample_input sample_db)) 900 = 1"
  using campaign_invariant [of sample_db "fst (CreateCampaign sample_env 1 5 sample_input sample_db)" sample_created,
      OF _ _ r_into_rtranclp [of camp_step, OF cs_create]]
  by (simp add: sample_CreateCampaign sample_db_def [THEN arg_cong, of db_campaigns]
      sample_db_def [THEN arg_cong, of db_assignments] empty_db_def sample_created_def sample_campaign_def)

text \<open>C34. A completed or cancelled campaign stays in that status: no run of operations, whoever
  calls them, revives it.\<close>

theorem terminal_campaign_forever:
  assumes "camp_wf db" and "camp_step\<^sup>*\<^sup>* db db'" and "c \<in> set (db_campaigns db)"
    and "camp_Status c \<in> {StatusCompleted, StatusCancelled}"
  shows "\<exists>c' \<in> set (db_campaigns db'). camp_ID c' = camp_ID c \<and> camp_Status c' = camp_Status c"
proof -
  have run: "(\<lambda>x y. camp_wf x \<and> camp_step x y)\<^sup>*\<^sup>* db db'" using wf_run [OF assms(2,1)] by blast
  have "camp_status db (camp_ID c) = Some (camp_Status c)"
    using camp_of_keyed [OF assms(1,3)] by (simp add: camp_status_def)
  from campaign_life.final_forever [OF run this] assms(4)
  have "camp_status db' (camp_ID c) = Some (camp_Status c)" by (auto simp: camp_final_def)
  then show ?thesis by (auto simp: camp_status_def camp_of_def dest: find_Some_mem)
qed

theorem terminal_campaign_forever_witness:
  "\<exists>c' \<in> set (db_campaigns (fst (ResumeCampaign sample_env 1 5 70 (sample_campaign_db StatusCancelled AssignmentPending)))).
     camp_ID c' = 70 \<and> camp_Status c' = StatusCancelled"
  using terminal_campaign_forever [OF sample_wf r_into_rtranclp [of camp_step, OF cs_resume],
      of "sample_campaign StatusCancelled" StatusCancelled AssignmentPending sample_env 1 5 70]
  by (simp add: sample_campaign_db_def sample_campaign_def)

text \<open>C35. The status of an assignment only moves forward (pending, offered, downloaded, then installed or
  failed), and one that is installed or failed stays so. (Only the status: a repeated report of a
  failure overwrites the code and the message of the last one.)\<close>

theorem assignment_progress:
  assumes "camp_wf db" and "camp_step\<^sup>*\<^sup>* db db'" and "a \<in> set (db_assignments db)"
  shows "\<exists>a' \<in> set (db_assignments db'). asg_CampaignID a' = asg_CampaignID a \<and> asg_DeviceID a' = asg_DeviceID a
     \<and> asg_rank (asg_Status a) \<le> asg_rank (asg_Status a')
     \<and> (TerminalAssignment (asg_Status a) \<longrightarrow> asg_Status a' = asg_Status a)"
proof -
  let ?k = "(asg_CampaignID a, asg_DeviceID a)"
  have run: "(\<lambda>x y. camp_wf x \<and> camp_step x y)\<^sup>*\<^sup>* db db'" using wf_run [OF assms(2,1)] by blast
  have s: "dev_status db ?k = Some (asg_Status a)" using devs_of_keyed [OF assms(1,3)] by (simp add: dev_status_def)
  from assignment_life.run_moves [OF run s] obtain y where y: "dev_status db' ?k = Some y" "asg_next\<^sup>*\<^sup>* (asg_Status a) y"
    by blast
  from y(2) have "asg_rank (asg_Status a) \<le> asg_rank y"
    by (induction rule: rtranclp_induct) (auto simp: asg_next_def)
  moreover have "TerminalAssignment (asg_Status a) \<longrightarrow> y = asg_Status a"
    using assignment_life.final_run [OF y(2)] by blast
  moreover obtain a' where "a' \<in> set (db_assignments db')" "asg_key a' = ?k" "asg_Status a' = y"
    using y(1) by (auto simp: dev_status_def devs_of_def dest: find_Some_mem)
  ultimately show ?thesis by (auto simp: asg_key_def)
qed

theorem assignment_progress_witness:
  "\<exists>a' \<in> set (db_assignments (fst (ApplyOtaDeviceReport sample_env 5 40 70 OtaReportFailed (Some 7) []
       (sample_campaign_db StatusActive AssignmentInstalled)))).
     asg_DeviceID a' = 40 \<and> asg_Status a' = AssignmentInstalled"
  using assignment_progress [OF sample_wf r_into_rtranclp [of camp_step, OF cs_report],
      of "sample_assignment AssignmentInstalled" StatusActive AssignmentInstalled sample_env 5 40 70 OtaReportFailed "Some 7" "[]"]
  by (auto simp: sample_campaign_db_def sample_assignment_def TerminalAssignment_def)

end
