(* ===== verification/CampaignBehaviour.thy ===== *)
theory CampaignBehaviour
  imports CampaignSafety
begin

section \<open>What the campaign operations do\<close>

text \<open>
  The functional properties of the component: the selection of a percentage of the devices, what
  creation stores, which campaigns the scheduler activates, which offer a poll answers, and that
  a campaign is completed with the last report.
\<close>

subsection \<open>Selection\<close>

lemma takeStablePercentage_eq:
  assumes "ids \<noteq> []" "1 \<le> p" "p \<le> 100"
  shows "takeStablePercentage ids p = take (nat ((int (length ids) * p + 99) div 100)) ids"
proof -
  let ?n = "int (length ids)"
  have n: "1 \<le> ?n" using assms(1) by (cases ids) auto
  have lo: "1 \<le> (?n * p + 99) div 100" using mult_mono [OF n assms(2)] by simp
  have "?n * p + 99 < (?n + 1) * 100" using assms(3) mult_left_mono [of p 100 ?n] by simp
  then have hi: "(?n * p + 99) div 100 \<le> ?n" by (simp add: div_less_iff_less_mult flip: zle_iff_zadd zless_add1_eq)
  show ?thesis using assms lo hi by (simp add: takeStablePercentage_def Let_def)
qed

lemma ceil_bounds: "0 \<le> (a::int) \<Longrightarrow> a \<le> 100 * ((a + 99) div 100) \<and> 100 * ((a + 99) div 100) < a + 100"
  by presburger

text \<open>C38. A percentage rollout takes a prefix of the sorted devices whose size is the least number
  that reaches the percentage (the quotient rounded up), never none and never more than all.\<close>

theorem percentage_size:
  assumes "ids \<noteq> []" and "1 \<le> p" and "p \<le> 100"
  shows "prefix (takeStablePercentage ids p) ids \<and> takeStablePercentage ids p \<noteq> []
    \<and> int (length ids) * p \<le> 100 * int (length (takeStablePercentage ids p))
    \<and> 100 * int (length (takeStablePercentage ids p)) < int (length ids) * p + 100"
proof -
  let ?a = "int (length ids) * p"
  have a: "0 \<le> ?a" using assms(2) by simp
  have "int (length (takeStablePercentage ids p)) = (?a + 99) div 100"
  proof -
    have "(?a + 99) div 100 \<le> int (length ids)"
      using mult_left_mono [OF assms(3), of "int (length ids)"] by simp
    then show ?thesis using a by (simp add: takeStablePercentage_eq [OF assms])
  qed
  then show ?thesis
    using ceil_bounds [OF a] takeStablePercentage_nonempty [OF assms(1), of p]
    by (simp add: takeStablePercentage_eq [OF assms] take_is_prefix)
qed

theorem percentage_size_witness: "int (length (takeStablePercentage [3, 5, 9] 50)) * 100 < 250"
  using percentage_size [of "[3, 5, 9]" 50] by simp

lemma take_prefix_take: "i \<le> j \<Longrightarrow> prefix (take i xs) (take j xs)"
  by (metis min.absorb1 take_is_prefix take_take)

text \<open>C39. The selection is stable: a device selected for a percentage is selected for every larger
  one.\<close>

theorem percentage_monotone:
  assumes "p \<le> q"
  shows "prefix (takeStablePercentage ids p) (takeStablePercentage ids q)"
proof (cases "ids = []")
  case True
  then show ?thesis by (simp add: takeStablePercentage_def)
next
  case False
  let ?n = "int (length ids)"
  have m: "(?n * a + 99) div 100 \<le> (?n * b + 99) div 100" if "a \<le> b" for a b
    using mult_left_mono [OF that, of ?n] by (intro zdiv_mono1) simp_all
  let ?clip = "\<lambda>x. min (max 1 x) (100 :: int)"
  let ?k = "\<lambda>x. min (max 1 ((?n * x + 99) div 100)) ?n"
  have e: "takeStablePercentage ids x = take (nat (?k (?clip x))) ids" for x
  proof -
    have mx: "(if a < 1 then 1 else a) = max 1 a" and mn: "(if b < a then b else a) = min a b" for a b :: int
      by simp_all
    show ?thesis unfolding takeStablePercentage_def Let_def mx mn using False by (simp only: if_False)
  qed
  have "?clip p \<le> ?clip q" using assms by auto
  from m [OF this] have "nat (?k (?clip p)) \<le> nat (?k (?clip q))"
    by (intro nat_mono min.mono max.mono order_refl)
  then show ?thesis unfolding e by (rule take_prefix_take)
qed

theorem percentage_monotone_witness: "prefix (takeStablePercentage [3, 5, 9] 10) (takeStablePercentage [3, 5, 9] 70)"
  using percentage_monotone [of 10 70 "[3, 5, 9]"] by simp

subsection \<open>Creation\<close>

text \<open>Every targeted device is a live device of the project, of a type the firmware supports, and in
  the scope of the request.\<close>

definition in_scope :: "db \<Rightarrow> uuid \<Rightarrow> campaign_input \<Rightarrow> device \<Rightarrow> bool" where
  "in_scope db pid inp d \<longleftrightarrow> dev_ProjectID d = pid \<and> dev_DeletedAt d = None
     \<and> (\<exists>t \<in> set (db_firmware_types db). ft_FirmwareID t = ci_FirmwareID inp \<and> ft_DeviceTypeID t = dev_DeviceTypeID d)
     \<and> (dev_ID d \<in> set (ci_ExplicitDeviceIDs inp)
        \<or> (\<exists>m \<in> set (db_group_members db). gm_DeviceID m = dev_ID d \<and> gm_DeviceGroupID m \<in> set (ci_DeviceGroupIDs inp)))"

lemma mem_groups_devices:
  "i \<in> set (ListDeviceIDsInGroupsForProject db pid gs) \<Longrightarrow> \<exists>m \<in> set (db_group_members db). gm_DeviceID m = i \<and> gm_DeviceGroupID m \<in> set gs"
  by (auto simp: ListDeviceIDsInGroupsForProject_def split: if_splits)

lemma mem_explicit_devices: "i \<in> set (ListDeviceIDsExplicitInProject db pid ds) \<Longrightarrow> i \<in> set ds"
  by (auto simp: ListDeviceIDsExplicitInProject_def)

lemma mem_filter_compatible:
  "i \<in> set (FilterDeviceIDsByCompatibleTypes db pid ids ts) \<Longrightarrow> i \<in> set ids
     \<and> (\<exists>d \<in> set (db_devices db). dev_ID d = i \<and> dev_ProjectID d = pid \<and> dev_DeletedAt d = None \<and> dev_DeviceTypeID d \<in> set ts)"
  by (auto simp: FilterDeviceIDsByCompatibleTypes_def split: if_splits)

lemma mem_compatible_devices:
  assumes "i \<in> set (compatible_devices db pid (ListDeviceTypeIDsForFirmware db (ci_FirmwareID inp)) inp)"
  shows "\<exists>d \<in> set (db_devices db). dev_ID d = i \<and> in_scope db pid inp d"
proof -
  from assms have "i \<in> set (FilterDeviceIDsByCompatibleTypes db pid
      (remdups (ListDeviceIDsInGroupsForProject db pid (ci_DeviceGroupIDs inp)
         @ ListDeviceIDsExplicitInProject db pid (ci_ExplicitDeviceIDs inp)))
      (ListDeviceTypeIDsForFirmware db (ci_FirmwareID inp)))"
    by (simp add: compatible_devices_def Let_def sortUUIDs_def)
  from mem_filter_compatible [OF this] obtain d where d: "d \<in> set (db_devices db)" "dev_ID d = i"
    "dev_ProjectID d = pid" "dev_DeletedAt d = None" "dev_DeviceTypeID d \<in> set (ListDeviceTypeIDsForFirmware db (ci_FirmwareID inp))"
    and i: "i \<in> set (ListDeviceIDsInGroupsForProject db pid (ci_DeviceGroupIDs inp))
      \<or> i \<in> set (ListDeviceIDsExplicitInProject db pid (ci_ExplicitDeviceIDs inp))" by auto
  have "\<exists>t \<in> set (db_firmware_types db). ft_FirmwareID t = ci_FirmwareID inp \<and> ft_DeviceTypeID t = dev_DeviceTypeID d"
    using d(5) by (auto simp: ListDeviceTypeIDsForFirmware_def)
  with d i mem_groups_devices mem_explicit_devices show ?thesis unfolding in_scope_def by blast
qed

lemma set_targeted: "set (targeted db pid inp) \<subseteq>
   set (compatible_devices db pid (ListDeviceTypeIDsForFirmware db (ci_FirmwareID inp)) inp)"
  by (auto simp: targeted_def Let_def takeStablePercentage_def dest: in_set_takeD)

text \<open>C37. A creation that changes the database was made by a member with the permission on an
  unarchived project, adds exactly one campaign, scheduled if its start lies in the future and
  active otherwise, and one pending assignment per targeted device; every targeted device is a live
  device of the project, of a type the firmware supports, and named by the request.\<close>

theorem CreateCampaign_effect:
  assumes "fst (CreateCampaign env actor pid inp db) \<noteq> db"
  shows "(\<exists>x. AuthorizeProject db pid actor CampaignCreate = Inr x) \<and> camp_ensureProjectNotArchived db pid = Inr ()
    \<and> (\<exists>c. db_campaigns (fst (CreateCampaign env actor pid inp db)) = db_campaigns db @ [c]
        \<and> camp_ID c = env_uuid env 0 \<and> camp_ProjectID c = pid \<and> camp_TargetDeviceCount c = int (length (targeted db pid inp))
        \<and> camp_Status c = (if \<exists>t. ci_ScheduledStartAt inp = Some t \<and> env_now env < t then StatusScheduled else StatusActive)
        \<and> db_assignments (fst (CreateCampaign env actor pid inp db)) =
            db_assignments db @ map (new_assignment env (camp_ID c)) (targeted db pid inp))
    \<and> (\<forall>i \<in> set (targeted db pid inp). \<exists>d \<in> set (db_devices db). dev_ID d = i \<and> in_scope db pid inp d)"
  using assms
proof (cases rule: CreateCampaign_stored [consumes 1])
  case (1 db1 x)
  let ?c = "new_campaign env actor pid inp (targeted db pid inp)"
  have "db_campaigns db1 = db_campaigns db @ [?c]"
    "db_assignments db1 = db_assignments db @ map (new_assignment env (camp_ID ?c)) (targeted db pid inp)"
    using 1(5) by (auto simp: CreateCampaignBundle_def dest: insert_rows_Inr split: sum.splits)
  moreover have "camp_Status ?c = (if \<exists>t. ci_ScheduledStartAt inp = Some t \<and> env_now env < t then StatusScheduled else StatusActive)"
    "camp_ID ?c = env_uuid env 0" "camp_ProjectID ?c = pid" "camp_TargetDeviceCount ?c = int (length (targeted db pid inp))"
    by (auto simp: new_campaign_def Let_def split: option.split)
  moreover have "\<forall>i \<in> set (targeted db pid inp). \<exists>d \<in> set (db_devices db). dev_ID d = i \<and> in_scope db pid inp d"
    using set_targeted mem_compatible_devices by blast
  ultimately show ?thesis using 1(1,2,6,7) by auto
qed

theorem CreateCampaign_effect_witness:
  "map asg_Status (db_assignments (fst (CreateCampaign sample_env 1 5 sample_input sample_db))) = [AssignmentPending]"
proof -
  have "db_campaigns (fst (CreateCampaign sample_env 1 5 sample_input sample_db)) \<noteq> db_campaigns sample_db"
    by (simp add: sample_CreateCampaign)
  then have "fst (CreateCampaign sample_env 1 5 sample_input sample_db) \<noteq> sample_db" by metis
  from CreateCampaign_effect [OF this] show ?thesis
    by (auto simp: sample_targeted new_assignment_def)
qed

subsection \<open>Activation\<close>

text \<open>C40. A tick of the scheduler activates exactly the live scheduled campaigns whose start has
  come, stamps them, leaves every other row alone, and a second tick at the same time does
  nothing.\<close>

theorem scheduler_activates_due:
  assumes "camp_wf db"
  shows "ActivateDueCampaigns env db =
      (db\<lparr>db_campaigns := map (\<lambda>c. if due env c then activated env c else c) (db_campaigns db)\<rparr>,
       map camp_ID (filter (due env) (db_campaigns db)))
    \<and> ActivateDueCampaigns env (fst (ActivateDueCampaigns env db)) = (fst (ActivateDueCampaigns env db), [])"
proof -
  have e: "ActivateDueCampaigns env db =
      (db\<lparr>db_campaigns := map (\<lambda>c. if due env c then activated env c else c) (db_campaigns db)\<rparr>,
       map camp_ID (filter (due env) (db_campaigns db)))"
    by (rule prod_eqI) (simp_all add: ActivateDue_upd [OF assms] ActivateDue_ids update_where_def)
  have "\<not> due env (activated env c)" for c by (simp add: due_def status_defs)
  then have "filter (due env) (db_campaigns (fst (ActivateDueCampaigns env db))) = []"
    by (auto simp: e filter_empty_conv)
  then have "ActivateDueCampaigns env (fst (ActivateDueCampaigns env db)) = (fst (ActivateDueCampaigns env db), [])"
    by (subst ActivateDue_unfold) (simp add: Let_def)
  with e show ?thesis by simp
qed

theorem scheduler_activates_due_witness:
  "map camp_Status (db_campaigns (fst (ActivateDueCampaigns sample_env (sample_campaign_db StatusScheduled AssignmentPending))))
     = [StatusActive]"
  using scheduler_activates_due [OF sample_wf, of sample_env StatusScheduled AssignmentPending]
  by (simp add: sample_campaign_db_def sample_campaign_def due_def activated_def sample_env_def)

subsection \<open>Completion\<close>

lemma move_campaign_keeps:
  "move_campaign env pid i froms patch db = Inr db' \<Longrightarrow> db_assignments db' = db_assignments db"
  by (auto simp: move_campaign_def Let_def split: if_splits)

lemma tryAutoComplete_complete:
  assumes wf: "camp_wf db" and c: "c \<in> set (db_campaigns (fst (tryAutoComplete env pid i db)))" "live_campaign pid i c"
    "camp_Status c = StatusActive" "camp_TargetDeviceCount c > 0"
  shows "0 < CountNonTerminalAssignments (fst (tryAutoComplete env pid i db)) i"
proof (rule ccontr)
  assume "\<not> ?thesis"
  then have n0: "CountNonTerminalAssignments (fst (tryAutoComplete env pid i db)) i = 0"
    unfolding CountNonTerminalAssignments_def using count_where_nonneg by (simp add: order_antisym)
  have asg: "db_assignments (fst (tryAutoComplete env pid i db)) = db_assignments db"
    by (auto simp: tryAutoComplete_def MarkCampaignCompleted_def split: sum.split dest: move_campaign_keeps)
  then have n: "CountNonTerminalAssignments db i = 0" using n0 by (simp add: CountNonTerminalAssignments_def)
  have k: "keyed camp_ID (db_campaigns (fst (tryAutoComplete env pid i db)))"
    using tryAutoComplete_refines [OF wf, of env pid i] by (simp add: refines_def camp_wf_def)
  show False
  proof (cases "repo_GetCampaign db pid i")
    case (Inl e)
    then have "fst (tryAutoComplete env pid i db) = db" by (simp add: tryAutoComplete_def)
    with Inl c show False by (auto simp: repo_GetCampaign_def table_simps split: option.splits)
  next
    case (Inr x)
    then have x: "x \<in> set (db_campaigns db)" "live_campaign pid i x"
      by (auto simp: repo_GetCampaign_def split: option.splits dest: first_by_Some)
    show False
    proof (cases "camp_Status x = StatusActive \<and> camp_TargetDeviceCount x > 0")
      case False
      then have "fst (tryAutoComplete env pid i db) = db" using Inr by (auto simp: tryAutoComplete_def)
      with c x False wf keyed_unique [of camp_ID "db_campaigns db" c x] show False
        by (auto simp: camp_wf_def live_campaign_def)
    next
      case True
      let ?P = "\<lambda>c. live_campaign pid i c \<and> camp_Status c \<in> set [StatusActive]"
      have "count_where ?P (db_campaigns db) \<noteq> 0" using x True by (auto simp: table_simps)
      then obtain db1 where m: "MarkCampaignCompleted env pid i db = Inr db1"
        by (simp add: MarkCampaignCompleted_def move_campaign_def Let_def)
      then have f: "fst (tryAutoComplete env pid i db) = db1" using Inr True n by (simp add: tryAutoComplete_def)
      from move_campaign_abs [OF wf m [unfolded MarkCampaignCompleted_def], of StatusCompleted]
      obtain a where "camp_wf db1" "abs_camps db1 = (abs_camps db)(i \<mapsto> a\<lparr>ac_status := StatusCompleted\<rparr>)" by auto
      moreover from this(1) c have "abs_camps db1 i = Some \<lparr>ac_status = camp_Status c,
          ac_target = camp_TargetDeviceCount c, ac_devs = devs_of db1 i\<rparr>"
        using camp_of_keyed [of db1 c] by (simp add: abs_camps_def f live_campaign_def)
      ultimately have "Some (a\<lparr>ac_status := StatusCompleted\<rparr>) = Some \<lparr>ac_status = camp_Status c,
          ac_target = camp_TargetDeviceCount c, ac_devs = devs_of db1 i\<rparr>" by simp
      then have "ac_status (a\<lparr>ac_status := StatusCompleted\<rparr>) = camp_Status c" by (metis acamp.select_convs(1) option.inject)
      with c(3) show False by (simp add: status_defs)
    qed
  qed
qed

text \<open>C36. A report completes its campaign: after a device report that is processed without error the
  campaign it reports on, if it is still active and has targets, has an assignment that is neither
  installed nor failed. (Other campaigns are not looked at.)\<close>

theorem report_completes_campaign:
  assumes "camp_wf db"
    and "ApplyOtaDeviceReport env pid did i st code msg db = (db', Inr ver)"
    and "c \<in> set (db_campaigns db')" and "live_campaign pid i c"
    and "camp_Status c = StatusActive" and "camp_TargetDeviceCount c > 0"
  shows "0 < CountNonTerminalAssignments db' i"
proof -
  from ApplyOtaDeviceReport_cases [OF assms(1), of env pid did i st code msg] assms(2)
  obtain db1 where "refines db db1" "db' = fst (tryAutoComplete env pid i db1)" by auto
  moreover from this have "camp_wf db1" by (simp add: refines_def)
  ultimately show ?thesis using tryAutoComplete_complete assms(3-6) by blast
qed

theorem report_completes_campaign_witness:
  "0 < CountNonTerminalAssignments (fst (ApplyOtaDeviceReport sample_env 5 40 70 OtaReportDownloaded None []
     (sample_campaign_db StatusActive AssignmentOffered))) 70"
proof -
  let ?r = "ApplyOtaDeviceReport sample_env 5 40 70 OtaReportDownloaded None [] (sample_campaign_db StatusActive AssignmentOffered)"
  have "snd ?r = Inr []" by code_simp
  then have r: "?r = (fst ?r, Inr [])" by (simp add: prod_eq_iff)
  have c: "db_campaigns (fst ?r) = [sample_campaign StatusActive]" by code_simp
  show ?thesis
    by (rule report_completes_campaign [OF sample_wf r, of "sample_campaign StatusActive"])
      (unfold c, simp_all add: sample_campaign_def live_campaign_def)
qed

end
