(* ===== verification/Http.thy ===== *)
theory Http
  imports Middleware
begin

section \<open>Handlers: what they share (internal/transport/http)\<close>

text \<open>
  A handler of the HTTP API is a function of the request context, the bound body and the state.
  Binding a JSON body to a request struct is the library's: its result, the struct or a message, is
  an argument. A handler ends by recording an error (\<open>c.Error\<close>), which \<open>ErrorHandler\<close> reports
  afterwards, or by sending a status with data.
\<close>

text \<open>What handlers read from \<open>gin.Context\<close>: path parameters, query parameters (\<open>None\<close> if the
  request does not carry one) and the values the middleware stored.\<close>

record gin_ctx =
  c_Param :: "string \<Rightarrow> string"
  c_QueryParam :: "string \<Rightarrow> string option"
  c_auth_user_id :: string
  c_auth_session_id :: string
  c_device_project_id :: string
  c_device_id :: string
  c_ClientIP :: string
  c_UserAgent :: string
  c_Path :: string

definition c_Query :: "gin_ctx \<Rightarrow> string \<Rightarrow> string" where
  "c_Query c key = (case c_QueryParam c key of None \<Rightarrow> [] | Some s \<Rightarrow> s)"

type_synonym 'a reply = "err + int \<times> 'a"
type_synonym 'a body = "string + 'a"
type_synonym uuid_parser = "string \<Rightarrow> uuid option"

text \<open>Times in RFC 3339 are parsed by \<open>time.Parse\<close>.\<close>

type_synonym time_parser = "string \<Rightarrow> time option"

subsection \<open>Responses and bodies\<close>

definition StatusOK :: int where "StatusOK = 200"
definition StatusCreated :: int where "StatusCreated = 201"

definition BindJSON :: "'a body \<Rightarrow> err + 'a" where
  "BindJSON b = (case b of Inl msg \<Rightarrow> Inl (BadRequest ''invalid request body'' (JStr msg)) | Inr req \<Rightarrow> Inr req)"

definition parse_or :: "('x \<Rightarrow> 'a option) \<Rightarrow> err \<Rightarrow> 'x \<Rightarrow> err + 'a" where
  "parse_or parse e raw = (case parse raw of None \<Rightarrow> Inl e | Some x \<Rightarrow> Inr x)"

definition projectID_of :: "uuid_parser \<Rightarrow> gin_ctx \<Rightarrow> err + uuid" where
  "projectID_of parse c = parse_or parse (BadRequest ''invalid project id'' JNull) (c_Param c ''projectID'')"

definition parseUserID :: "uuid_parser \<Rightarrow> gin_ctx \<Rightarrow> err + uuid" where
  "parseUserID parse c = parse_or parse Unauthorized (c_auth_user_id c)"

definition param_of :: "uuid_parser \<Rightarrow> gin_ctx \<Rightarrow> string \<Rightarrow> string \<Rightarrow> err + uuid" where
  "param_of parse c name msg = parse_or parse (BadRequest msg JNull) (c_Param c name)"

text \<open>The two ids of most project handlers, in the order the code parses them.\<close>

definition project_ids :: "uuid_parser \<Rightarrow> gin_ctx \<Rightarrow> err + uuid \<times> uuid" where
  "project_ids parse c =
     bind_sum (projectID_of parse c) (\<lambda>pid. bind_sum (parseUserID parse c) (\<lambda>uid. Inr (pid, uid)))"

definition project_param_ids :: "uuid_parser \<Rightarrow> gin_ctx \<Rightarrow> string \<Rightarrow> string \<Rightarrow> err + uuid \<times> uuid \<times> uuid" where
  "project_param_ids parse c name msg =
     bind_sum (projectID_of parse c) (\<lambda>pid. bind_sum (param_of parse c name msg) (\<lambda>i.
       bind_sum (parseUserID parse c) (\<lambda>uid. Inr (pid, i, uid))))"

text \<open>A handler that changes the state: it parses its arguments, calls one operation of a service
  and answers with its result; without its arguments it does nothing.\<close>

definition call :: "err + 'x \<Rightarrow> ('x \<Rightarrow> 's \<times> (err + 'a)) \<Rightarrow> int \<Rightarrow> ('a \<Rightarrow> 'b) \<Rightarrow> 's \<Rightarrow> 's \<times> 'b reply" where
  "call args svc status data s =
     (case args of
        Inl e \<Rightarrow> (s, Inl e)
      | Inr x \<Rightarrow> (case svc x of (s', Inl e) \<Rightarrow> (s', Inl e) | (s', Inr a) \<Rightarrow> (s', Inr (status, data a))))"

text \<open>A handler that only reads.\<close>

definition reads :: "err + 'x \<Rightarrow> ('x \<Rightarrow> err + 'a) \<Rightarrow> int \<Rightarrow> ('a \<Rightarrow> 'b) \<Rightarrow> 'b reply" where
  "reads args svc status data =
     bind_sum args (\<lambda>x. bind_sum (svc x) (\<lambda>a. Inr (status, data a)))"

definition message :: "string \<Rightarrow> 'a \<Rightarrow> jval" where
  "message m _ = JObj [(''message'', JStr m)]"

text \<open>The page of a listing with its meta data.\<close>

definition with_meta :: "params \<Rightarrow> 'a \<times> int \<Rightarrow> 'a \<times> meta" where
  "with_meta p r = (fst r, BuildMeta (par_Page p) (par_PageSize p) (snd r))"

definition query_params :: "gin_ctx \<Rightarrow> params" where
  "query_params c = FromQuery (c_QueryParam c ''page'') (c_QueryParam c ''page_size'') (c_QueryParam c ''sort'')"

lemma call_cases:
  "(\<exists>e. args = Inl e \<and> call args svc status data s = (s, Inl e))
   \<or> (\<exists>x. args = Inr x \<and> fst (call args svc status data s) = fst (svc x)
        \<and> (\<exists>e. snd (svc x) = Inl e \<and> snd (call args svc status data s) = Inl e
           \<or> (\<exists>a. snd (svc x) = Inr a \<and> snd (call args svc status data s) = Inr (status, data a))))"
  by (cases args) (auto simp: call_def split: prod.split sum.split)

lemma call_state: "fst (call args svc status data s) = (case args of Inl _ \<Rightarrow> s | Inr x \<Rightarrow> fst (svc x))"
  by (auto simp: call_def split: sum.split prod.split)

end
