(* ===== verification/HttpProjects.thy ===== *)
theory HttpProjects
  imports Http Roles
begin

section \<open>Handlers of projects, members and roles (handlers/project\_handler.go, dto/project.go)\<close>

text \<open>
  One definition per handler, in the order of the file. A \<open>nil\<close> slice of permission keys is
  \<open>None\<close>.
\<close>

record create_project_request =
  cpr_Name :: string
  cpr_Description :: string

record update_project_request =
  upr_Name :: "string option"
  upr_Description :: "string option"

record invite_member_request =
  imr_Email :: string
  imr_RoleID :: string

record update_member_role_request =
  umr_RoleID :: string

record transfer_ownership_request =
  tor_NewOwnerUserID :: string

record create_custom_role_request =
  ccr_Name :: string
  ccr_Description :: string
  ccr_PermissionKeys :: "string list"

record update_custom_role_request =
  ucr_Name :: "string option"
  ucr_Description :: "string option"
  ucr_PermissionKeys :: "string list option"

subsection \<open>Projects\<close>

definition h_CreateProject ::
    "uuid_parser \<Rightarrow> env \<Rightarrow> gin_ctx \<Rightarrow> create_project_request body \<Rightarrow> db \<Rightarrow> db \<times> project reply" where
  "h_CreateProject parse env c body db =
     call (bind_sum (BindJSON body) (\<lambda>req. bind_sum (parseUserID parse c) (\<lambda>uid. Inr (req, uid))))
       (\<lambda>(req, uid). CreateProject env uid (cpr_Name req) (cpr_Description req) db) StatusCreated (\<lambda>p. p) db"

definition h_ListProjects ::
    "(string \<Rightarrow> string \<Rightarrow> bool) \<Rightarrow> uuid_parser \<Rightarrow> gin_ctx \<Rightarrow> db \<Rightarrow> ((project \<times> role_brief) list \<times> meta) reply" where
  "h_ListProjects name_matches parse c db =
     (let p = query_params c
      in reads (parseUserID parse c)
           (\<lambda>uid. Inr (ListMyProjects name_matches db uid (c_Query c ''q'') (c_Query c ''sort'')
                         (par_Page p) (par_PageSize p))) StatusOK (with_meta p))"

definition h_GetProject :: "uuid_parser \<Rightarrow> gin_ctx \<Rightarrow> db \<Rightarrow> (project \<times> role_brief) reply" where
  "h_GetProject parse c db =
     reads (project_ids parse c) (\<lambda>(pid, uid). GetProjectDetail db uid pid) StatusOK (\<lambda>d. d)"

definition h_GetProjectSummary :: "uuid_parser \<Rightarrow> env \<Rightarrow> gin_ctx \<Rightarrow> db \<Rightarrow> summary reply" where
  "h_GetProjectSummary parse env c db =
     reads (project_ids parse c) (\<lambda>(pid, uid). GetProjectSummary env db uid pid) StatusOK (\<lambda>s. s)"

definition h_UpdateProject ::
    "uuid_parser \<Rightarrow> env \<Rightarrow> gin_ctx \<Rightarrow> update_project_request body \<Rightarrow> db \<Rightarrow> db \<times> jval reply" where
  "h_UpdateProject parse env c body db =
     call (bind_sum (BindJSON body) (\<lambda>req. bind_sum (project_ids parse c) (\<lambda>(pid, uid). Inr (req, pid, uid))))
       (\<lambda>(req, pid, uid). UpdateProject env uid pid (upr_Name req) (upr_Description req) db)
       StatusOK (message ''project updated'') db"

definition h_DeleteProject :: "uuid_parser \<Rightarrow> env \<Rightarrow> gin_ctx \<Rightarrow> db \<Rightarrow> db \<times> jval reply" where
  "h_DeleteProject parse env c db =
     call (project_ids parse c) (\<lambda>(pid, uid). DeleteProject env uid pid db) StatusOK (message ''project deleted'') db"

definition setArchived :: "uuid_parser \<Rightarrow> env \<Rightarrow> gin_ctx \<Rightarrow> bool \<Rightarrow> db \<Rightarrow> db \<times> jval reply" where
  "setArchived parse env c archive db =
     call (project_ids parse c) (\<lambda>(pid, uid). ArchiveProject env uid pid archive db) StatusOK
       (\<lambda>_. JObj [(''archived'', JBool archive)]) db"

definition h_ArchiveProject :: "uuid_parser \<Rightarrow> env \<Rightarrow> gin_ctx \<Rightarrow> db \<Rightarrow> db \<times> jval reply" where
  "h_ArchiveProject parse env c db = setArchived parse env c True db"

definition h_UnarchiveProject :: "uuid_parser \<Rightarrow> env \<Rightarrow> gin_ctx \<Rightarrow> db \<Rightarrow> db \<times> jval reply" where
  "h_UnarchiveProject parse env c db = setArchived parse env c False db"

text \<open>An empty query parameter is no filter.\<close>

definition optional :: "('x list \<Rightarrow> 'a option) \<Rightarrow> err \<Rightarrow> 'x list \<Rightarrow> err + 'a option" where
  "optional parse e raw = (if raw = [] then Inr None else map_sum id Some (parse_or parse e raw))"

definition h_ListProjectAuditLogs ::
    "(string \<Rightarrow> string \<Rightarrow> bool) \<Rightarrow> uuid_parser \<Rightarrow> time_parser \<Rightarrow> gin_ctx \<Rightarrow> db \<Rightarrow> (audit_log list \<times> meta) reply" where
  "h_ListProjectAuditLogs event_like parse rfc3339 c db =
     (let p = query_params c
      in reads
           (bind_sum (project_ids parse c) (\<lambda>(pid, uid).
            bind_sum (optional parse (BadRequest ''invalid actor_id'' JNull) (c_Query c ''actor_id'')) (\<lambda>actor.
            bind_sum (optional rfc3339 (BadRequest ''invalid from (RFC3339)'' JNull) (c_Query c ''from'')) (\<lambda>tfrom.
            bind_sum (optional rfc3339 (BadRequest ''invalid to (RFC3339)'' JNull) (c_Query c ''to'')) (\<lambda>tto.
              Inr (pid, uid, actor, tfrom, tto))))))
           (\<lambda>(pid, uid, actor, tfrom, tto). ListProjectAuditLogs event_like db uid pid actor (c_Query c ''event'')
              tfrom tto (par_Page p) (par_PageSize p)) StatusOK (with_meta p))"

subsection \<open>Members\<close>

definition h_ListMembers :: "uuid_parser \<Rightarrow> gin_ctx \<Rightarrow> db \<Rightarrow> (membership \<times> role) list reply" where
  "h_ListMembers parse c db =
     reads (project_ids parse c) (\<lambda>(pid, uid). ListMembers db uid pid) StatusOK (\<lambda>l. l)"

definition h_InviteMember ::
    "uuid_parser \<Rightarrow> env \<Rightarrow> gin_ctx \<Rightarrow> invite_member_request body \<Rightarrow> db \<Rightarrow> db \<times> jval reply" where
  "h_InviteMember parse env c body db =
     call (bind_sum (BindJSON body) (\<lambda>req. bind_sum (projectID_of parse c) (\<lambda>pid.
           bind_sum (parse_or parse (BadRequest ''invalid role id'' JNull) (imr_RoleID req)) (\<lambda>rid.
           bind_sum (parseUserID parse c) (\<lambda>uid. Inr (req, pid, rid, uid))))))
       (\<lambda>(req, pid, rid, uid). InviteMember env uid pid (imr_Email req) rid db)
       StatusCreated (message ''member invited'') db"

definition h_UpdateMemberRole ::
    "uuid_parser \<Rightarrow> env \<Rightarrow> gin_ctx \<Rightarrow> update_member_role_request body \<Rightarrow> db \<Rightarrow> db \<times> jval reply" where
  "h_UpdateMemberRole parse env c body db =
     call (bind_sum (BindJSON body) (\<lambda>req. bind_sum (projectID_of parse c) (\<lambda>pid.
           bind_sum (param_of parse c ''userID'' ''invalid user id'') (\<lambda>target.
           bind_sum (parse_or parse (BadRequest ''invalid role id'' JNull) (umr_RoleID req)) (\<lambda>rid.
           bind_sum (parseUserID parse c) (\<lambda>uid. Inr (pid, target, rid, uid)))))))
       (\<lambda>(pid, target, rid, uid). UpdateMemberRole env uid pid target rid db)
       StatusOK (message ''member updated'') db"

definition h_RemoveMember :: "uuid_parser \<Rightarrow> env \<Rightarrow> gin_ctx \<Rightarrow> db \<Rightarrow> db \<times> jval reply" where
  "h_RemoveMember parse env c db =
     call (project_param_ids parse c ''userID'' ''invalid user id'')
       (\<lambda>(pid, target, uid). RemoveMember env uid pid target db) StatusOK (message ''member removed'') db"

definition h_TransferOwnership ::
    "uuid_parser \<Rightarrow> env \<Rightarrow> gin_ctx \<Rightarrow> transfer_ownership_request body \<Rightarrow> db \<Rightarrow> db \<times> jval reply" where
  "h_TransferOwnership parse env c body db =
     call (bind_sum (BindJSON body) (\<lambda>req. bind_sum (projectID_of parse c) (\<lambda>pid.
           bind_sum (parse_or parse (BadRequest ''invalid new owner id'' JNull) (tor_NewOwnerUserID req)) (\<lambda>owner.
           bind_sum (parseUserID parse c) (\<lambda>uid. Inr (pid, owner, uid))))))
       (\<lambda>(pid, owner, uid). TransferOwnership env uid pid owner db)
       StatusOK (message ''ownership transferred'') db"

subsection \<open>Roles\<close>

definition h_ListAssignableRoles :: "uuid_parser \<Rightarrow> gin_ctx \<Rightarrow> db \<Rightarrow> role list reply" where
  "h_ListAssignableRoles parse c db =
     reads (project_ids parse c) (\<lambda>(pid, uid). ListAssignableRoles db uid pid) StatusOK (\<lambda>l. l)"

definition h_ListProjectRoles :: "uuid_parser \<Rightarrow> gin_ctx \<Rightarrow> db \<Rightarrow> (role_view list \<times> catalog_item list) reply" where
  "h_ListProjectRoles parse c db =
     reads (project_ids parse c) (\<lambda>(pid, uid). ListProjectRoles db uid pid) StatusOK (\<lambda>l. l)"

definition h_CreateCustomRole ::
    "uuid_parser \<Rightarrow> env \<Rightarrow> gin_ctx \<Rightarrow> create_custom_role_request body \<Rightarrow> db \<Rightarrow> db \<times> role_view reply" where
  "h_CreateCustomRole parse env c body db =
     call (bind_sum (BindJSON body) (\<lambda>req. bind_sum (project_ids parse c) (\<lambda>(pid, uid). Inr (req, pid, uid))))
       (\<lambda>(req, pid, uid). CreateCustomRole env uid pid (ccr_Name req) (ccr_Description req) (ccr_PermissionKeys req) db)
       StatusCreated (\<lambda>r. r) db"

definition h_UpdateCustomRole ::
    "uuid_parser \<Rightarrow> env \<Rightarrow> gin_ctx \<Rightarrow> update_custom_role_request body \<Rightarrow> db \<Rightarrow> db \<times> role_view reply" where
  "h_UpdateCustomRole parse env c body db =
     call (bind_sum (BindJSON body) (\<lambda>req.
           bind_sum (project_param_ids parse c ''roleID'' ''invalid role id'') (\<lambda>(pid, rid, uid). Inr (req, pid, rid, uid))))
       (\<lambda>(req, pid, rid, uid). UpdateCustomRole env uid pid rid (ucr_Name req) (ucr_Description req)
          (ucr_PermissionKeys req) db)
       StatusOK (\<lambda>r. r) db"

definition h_DeleteCustomRole :: "uuid_parser \<Rightarrow> env \<Rightarrow> gin_ctx \<Rightarrow> db \<Rightarrow> db \<times> jval reply" where
  "h_DeleteCustomRole parse env c db =
     call (project_param_ids parse c ''roleID'' ''invalid role id'')
       (\<lambda>(pid, rid, uid). DeleteCustomRole env uid pid rid db) StatusOK (message ''role deleted'') db"

end
