(* ===== verification/HttpDevices.thy ===== *)
theory HttpDevices
  imports HttpProjects DeviceBulk Campaign
begin

section \<open>Handlers of devices (handlers/device\_handler.go, dto/device.go)\<close>

text \<open>
  The device handlers, with the parsing of device filters and device lists that
  \<open>device\_groups\_bulk.go\<close> does for them, and the two endpoints devices call over HTTP.
\<close>

record create_device_type_request =
  cdt_Name :: string
  cdt_ProcessorArchitecture :: string
  cdt_HardwareBoardVersion :: string
  cdt_FlashSizeBytes :: int
  cdt_MemoryNotes :: "string option"

record update_device_type_request =
  udt_Name :: "string option"
  udt_ProcessorArchitecture :: "string option"
  udt_HardwareBoardVersion :: "string option"
  udt_FlashSizeBytes :: "int option"
  udt_MemoryNotes :: "string option"

record register_device_request =
  rdr_Name :: string
  rdr_DeviceTypeID :: string
  rdr_HardwareIdentifier :: string

record report_device_request =
  rpt_CurrentFirmwareVersion :: string

record create_group_request =
  cgr_Name :: string
  cgr_Description :: "string option"

record update_group_request =
  ugr_Name :: "string option"
  ugr_Description :: "string option"

record group_members_request =
  gmr_DeviceIDs :: "string list"

record device_filter_body =
  dfb_Online :: "bool option"
  dfb_Blocked :: "bool option"
  dfb_DeviceTypeID :: "string option"
  dfb_GroupID :: "string option"
  dfb_FirmwareVersion :: "string option"
  dfb_LastSeenFrom :: "string option"
  dfb_LastSeenTo :: "string option"
  dfb_Search :: "string option"

record bulk_request =
  blr_Action :: string
  blr_ApplyToFilter :: bool
  blr_Filter :: device_filter_body
  blr_DeviceIDs :: "string list"
  blr_GroupID :: "string option"

subsection \<open>Parsing filters and lists (device\_groups\_bulk.go)\<close>

text \<open>A field that is missing or blank is no filter.\<close>

definition trimmed :: "string option \<Rightarrow> string" where
  "trimmed x = (case x of None \<Rightarrow> [] | Some s \<Rightarrow> trim_space s)"

definition non_blank :: "string \<Rightarrow> string option" where
  "non_blank s = (if trim_space s = [] then None else Some (trim_space s))"

definition ParseDeviceListFilterInput :: "uuid_parser \<Rightarrow> time_parser \<Rightarrow> device_filter_body \<Rightarrow> err + device_filter" where
  "ParseDeviceListFilterInput parse rfc3339 inp =
     bind_sum (optional parse (BadRequest ''invalid filter.device_type_id'' JNull) (trimmed (dfb_DeviceTypeID inp))) (\<lambda>dt.
     bind_sum (optional parse (BadRequest ''invalid filter.group_id'' JNull) (trimmed (dfb_GroupID inp))) (\<lambda>g.
     bind_sum (optional rfc3339 (BadRequest ''invalid filter.last_seen_from (RFC3339)'' JNull)
                 (trimmed (dfb_LastSeenFrom inp))) (\<lambda>tfrom.
     bind_sum (optional rfc3339 (BadRequest ''invalid filter.last_seen_to (RFC3339)'' JNull)
                 (trimmed (dfb_LastSeenTo inp))) (\<lambda>tto.
       Inr \<lparr>df_Online = dfb_Online inp, df_DeviceTypeID = dt, df_GroupID = g, df_Blocked = dfb_Blocked inp,
            df_FirmwareVersion = dfb_FirmwareVersion inp, df_LastSeenFrom = tfrom, df_LastSeenTo = tto,
            df_Search = (if trimmed (dfb_Search inp) = [] then None else Some (trimmed (dfb_Search inp)))\<rparr>))))"

definition query_flag :: "string \<Rightarrow> bool option" where
  "query_flag s = (if s = [] then None else Some (s = ''true'' \<or> s = ''1''))"

definition ParseDeviceListFilter ::
    "uuid_parser \<Rightarrow> time_parser \<Rightarrow> string \<Rightarrow> string \<Rightarrow> string \<Rightarrow> string \<Rightarrow> string \<Rightarrow> string \<Rightarrow> string \<Rightarrow> string
     \<Rightarrow> err + device_filter" where
  "ParseDeviceListFilter parse rfc3339 online blocked deviceTypeID groupID fwv lastFrom lastTo q =
     bind_sum (optional parse (BadRequest ''invalid device_type_id'' JNull) deviceTypeID) (\<lambda>dt.
     bind_sum (optional parse (BadRequest ''invalid group_id'' JNull) groupID) (\<lambda>g.
     bind_sum (optional rfc3339 (BadRequest ''invalid last_seen_from (RFC3339)'' JNull) lastFrom) (\<lambda>tfrom.
     bind_sum (optional rfc3339 (BadRequest ''invalid last_seen_to (RFC3339)'' JNull) lastTo) (\<lambda>tto.
       Inr \<lparr>df_Online = query_flag online, df_DeviceTypeID = dt, df_GroupID = g, df_Blocked = query_flag blocked,
            df_FirmwareVersion = non_blank fwv, df_LastSeenFrom = tfrom, df_LastSeenTo = tto,
            df_Search = non_blank q\<rparr>))))"

fun parseUUIDSlice :: "uuid_parser \<Rightarrow> string list \<Rightarrow> err + uuid list" where
  "parseUUIDSlice parse [] = Inr []"
| "parseUUIDSlice parse (s # ss) =
     (if trim_space s = [] then parseUUIDSlice parse ss
      else bind_sum (parse_or parse (BadRequest ''invalid device id in list'' JNull) (trim_space s)) (\<lambda>i.
           bind_sum (parseUUIDSlice parse ss) (\<lambda>is. Inr (i # is))))"

subsection \<open>Device types\<close>

definition h_ListDeviceTypes :: "uuid_parser \<Rightarrow> gin_ctx \<Rightarrow> db \<Rightarrow> device_type_view list reply" where
  "h_ListDeviceTypes parse c db =
     reads (project_ids parse c) (\<lambda>(pid, uid). ListDeviceTypes db uid pid) StatusOK (\<lambda>l. l)"

definition h_CreateCustomDeviceType ::
    "uuid_parser \<Rightarrow> env \<Rightarrow> gin_ctx \<Rightarrow> create_device_type_request body \<Rightarrow> db \<Rightarrow> db \<times> device_type_view reply" where
  "h_CreateCustomDeviceType parse env c body db =
     call (bind_sum (BindJSON body) (\<lambda>req. bind_sum (project_ids parse c) (\<lambda>(pid, uid). Inr (req, pid, uid))))
       (\<lambda>(req, pid, uid). CreateCustomDeviceType env uid pid (cdt_Name req) (cdt_ProcessorArchitecture req)
          (cdt_HardwareBoardVersion req) (cdt_FlashSizeBytes req) (cdt_MemoryNotes req) db)
       StatusCreated (\<lambda>t. t) db"

definition h_UpdateCustomDeviceType ::
    "uuid_parser \<Rightarrow> env \<Rightarrow> gin_ctx \<Rightarrow> update_device_type_request body \<Rightarrow> db \<Rightarrow> db \<times> device_type_view reply" where
  "h_UpdateCustomDeviceType parse env c body db =
     call (bind_sum (BindJSON body) (\<lambda>req.
           bind_sum (project_param_ids parse c ''deviceTypeID'' ''invalid device type id'')
             (\<lambda>(pid, i, uid). Inr (req, pid, i, uid))))
       (\<lambda>(req, pid, i, uid). UpdateCustomDeviceType env uid pid i (udt_Name req) (udt_ProcessorArchitecture req)
          (udt_HardwareBoardVersion req) (udt_FlashSizeBytes req) (udt_MemoryNotes req) db)
       StatusOK (\<lambda>t. t) db"

definition h_DeleteCustomDeviceType :: "uuid_parser \<Rightarrow> env \<Rightarrow> gin_ctx \<Rightarrow> db \<Rightarrow> db \<times> jval reply" where
  "h_DeleteCustomDeviceType parse env c db =
     call (project_param_ids parse c ''deviceTypeID'' ''invalid device type id'')
       (\<lambda>(pid, i, uid). DeleteCustomDeviceType env uid pid i db) StatusOK (message ''device type deleted'') db"

subsection \<open>Listing and bulk operations\<close>

definition h_ListDevices ::
    "query_env \<Rightarrow> uuid_parser \<Rightarrow> time_parser \<Rightarrow> env \<Rightarrow> gin_ctx \<Rightarrow> db \<Rightarrow> (device_item list \<times> meta) reply" where
  "h_ListDevices q parse rfc3339 env c db =
     (let p = query_params c
      in reads
           (bind_sum (project_ids parse c) (\<lambda>(pid, uid).
            bind_sum (ParseDeviceListFilter parse rfc3339 (c_Query c ''online'') (c_Query c ''blocked'')
                        (c_Query c ''device_type_id'') (c_Query c ''group_id'') (c_Query c ''firmware_version'')
                        (c_Query c ''last_seen_from'') (c_Query c ''last_seen_to'') (c_Query c ''q'')) (\<lambda>f.
              Inr (pid, uid, f))))
           (\<lambda>(pid, uid, f). ListDevices q env db uid pid f (par_Page p) (par_PageSize p) (par_Sort p))
           StatusOK (with_meta p))"

definition h_BulkDevices ::
    "query_env \<Rightarrow> uuid_parser \<Rightarrow> time_parser \<Rightarrow> env \<Rightarrow> gin_ctx \<Rightarrow> bulk_request body \<Rightarrow> db \<Rightarrow> db \<times> bulk_result reply" where
  "h_BulkDevices q parse rfc3339 env c body db =
     call (bind_sum (BindJSON body) (\<lambda>req. bind_sum (project_ids parse c) (\<lambda>(pid, uid).
           bind_sum (ParseDeviceListFilterInput parse rfc3339 (blr_Filter req)) (\<lambda>f.
           bind_sum (optional parse (BadRequest ''invalid group_id'' JNull)
                       (case blr_GroupID req of None \<Rightarrow> [] | Some s \<Rightarrow> s)) (\<lambda>g. Inr (req, pid, uid, f, g))))))
       (\<lambda>(req, pid, uid, f, g). BulkDevices q env uid pid (blr_Action req) (blr_ApplyToFilter req) f
          (parseUUIDSlice parse (blr_DeviceIDs req)) g db)
       StatusOK (\<lambda>r. r) db"

subsection \<open>Groups\<close>

definition h_ListDeviceGroups :: "uuid_parser \<Rightarrow> gin_ctx \<Rightarrow> db \<Rightarrow> group_view list reply" where
  "h_ListDeviceGroups parse c db =
     reads (project_ids parse c) (\<lambda>(pid, uid). ListDeviceGroups db uid pid) StatusOK (\<lambda>l. l)"

definition h_CreateDeviceGroup ::
    "uuid_parser \<Rightarrow> env \<Rightarrow> gin_ctx \<Rightarrow> create_group_request body \<Rightarrow> db \<Rightarrow> db \<times> group_view reply" where
  "h_CreateDeviceGroup parse env c body db =
     call (bind_sum (BindJSON body) (\<lambda>req. bind_sum (project_ids parse c) (\<lambda>(pid, uid). Inr (req, pid, uid))))
       (\<lambda>(req, pid, uid). CreateDeviceGroup env uid pid (cgr_Name req)
          (case cgr_Description req of None \<Rightarrow> [] | Some d \<Rightarrow> d) db)
       StatusCreated (\<lambda>g. g) db"

definition h_UpdateDeviceGroup ::
    "uuid_parser \<Rightarrow> env \<Rightarrow> gin_ctx \<Rightarrow> update_group_request body \<Rightarrow> db \<Rightarrow> db \<times> group_view reply" where
  "h_UpdateDeviceGroup parse env c body db =
     call (bind_sum (BindJSON body) (\<lambda>req.
           bind_sum (project_param_ids parse c ''groupID'' ''invalid group id'') (\<lambda>(pid, g, uid). Inr (req, pid, g, uid))))
       (\<lambda>(req, pid, g, uid). UpdateDeviceGroup env uid pid g (ugr_Name req) (ugr_Description req) db)
       StatusOK (\<lambda>g. g) db"

definition h_DeleteDeviceGroup :: "uuid_parser \<Rightarrow> env \<Rightarrow> gin_ctx \<Rightarrow> db \<Rightarrow> db \<times> jval reply" where
  "h_DeleteDeviceGroup parse env c db =
     call (project_param_ids parse c ''groupID'' ''invalid group id'')
       (\<lambda>(pid, g, uid). DeleteDeviceGroup env uid pid g db) StatusOK (message ''device group deleted'') db"

fun parseUUIDList :: "uuid_parser \<Rightarrow> string list \<Rightarrow> err + uuid list" where
  "parseUUIDList parse [] = Inr []"
| "parseUUIDList parse (s # ss) =
     bind_sum (parse_or parse (BadRequest ''invalid device id'' JNull) s) (\<lambda>i.
     bind_sum (parseUUIDList parse ss) (\<lambda>is. Inr (i # is)))"

definition group_members_args ::
    "uuid_parser \<Rightarrow> gin_ctx \<Rightarrow> group_members_request body \<Rightarrow> err + uuid \<times> uuid \<times> uuid \<times> uuid list" where
  "group_members_args parse c body =
     bind_sum (BindJSON body) (\<lambda>req.
     bind_sum (project_param_ids parse c ''groupID'' ''invalid group id'') (\<lambda>(pid, g, uid).
     bind_sum (parseUUIDList parse (gmr_DeviceIDs req)) (\<lambda>ids. Inr (pid, g, uid, ids))))"

definition h_AddDevicesToGroup ::
    "uuid_parser \<Rightarrow> env \<Rightarrow> gin_ctx \<Rightarrow> group_members_request body \<Rightarrow> db \<Rightarrow> db \<times> jval reply" where
  "h_AddDevicesToGroup parse env c body db =
     call (group_members_args parse c body) (\<lambda>(pid, g, uid, ids). AddDevicesToGroup env uid pid g ids db)
       StatusOK (message ''devices added to group'') db"

definition h_RemoveDevicesFromGroup ::
    "uuid_parser \<Rightarrow> env \<Rightarrow> gin_ctx \<Rightarrow> group_members_request body \<Rightarrow> db \<Rightarrow> db \<times> jval reply" where
  "h_RemoveDevicesFromGroup parse env c body db =
     call (group_members_args parse c body) (\<lambda>(pid, g, uid, ids). RemoveDevicesFromGroup env uid pid g ids db)
       StatusOK (message ''devices removed from group'') db"

subsection \<open>Devices\<close>

definition h_RegisterDevice ::
    "uuid_parser \<Rightarrow> env \<Rightarrow> gin_ctx \<Rightarrow> register_device_request body \<Rightarrow> db \<Rightarrow> db \<times> (device_twin \<times> string) reply" where
  "h_RegisterDevice parse env c body db =
     call (bind_sum (BindJSON body) (\<lambda>req. bind_sum (projectID_of parse c) (\<lambda>pid.
           bind_sum (parse_or parse (BadRequest ''invalid device type id'' JNull) (rdr_DeviceTypeID req)) (\<lambda>dt.
           bind_sum (parseUserID parse c) (\<lambda>uid. Inr (req, pid, dt, uid))))))
       (\<lambda>(req, pid, dt, uid). RegisterDevice env uid pid dt (rdr_Name req) (rdr_HardwareIdentifier req) db)
       StatusCreated (\<lambda>r. r) db"

definition device_ids :: "uuid_parser \<Rightarrow> gin_ctx \<Rightarrow> err + uuid \<times> uuid \<times> uuid" where
  "device_ids parse c = project_param_ids parse c ''deviceID'' ''invalid device id''"

definition h_GetDeviceTwin :: "uuid_parser \<Rightarrow> env \<Rightarrow> gin_ctx \<Rightarrow> db \<Rightarrow> device_twin reply" where
  "h_GetDeviceTwin parse env c db =
     reads (device_ids parse c) (\<lambda>(pid, i, uid). GetDeviceTwin env db uid pid i) StatusOK (\<lambda>t. t)"

definition h_BlockDevice :: "uuid_parser \<Rightarrow> env \<Rightarrow> gin_ctx \<Rightarrow> db \<Rightarrow> db \<times> jval reply" where
  "h_BlockDevice parse env c db =
     call (device_ids parse c) (\<lambda>(pid, i, uid). BlockDevice env uid pid i db) StatusOK (message ''device blocked'') db"

definition h_UnblockDevice :: "uuid_parser \<Rightarrow> env \<Rightarrow> gin_ctx \<Rightarrow> db \<Rightarrow> db \<times> jval reply" where
  "h_UnblockDevice parse env c db =
     call (device_ids parse c) (\<lambda>(pid, i, uid). UnblockDevice env uid pid i db) StatusOK (message ''device unblocked'') db"

definition h_RotateDeviceToken :: "uuid_parser \<Rightarrow> env \<Rightarrow> gin_ctx \<Rightarrow> db \<Rightarrow> db \<times> (device_twin \<times> string) reply" where
  "h_RotateDeviceToken parse env c db =
     call (device_ids parse c) (\<lambda>(pid, i, uid). RotateDeviceToken env uid pid i db) StatusOK (\<lambda>r. r) db"

subsection \<open>Endpoints of devices\<close>

definition caller_device :: "uuid_parser \<Rightarrow> gin_ctx \<Rightarrow> err + uuid \<times> uuid" where
  "caller_device parse c =
     bind_sum (parse_or parse Unauthorized (c_device_project_id c)) (\<lambda>pid.
     bind_sum (parse_or parse Unauthorized (c_device_id c)) (\<lambda>did. Inr (pid, did)))"

text \<open>\<open>campaigns\<close> says whether the handler has the campaign service. The poll and the offer are two
  operations: an error of the second leaves the effect of the first.\<close>

definition h_DevicePoll ::
    "bool \<Rightarrow> uuid_parser \<Rightarrow> env \<Rightarrow> gin_ctx \<Rightarrow> db \<Rightarrow> db \<times> poll_offer option reply" where
  "h_DevicePoll campaigns parse env c db =
     (case caller_device parse c of
        Inl e \<Rightarrow> (db, Inl e)
      | Inr (pid, did) \<Rightarrow>
     (case DevicePoll env pid did (c_ClientIP c) (c_UserAgent c) (c_Path c) db of
        (db1, Inl e) \<Rightarrow> (db1, Inl e)
      | (db1, Inr _) \<Rightarrow>
          if \<not> campaigns then (db1, Inr (StatusOK, None))
          else (case BuildPollOffer env pid did db1 of
             (db2, Inl e) \<Rightarrow> (db2, Inl e)
           | (db2, Inr offer) \<Rightarrow> (db2, Inr (StatusOK, offer)))))"

definition h_DeviceReport ::
    "bool \<Rightarrow> uuid_parser \<Rightarrow> env \<Rightarrow> gin_ctx \<Rightarrow> report_device_request body \<Rightarrow> db \<Rightarrow> db \<times> jval reply" where
  "h_DeviceReport campaigns parse env c body db =
     (case bind_sum (caller_device parse c) (\<lambda>(pid, did). bind_sum (BindJSON body) (\<lambda>req. Inr (pid, did, req))) of
        Inl e \<Rightarrow> (db, Inl e)
      | Inr (pid, did, req) \<Rightarrow>
     (let v = rpt_CurrentFirmwareVersion req
      in case DeviceReport env pid did v (c_ClientIP c) (c_UserAgent c) (c_Path c) db of
        (db1, Inl e) \<Rightarrow> (db1, Inl e)
      | (db1, Inr _) \<Rightarrow>
          ((if campaigns then fst (OnDeviceReportFirmware env pid did v db1) else db1),
           Inr (StatusOK, message ''report received'' ()))))"

end
