(* ===== verification/HttpFirmware.thy ===== *)
theory HttpFirmware
  imports Http Firmware Campaign
begin

section \<open>Handlers of firmware and campaigns (handlers/firmware\_handler.go, campaign\_handler.go)\<close>

text \<open>
  The firmware handlers over the database and any object store, and the campaign handlers. The
  library parses the multipart form of an upload (\<open>None\<close> if it cannot) and the JSON array of
  UUIDs in one of its fields.
\<close>

subsection \<open>Firmware\<close>

definition h_ListFirmware :: "uuid_parser \<Rightarrow> gin_ctx \<Rightarrow> db \<Rightarrow> (firmware_item list \<times> meta) reply" where
  "h_ListFirmware parse c db =
     (let p = query_params c
      in reads (project_ids parse c) (\<lambda>(pid, uid). ListFirmware db uid pid (par_Page p) (par_PageSize p) (par_Sort p))
           StatusOK (with_meta p))"

definition firmware_ids :: "uuid_parser \<Rightarrow> gin_ctx \<Rightarrow> err + uuid \<times> uuid \<times> uuid" where
  "firmware_ids parse c = project_param_ids parse c ''firmwareID'' ''invalid firmware id''"

definition h_GetFirmware :: "uuid_parser \<Rightarrow> gin_ctx \<Rightarrow> db \<Rightarrow> firmware_detail reply" where
  "h_GetFirmware parse c db =
     reads (firmware_ids parse c) (\<lambda>(pid, i, uid). GetFirmware db uid pid i) StatusOK (\<lambda>d. d)"

text \<open>An uploaded file: its name and size as the form gives them, and its bytes if it can be
  opened.\<close>

record form_file =
  ff_Filename :: string
  ff_Size :: int
  ff_Open :: "byte list option"

record multipart =
  mp_PostForm :: "string \<Rightarrow> string"
  mp_File :: "form_file option"

definition upload_args ::
    "uuid_parser \<Rightarrow> (string \<Rightarrow> uuid list option) \<Rightarrow> fw_config \<Rightarrow> gin_ctx \<Rightarrow> multipart option
     \<Rightarrow> err + uuid \<times> uuid \<times> string \<times> string \<times> string \<times> uuid list \<times> byte list" where
  "upload_args parse json_uuids cfg c form =
     bind_sum (project_ids parse c) (\<lambda>(pid, uid).
       let maxBytes = (if fc_maxUploadBytes cfg \<le> 0 then 67108864 else fc_maxUploadBytes cfg) in
       case form of
         None \<Rightarrow> Inl (BadRequest ''invalid multipart form'' JNull)
       | Some m \<Rightarrow>
      (let version = trim_space (mp_PostForm m ''version'');
           changelog = mp_PostForm m ''changelog'';
           rawTypes = trim_space (mp_PostForm m ''device_type_ids'')
       in if rawTypes = []
          then Inl (BadRequest ''device_type_ids is required (JSON array of UUID strings)'' JNull)
          else case json_uuids rawTypes of
            None \<Rightarrow> Inl (BadRequest ''device_type_ids must be a JSON array of UUID strings'' JNull)
          | Some types \<Rightarrow>
         (case mp_File m of
            None \<Rightarrow> Inl (BadRequest ''file is required'' JNull)
          | Some fh \<Rightarrow>
              if ff_Size fh > maxBytes
              then Inl (BadRequest ''firmware file exceeds maximum upload size''
                     (JObj [(''max_bytes'', JInt maxBytes), (''file_size'', JInt (ff_Size fh))]))
              else case ff_Open fh of
                None \<Rightarrow> Inl (BadRequest ''could not read uploaded file'' JNull)
              | Some src \<Rightarrow> Inr (pid, uid, version, changelog, ff_Filename fh, types, src))))"

definition h_UploadFirmware ::
    "('s \<Rightarrow> string \<Rightarrow> byte list \<Rightarrow> 's \<times> (err + int)) \<Rightarrow> ('s \<Rightarrow> string \<Rightarrow> 's \<times> (err + unit)) \<Rightarrow> semver_parser
     \<Rightarrow> uuid_parser \<Rightarrow> (string \<Rightarrow> uuid list option) \<Rightarrow> fw_config \<Rightarrow> env \<Rightarrow> gin_ctx \<Rightarrow> multipart option
     \<Rightarrow> db \<times> 's \<Rightarrow> (db \<times> 's) \<times> firmware_detail reply" where
  "h_UploadFirmware put del semver parse json_uuids cfg env c form dbs =
     call (upload_args parse json_uuids cfg c form)
       (\<lambda>(pid, uid, version, changelog, filename, types, src).
          UploadFirmware put del semver cfg env uid pid version changelog filename types src dbs)
       StatusCreated (\<lambda>d. d) dbs"

definition filepath_Base_any :: "string \<Rightarrow> string" where
  "filepath_Base_any p = (if p = [] then ''.'' else filepath_Base p)"

definition safeDownloadFilename :: "string \<Rightarrow> string" where
  "safeDownloadFilename name =
     (let base = filepath_Base_any (trim_space name)
      in if base = [] \<or> base = ''.'' \<or> base = ''/'' then ''firmware.bin''
         else map (\<lambda>ch. if ch = CHR 34 then CHR 39 else ch) base)"

text \<open>The response of a download: the file name of the attachment, the checksum, the announced
  length and the bytes.\<close>

record download =
  dl_Filename :: string
  dl_Checksum :: string
  dl_ContentLength :: int
  dl_Body :: "byte list"

definition serve_download :: "byte list \<times> firmware \<Rightarrow> download" where
  "serve_download r =
     \<lparr>dl_Filename = safeDownloadFilename (fw_OriginalFilename (snd r)), dl_Checksum = fw_ChecksumSHA256 (snd r),
      dl_ContentLength = fw_FileSizeBytes (snd r), dl_Body = fst r\<rparr>"

definition h_DownloadFirmware ::
    "('s \<Rightarrow> string \<Rightarrow> err + byte list) \<Rightarrow> uuid_parser \<Rightarrow> env \<Rightarrow> gin_ctx \<Rightarrow> db \<times> 's \<Rightarrow> (db \<times> 's) \<times> download reply" where
  "h_DownloadFirmware get parse env c dbs =
     call (firmware_ids parse c) (\<lambda>(pid, i, uid). OpenFirmwareBinary get env uid pid i dbs) StatusOK serve_download dbs"

definition h_DeviceFirmwareDownloadByToken ::
    "('s \<Rightarrow> string \<Rightarrow> err + byte list) \<Rightarrow> env \<Rightarrow> gin_ctx \<Rightarrow> db \<times> 's \<Rightarrow> (db \<times> 's) \<times> download reply" where
  "h_DeviceFirmwareDownloadByToken get env c dbs =
     call (let token = trim_space (c_Query c ''token'')
           in if token = [] then Inl (BadRequest ''token is required'' JNull) else Inr token)
       (\<lambda>token. OpenFirmwareWithOtaDownloadToken get env token dbs) StatusOK serve_download dbs"

definition h_DeleteFirmware ::
    "('s \<Rightarrow> string \<Rightarrow> 's \<times> (err + unit)) \<Rightarrow> uuid_parser \<Rightarrow> env \<Rightarrow> gin_ctx \<Rightarrow> db \<times> 's \<Rightarrow> (db \<times> 's) \<times> jval reply" where
  "h_DeleteFirmware del parse env c dbs =
     call (firmware_ids parse c) (\<lambda>(pid, i, uid). DeleteFirmware del env uid pid i dbs)
       StatusOK (message ''firmware deleted'') dbs"

subsection \<open>Campaigns\<close>

text \<open>The struct the handler binds has the fields of \<open>CreateCampaignInput\<close>.\<close>

definition h_CreateCampaign ::
    "uuid_parser \<Rightarrow> env \<Rightarrow> gin_ctx \<Rightarrow> campaign_input body \<Rightarrow> db \<Rightarrow> db \<times> (campaign_view \<times> progress_view) reply" where
  "h_CreateCampaign parse env c body db =
     call (bind_sum (BindJSON body) (\<lambda>req. bind_sum (project_ids parse c) (\<lambda>(pid, uid). Inr (req, pid, uid))))
       (\<lambda>(req, pid, uid). CreateCampaign env uid pid req db) StatusCreated (\<lambda>d. d) db"

definition h_ListCampaigns :: "uuid_parser \<Rightarrow> gin_ctx \<Rightarrow> db \<Rightarrow> (campaign_view list \<times> meta) reply" where
  "h_ListCampaigns parse c db =
     (let p = query_params c
      in reads (project_ids parse c) (\<lambda>(pid, uid). ListCampaigns db uid pid (par_Page p) (par_PageSize p))
           StatusOK (with_meta p))"

definition campaign_ids :: "uuid_parser \<Rightarrow> gin_ctx \<Rightarrow> err + uuid \<times> uuid \<times> uuid" where
  "campaign_ids parse c = project_param_ids parse c ''campaignID'' ''invalid campaign id''"

definition h_GetCampaign :: "uuid_parser \<Rightarrow> gin_ctx \<Rightarrow> db \<Rightarrow> (campaign_view \<times> progress_view) reply" where
  "h_GetCampaign parse c db =
     reads (campaign_ids parse c) (\<lambda>(pid, i, uid). GetCampaignDetail db uid pid i) StatusOK (\<lambda>d. d)"

definition transition ::
    "uuid_parser \<Rightarrow> gin_ctx \<Rightarrow> (uuid \<Rightarrow> uuid \<Rightarrow> uuid \<Rightarrow> db \<Rightarrow> db \<times> (err + unit)) \<Rightarrow> db \<Rightarrow> db \<times> jval reply" where
  "transition parse c fn db =
     call (campaign_ids parse c) (\<lambda>(pid, i, uid). fn uid pid i db) StatusOK (message ''ok'') db"

definition h_PauseCampaign :: "uuid_parser \<Rightarrow> env \<Rightarrow> gin_ctx \<Rightarrow> db \<Rightarrow> db \<times> jval reply" where
  "h_PauseCampaign parse env c db = transition parse c (PauseCampaign env) db"

definition h_ResumeCampaign :: "uuid_parser \<Rightarrow> env \<Rightarrow> gin_ctx \<Rightarrow> db \<Rightarrow> db \<times> jval reply" where
  "h_ResumeCampaign parse env c db = transition parse c (ResumeCampaign env) db"

definition h_CancelCampaign :: "uuid_parser \<Rightarrow> env \<Rightarrow> gin_ctx \<Rightarrow> db \<Rightarrow> db \<times> jval reply" where
  "h_CancelCampaign parse env c db = transition parse c (CancelCampaign env) db"

end
