(* ===== verification/HttpAuth.thy ===== *)
theory HttpAuth
  imports Http
begin

section \<open>Handlers of accounts (handlers/auth\_handler.go, health\_handler.go, dto/auth.go)\<close>

text \<open>
  The handlers of registration, sessions, passwords, profiles and two-factor authentication.
  Binding rejects a request whose required fields are missing; it is the library's, like every
  binding.
\<close>

record register_request =
  rgr_Email :: string
  rgr_Password :: string

record verify_email_request =
  ver_Token :: string

record login_request =
  lgr_Email :: string
  lgr_Password :: string
  lgr_TOTPCode :: string
  lgr_RecoveryCode :: string

record refresh_request =
  rfr_RefreshToken :: string

record logout_request =
  lor_RefreshToken :: string

record forgot_password_request =
  fpr_Email :: string

record reset_password_request =
  rpr_Token :: string
  rpr_NewPassword :: string

record change_password_request =
  chp_CurrentPassword :: string
  chp_NewPassword :: string

record update_profile_request =
  upf_FirstName :: string
  upf_LastName :: string
  upf_AvatarURL :: string
  upf_CompanyName :: string
  upf_PhoneNumber :: string
  upf_Timezone :: string
  upf_PreferredLanguage :: string

record enable_2fa_request =
  e2f_Password :: string

record confirm_2fa_request =
  c2f_Code :: string

record disable_2fa_request =
  d2f_Password :: string
  d2f_TOTPCode :: string
  d2f_RecoveryCode :: string

record delete_account_request =
  dar_Password :: string
  dar_GracePeriodDays :: int

definition session_meta_of :: "gin_ctx \<Rightarrow> session_meta" where
  "session_meta_of c = \<lparr>sm_UserAgent = c_UserAgent c, sm_IP = c_ClientIP c\<rparr>"

definition auth_ctx :: "uuid_parser \<Rightarrow> gin_ctx \<Rightarrow> err + uuid \<times> uuid" where
  "auth_ctx parse c = authContext parse (c_auth_user_id c, c_auth_session_id c)"

text \<open>The body first, then the ids of the session.\<close>

definition body_and_ctx :: "uuid_parser \<Rightarrow> gin_ctx \<Rightarrow> 'a body \<Rightarrow> err + 'a \<times> uuid \<times> uuid" where
  "body_and_ctx parse c body =
     bind_sum (BindJSON body) (\<lambda>req. bind_sum (auth_ctx parse c) (\<lambda>(uid, sid). Inr (req, uid, sid)))"

subsection \<open>Without a session\<close>

definition h_Register ::
    "auth_config \<Rightarrow> auth_lib \<Rightarrow> env \<Rightarrow> register_request body \<Rightarrow> db \<Rightarrow> db \<times> jval reply" where
  "h_Register cfg lib env body db =
     call (BindJSON body) (\<lambda>req. Register cfg lib env (rgr_Email req) (rgr_Password req) db)
       StatusOK (message ''registration successful; verify your email'') db"

definition h_VerifyEmail :: "env \<Rightarrow> verify_email_request body \<Rightarrow> db \<Rightarrow> db \<times> jval reply" where
  "h_VerifyEmail env body db =
     call (BindJSON body) (\<lambda>req. VerifyEmail env (ver_Token req) db) StatusOK (message ''email verified'') db"

definition h_Login ::
    "auth_config \<Rightarrow> auth_lib \<Rightarrow> env \<Rightarrow> gin_ctx \<Rightarrow> login_request body \<Rightarrow> db \<Rightarrow> db \<times> token_pair reply" where
  "h_Login cfg lib env c body db =
     call (BindJSON body)
       (\<lambda>req. Login cfg lib env (lgr_Email req) (lgr_Password req) (lgr_TOTPCode req) (lgr_RecoveryCode req)
                (session_meta_of c) db) StatusOK (\<lambda>t. t) db"

definition h_Refresh ::
    "auth_config \<Rightarrow> auth_lib \<Rightarrow> env \<Rightarrow> gin_ctx \<Rightarrow> refresh_request body \<Rightarrow> db \<Rightarrow> db \<times> token_pair reply" where
  "h_Refresh cfg lib env c body db =
     call (BindJSON body) (\<lambda>req. Refresh cfg lib env (rfr_RefreshToken req) (session_meta_of c) db)
       StatusOK (\<lambda>t. t) db"

text \<open>The errors of the next two operations are dropped: the answer says nothing about whether the
  session or the account exists.\<close>

definition h_Logout :: "env \<Rightarrow> logout_request body \<Rightarrow> db \<Rightarrow> db \<times> jval reply" where
  "h_Logout env body db =
     (case BindJSON body of
        Inl e \<Rightarrow> (db, Inl e)
      | Inr req \<Rightarrow> (fst (Logout env (lor_RefreshToken req) db), Inr (StatusOK, message ''logged out'' ())))"

definition h_ForgotPassword :: "env \<Rightarrow> forgot_password_request body \<Rightarrow> db \<Rightarrow> db \<times> jval reply" where
  "h_ForgotPassword env body db =
     (case BindJSON body of
        Inl e \<Rightarrow> (db, Inl e)
      | Inr req \<Rightarrow>
          (fst (ForgotPassword env (fpr_Email req) db),
           Inr (StatusOK, message ''if the email exists, reset instructions were sent'' ())))"

definition h_ResetPassword ::
    "auth_config \<Rightarrow> auth_lib \<Rightarrow> env \<Rightarrow> reset_password_request body \<Rightarrow> db \<Rightarrow> db \<times> jval reply" where
  "h_ResetPassword cfg lib env body db =
     call (BindJSON body) (\<lambda>req. ResetPassword cfg lib env (rpr_Token req) (rpr_NewPassword req) db)
       StatusOK (message ''password has been reset'') db"

subsection \<open>With a session\<close>

definition h_ChangePassword ::
    "auth_config \<Rightarrow> auth_lib \<Rightarrow> uuid_parser \<Rightarrow> env \<Rightarrow> gin_ctx \<Rightarrow> change_password_request body \<Rightarrow> db
     \<Rightarrow> db \<times> jval reply" where
  "h_ChangePassword cfg lib parse env c body db =
     call (body_and_ctx parse c body)
       (\<lambda>(req, uid, sid). ChangePassword cfg lib env uid sid (chp_CurrentPassword req) (chp_NewPassword req) db)
       StatusOK (message ''password changed; other sessions revoked'') db"

definition h_GetProfile :: "uuid_parser \<Rightarrow> gin_ctx \<Rightarrow> db \<Rightarrow> user_profile reply" where
  "h_GetProfile parse c db = reads (auth_ctx parse c) (\<lambda>(uid, _). auth_GetProfile db uid) StatusOK (\<lambda>p. p)"

text \<open>The other fields of the \<open>UserProfile\<close> the handler builds have their zero values.\<close>

definition profile_of :: "update_profile_request \<Rightarrow> user_profile" where
  "profile_of req =
     \<lparr>prof_ID = uuid_Nil, prof_UserID = uuid_Nil, prof_FirstName = upf_FirstName req,
      prof_LastName = upf_LastName req, prof_AvatarURL = upf_AvatarURL req, prof_CompanyName = upf_CompanyName req,
      prof_PhoneNumber = upf_PhoneNumber req, prof_Timezone = upf_Timezone req,
      prof_PreferredLanguage = upf_PreferredLanguage req, prof_CreatedAt = 0, prof_UpdatedAt = 0\<rparr>"

definition h_UpdateProfile ::
    "auth_lib \<Rightarrow> uuid_parser \<Rightarrow> env \<Rightarrow> gin_ctx \<Rightarrow> update_profile_request body \<Rightarrow> db \<Rightarrow> db \<times> user_profile reply" where
  "h_UpdateProfile lib parse env c body db =
     call (body_and_ctx parse c body) (\<lambda>(req, uid, _). UpdateProfile lib env uid (profile_of req) db)
       StatusOK (\<lambda>p. p) db"

definition h_ListSessions :: "uuid_parser \<Rightarrow> gin_ctx \<Rightarrow> db \<Rightarrow> session_view list reply" where
  "h_ListSessions parse c db =
     reads (auth_ctx parse c) (\<lambda>(uid, sid). Inr (ListSessions db uid sid)) StatusOK (\<lambda>l. l)"

definition h_RevokeSession :: "uuid_parser \<Rightarrow> env \<Rightarrow> gin_ctx \<Rightarrow> db \<Rightarrow> db \<times> jval reply" where
  "h_RevokeSession parse env c db =
     call (bind_sum (auth_ctx parse c) (\<lambda>(uid, _).
           bind_sum (param_of parse c ''sessionID'' ''invalid session id'') (\<lambda>i. Inr (uid, i))))
       (\<lambda>(uid, i). RevokeSession env uid i db) StatusOK (message ''session revoked'') db"

definition h_RevokeOtherSessions :: "uuid_parser \<Rightarrow> env \<Rightarrow> gin_ctx \<Rightarrow> db \<Rightarrow> db \<times> jval reply" where
  "h_RevokeOtherSessions parse env c db =
     call (auth_ctx parse c) (\<lambda>(uid, sid). RevokeOtherSessions env uid sid db)
       StatusOK (message ''other sessions revoked'') db"

definition h_BeginEnable2FA ::
    "auth_config \<Rightarrow> auth_lib \<Rightarrow> uuid_parser \<Rightarrow> env \<Rightarrow> gin_ctx \<Rightarrow> enable_2fa_request body \<Rightarrow> db
     \<Rightarrow> db \<times> (string \<times> string) reply" where
  "h_BeginEnable2FA cfg lib parse env c body db =
     call (body_and_ctx parse c body) (\<lambda>(req, uid, _). BeginEnable2FA cfg lib env uid (e2f_Password req) db)
       StatusOK (\<lambda>r. r) db"

definition h_ConfirmEnable2FA ::
    "auth_config \<Rightarrow> auth_lib \<Rightarrow> uuid_parser \<Rightarrow> env \<Rightarrow> gin_ctx \<Rightarrow> confirm_2fa_request body \<Rightarrow> db
     \<Rightarrow> db \<times> string list reply" where
  "h_ConfirmEnable2FA cfg lib parse env c body db =
     call (body_and_ctx parse c body) (\<lambda>(req, uid, _). ConfirmEnable2FA cfg lib env uid (c2f_Code req) db)
       StatusOK (\<lambda>codes. codes) db"

definition h_Disable2FA ::
    "auth_config \<Rightarrow> auth_lib \<Rightarrow> uuid_parser \<Rightarrow> env \<Rightarrow> gin_ctx \<Rightarrow> disable_2fa_request body \<Rightarrow> db \<Rightarrow> db \<times> jval reply" where
  "h_Disable2FA cfg lib parse env c body db =
     call (body_and_ctx parse c body)
       (\<lambda>(req, uid, _). Disable2FA cfg lib env uid (d2f_Password req) (d2f_TOTPCode req) (d2f_RecoveryCode req) db)
       StatusOK (message ''2fa disabled'') db"

definition h_DeleteAccount ::
    "auth_lib \<Rightarrow> uuid_parser \<Rightarrow> env \<Rightarrow> gin_ctx \<Rightarrow> delete_account_request body \<Rightarrow> db \<Rightarrow> db \<times> jval reply" where
  "h_DeleteAccount lib parse env c body db =
     call (body_and_ctx parse c body)
       (\<lambda>(req, uid, _). DeleteAccount lib env uid (dar_Password req) (dar_GracePeriodDays req) db)
       StatusOK (message ''account deletion scheduled'') db"

subsection \<open>Health\<close>

definition h_Liveness :: "jval reply" where
  "h_Liveness = Inr (StatusOK, JObj [(''status'', JStr ''ok'')])"

text \<open>\<open>has_db\<close> and \<open>ping\<close> say whether the pool exists and the database answers.\<close>

definition h_Readiness :: "bool \<Rightarrow> bool \<Rightarrow> string option \<Rightarrow> http_response + int \<times> jval" where
  "h_Readiness has_db ping reqID =
     (if \<not> has_db \<or> \<not> ping then Inl (Fail reqID (app_new ''db_unavailable'' ''database is not ready'' 503 JNull))
      else Inr (StatusOK, JObj [(''status'', JStr ''ready'')]))"

end
