(* ===== verification/Routes.thy ===== *)
theory Routes
  imports HttpProjects HttpDevices HttpFirmware HttpAuth
begin

section \<open>The HTTP API (transport/http/routes/routes.go)\<close>

text \<open>
  Every route of the API as a constructor of \<open>api\<close> (one type per group of routes), with the bound body where the route has one;
  which middleware guards it (\<open>guard\_of\<close>); its handler (\<open>dispatch\<close>); and a request as a whole
  (\<open>serve\<close>): authentication, permission, handler and error report. The readiness probe is the only
  route without a constructor, it asks the connection pool.
\<close>

text \<open>What the handlers were built with: configuration, libraries, and the directory of the object
  store.\<close>

record services =
  sv_cfg :: auth_config
  sv_lib :: auth_lib
  sv_fw :: fw_config
  sv_base :: path
  sv_parse :: uuid_parser
  sv_rfc3339 :: time_parser
  sv_json_uuids :: "string \<Rightarrow> uuid list option"
  sv_semver :: semver_parser
  sv_like :: "string \<Rightarrow> string \<Rightarrow> bool"
  sv_query :: query_env

datatype agent_api =
    R_HealthLive
  | R_DeviceFirmwareDownload
  | R_DevicePolling
  | R_DeviceReporting "report_device_request body"

datatype account_api =
    R_AuthRegister "register_request body"
  | R_AuthVerifyEmail "verify_email_request body"
  | R_AuthLogin "login_request body"
  | R_AuthRefresh "refresh_request body"
  | R_AuthLogout "logout_request body"
  | R_AuthForgotPassword "forgot_password_request body"
  | R_AuthResetPassword "reset_password_request body"
  | R_MeGetProfile
  | R_MeUpdateProfile "update_profile_request body"
  | R_MeChangePassword "change_password_request body"
  | R_MeListSessions
  | R_MeRevokeOtherSessions
  | R_MeRevokeSession
  | R_MeEnable2FA "enable_2fa_request body"
  | R_MeConfirm2FA "confirm_2fa_request body"
  | R_MeDisable2FA "disable_2fa_request body"
  | R_MeDeleteAccount "delete_account_request body"

datatype project_api =
    R_ProjectCreate "create_project_request body"
  | R_ProjectList
  | R_ProjectGet
  | R_ProjectSummary
  | R_ProjectUpdateFields "update_project_request body"
  | R_ProjectRemove
  | R_ProjectArchive
  | R_ProjectUnarchive
  | R_ProjectAuditLogs
  | R_MemberList
  | R_MemberAdd "invite_member_request body"
  | R_MemberChangeRole "update_member_role_request body"
  | R_MemberDrop
  | R_OwnershipTransfer "transfer_ownership_request body"

datatype role_api =
    R_RoleList
  | R_RoleAssignable
  | R_RoleAdd "create_custom_role_request body"
  | R_RoleChange "update_custom_role_request body"
  | R_RoleDrop

datatype device_api =
    R_DeviceTypeList
  | R_DeviceTypeAdd "create_device_type_request body"
  | R_DeviceTypeChange "update_device_type_request body"
  | R_DeviceTypeDrop
  | R_GroupList
  | R_GroupAdd "create_group_request body"
  | R_GroupChange "update_group_request body"
  | R_GroupDrop
  | R_GroupAddMembers "group_members_request body"
  | R_GroupRemoveMembers "group_members_request body"
  | R_DeviceList
  | R_DeviceBulk "bulk_request body"
  | R_DeviceRegister "register_device_request body"
  | R_DeviceTwin
  | R_DeviceBlocking
  | R_DeviceUnblocking
  | R_DeviceRotateToken

datatype firmware_api =
    R_FirmwareList
  | R_FirmwareAdd "multipart option"
  | R_FirmwareGet
  | R_FirmwareDownload
  | R_FirmwareDrop

datatype campaign_api =
    R_CampaignList
  | R_CampaignAdd "campaign_input body"
  | R_CampaignGet
  | R_CampaignPausing
  | R_CampaignResuming
  | R_CampaignCancelling

datatype api = Agent agent_api | Account account_api | Project project_api | Role role_api | Device device_api | Firmware firmware_api | Campaign campaign_api

text \<open>The middleware of a route: none, a session, a session with a permission on the project of the
  path, or a device token.\<close>

datatype guard = Public | User | Member string | DeviceToken

fun agent_guard :: "agent_api \<Rightarrow> guard" where
  "agent_guard R_HealthLive = Public"
| "agent_guard R_DeviceFirmwareDownload = Public"
| "agent_guard R_DevicePolling = DeviceToken"
| "agent_guard (R_DeviceReporting b) = DeviceToken"

fun account_guard :: "account_api \<Rightarrow> guard" where
  "account_guard (R_AuthRegister b) = Public"
| "account_guard (R_AuthVerifyEmail b) = Public"
| "account_guard (R_AuthLogin b) = Public"
| "account_guard (R_AuthRefresh b) = Public"
| "account_guard (R_AuthLogout b) = Public"
| "account_guard (R_AuthForgotPassword b) = Public"
| "account_guard (R_AuthResetPassword b) = Public"
| "account_guard R_MeGetProfile = User"
| "account_guard (R_MeUpdateProfile b) = User"
| "account_guard (R_MeChangePassword b) = User"
| "account_guard R_MeListSessions = User"
| "account_guard R_MeRevokeOtherSessions = User"
| "account_guard R_MeRevokeSession = User"
| "account_guard (R_MeEnable2FA b) = User"
| "account_guard (R_MeConfirm2FA b) = User"
| "account_guard (R_MeDisable2FA b) = User"
| "account_guard (R_MeDeleteAccount b) = User"

fun project_guard :: "project_api \<Rightarrow> guard" where
  "project_guard (R_ProjectCreate b) = User"
| "project_guard R_ProjectList = User"
| "project_guard R_ProjectGet = Member ProjectRead"
| "project_guard R_ProjectSummary = Member DashboardRead"
| "project_guard (R_ProjectUpdateFields b) = Member ProjectUpdate"
| "project_guard R_ProjectRemove = Member ProjectDelete"
| "project_guard R_ProjectArchive = Member ProjectUpdate"
| "project_guard R_ProjectUnarchive = Member ProjectUpdate"
| "project_guard R_ProjectAuditLogs = Member AuditRead"
| "project_guard R_MemberList = Member MemberRead"
| "project_guard (R_MemberAdd b) = Member MemberInvite"
| "project_guard (R_MemberChangeRole b) = Member MemberUpdateRole"
| "project_guard R_MemberDrop = Member MemberRemove"
| "project_guard (R_OwnershipTransfer b) = User"

fun role_guard :: "role_api \<Rightarrow> guard" where
  "role_guard R_RoleList = Member RoleRead"
| "role_guard R_RoleAssignable = Member MemberRead"
| "role_guard (R_RoleAdd b) = Member RoleCreate"
| "role_guard (R_RoleChange b) = Member RoleUpdate"
| "role_guard R_RoleDrop = Member RoleDelete"

fun device_guard :: "device_api \<Rightarrow> guard" where
  "device_guard R_DeviceTypeList = Member DeviceRead"
| "device_guard (R_DeviceTypeAdd b) = Member DeviceCreate"
| "device_guard (R_DeviceTypeChange b) = Member DeviceUpdate"
| "device_guard R_DeviceTypeDrop = Member DeviceUpdate"
| "device_guard R_GroupList = Member DeviceRead"
| "device_guard (R_GroupAdd b) = Member DeviceUpdate"
| "device_guard (R_GroupChange b) = Member DeviceUpdate"
| "device_guard R_GroupDrop = Member DeviceUpdate"
| "device_guard (R_GroupAddMembers b) = Member DeviceAssignGroup"
| "device_guard (R_GroupRemoveMembers b) = Member DeviceAssignGroup"
| "device_guard R_DeviceList = Member DeviceRead"
| "device_guard (R_DeviceBulk b) = Member DeviceRead"
| "device_guard (R_DeviceRegister b) = Member DeviceCreate"
| "device_guard R_DeviceTwin = Member DeviceRead"
| "device_guard R_DeviceBlocking = Member DeviceBlock"
| "device_guard R_DeviceUnblocking = Member DeviceBlock"
| "device_guard R_DeviceRotateToken = Member DeviceTokenRotate"

fun firmware_guard :: "firmware_api \<Rightarrow> guard" where
  "firmware_guard R_FirmwareList = Member FirmwareRead"
| "firmware_guard (R_FirmwareAdd b) = Member FirmwareUpload"
| "firmware_guard R_FirmwareGet = Member FirmwareRead"
| "firmware_guard R_FirmwareDownload = Member FirmwareRead"
| "firmware_guard R_FirmwareDrop = Member FirmwareUpload"

fun campaign_guard :: "campaign_api \<Rightarrow> guard" where
  "campaign_guard R_CampaignList = Member CampaignRead"
| "campaign_guard (R_CampaignAdd b) = Member CampaignCreate"
| "campaign_guard R_CampaignGet = Member CampaignRead"
| "campaign_guard R_CampaignPausing = Member CampaignPause"
| "campaign_guard R_CampaignResuming = Member CampaignUpdate"
| "campaign_guard R_CampaignCancelling = Member CampaignCancel"

fun guard_of :: "api \<Rightarrow> guard" where
  "guard_of (Agent r) = agent_guard r"
| "guard_of (Account r) = account_guard r"
| "guard_of (Project r) = project_guard r"
| "guard_of (Role r) = role_guard r"
| "guard_of (Device r) = device_guard r"
| "guard_of (Firmware r) = firmware_guard r"
| "guard_of (Campaign r) = campaign_guard r"

subsection \<open>Dispatch\<close>

text \<open>The answer of a route is its status; the data are those of the handler.\<close>

type_synonym web = "db \<times> store"

definition on_db :: "(db \<Rightarrow> db \<times> 'a reply) \<Rightarrow> web \<Rightarrow> web \<times> (err + int)" where
  "on_db f s = (let (db', r) = f (fst s) in ((db', snd s), map_sum id fst r))"

definition on_read :: "(db \<Rightarrow> 'a reply) \<Rightarrow> web \<Rightarrow> web \<times> (err + int)" where
  "on_read f s = (s, map_sum id fst (f (fst s)))"

definition on_store :: "(web \<Rightarrow> web \<times> 'a reply) \<Rightarrow> web \<Rightarrow> web \<times> (err + int)" where
  "on_store f s = (let (s', r) = f s in (s', map_sum id fst r))"

fun agent_dispatch :: "services \<Rightarrow> env \<Rightarrow> gin_ctx \<Rightarrow> agent_api \<Rightarrow> web \<Rightarrow> web \<times> (err + int)" where
  "agent_dispatch sv env c R_HealthLive = on_read (\<lambda>_. h_Liveness)"
| "agent_dispatch sv env c R_DeviceFirmwareDownload =
     on_store (h_DeviceFirmwareDownloadByToken (store_Open (sv_base sv)) env c)"
| "agent_dispatch sv env c R_DevicePolling =
     on_db (h_DevicePoll True (sv_parse sv) env c)"
| "agent_dispatch sv env c (R_DeviceReporting b) =
     on_db (h_DeviceReport True (sv_parse sv) env c b)"

fun account_dispatch :: "services \<Rightarrow> env \<Rightarrow> gin_ctx \<Rightarrow> account_api \<Rightarrow> web \<Rightarrow> web \<times> (err + int)" where
  "account_dispatch sv env c (R_AuthRegister b) =
     on_db (h_Register (sv_cfg sv) (sv_lib sv) env b)"
| "account_dispatch sv env c (R_AuthVerifyEmail b) =
     on_db (h_VerifyEmail env b)"
| "account_dispatch sv env c (R_AuthLogin b) =
     on_db (h_Login (sv_cfg sv) (sv_lib sv) env c b)"
| "account_dispatch sv env c (R_AuthRefresh b) =
     on_db (h_Refresh (sv_cfg sv) (sv_lib sv) env c b)"
| "account_dispatch sv env c (R_AuthLogout b) =
     on_db (h_Logout env b)"
| "account_dispatch sv env c (R_AuthForgotPassword b) =
     on_db (h_ForgotPassword env b)"
| "account_dispatch sv env c (R_AuthResetPassword b) =
     on_db (h_ResetPassword (sv_cfg sv) (sv_lib sv) env b)"
| "account_dispatch sv env c R_MeGetProfile =
     on_read (h_GetProfile (sv_parse sv) c)"
| "account_dispatch sv env c (R_MeUpdateProfile b) =
     on_db (h_UpdateProfile (sv_lib sv) (sv_parse sv) env c b)"
| "account_dispatch sv env c (R_MeChangePassword b) =
     on_db (h_ChangePassword (sv_cfg sv) (sv_lib sv) (sv_parse sv) env c b)"
| "account_dispatch sv env c R_MeListSessions =
     on_read (h_ListSessions (sv_parse sv) c)"
| "account_dispatch sv env c R_MeRevokeOtherSessions =
     on_db (h_RevokeOtherSessions (sv_parse sv) env c)"
| "account_dispatch sv env c R_MeRevokeSession =
     on_db (h_RevokeSession (sv_parse sv) env c)"
| "account_dispatch sv env c (R_MeEnable2FA b) =
     on_db (h_BeginEnable2FA (sv_cfg sv) (sv_lib sv) (sv_parse sv) env c b)"
| "account_dispatch sv env c (R_MeConfirm2FA b) =
     on_db (h_ConfirmEnable2FA (sv_cfg sv) (sv_lib sv) (sv_parse sv) env c b)"
| "account_dispatch sv env c (R_MeDisable2FA b) =
     on_db (h_Disable2FA (sv_cfg sv) (sv_lib sv) (sv_parse sv) env c b)"
| "account_dispatch sv env c (R_MeDeleteAccount b) =
     on_db (h_DeleteAccount (sv_lib sv) (sv_parse sv) env c b)"

fun project_dispatch :: "services \<Rightarrow> env \<Rightarrow> gin_ctx \<Rightarrow> project_api \<Rightarrow> web \<Rightarrow> web \<times> (err + int)" where
  "project_dispatch sv env c (R_ProjectCreate b) =
     on_db (h_CreateProject (sv_parse sv) env c b)"
| "project_dispatch sv env c R_ProjectList =
     on_read (h_ListProjects (sv_like sv) (sv_parse sv) c)"
| "project_dispatch sv env c R_ProjectGet =
     on_read (h_GetProject (sv_parse sv) c)"
| "project_dispatch sv env c R_ProjectSummary =
     on_read (h_GetProjectSummary (sv_parse sv) env c)"
| "project_dispatch sv env c (R_ProjectUpdateFields b) =
     on_db (h_UpdateProject (sv_parse sv) env c b)"
| "project_dispatch sv env c R_ProjectRemove =
     on_db (h_DeleteProject (sv_parse sv) env c)"
| "project_dispatch sv env c R_ProjectArchive =
     on_db (h_ArchiveProject (sv_parse sv) env c)"
| "project_dispatch sv env c R_ProjectUnarchive =
     on_db (h_UnarchiveProject (sv_parse sv) env c)"
| "project_dispatch sv env c R_ProjectAuditLogs =
     on_read (h_ListProjectAuditLogs (sv_like sv) (sv_parse sv) (sv_rfc3339 sv) c)"
| "project_dispatch sv env c R_MemberList =
     on_read (h_ListMembers (sv_parse sv) c)"
| "project_dispatch sv env c (R_MemberAdd b) =
     on_db (h_InviteMember (sv_parse sv) env c b)"
| "project_dispatch sv env c (R_MemberChangeRole b) =
     on_db (h_UpdateMemberRole (sv_parse sv) env c b)"
| "project_dispatch sv env c R_MemberDrop =
     on_db (h_RemoveMember (sv_parse sv) env c)"
| "project_dispatch sv env c (R_OwnershipTransfer b) =
     on_db (h_TransferOwnership (sv_parse sv) env c b)"

fun role_dispatch :: "services \<Rightarrow> env \<Rightarrow> gin_ctx \<Rightarrow> role_api \<Rightarrow> web \<Rightarrow> web \<times> (err + int)" where
  "role_dispatch sv env c R_RoleList =
     on_read (h_ListProjectRoles (sv_parse sv) c)"
| "role_dispatch sv env c R_RoleAssignable =
     on_read (h_ListAssignableRoles (sv_parse sv) c)"
| "role_dispatch sv env c (R_RoleAdd b) =
     on_db (h_CreateCustomRole (sv_parse sv) env c b)"
| "role_dispatch sv env c (R_RoleChange b) =
     on_db (h_UpdateCustomRole (sv_parse sv) env c b)"
| "role_dispatch sv env c R_RoleDrop =
     on_db (h_DeleteCustomRole (sv_parse sv) env c)"

fun device_dispatch :: "services \<Rightarrow> env \<Rightarrow> gin_ctx \<Rightarrow> device_api \<Rightarrow> web \<Rightarrow> web \<times> (err + int)" where
  "device_dispatch sv env c R_DeviceTypeList =
     on_read (h_ListDeviceTypes (sv_parse sv) c)"
| "device_dispatch sv env c (R_DeviceTypeAdd b) =
     on_db (h_CreateCustomDeviceType (sv_parse sv) env c b)"
| "device_dispatch sv env c (R_DeviceTypeChange b) =
     on_db (h_UpdateCustomDeviceType (sv_parse sv) env c b)"
| "device_dispatch sv env c R_DeviceTypeDrop =
     on_db (h_DeleteCustomDeviceType (sv_parse sv) env c)"
| "device_dispatch sv env c R_GroupList =
     on_read (h_ListDeviceGroups (sv_parse sv) c)"
| "device_dispatch sv env c (R_GroupAdd b) =
     on_db (h_CreateDeviceGroup (sv_parse sv) env c b)"
| "device_dispatch sv env c (R_GroupChange b) =
     on_db (h_UpdateDeviceGroup (sv_parse sv) env c b)"
| "device_dispatch sv env c R_GroupDrop =
     on_db (h_DeleteDeviceGroup (sv_parse sv) env c)"
| "device_dispatch sv env c (R_GroupAddMembers b) =
     on_db (h_AddDevicesToGroup (sv_parse sv) env c b)"
| "device_dispatch sv env c (R_GroupRemoveMembers b) =
     on_db (h_RemoveDevicesFromGroup (sv_parse sv) env c b)"
| "device_dispatch sv env c R_DeviceList =
     on_read (h_ListDevices (sv_query sv) (sv_parse sv) (sv_rfc3339 sv) env c)"
| "device_dispatch sv env c (R_DeviceBulk b) =
     on_db (h_BulkDevices (sv_query sv) (sv_parse sv) (sv_rfc3339 sv) env c b)"
| "device_dispatch sv env c (R_DeviceRegister b) =
     on_db (h_RegisterDevice (sv_parse sv) env c b)"
| "device_dispatch sv env c R_DeviceTwin =
     on_read (h_GetDeviceTwin (sv_parse sv) env c)"
| "device_dispatch sv env c R_DeviceBlocking =
     on_db (h_BlockDevice (sv_parse sv) env c)"
| "device_dispatch sv env c R_DeviceUnblocking =
     on_db (h_UnblockDevice (sv_parse sv) env c)"
| "device_dispatch sv env c R_DeviceRotateToken =
     on_db (h_RotateDeviceToken (sv_parse sv) env c)"

fun firmware_dispatch :: "services \<Rightarrow> env \<Rightarrow> gin_ctx \<Rightarrow> firmware_api \<Rightarrow> web \<Rightarrow> web \<times> (err + int)" where
  "firmware_dispatch sv env c R_FirmwareList =
     on_read (h_ListFirmware (sv_parse sv) c)"
| "firmware_dispatch sv env c (R_FirmwareAdd b) =
     on_store (h_UploadFirmware (store_Put (sv_base sv)) (store_Delete (sv_base sv)) (sv_semver sv) (sv_parse sv)
           (sv_json_uuids sv) (sv_fw sv) env c b)"
| "firmware_dispatch sv env c R_FirmwareGet =
     on_read (h_GetFirmware (sv_parse sv) c)"
| "firmware_dispatch sv env c R_FirmwareDownload =
     on_store (h_DownloadFirmware (store_Open (sv_base sv)) (sv_parse sv) env c)"
| "firmware_dispatch sv env c R_FirmwareDrop =
     on_store (h_DeleteFirmware (store_Delete (sv_base sv)) (sv_parse sv) env c)"

fun campaign_dispatch :: "services \<Rightarrow> env \<Rightarrow> gin_ctx \<Rightarrow> campaign_api \<Rightarrow> web \<Rightarrow> web \<times> (err + int)" where
  "campaign_dispatch sv env c R_CampaignList =
     on_read (h_ListCampaigns (sv_parse sv) c)"
| "campaign_dispatch sv env c (R_CampaignAdd b) =
     on_db (h_CreateCampaign (sv_parse sv) env c b)"
| "campaign_dispatch sv env c R_CampaignGet =
     on_read (h_GetCampaign (sv_parse sv) c)"
| "campaign_dispatch sv env c R_CampaignPausing =
     on_db (h_PauseCampaign (sv_parse sv) env c)"
| "campaign_dispatch sv env c R_CampaignResuming =
     on_db (h_ResumeCampaign (sv_parse sv) env c)"
| "campaign_dispatch sv env c R_CampaignCancelling =
     on_db (h_CancelCampaign (sv_parse sv) env c)"

fun dispatch :: "services \<Rightarrow> env \<Rightarrow> gin_ctx \<Rightarrow> api \<Rightarrow> web \<Rightarrow> web \<times> (err + int)" where
  "dispatch sv env c (Agent r) = agent_dispatch sv env c r"
| "dispatch sv env c (Account r) = account_dispatch sv env c r"
| "dispatch sv env c (Project r) = project_dispatch sv env c r"
| "dispatch sv env c (Role r) = role_dispatch sv env c r"
| "dispatch sv env c (Device r) = device_dispatch sv env c r"
| "dispatch sv env c (Firmware r) = firmware_dispatch sv env c r"
| "dispatch sv env c (Campaign r) = campaign_dispatch sv env c r"

subsection \<open>A request\<close>

record http_request =
  rq_RequestID :: "string option"
  rq_Authorization :: string
  rq_ctx :: gin_ctx

text \<open>The handler runs; the last error it recorded is reported.\<close>

definition run_handler :: "services \<Rightarrow> env \<Rightarrow> string option \<Rightarrow> gin_ctx \<Rightarrow> api \<Rightarrow> web \<Rightarrow> web \<times> (http_response + int)" where
  "run_handler sv env reqID c r s =
     (case dispatch sv env c r s of
        (s', Inl e) \<Rightarrow> (s', Inl (Fail reqID e))
      | (s', Inr status) \<Rightarrow> (s', Inr status))"

definition serve :: "services \<Rightarrow> env \<Rightarrow> http_request \<Rightarrow> api \<Rightarrow> web \<Rightarrow> web \<times> (http_response + int)" where
  "serve sv env rq r s =
     (let c = rq_ctx rq; reqID = rq_RequestID rq; session = RequireAuth (sv_cfg sv) (sv_lib sv) (env_now env) reqID (rq_Authorization rq)
      in case guard_of r of
        Public \<Rightarrow> run_handler sv env reqID c r s
      | User \<Rightarrow>
          (case session of
             Inl resp \<Rightarrow> (s, Inl resp)
           | Inr (u, sid) \<Rightarrow> run_handler sv env reqID (c\<lparr>c_auth_user_id := u, c_auth_session_id := sid\<rparr>) r s)
      | Member perm \<Rightarrow>
          (case session of
             Inl resp \<Rightarrow> (s, Inl resp)
           | Inr (u, sid) \<Rightarrow>
               (case RequireProjectPermission (sv_parse sv) (fst s) perm reqID (c_Param c ''projectID'') u of
                  Inl resp \<Rightarrow> (s, Inl resp)
                | Inr _ \<Rightarrow> run_handler sv env reqID (c\<lparr>c_auth_user_id := u, c_auth_session_id := sid\<rparr>) r s))
      | DeviceToken \<Rightarrow>
          (case RequireDeviceAuth (fst s) reqID (rq_Authorization rq) of
             Inl resp \<Rightarrow> (s, Inl resp)
           | Inr d \<Rightarrow> run_handler sv env reqID
               (c\<lparr>c_device_id := uuid_String (dev_ID d), c_device_project_id := uuid_String (dev_ProjectID d)\<rparr>) r s))"

end
