(* ===== verification/Config.thy ===== *)
theory Config
  imports AuthService
begin

section \<open>Configuration (internal/config)\<close>

text \<open>
  \<open>Load\<close> as a function of the environment variables, with the functions of \<open>strconv\<close> and
  \<open>time\<close> that parse them. A variable that is not set reads as the empty string.
\<close>

type_synonym env_vars = "string \<Rightarrow> string"

subsection \<open>Parsing values\<close>

definition ParseBool :: "string \<Rightarrow> bool option" where
  "ParseBool s =
     (if s \<in> {''1'', ''t'', ''T'', ''TRUE'', ''true'', ''True''} then Some True
      else if s \<in> {''0'', ''f'', ''F'', ''FALSE'', ''false'', ''False''} then Some False else None)"

definition dec_digit :: "nat \<Rightarrow> bool" where
  "dec_digit c \<longleftrightarrow> 48 \<le> c \<and> c \<le> 57"

text \<open>\<open>leadingInt\<close> and \<open>leadingFraction\<close> of package \<open>time\<close>, on 64-bit values. The fraction stops
  growing when it would overflow.\<close>

fun leadingInt :: "nat list \<Rightarrow> nat \<Rightarrow> (nat \<times> nat list) option" where
  "leadingInt [] x = Some (x, [])"
| "leadingInt (c # cs) x =
     (if \<not> dec_digit c then Some (x, c # cs)
      else if x > 2 ^ 63 div 10 then None
      else let y = x * 10 + (c - 48) in if y > 2 ^ 63 then None else leadingInt cs y)"

fun leadingFraction :: "nat list \<Rightarrow> nat \<Rightarrow> nat \<Rightarrow> bool \<Rightarrow> nat \<times> nat \<times> nat list" where
  "leadingFraction [] x scale over = (x, scale, [])"
| "leadingFraction (c # cs) x scale over =
     (if \<not> dec_digit c then (x, scale, c # cs)
      else if over then leadingFraction cs x scale True
      else if x > (2 ^ 63 - 1) div 10 then leadingFraction cs x scale True
      else let y = x * 10 + (c - 48)
           in if y > 2 ^ 63 then leadingFraction cs x scale True else leadingFraction cs y (scale * 10) False)"

definition duration_unit :: "nat list \<Rightarrow> nat option" where
  "duration_unit u =
     (if u = codes ''ns'' then Some 1
      else if u = codes ''us'' \<or> u = [194, 181, 115] \<or> u = [206, 188, 115] then Some 1000
      else if u = codes ''ms'' then Some 1000000
      else if u = codes ''s'' then Some 1000000000
      else if u = codes ''m'' then Some 60000000000
      else if u = codes ''h'' then Some 3600000000000 else None)"

definition duration_fraction :: "nat list \<Rightarrow> nat \<times> nat \<times> nat list" where
  "duration_fraction s1 = (if s1 \<noteq> [] \<and> hd s1 = 46 then leadingFraction (tl s1) 0 1 False else (0, 1, s1))"

text \<open>One iteration of the loop of \<open>time.ParseDuration\<close>: the nanoseconds of the first number with
  its unit, and the rest. The fraction is exact here; the code computes it in \<open>float64\<close>.\<close>

definition duration_step :: "nat list \<Rightarrow> (nat \<times> nat list) option" where
  "duration_step s =
     (if s = [] \<or> \<not> (hd s = 46 \<or> dec_digit (hd s)) then None
      else case leadingInt s 0 of
        None \<Rightarrow> None
      | Some (v, s1) \<Rightarrow>
     (let (f, scale, s2) = duration_fraction s1;
          pre = (length s1 \<noteq> length s);
          post = (s1 \<noteq> [] \<and> hd s1 = 46 \<and> length s2 \<noteq> length (tl s1));
          u = takeWhile (\<lambda>c. \<not> (c = 46 \<or> dec_digit c)) s2;
          rest = dropWhile (\<lambda>c. \<not> (c = 46 \<or> dec_digit c)) s2
      in if \<not> pre \<and> \<not> post then None
         else if u = [] then None
         else case duration_unit u of
           None \<Rightarrow> None
         | Some unit \<Rightarrow>
             if v > 2 ^ 63 div unit then None
             else (let w = v * unit + (if f > 0 then f * unit div scale else 0)
                   in if w > 2 ^ 63 then None else Some (w, rest))))"

lemma leadingInt_length: "leadingInt s x = Some (y, r) \<Longrightarrow> length r \<le> length s"
  by (induction s x rule: leadingInt.induct) (auto simp: Let_def split: if_splits)

lemma leadingFraction_length: "leadingFraction s x k b = (y, k', r) \<Longrightarrow> length r \<le> length s"
proof (induction s arbitrary: x k b)
  case (Cons c cs)
  then show ?case by (auto simp: Let_def intro: le_SucI split: if_splits)
qed simp

lemma duration_step_length: "duration_step s = Some (w, r) \<Longrightarrow> length r < length s"
proof -
  assume d: "duration_step s = Some (w, r)"
  then obtain v s1 where i: "leadingInt s 0 = Some (v, s1)"
    by (auto simp: duration_step_def split: if_splits option.splits)
  obtain f k s2 where fs: "duration_fraction s1 = (f, k, s2)" by (cases "duration_fraction s1") auto
  let ?P = "\<lambda>c. \<not> (c = 46 \<or> dec_digit c)"
  from d have u: "takeWhile ?P s2 \<noteq> []" and r: "r = dropWhile ?P s2"
    unfolding duration_step_def i option.case prod.case fs Let_def by (auto split: if_splits option.splits)
  have "length (takeWhile ?P s2) + length r = length s2"
    unfolding r length_append [symmetric] takeWhile_dropWhile_id ..
  moreover have "length s2 \<le> length s1"
    using fs leadingFraction_length [of "tl s1" 0 1 False f k s2]
    by (cases s1) (auto simp: duration_fraction_def split: if_splits)
  moreover have "length s1 \<le> length s" by (rule leadingInt_length [OF i])
  ultimately show ?thesis using u by (cases "takeWhile ?P s2") auto
qed

function duration_loop :: "nat list \<Rightarrow> nat \<Rightarrow> nat option" where
  "duration_loop s d =
     (if s = [] then Some d
      else case duration_step s of
        None \<Rightarrow> None
      | Some (w, rest) \<Rightarrow> if d + w > 2 ^ 63 then None else duration_loop rest (d + w))"
  by pat_completeness auto
termination
  by (relation "measure (\<lambda>(s, d). length s)") (auto dest: duration_step_length)

definition ParseDuration :: "string \<Rightarrow> duration option" where
  "ParseDuration str =
     (let cs = codes str;
          neg = (cs \<noteq> [] \<and> hd cs = 45);
          s = (if cs \<noteq> [] \<and> (hd cs = 45 \<or> hd cs = 43) then tl cs else cs)
      in if s = [48] then Some 0
         else if s = [] then None
         else case duration_loop s 0 of
           None \<Rightarrow> None
         | Some d \<Rightarrow> if neg then Some (- int d) else if d > 2 ^ 63 - 1 then None else Some (int d))"

declare duration_loop.simps [simp del]

subsection \<open>Reading variables\<close>

definition getEnv :: "env_vars \<Rightarrow> string \<Rightarrow> string \<Rightarrow> string" where
  "getEnv vars key fallback = (if vars key = [] then fallback else vars key)"

text \<open>A value that cannot be parsed gives the default, like one that is not set.\<close>

definition getEnvInt64 :: "env_vars \<Rightarrow> string \<Rightarrow> int \<Rightarrow> int" where
  "getEnvInt64 vars key fallback =
     (if vars key = [] then fallback else case atoi (vars key) of None \<Rightarrow> fallback | Some v \<Rightarrow> v)"

definition getEnvInt :: "env_vars \<Rightarrow> string \<Rightarrow> int \<Rightarrow> int" where
  "getEnvInt vars key fallback =
     (if vars key = [] then fallback else case atoi (vars key) of None \<Rightarrow> fallback | Some v \<Rightarrow> v)"

definition getEnvBool :: "env_vars \<Rightarrow> string \<Rightarrow> bool \<Rightarrow> bool" where
  "getEnvBool vars key fallback =
     (if vars key = [] then fallback else case ParseBool (vars key) of None \<Rightarrow> fallback | Some v \<Rightarrow> v)"

definition getEnvDuration :: "env_vars \<Rightarrow> string \<Rightarrow> duration \<Rightarrow> duration" where
  "getEnvDuration vars key fallback =
     (if vars key = [] then fallback else case ParseDuration (vars key) of None \<Rightarrow> fallback | Some v \<Rightarrow> v)"

definition splitAndTrim :: "string \<Rightarrow> string list" where
  "splitAndTrim input = filter (\<lambda>p. p \<noteq> []) (map trim_space (split_char (CHR '','') input))"

definition getEnvCSV :: "env_vars \<Rightarrow> string \<Rightarrow> string list \<Rightarrow> string list" where
  "getEnvCSV vars key fallback = (if vars key = [] then fallback else splitAndTrim (vars key))"

subsection \<open>The configuration\<close>

record http_config =
  hc_Port :: string
  hc_ReadTimeout :: duration
  hc_WriteTimeout :: duration
  hc_ShutdownTimeout :: duration
  hc_CORSOrigins :: "string list"

record db_config =
  dc_Host :: string
  dc_Port :: int
  dc_User :: string
  dc_Password :: string
  dc_Name :: string
  dc_SSLMode :: string
  dc_MaxOpenConns :: int
  dc_MaxIdleConns :: int
  dc_ConnMaxLifetime :: duration
  dc_ConnMaxIdleTime :: duration
  dc_AutoMigrate :: bool
  dc_TablePrefix :: string

record storage_config =
  sc_Provider :: string
  sc_BasePath :: string
  sc_Bucket :: string
  sc_FirmwareMaxUploadBytes :: int

record device_ota_config =
  oc_TCPListenAddr :: string
  oc_DownloadTokenTTL :: duration
  oc_PublicDownloadBaseURL :: string

record config =
  cfg_App :: "string \<times> string"
  cfg_HTTP :: http_config
  cfg_DB :: db_config
  cfg_Auth :: auth_config
  cfg_Mail :: "string \<times> string"
  cfg_Storage :: storage_config
  cfg_RateLimit :: "bool \<times> int"
  cfg_DeviceOTA :: device_ota_config

definition Validate :: "config \<Rightarrow> err + unit" where
  "Validate c =
     (if hc_Port (cfg_HTTP c) = [] then Inl (ErrMsg ''HTTP_PORT must not be empty'')
      else if dc_Host (cfg_DB c) = [] \<or> dc_User (cfg_DB c) = [] \<or> dc_Name (cfg_DB c) = []
      then Inl (ErrMsg ''database host, user, and name are required'')
      else if sc_FirmwareMaxUploadBytes (cfg_Storage c) < 0
      then Inl (ErrMsg ''FIRMWARE_MAX_UPLOAD_BYTES must not be negative'')
      else Inr ())"

definition load_auth :: "env_vars \<Rightarrow> auth_config" where
  "load_auth vars =
     \<lparr>cfg_JWTIssuer = getEnv vars ''AUTH_JWT_ISSUER'' ''firmflow'',
      cfg_JWTSecret = getEnv vars ''AUTH_JWT_SECRET'' ''change-me-in-production'',
      cfg_AccessTokenTTL = getEnvDuration vars ''AUTH_ACCESS_TOKEN_TTL'' (15 * time_Minute),
      cfg_RefreshTokenTTL = getEnvDuration vars ''AUTH_REFRESH_TOKEN_TTL'' (720 * time_Hour),
      cfg_BcryptCost = getEnvInt vars ''AUTH_BCRYPT_COST'' 12,
      cfg_EnableTOTP = getEnvBool vars ''AUTH_ENABLE_TOTP'' True,
      cfg_TOTPEncryptionKey = getEnv vars ''AUTH_TOTP_ENCRYPTION_KEY'' ''01234567890123456789012345678901'',
      cfg_MaxLoginAttempts = getEnvInt vars ''AUTH_MAX_LOGIN_ATTEMPTS'' 5,
      cfg_LoginAttemptWindow = getEnvDuration vars ''AUTH_LOGIN_ATTEMPT_WINDOW'' (15 * time_Minute)\<rparr>"

definition load_http :: "env_vars \<Rightarrow> http_config" where
  "load_http vars =
     \<lparr>hc_Port = getEnv vars ''HTTP_PORT'' ''8080'',
      hc_ReadTimeout = getEnvDuration vars ''HTTP_READ_TIMEOUT'' (15 * time_Second),
      hc_WriteTimeout = getEnvDuration vars ''HTTP_WRITE_TIMEOUT'' (15 * time_Second),
      hc_ShutdownTimeout = getEnvDuration vars ''HTTP_SHUTDOWN_TIMEOUT'' (15 * time_Second),
      hc_CORSOrigins = getEnvCSV vars ''CORS_ALLOWED_ORIGINS'' [''*'']\<rparr>"

definition load_db :: "env_vars \<Rightarrow> db_config" where
  "load_db vars =
     \<lparr>dc_Host = getEnv vars ''DB_HOST'' ''localhost'', dc_Port = getEnvInt vars ''DB_PORT'' 5432,
      dc_User = getEnv vars ''DB_USER'' ''postgres'', dc_Password = getEnv vars ''DB_PASSWORD'' ''postgres'',
      dc_Name = getEnv vars ''DB_NAME'' ''firmflow'', dc_SSLMode = getEnv vars ''DB_SSL_MODE'' ''disable'',
      dc_MaxOpenConns = getEnvInt vars ''DB_MAX_OPEN_CONNS'' 25,
      dc_MaxIdleConns = getEnvInt vars ''DB_MAX_IDLE_CONNS'' 5,
      dc_ConnMaxLifetime = getEnvDuration vars ''DB_CONN_MAX_LIFETIME'' (15 * time_Minute),
      dc_ConnMaxIdleTime = getEnvDuration vars ''DB_CONN_MAX_IDLE_TIME'' (5 * time_Minute),
      dc_AutoMigrate = getEnvBool vars ''DB_AUTO_MIGRATE'' False,
      dc_TablePrefix = getEnv vars ''DB_TABLE_PREFIX'' []\<rparr>"

definition load_storage :: "env_vars \<Rightarrow> storage_config" where
  "load_storage vars =
     \<lparr>sc_Provider = getEnv vars ''STORAGE_PROVIDER'' ''local'',
      sc_BasePath = getEnv vars ''STORAGE_BASE_PATH'' ''./tmp/storage'',
      sc_Bucket = getEnv vars ''STORAGE_BUCKET'' [],
      sc_FirmwareMaxUploadBytes = getEnvInt64 vars ''FIRMWARE_MAX_UPLOAD_BYTES'' 67108864\<rparr>"

definition load_device_ota :: "env_vars \<Rightarrow> device_ota_config" where
  "load_device_ota vars =
     \<lparr>oc_TCPListenAddr = getEnv vars ''DEVICE_OTA_TCP_ADDR'' [],
      oc_DownloadTokenTTL = getEnvDuration vars ''OTA_DOWNLOAD_TOKEN_TTL'' (20 * time_Minute),
      oc_PublicDownloadBaseURL = trim_right_slash (trim_space (getEnv vars ''PUBLIC_HTTP_BASE_URL'' []))\<rparr>"

definition Load :: "env_vars \<Rightarrow> err + config" where
  "Load vars =
     (let cfg = \<lparr>cfg_App = (getEnv vars ''APP_NAME'' ''firmflow-api'', getEnv vars ''APP_ENV'' ''development''),
                 cfg_HTTP = load_http vars, cfg_DB = load_db vars, cfg_Auth = load_auth vars,
                 cfg_Mail = (getEnv vars ''MAIL_PROVIDER'' ''noop'',
                             getEnv vars ''MAIL_FROM_ADDRESS'' ''noreply@firmflow.local''),
                 cfg_Storage = load_storage vars,
                 cfg_RateLimit = (getEnvBool vars ''RATE_LIMIT_ENABLED'' True,
                                  getEnvInt vars ''RATE_LIMIT_REQUESTS_PER_MINUTE'' 120),
                 cfg_DeviceOTA = load_device_ota vars\<rparr>
      in case Validate cfg of Inl e \<Rightarrow> Inl e | Inr _ \<Rightarrow> Inr cfg)"

end
