(* ===== verification/Bootstrap.thy ===== *)
theory Bootstrap
  imports Config Routes TcpHandler Roles DeviceCatalog
begin

section \<open>Bootstrap (internal/bootstrap, internal/database, server.go)\<close>

text \<open>
  How the program is put together from its configuration: the data source name, the object store,
  the migrations with their seeding, the services the routes and the TCP server are built with, and
  the order of the shutdown. The environment variables, the outcome of connecting to the database
  and of gorm's \<open>AutoMigrate\<close>, and the working directory are arguments.
\<close>

text \<open>\<open>fmt.Errorf("...: \%w", err)\<close>, or an error of its own.\<close>

datatype boot_error = Failure err | Wrapped string boot_error | Plain string | UnsupportedProvider string

subsection \<open>The database (database/postgres.go)\<close>

text \<open>\<open>\%d\<close> of \<open>fmt\<close>.\<close>

fun nat_digits :: "nat \<Rightarrow> string" where
  "nat_digits n = (if n < 10 then [char_of (48 + n)] else nat_digits (n div 10) @ [char_of (48 + n mod 10)])"

declare nat_digits.simps [simp del]

definition format_int :: "int \<Rightarrow> string" where
  "format_int i = (if i < 0 then ''-'' @ nat_digits (nat (- i)) else nat_digits (nat i))"

definition postgres_dsn :: "db_config \<Rightarrow> string" where
  "postgres_dsn cfg =
     ''host='' @ dc_Host cfg @ '' port='' @ format_int (dc_Port cfg) @ '' user='' @ dc_User cfg
       @ '' password='' @ dc_Password cfg @ '' dbname='' @ dc_Name cfg @ '' sslmode='' @ dc_SSLMode cfg
       @ '' timezone=UTC''"

text \<open>\<open>gorm.Open\<close> gives the database as it is, or an error; the connection has a handle of
  \<open>database/sql\<close>, or its access fails.\<close>

type_synonym connector = "string \<Rightarrow> string \<Rightarrow> err + db \<times> err option"

record pool =
  MaxOpenConns :: int
  MaxIdleConns :: int
  ConnMaxLifetime :: duration
  ConnMaxIdleTime :: duration

definition NewPostgres :: "connector \<Rightarrow> db_config \<Rightarrow> boot_error + db \<times> pool" where
  "NewPostgres connect cfg =
     (case connect (postgres_dsn cfg) (dc_TablePrefix cfg) of
        Inl e \<Rightarrow> Inl (Wrapped ''open postgres connection: '' (Failure e))
      | Inr (db, Some e) \<Rightarrow> Inl (Wrapped ''get generic db handle: '' (Failure e))
      | Inr (db, None) \<Rightarrow>
          Inr (db, \<lparr>MaxOpenConns = dc_MaxOpenConns cfg, MaxIdleConns = dc_MaxIdleConns cfg,
                    ConnMaxLifetime = dc_ConnMaxLifetime cfg, ConnMaxIdleTime = dc_ConnMaxIdleTime cfg\<rparr>))"

subsection \<open>Migrations (database/migrator.go and the Migrators of the models)\<close>

type_synonym migrator = "db \<Rightarrow> db \<times> (err + unit)"

fun CompositeMigrate :: "migrator list \<Rightarrow> migrator" where
  "CompositeMigrate [] db = (db, Inr ())"
| "CompositeMigrate (m # ms) db =
     (case m db of
        (db1, Inl e) \<Rightarrow> (db1, Inl e)
      | (db1, Inr _) \<Rightarrow> CompositeMigrate ms db1)"

definition RunMigrations :: "migrator \<Rightarrow> migrator" where
  "RunMigrations m db = m db"

text \<open>\<open>AutoMigrate\<close> creates what the data model describes; its outcome, per package, is an argument.
  The errors of the statements that create partial indexes are dropped.\<close>

type_synonym automigrate = "string \<Rightarrow> err + unit"

definition tables_only :: "automigrate \<Rightarrow> string \<Rightarrow> migrator" where
  "tables_only auto pkg db = (db, auto pkg)"

definition auth_Migrate :: "automigrate \<Rightarrow> migrator" where
  "auth_Migrate auto = tables_only auto ''auth''"

definition project_Migrate :: "automigrate \<Rightarrow> migrator" where
  "project_Migrate auto = tables_only auto ''project''"

definition firmware_Migrate :: "automigrate \<Rightarrow> migrator" where
  "firmware_Migrate auto = tables_only auto ''firmware''"

definition campaign_Migrate :: "automigrate \<Rightarrow> migrator" where
  "campaign_Migrate auto = tables_only auto ''campaign''"

definition rbac_Migrate :: "automigrate \<Rightarrow> env \<Rightarrow> migrator" where
  "rbac_Migrate auto env db =
     (case auto ''rbac'' of Inl e \<Rightarrow> (db, Inl e) | Inr _ \<Rightarrow> SeedRegistry env db)"

definition device_Migrate :: "automigrate \<Rightarrow> env \<Rightarrow> migrator" where
  "device_Migrate auto env db =
     (case auto ''device'' of Inl e \<Rightarrow> (db, Inl e) | Inr _ \<Rightarrow> SeedPredefinedDeviceTypes env db)"

text \<open>The migrators of \<open>New\<close>, in order, each with the clock and the identifiers it draws.\<close>

definition app_migrators :: "automigrate \<Rightarrow> env \<Rightarrow> env \<Rightarrow> migrator list" where
  "app_migrators auto env1 env2 =
     [auth_Migrate auto, rbac_Migrate auto env1, project_Migrate auto, device_Migrate auto env2,
      firmware_Migrate auto, campaign_Migrate auto]"

subsection \<open>The object store (platform/storage/local.go)\<close>

definition filepath_Abs :: "path \<Rightarrow> string \<Rightarrow> path" where
  "filepath_Abs cwd s =
     (if has_prefix s ''/'' then clean_path [] (split_char (CHR ''/'') s)
      else clean_path [] (cwd @ split_char (CHR ''/'') s))"

definition NewLocalObjectStore :: "path \<Rightarrow> string \<Rightarrow> store \<Rightarrow> store \<times> (boot_error + path)" where
  "NewLocalObjectStore cwd baseDir st =
     (if baseDir = [] then (st, Inl (Plain ''storage base path is empty''))
      else
        (let full = filepath_Abs cwd baseDir
         in if \<exists>d \<in> set (dirs_of full @ [full]). lookup_file st d \<noteq> None
            then (st, Inl (Wrapped ''mkdir storage base: '' (Failure (ErrMsg ''not a directory''))))
            else (st\<lparr>st_dirs := dirs_of full @ [full] @ st_dirs st\<rparr>, Inr full)))"

subsection \<open>Middleware that configures a library (cors.go, recovery.go, logging.go)\<close>

record cors_config =
  AllowOrigins :: "string list"
  AllowMethods :: "string list"
  AllowHeaders :: "string list"
  ExposeHeaders :: "string list"
  AllowCredentials :: bool
  MaxAge :: duration

definition CORS :: "string list \<Rightarrow> cors_config" where
  "CORS origins =
     \<lparr>AllowOrigins = origins, AllowMethods = [''GET'', ''POST'', ''PUT'', ''PATCH'', ''DELETE'', ''OPTIONS''],
      AllowHeaders = [''Authorization'', ''Content-Type'', ''X-Request-ID''], ExposeHeaders = [''X-Request-ID''],
      AllowCredentials = True, MaxAge = 12 * time_Hour\<rparr>"

text \<open>A panic of a handler, with its printed value, is answered like an error that is no \<open>AppError\<close>.\<close>

definition Recovery :: "string option \<Rightarrow> string \<Rightarrow> http_response" where
  "Recovery reqID recovered = Fail reqID (ErrMsg (''panic: '' @ recovered))"

text \<open>\<open>logger.New\<close>: production logs do not go below \<open>Info\<close>; all others start at \<open>Debug\<close>.\<close>

datatype log_level = LogDebug | LogInfo | LogError

definition logger_level :: "string \<Rightarrow> log_level" where
  "logger_level e = (if e = ''production'' then LogInfo else LogDebug)"

definition Logging :: "err list \<Rightarrow> log_level \<times> string" where
  "Logging errs =
     (if errs \<noteq> [] then (LogError, ''request completed with errors'') else (LogInfo, ''request completed''))"

subsection \<open>The application (bootstrap/app.go)\<close>

record app =
  app_Config :: config
  app_Log :: log_level
  app_DB :: pool
  app_services :: services
  app_cors :: cors_config
  app_Addr :: string
  app_ReadTimeout :: duration
  app_WriteTimeout :: duration
  app_SchedInterval :: duration
  app_OTA :: "(string \<times> tcp_handler) option"

text \<open>The services, from the libraries and the configuration.\<close>

definition build_services :: "services \<Rightarrow> config \<Rightarrow> path \<Rightarrow> services" where
  "build_services libs cfg base =
     libs\<lparr>sv_cfg := cfg_Auth cfg, sv_base := base,
          sv_fw := fw_New (sc_FirmwareMaxUploadBytes (cfg_Storage cfg)) (sc_Provider (cfg_Storage cfg))\<rparr>"

definition unsupported_provider :: "string \<Rightarrow> bool" where
  "unsupported_provider provider \<longleftrightarrow> (let p = to_lower (trim_space provider) in p \<noteq> [] \<and> p \<noteq> ''local'')"

definition ota_server :: "device_ota_config \<Rightarrow> (string \<times> tcp_handler) option" where
  "ota_server cfg =
     (let addr = trim_space (oc_TCPListenAddr cfg)
      in if addr \<noteq> []
         then Some (addr, \<lparr>h_CampaignSvc = True, h_FirmwareSvc = True,
                           h_PublicDownloadBaseURL = oc_PublicDownloadBaseURL cfg, h_TokenTTL = oc_DownloadTokenTTL cfg\<rparr>)
         else None)"

definition build_app :: "services \<Rightarrow> config \<Rightarrow> pool \<Rightarrow> path \<Rightarrow> app" where
  "build_app libs cfg conns base =
     \<lparr>app_Config = cfg, app_Log = logger_level (snd (cfg_App cfg)), app_DB = conns, app_services = build_services libs cfg base, app_cors = CORS (hc_CORSOrigins (cfg_HTTP cfg)),
      app_Addr = '':'' @ hc_Port (cfg_HTTP cfg), app_ReadTimeout = hc_ReadTimeout (cfg_HTTP cfg),
      app_WriteTimeout = hc_WriteTimeout (cfg_HTTP cfg), app_SchedInterval = 30 * time_Second,
      app_OTA = ota_server (cfg_DeviceOTA cfg)\<rparr>"

definition migrate :: "automigrate \<Rightarrow> env \<Rightarrow> env \<Rightarrow> db_config \<Rightarrow> migrator" where
  "migrate auto env1 env2 cfg db =
     (if dc_AutoMigrate cfg then RunMigrations (CompositeMigrate (app_migrators auto env1 env2)) db
      else (db, Inr ()))"

text \<open>\<open>New\<close>: the database (if the connection was opened), the files, and the application or the
  error.\<close>

definition New :: "services \<Rightarrow> connector \<Rightarrow> automigrate \<Rightarrow> path \<Rightarrow> env \<Rightarrow> env \<Rightarrow> env_vars \<Rightarrow> store
     \<Rightarrow> (db option \<times> store) \<times> (boot_error + app)" where
  "New libs connect auto cwd env1 env2 vars st =
     (case Load vars of
        Inl e \<Rightarrow> ((None, st), Inl (Wrapped ''load config: '' (Failure e)))
      | Inr cfg \<Rightarrow>
     (case NewPostgres connect (cfg_DB cfg) of
        Inl e \<Rightarrow> ((None, st), Inl (Wrapped ''connect database: '' e))
      | Inr (db, conns) \<Rightarrow>
     (case NewLocalObjectStore cwd (sc_BasePath (cfg_Storage cfg)) st of
        (st1, Inl e) \<Rightarrow> ((Some db, st1), Inl (Wrapped ''storage: '' e))
      | (st1, Inr base) \<Rightarrow>
          if unsupported_provider (sc_Provider (cfg_Storage cfg))
          then ((Some db, st1), Inl (UnsupportedProvider (sc_Provider (cfg_Storage cfg))))
          else
     (case migrate auto env1 env2 (cfg_DB cfg) db of
        (db1, Inl e) \<Rightarrow> ((Some db1, st1), Inl (Wrapped ''run migrations: '' (Failure e)))
      | (db1, Inr _) \<Rightarrow> ((Some db1, st1), Inr (build_app libs cfg conns base))))))"

subsection \<open>Serving and shutting down (server.go, main.go)\<close>

text \<open>What \<open>Accept\<close> returns: a connection, or an error with whether the context was cancelled by
  then. \<open>Serve\<close> starts one \<open>ServeConn\<close> per connection.\<close>

datatype 'c accept = Accepted 'c | AcceptFailed bool err

fun accept_loop :: "'c accept list \<Rightarrow> 'c list \<times> (err + unit)" where
  "accept_loop [] = ([], Inr ())"
| "accept_loop (Accepted c # rest) = (let (cs, r) = accept_loop rest in (c # cs, r))"
| "accept_loop (AcceptFailed cancelled e # rest) = ([], if cancelled then Inr () else Inl e)"

definition Serve :: "tcp_handler option \<Rightarrow> err + 'c accept list \<Rightarrow> 'c list \<times> (err + unit)" where
  "Serve h listener =
     (case h of
        None \<Rightarrow> ([], Inl (ErrMsg ''devotcp: nil handler''))
      | Some _ \<Rightarrow> (case listener of Inl e \<Rightarrow> ([], Inl e) | Inr accepts \<Rightarrow> accept_loop accepts))"

datatype shutdown_action =
    CancelScheduler | CancelOTA | WaitOTA | ShutdownHTTP duration | CloseDB

definition StopSchedulers :: "app \<Rightarrow> shutdown_action list" where
  "StopSchedulers a = [CancelScheduler]"

definition StopOTA :: "app \<Rightarrow> shutdown_action list" where
  "StopOTA a = (if app_OTA a \<noteq> None then [CancelOTA, WaitOTA] else [])"

text \<open>\<open>main\<close> after a signal; the database is closed when \<open>main\<close> returns, also after a failed
  shutdown of the HTTP server.\<close>

definition shutdown :: "app \<Rightarrow> shutdown_action list" where
  "shutdown a =
     StopSchedulers a @ StopOTA a @ [ShutdownHTTP (hc_ShutdownTimeout (cfg_HTTP (app_Config a)))] @ [CloseDB]"

end
