(* ===== verification/Tenancy.thy ===== *)
theory Tenancy
  imports Rbac DeviceRepo Firmware AuthRepo CampaignLifecycle
begin

section \<open>The database as a whole: its constraints and its tenants\<close>

text \<open>
  The constraints every table keeps (\<open>schema_ok\<close>: the primary keys, unique and partial unique indexes
  of all the models, the normal forms of the stored rows, the references, an owner for every project), what of the
  database does not belong to a project (\<open>elsewhere\<close>), and the relation \<open>pstep\<close> of a step that
  works for one project: it keeps the constraints and leaves alone what is elsewhere. One rule per
  table proves it of an update; the components prove it of their operations.
\<close>

subsection \<open>Constraints\<close>

text \<open>A partial unique index is the key of the rows it covers. The index on the names of custom roles
  is \<open>idx_roles_custom_name_per_project\<close>; rows with a NULL in an index column do not exclude each other.\<close>

definition custom_role :: "role \<Rightarrow> bool" where
  "custom_role r \<longleftrightarrow> \<not> role_IsPredefined r \<and> role_ProjectID r \<noteq> None \<and> role_DeletedAt r = None"

definition roles_ok :: "role list \<Rightarrow> bool" where
  "roles_ok t \<longleftrightarrow> keyed role_ID t
     \<and> keyed role_Slug (filter (\<lambda>r. role_IsPredefined r \<and> role_DeletedAt r = None) t)
     \<and> keyed (\<lambda>r. (role_ProjectID r, role_NameNormalized r)) (filter custom_role t)
     \<and> (\<forall>r \<in> set t. role_IsPredefined r \<longrightarrow> role_ProjectID r = None)"

text \<open>\<open>idx_device_types_predefined_name\<close> and \<open>idx_device_types_custom_name_per_project\<close>.\<close>

definition predefined_type :: "device_type \<Rightarrow> bool" where
  "predefined_type t \<longleftrightarrow> dt_IsPredefined t \<and> dt_ProjectID t = None \<and> dt_DeletedAt t = None"

definition custom_type :: "device_type \<Rightarrow> bool" where
  "custom_type t \<longleftrightarrow> \<not> dt_IsPredefined t \<and> dt_ProjectID t \<noteq> None \<and> dt_DeletedAt t = None"

definition types_ok :: "device_type list \<Rightarrow> bool" where
  "types_ok t \<longleftrightarrow> keyed dt_ID t \<and> keyed dt_NameNormalized (filter predefined_type t)
     \<and> keyed (\<lambda>x. (dt_ProjectID x, dt_NameNormalized x)) (filter custom_type t)"

text \<open>\<open>idx_device_groups_name_per_project\<close>; the members of groups have a composite primary key.\<close>

definition groups_ok :: "device_group list \<Rightarrow> bool" where
  "groups_ok t \<longleftrightarrow> keyed grp_ID t
     \<and> keyed (\<lambda>g. (grp_ProjectID g, grp_NameNormalized g)) (filter (\<lambda>g. grp_DeletedAt g = None) t)"

definition gm_key :: "group_membership \<Rightarrow> uuid \<times> uuid" where
  "gm_key m = (gm_DeviceGroupID m, gm_DeviceID m)"

definition ft_key :: "firmware_type \<Rightarrow> uuid \<times> uuid" where
  "ft_key t = (ft_FirmwareID t, ft_DeviceTypeID t)"

definition tg_key :: "target_group \<Rightarrow> uuid \<times> uuid" where
  "tg_key t = (tg_CampaignID t, tg_DeviceGroupID t)"

definition td_key :: "target_device \<Rightarrow> uuid \<times> uuid" where
  "td_key t = (td_CampaignID t, td_DeviceID t)"

definition members_ok :: "membership list \<Rightarrow> bool" where
  "members_ok t \<longleftrightarrow> keyed mem_ID t \<and> keyed (\<lambda>m. (mem_ProjectID m, mem_UserID m)) t"

text \<open>A device is stored with its hardware identifier in normal form, unique in its project.\<close>

definition devices_ok :: "device list \<Rightarrow> bool" where
  "devices_ok t \<longleftrightarrow> keyed dev_ID t \<and> keyed (\<lambda>d. (dev_ProjectID d, dev_HardwareIdentifierNorm d)) t
     \<and> (\<forall>d \<in> set t. dev_HardwareIdentifierNorm d = normalizeHardwareIdentifier (dev_HardwareIdentifier d))"

definition tokens_ok :: "auth_token list \<Rightarrow> bool" where
  "tokens_ok t \<longleftrightarrow> keyed tok_ID t \<and> keyed tok_TokenHash t"

definition ota_tokens_ok :: "ota_token list \<Rightarrow> bool" where
  "ota_tokens_ok t \<longleftrightarrow> keyed ota_ID t \<and> keyed ota_TokenHash t"

text \<open>A firmware is stored with its normalised version, under the key of its project and id, with
  a checksum of 64 digits and at least one byte.\<close>

definition firmware_row_ok :: "firmware \<Rightarrow> bool" where
  "firmware_row_ok f \<longleftrightarrow> fw_VersionNormalized f = normalizeVersion (fw_Version f)
     \<and> fw_StorageKey f = FirmwareStorageKey (fw_ProjectID f) (fw_ID f)
     \<and> length (fw_ChecksumSHA256 f) = 64 \<and> fw_FileSizeBytes f \<noteq> 0 \<and> length (fw_OriginalFilename f) \<le> 255"

definition firmwares_ok :: "firmware list \<Rightarrow> bool" where
  "firmwares_ok t \<longleftrightarrow> keyed fw_ID t
     \<and> keyed (\<lambda>f. (fw_ProjectID f, fw_VersionNormalized f)) (filter (\<lambda>f. fw_DeletedAt f = None) t)
     \<and> keyed fw_StorageKey (filter (\<lambda>f. fw_DeletedAt f = None) t)
     \<and> (\<forall>f \<in> set t. firmware_row_ok f)"

definition campaigns_ok :: "campaign list \<Rightarrow> assignment list \<Rightarrow> bool" where
  "campaigns_ok cs as \<longleftrightarrow> keyed camp_ID cs \<and> keyed asg_key as \<and> (\<forall>a \<in> set as. \<exists>c \<in> set cs. camp_ID c = asg_CampaignID a)"

definition users_ok :: "user list \<Rightarrow> bool" where
  "users_ok t \<longleftrightarrow> keyed user_ID t \<and> keyed user_Email t"

definition sessions_ok :: "auth_session list \<Rightarrow> bool" where
  "sessions_ok t \<longleftrightarrow> keyed ses_ID t \<and> keyed ses_RefreshTokenHash t"

definition one_time_ok :: "one_time_token list \<Rightarrow> bool" where
  "one_time_ok t \<longleftrightarrow> keyed ott_ID t \<and> keyed ott_TokenHash t"

definition throttles_ok :: "auth_throttle list \<Rightarrow> bool" where
  "throttles_ok t \<longleftrightarrow> keyed thr_ID t \<and> keyed thr_EmailKey t"

definition profiles_ok :: "user_profile list \<Rightarrow> bool" where
  "profiles_ok t \<longleftrightarrow> keyed prof_ID t \<and> keyed prof_UserID t"

definition two_factors_ok :: "two_factor list \<Rightarrow> bool" where
  "two_factors_ok t \<longleftrightarrow> keyed tf_ID t \<and> keyed tf_UserID t"

definition recovery_ok :: "recovery_code list \<Rightarrow> bool" where
  "recovery_ok t \<longleftrightarrow> keyed rc_ID t \<and> keyed rc_CodeHash t"

definition permissions_ok :: "permission list \<Rightarrow> bool" where
  "permissions_ok t \<longleftrightarrow> keyed perm_ID t \<and> keyed perm_Key t"

text \<open>A member of the project with the owner role that no deletion has removed.\<close>

definition owner_role :: "role list \<Rightarrow> role \<Rightarrow> bool" where
  "owner_role rs r \<longleftrightarrow> r \<in> set rs \<and> role_DeletedAt r = None \<and> role_IsPredefined r \<and> role_Slug r = SlugOwner"

definition owns :: "role list \<Rightarrow> membership \<Rightarrow> bool" where
  "owns rs m \<longleftrightarrow> (\<exists>r. owner_role rs r \<and> role_ID r = mem_RoleID m)"

definition owned :: "project list \<Rightarrow> membership list \<Rightarrow> role list \<Rightarrow> bool" where
  "owned ps ms rs \<longleftrightarrow> (\<forall>p \<in> set ps. \<exists>m \<in> set ms. mem_ProjectID m = proj_ID p \<and> owns rs m)"

text \<open>The foreign keys of the models: a membership to its project and its role, a permission of a role to
  both, a profile to its user (assignments and their campaigns are in \<open>campaigns_ok\<close>).\<close>

definition member_refs :: "project list \<Rightarrow> role list \<Rightarrow> membership list \<Rightarrow> bool" where
  "member_refs ps rs ms \<longleftrightarrow> (\<forall>m \<in> set ms. mem_ProjectID m \<in> proj_ID ` set ps \<and> mem_RoleID m \<in> role_ID ` set rs)"

definition permission_refs :: "role list \<Rightarrow> permission list \<Rightarrow> (uuid \<times> uuid) list \<Rightarrow> bool" where
  "permission_refs rs perms t \<longleftrightarrow> (\<forall>rp \<in> set t. fst rp \<in> role_ID ` set rs \<and> snd rp \<in> perm_ID ` set perms)"

definition profile_refs :: "user list \<Rightarrow> user_profile list \<Rightarrow> bool" where
  "profile_refs us t \<longleftrightarrow> (\<forall>p \<in> set t. prof_UserID p \<in> user_ID ` set us)"

definition refs_ok :: "db \<Rightarrow> bool" where
  "refs_ok db \<longleftrightarrow> member_refs (db_projects db) (db_roles db) (db_members db)
     \<and> permission_refs (db_roles db) (db_permissions db) (db_role_permissions db)
     \<and> profile_refs (db_users db) (db_profiles db)"

lemma member_refs_mono:
  "member_refs ps rs t \<Longrightarrow> proj_ID ` set ps \<subseteq> proj_ID ` set ps' \<Longrightarrow> role_ID ` set rs \<subseteq> role_ID ` set rs' \<Longrightarrow> member_refs ps' rs' t"
  unfolding member_refs_def by blast

lemma permission_refs_mono:
  "permission_refs rs perms t \<Longrightarrow> role_ID ` set rs \<subseteq> role_ID ` set rs' \<Longrightarrow> perm_ID ` set perms \<subseteq> perm_ID ` set perms'
   \<Longrightarrow> permission_refs rs' perms' t"
  unfolding permission_refs_def by blast

lemma profile_refs_mono: "profile_refs us t \<Longrightarrow> user_ID ` set us \<subseteq> user_ID ` set us' \<Longrightarrow> profile_refs us' t"
  unfolding profile_refs_def by blast

lemma ids_snoc: "k ` set t \<subseteq> k ` set (t @ [r])" by auto

lemma ids_update_where: "(\<And>r. k (f r) = k r) \<Longrightarrow> k ` set t \<subseteq> k ` set (update_where P f t)"
  by (induction t) auto

lemmas refs_defs = refs_ok_def member_refs_def permission_refs_def profile_refs_def

definition schema_ok :: "db \<Rightarrow> bool" where
  "schema_ok db \<longleftrightarrow>
     roles_ok (db_roles db) \<and> keyed proj_ID (db_projects db) \<and> members_ok (db_members db)
   \<and> owned (db_projects db) (db_members db) (db_roles db)
   \<and> devices_ok (db_devices db) \<and> types_ok (db_device_types db) \<and> tokens_ok (db_auth_tokens db)
   \<and> groups_ok (db_groups db) \<and> ota_tokens_ok (db_ota_tokens db) \<and> firmwares_ok (db_firmwares db)
   \<and> campaigns_ok (db_campaigns db) (db_assignments db) \<and> users_ok (db_users db)
   \<and> sessions_ok (db_sessions db) \<and> one_time_ok (db_email_tokens db) \<and> one_time_ok (db_reset_tokens db)
   \<and> throttles_ok (db_throttles db) \<and> two_factors_ok (db_two_factors db)
   \<and> permissions_ok (db_permissions db)
   \<and> distinct (db_role_permissions db) \<and> keyed upd_ID (db_update_reports db) \<and> keyed log_ID (db_conn_logs db)
   \<and> keyed blk_ID (db_block_events db) \<and> keyed gm_key (db_group_members db)
   \<and> keyed ft_key (db_firmware_types db) \<and> keyed tg_key (db_target_groups db) \<and> keyed td_key (db_target_devices db)
   \<and> profiles_ok (db_profiles db) \<and> recovery_ok (db_recovery_codes db) \<and> keyed aud_ID (db_audit_logs db)
   \<and> refs_ok db"

text \<open>All the constraints, for checking a concrete database.\<close>

lemmas constraint_defs = roles_ok_def custom_role_def members_ok_def devices_ok_def types_ok_def predefined_type_def custom_type_def
  groups_ok_def gm_key_def ft_key_def tg_key_def td_key_def tokens_ok_def ota_tokens_ok_def firmware_row_ok_def firmwares_ok_def
  campaigns_ok_def users_ok_def sessions_ok_def one_time_ok_def throttles_ok_def profiles_ok_def two_factors_ok_def
  recovery_ok_def permissions_ok_def refs_defs

lemma schema_camp_wf: "schema_ok db \<Longrightarrow> camp_wf db"
  by (simp add: schema_ok_def campaigns_ok_def camp_wf_def)

subsection \<open>What is elsewhere\<close>

text \<open>The ids of the devices, groups, roles, firmwares and campaigns of other projects.\<close>

definition foreign_device :: "uuid \<Rightarrow> db \<Rightarrow> uuid \<Rightarrow> bool" where
  "foreign_device pid db i \<longleftrightarrow> i \<in> dev_ID ` set (filter (\<lambda>d. dev_ProjectID d \<noteq> pid) (db_devices db))"

definition foreign_group :: "uuid \<Rightarrow> db \<Rightarrow> uuid \<Rightarrow> bool" where
  "foreign_group pid db i \<longleftrightarrow> i \<in> grp_ID ` set (filter (\<lambda>g. grp_ProjectID g \<noteq> pid) (db_groups db))"

definition foreign_role :: "uuid \<Rightarrow> db \<Rightarrow> uuid \<Rightarrow> bool" where
  "foreign_role pid db i \<longleftrightarrow> i \<in> role_ID ` set (filter (\<lambda>r. role_ProjectID r \<noteq> Some pid) (db_roles db))"

definition foreign_firmware :: "uuid \<Rightarrow> db \<Rightarrow> uuid \<Rightarrow> bool" where
  "foreign_firmware pid db i \<longleftrightarrow> i \<in> fw_ID ` set (filter (\<lambda>f. fw_ProjectID f \<noteq> pid) (db_firmwares db))"

definition foreign_campaign :: "uuid \<Rightarrow> db \<Rightarrow> uuid \<Rightarrow> bool" where
  "foreign_campaign pid db i \<longleftrightarrow> i \<in> camp_ID ` set (filter (\<lambda>c. camp_ProjectID c \<noteq> pid) (db_campaigns db))"

text \<open>The rows that belong to other projects or to none: the rows that name their project, the
  rows of the roles, devices, groups, firmwares and campaigns elsewhere, the accounts.\<close>

definition elsewhere :: "uuid \<Rightarrow> db \<Rightarrow> db" where
  "elsewhere pid db =
     db\<lparr>db_roles := filter (\<lambda>r. role_ProjectID r \<noteq> Some pid) (db_roles db),
        db_role_permissions := filter (\<lambda>rp. foreign_role pid db (fst rp)) (db_role_permissions db),
        db_projects := filter (\<lambda>p. proj_ID p \<noteq> pid) (db_projects db),
        db_members := filter (\<lambda>m. mem_ProjectID m \<noteq> pid) (db_members db),
        db_devices := filter (\<lambda>d. dev_ProjectID d \<noteq> pid) (db_devices db),
        db_device_types := filter (\<lambda>t. dt_ProjectID t \<noteq> Some pid) (db_device_types db),
        db_auth_tokens := filter (\<lambda>t. foreign_device pid db (tok_DeviceID t)) (db_auth_tokens db),
        db_conn_logs := filter (\<lambda>l. log_ProjectID l \<noteq> pid) (db_conn_logs db),
        db_block_events := filter (\<lambda>e. blk_ProjectID e \<noteq> pid) (db_block_events db),
        db_groups := filter (\<lambda>g. grp_ProjectID g \<noteq> pid) (db_groups db),
        db_group_members := filter (\<lambda>m. foreign_group pid db (gm_DeviceGroupID m)) (db_group_members db),
        db_ota_tokens := filter (\<lambda>t. ota_ProjectID t \<noteq> pid) (db_ota_tokens db),
        db_firmwares := filter (\<lambda>f. fw_ProjectID f \<noteq> pid) (db_firmwares db),
        db_firmware_types := filter (\<lambda>t. foreign_firmware pid db (ft_FirmwareID t)) (db_firmware_types db),
        db_campaigns := filter (\<lambda>c. camp_ProjectID c \<noteq> pid) (db_campaigns db),
        db_target_groups := filter (\<lambda>t. foreign_campaign pid db (tg_CampaignID t)) (db_target_groups db),
        db_target_devices := filter (\<lambda>t. foreign_campaign pid db (td_CampaignID t)) (db_target_devices db),
        db_assignments := filter (\<lambda>a. foreign_campaign pid db (asg_CampaignID a)) (db_assignments db),
        db_audit_logs := filter (\<lambda>a. aud_TargetID a \<noteq> pid) (db_audit_logs db)\<rparr>"

lemmas foreign_defs = foreign_device_def foreign_group_def foreign_role_def foreign_firmware_def foreign_campaign_def

lemma foreign_device_other [simp]:
  "foreign_device pid (D\<lparr>db_audit_logs := t99\<rparr>) = foreign_device pid D"
  "foreign_device pid (D\<lparr>db_roles := t0\<rparr>) = foreign_device pid D"
  "foreign_device pid (D\<lparr>db_role_permissions := t1\<rparr>) = foreign_device pid D"
  "foreign_device pid (D\<lparr>db_projects := t2\<rparr>) = foreign_device pid D"
  "foreign_device pid (D\<lparr>db_members := t3\<rparr>) = foreign_device pid D"
  "foreign_device pid (D\<lparr>db_device_types := t5\<rparr>) = foreign_device pid D"
  "foreign_device pid (D\<lparr>db_auth_tokens := t6\<rparr>) = foreign_device pid D"
  "foreign_device pid (D\<lparr>db_conn_logs := t7\<rparr>) = foreign_device pid D"
  "foreign_device pid (D\<lparr>db_block_events := t8\<rparr>) = foreign_device pid D"
  "foreign_device pid (D\<lparr>db_groups := t9\<rparr>) = foreign_device pid D"
  "foreign_device pid (D\<lparr>db_group_members := t10\<rparr>) = foreign_device pid D"
  "foreign_device pid (D\<lparr>db_ota_tokens := t11\<rparr>) = foreign_device pid D"
  "foreign_device pid (D\<lparr>db_firmwares := t12\<rparr>) = foreign_device pid D"
  "foreign_device pid (D\<lparr>db_firmware_types := t13\<rparr>) = foreign_device pid D"
  "foreign_device pid (D\<lparr>db_campaigns := t14\<rparr>) = foreign_device pid D"
  "foreign_device pid (D\<lparr>db_target_groups := t15\<rparr>) = foreign_device pid D"
  "foreign_device pid (D\<lparr>db_target_devices := t16\<rparr>) = foreign_device pid D"
  "foreign_device pid (D\<lparr>db_assignments := t17\<rparr>) = foreign_device pid D"
  by (simp_all add: foreign_device_def fun_eq_iff)

lemma foreign_group_other [simp]:
  "foreign_group pid (D\<lparr>db_audit_logs := t99\<rparr>) = foreign_group pid D"
  "foreign_group pid (D\<lparr>db_roles := t0\<rparr>) = foreign_group pid D"
  "foreign_group pid (D\<lparr>db_role_permissions := t1\<rparr>) = foreign_group pid D"
  "foreign_group pid (D\<lparr>db_projects := t2\<rparr>) = foreign_group pid D"
  "foreign_group pid (D\<lparr>db_members := t3\<rparr>) = foreign_group pid D"
  "foreign_group pid (D\<lparr>db_devices := t4\<rparr>) = foreign_group pid D"
  "foreign_group pid (D\<lparr>db_device_types := t5\<rparr>) = foreign_group pid D"
  "foreign_group pid (D\<lparr>db_auth_tokens := t6\<rparr>) = foreign_group pid D"
  "foreign_group pid (D\<lparr>db_conn_logs := t7\<rparr>) = foreign_group pid D"
  "foreign_group pid (D\<lparr>db_block_events := t8\<rparr>) = foreign_group pid D"
  "foreign_group pid (D\<lparr>db_group_members := t10\<rparr>) = foreign_group pid D"
  "foreign_group pid (D\<lparr>db_ota_tokens := t11\<rparr>) = foreign_group pid D"
  "foreign_group pid (D\<lparr>db_firmwares := t12\<rparr>) = foreign_group pid D"
  "foreign_group pid (D\<lparr>db_firmware_types := t13\<rparr>) = foreign_group pid D"
  "foreign_group pid (D\<lparr>db_campaigns := t14\<rparr>) = foreign_group pid D"
  "foreign_group pid (D\<lparr>db_target_groups := t15\<rparr>) = foreign_group pid D"
  "foreign_group pid (D\<lparr>db_target_devices := t16\<rparr>) = foreign_group pid D"
  "foreign_group pid (D\<lparr>db_assignments := t17\<rparr>) = foreign_group pid D"
  by (simp_all add: foreign_group_def fun_eq_iff)

lemma foreign_role_other [simp]:
  "foreign_role pid (D\<lparr>db_audit_logs := t99\<rparr>) = foreign_role pid D"
  "foreign_role pid (D\<lparr>db_role_permissions := t1\<rparr>) = foreign_role pid D"
  "foreign_role pid (D\<lparr>db_projects := t2\<rparr>) = foreign_role pid D"
  "foreign_role pid (D\<lparr>db_members := t3\<rparr>) = foreign_role pid D"
  "foreign_role pid (D\<lparr>db_devices := t4\<rparr>) = foreign_role pid D"
  "foreign_role pid (D\<lparr>db_device_types := t5\<rparr>) = foreign_role pid D"
  "foreign_role pid (D\<lparr>db_auth_tokens := t6\<rparr>) = foreign_role pid D"
  "foreign_role pid (D\<lparr>db_conn_logs := t7\<rparr>) = foreign_role pid D"
  "foreign_role pid (D\<lparr>db_block_events := t8\<rparr>) = foreign_role pid D"
  "foreign_role pid (D\<lparr>db_groups := t9\<rparr>) = foreign_role pid D"
  "foreign_role pid (D\<lparr>db_group_members := t10\<rparr>) = foreign_role pid D"
  "foreign_role pid (D\<lparr>db_ota_tokens := t11\<rparr>) = foreign_role pid D"
  "foreign_role pid (D\<lparr>db_firmwares := t12\<rparr>) = foreign_role pid D"
  "foreign_role pid (D\<lparr>db_firmware_types := t13\<rparr>) = foreign_role pid D"
  "foreign_role pid (D\<lparr>db_campaigns := t14\<rparr>) = foreign_role pid D"
  "foreign_role pid (D\<lparr>db_target_groups := t15\<rparr>) = foreign_role pid D"
  "foreign_role pid (D\<lparr>db_target_devices := t16\<rparr>) = foreign_role pid D"
  "foreign_role pid (D\<lparr>db_assignments := t17\<rparr>) = foreign_role pid D"
  by (simp_all add: foreign_role_def fun_eq_iff)

lemma foreign_firmware_other [simp]:
  "foreign_firmware pid (D\<lparr>db_audit_logs := t99\<rparr>) = foreign_firmware pid D"
  "foreign_firmware pid (D\<lparr>db_roles := t0\<rparr>) = foreign_firmware pid D"
  "foreign_firmware pid (D\<lparr>db_role_permissions := t1\<rparr>) = foreign_firmware pid D"
  "foreign_firmware pid (D\<lparr>db_projects := t2\<rparr>) = foreign_firmware pid D"
  "foreign_firmware pid (D\<lparr>db_members := t3\<rparr>) = foreign_firmware pid D"
  "foreign_firmware pid (D\<lparr>db_devices := t4\<rparr>) = foreign_firmware pid D"
  "foreign_firmware pid (D\<lparr>db_device_types := t5\<rparr>) = foreign_firmware pid D"
  "foreign_firmware pid (D\<lparr>db_auth_tokens := t6\<rparr>) = foreign_firmware pid D"
  "foreign_firmware pid (D\<lparr>db_conn_logs := t7\<rparr>) = foreign_firmware pid D"
  "foreign_firmware pid (D\<lparr>db_block_events := t8\<rparr>) = foreign_firmware pid D"
  "foreign_firmware pid (D\<lparr>db_groups := t9\<rparr>) = foreign_firmware pid D"
  "foreign_firmware pid (D\<lparr>db_group_members := t10\<rparr>) = foreign_firmware pid D"
  "foreign_firmware pid (D\<lparr>db_ota_tokens := t11\<rparr>) = foreign_firmware pid D"
  "foreign_firmware pid (D\<lparr>db_firmware_types := t13\<rparr>) = foreign_firmware pid D"
  "foreign_firmware pid (D\<lparr>db_campaigns := t14\<rparr>) = foreign_firmware pid D"
  "foreign_firmware pid (D\<lparr>db_target_groups := t15\<rparr>) = foreign_firmware pid D"
  "foreign_firmware pid (D\<lparr>db_target_devices := t16\<rparr>) = foreign_firmware pid D"
  "foreign_firmware pid (D\<lparr>db_assignments := t17\<rparr>) = foreign_firmware pid D"
  by (simp_all add: foreign_firmware_def fun_eq_iff)

lemma foreign_campaign_other [simp]:
  "foreign_campaign pid (D\<lparr>db_audit_logs := t99\<rparr>) = foreign_campaign pid D"
  "foreign_campaign pid (D\<lparr>db_roles := t0\<rparr>) = foreign_campaign pid D"
  "foreign_campaign pid (D\<lparr>db_role_permissions := t1\<rparr>) = foreign_campaign pid D"
  "foreign_campaign pid (D\<lparr>db_projects := t2\<rparr>) = foreign_campaign pid D"
  "foreign_campaign pid (D\<lparr>db_members := t3\<rparr>) = foreign_campaign pid D"
  "foreign_campaign pid (D\<lparr>db_devices := t4\<rparr>) = foreign_campaign pid D"
  "foreign_campaign pid (D\<lparr>db_device_types := t5\<rparr>) = foreign_campaign pid D"
  "foreign_campaign pid (D\<lparr>db_auth_tokens := t6\<rparr>) = foreign_campaign pid D"
  "foreign_campaign pid (D\<lparr>db_conn_logs := t7\<rparr>) = foreign_campaign pid D"
  "foreign_campaign pid (D\<lparr>db_block_events := t8\<rparr>) = foreign_campaign pid D"
  "foreign_campaign pid (D\<lparr>db_groups := t9\<rparr>) = foreign_campaign pid D"
  "foreign_campaign pid (D\<lparr>db_group_members := t10\<rparr>) = foreign_campaign pid D"
  "foreign_campaign pid (D\<lparr>db_ota_tokens := t11\<rparr>) = foreign_campaign pid D"
  "foreign_campaign pid (D\<lparr>db_firmwares := t12\<rparr>) = foreign_campaign pid D"
  "foreign_campaign pid (D\<lparr>db_firmware_types := t13\<rparr>) = foreign_campaign pid D"
  "foreign_campaign pid (D\<lparr>db_target_groups := t15\<rparr>) = foreign_campaign pid D"
  "foreign_campaign pid (D\<lparr>db_target_devices := t16\<rparr>) = foreign_campaign pid D"
  "foreign_campaign pid (D\<lparr>db_assignments := t17\<rparr>) = foreign_campaign pid D"
  by (simp_all add: foreign_campaign_def fun_eq_iff)

subsection \<open>Steps of a project\<close>

definition camps_kept :: "db \<Rightarrow> db \<Rightarrow> bool" where
  "camps_kept db db' \<longleftrightarrow> db_campaigns db' = db_campaigns db \<and> db_assignments db' = db_assignments db"

text \<open>A download token that was consumed stays consumed.\<close>

definition ota_used :: "ota_token \<Rightarrow> bool" where
  "ota_used t \<longleftrightarrow> ota_ConsumedAt t \<noteq> None"

definition ota_mono :: "db \<Rightarrow> db \<Rightarrow> bool" where
  "ota_mono db db' \<longleftrightarrow> row_mono ota_TokenHash ota_used (db_ota_tokens db) (db_ota_tokens db')"

text \<open>With \<open>True\<close> the step is none of campaigns: it keeps both their tables.\<close>

definition pstep :: "bool \<Rightarrow> uuid \<Rightarrow> db \<Rightarrow> db \<Rightarrow> bool" where
  "pstep keep pid db db' \<longleftrightarrow>
     (schema_ok db \<longrightarrow> schema_ok db' \<and> elsewhere pid db' = elsewhere pid db \<and> ota_mono db db')
   \<and> (keep \<longrightarrow> camps_kept db db')"

named_theorems psteps

lemma pstep_refl [psteps]: "pstep keep pid db db"
  by (simp add: pstep_def camps_kept_def ota_mono_def)

lemma pstep_trans: "pstep keep pid db db1 \<Longrightarrow> pstep keep pid db1 db2 \<Longrightarrow> pstep keep pid db db2"
  by (auto simp: pstep_def camps_kept_def ota_mono_def intro: row_mono_trans)

lemma pstep_weaken: "pstep True pid db db' \<Longrightarrow> pstep keep pid db db'"
  by (simp add: pstep_def)

lemma pstep_from: "(schema_ok db \<Longrightarrow> pstep keep pid db db') \<Longrightarrow> camps_kept db db' \<or> \<not> keep \<Longrightarrow> pstep keep pid db db'"
  by (auto simp: pstep_def)

subsection \<open>Filtered tables under updates\<close>

lemma filter_update_where:
  "(\<And>r. r \<in> set t \<Longrightarrow> P r \<Longrightarrow> \<not> Q r \<and> \<not> Q (f r)) \<Longrightarrow> filter Q (update_where P f t) = filter Q t"
  by (induction t) auto

lemma filter_delete_where:
  "(\<And>r. r \<in> set t \<Longrightarrow> P r \<Longrightarrow> \<not> Q r) \<Longrightarrow> filter Q (delete_where P t) = filter Q t"
  by (induction t) auto

lemma filter_kept_update:
  "(\<And>r. r \<in> set t \<Longrightarrow> P r \<Longrightarrow> Q (f r) = Q r) \<Longrightarrow> filter Q (update_where P f t) = update_where P f (filter Q t)"
  by (induction t) auto

lemma keyed_filter: "keyed key t \<Longrightarrow> keyed key (filter P t)"
  by (auto simp: keyed_def distinct_map intro: inj_on_subset)

lemma keyed_update_set:
  "keyed key t \<Longrightarrow> (\<And>r. r \<in> set t \<Longrightarrow> P r \<Longrightarrow> key (f r) = key r) \<Longrightarrow> keyed key (update_where P f t)"
proof (induction t)
  case (Cons a t)
  have "map key (update_where P f t) = map key t"
    using Cons.prems(2) by (auto simp: update_where_def)
  with Cons show ?case by (auto simp: keyed_def update_where_def image_iff)
qed simp

text \<open>An index on the rows that satisfy \<open>P\<close> when a row comes, when rows leave, and when the one row with
  a primary key changes.\<close>

lemma keyed_filter_snoc:
  "keyed key (filter P (t @ [r])) \<longleftrightarrow> keyed key (filter P t) \<and> (P r \<longrightarrow> (\<forall>x \<in> set t. P x \<longrightarrow> key x \<noteq> key r))"
  by (auto simp: keyed_snoc)

lemma keyed_filter_shrink:
  assumes "keyed key (filter P t)" and "\<And>r. r \<in> set t \<Longrightarrow> Q r \<Longrightarrow> P (f r) \<Longrightarrow> P r \<and> key (f r) = key r"
  shows "keyed key (filter P (update_where Q f t))"
proof -
  let ?g = "\<lambda>r. if Q r then f r else r"
  have "filter (P \<circ> ?g) t = filter (P \<circ> ?g) (filter P t)"
    unfolding filter_filter by (rule filter_cong) (use assms(2) in \<open>auto split: if_splits\<close>)
  moreover have "map (key \<circ> ?g) (filter (P \<circ> ?g) t) = map key (filter (P \<circ> ?g) t)"
    by (rule map_cong) (use assms(2) in \<open>auto split: if_splits\<close>)
  ultimately have "map key (filter P (update_where Q f t)) = map key (filter (P \<circ> ?g) (filter P t))"
    by (simp only: update_where_def filter_map map_map)
  with keyed_filter [OF assms(1), of "P \<circ> ?g"] show ?thesis by (simp only: keyed_def)
qed

lemma keyed_filter_update_one:
  assumes "keyed key (filter P t)" and "keyed pk t"
    and "\<And>r. r \<in> set t \<Longrightarrow> Q r \<Longrightarrow> pk r = k"
    and "\<And>r x. r \<in> set t \<Longrightarrow> x \<in> set t \<Longrightarrow> Q r \<Longrightarrow> P (f r) \<Longrightarrow> P x \<Longrightarrow> pk x \<noteq> k \<Longrightarrow> key x \<noteq> key (f r)"
  shows "keyed key (filter P (update_where Q f t))"
proof (cases "\<exists>r \<in> set t. Q r")
  case False
  then have "update_where Q f t = t" by (intro update_where_none) auto
  with assms(1) show ?thesis by simp
next
  case True
  then obtain s r u where t: "t = s @ r # u" and r: "Q r" by (meson split_list)
  have other: "pk x \<noteq> k" if "x \<in> set s \<union> set u" for x
    using assms(2) assms(3) [of r] that r unfolding t by (auto simp: keyed_def image_iff)
  then have "update_where Q f s = s" "update_where Q f u = u"
    using assms(3) unfolding t by (fastforce intro!: update_where_none)+
  then have e: "update_where Q f t = s @ f r # u" using r by (simp add: t update_where_def)
  have "key (f r) \<noteq> key x" if "x \<in> set s \<union> set u" "P x" "P (f r)" for x
    using assms(4) [of r x] other [OF that(1)] that r unfolding t by fastforce
  then have "P (f r) \<longrightarrow> key (f r) \<notin> key ` set (filter P s) \<and> key (f r) \<notin> key ` set (filter P u)" by fastforce
  with assms(1) show ?thesis unfolding e by (cases "P r") (simp_all add: t keyed_def)
qed

text \<open>The update of one row that the database accepted.\<close>

lemma keyed_index_update:
  assumes "keyed key (filter P t)" and "keyed pk t" and "a \<in> set t" and "\<And>r. Q r \<Longrightarrow> pk r = pk a"
    and c: "\<forall>x \<in> set t. pk x \<noteq> pk a \<longrightarrow> \<not> C x (f a)" and C: "\<And>x r. P x \<Longrightarrow> P r \<Longrightarrow> key x = key r \<Longrightarrow> C x r"
  shows "keyed key (filter P (update_where Q f t))"
proof (rule keyed_filter_update_one [OF assms(1,2), where k = "pk a"])
  fix r x
  assume r: "r \<in> set t" "Q r" and x: "x \<in> set t" "pk x \<noteq> pk a" and P: "P (f r)" "P x"
  have "r = a" using keyed_unique [OF assms(2) r(1) assms(3)] assms(4) [OF r(2)] by simp
  with c C P x show "key x \<noteq> key (f r)" by blast
qed (use assms(4) in blast)

lemma keyed_append_map: "keyed key t \<Longrightarrow> key r \<notin> key ` set t \<Longrightarrow> keyed key (t @ [r])"
  by (auto simp: keyed_def)

lemma update_where_ex: "\<exists>r \<in> set t. Q r \<Longrightarrow> (\<And>r. Q r \<Longrightarrow> Q (f r)) \<Longrightarrow> \<exists>r \<in> set (update_where P f t). Q r"
  by (induction t) auto

lemmas filter_where = filter_update_where filter_delete_where

subsection \<open>One rule per table\<close>

lemma elsewhere_audit_logs:
  assumes "filter (\<lambda>a. aud_TargetID a \<noteq> pid) t = filter (\<lambda>a. aud_TargetID a \<noteq> pid) (db_audit_logs D)"
  shows "elsewhere pid (D\<lparr>db_audit_logs := t\<rparr>) = elsewhere pid D"
  unfolding elsewhere_def by (simp add: assms)

lemma elsewhere_audit: "elsewhere pid (append_audit env k a e ty pid m db) = elsewhere pid db"
  by (auto simp: append_audit_def Let_def elsewhere_audit_logs split: sum.split)

lemma audit_keyed: "keyed aud_ID (db_audit_logs (append_audit env k a e ty i m db)) = keyed aud_ID (db_audit_logs db)"
  by (auto simp: append_audit_def Let_def insert_row_def keyed_snoc)

lemma schema_audit [simp]: "schema_ok (append_audit env k a e ty i m db) = schema_ok db"
  by (simp add: schema_ok_def refs_ok_def audit_keyed)

lemma pstep_audit [psteps]: "pstep keep pid db db' \<Longrightarrow> pstep keep pid db (append_audit env k a e ty pid m db')"
  by (simp add: pstep_def ota_mono_def elsewhere_audit camps_kept_def)

lemma elsewhere_devices:
  assumes "filter (\<lambda>d. dev_ProjectID d \<noteq> pid) t = filter (\<lambda>d. dev_ProjectID d \<noteq> pid) (db_devices D)"
  shows "elsewhere pid (D\<lparr>db_devices := t\<rparr>) = elsewhere pid D"
proof -
  have "db_devices (D\<lparr>db_devices := t\<rparr>) = t" by simp
  then have "foreign_device pid (D\<lparr>db_devices := t\<rparr>) = foreign_device pid D"
    by (intro ext) (simp only: foreign_device_def assms)
  then show ?thesis
    unfolding elsewhere_def by (simp add: assms)
qed

lemma pstep_devices:
  assumes "pstep keep pid db D"
    and "schema_ok D \<Longrightarrow> devices_ok t \<and> filter (\<lambda>d. dev_ProjectID d \<noteq> pid) t = filter (\<lambda>d. dev_ProjectID d \<noteq> pid) (db_devices D)"
  shows "pstep keep pid db (D\<lparr>db_devices := t\<rparr>)"
  using assms by (simp add: pstep_def ota_mono_def schema_ok_def refs_ok_def elsewhere_devices camps_kept_def)

lemma elsewhere_device_types:
  assumes "filter (\<lambda>x. dt_ProjectID x \<noteq> Some pid) t = filter (\<lambda>x. dt_ProjectID x \<noteq> Some pid) (db_device_types D)"
  shows "elsewhere pid (D\<lparr>db_device_types := t\<rparr>) = elsewhere pid D"
  unfolding elsewhere_def by (simp add: assms)

lemma pstep_device_types:
  assumes "pstep keep pid db D"
    and "schema_ok D \<Longrightarrow> types_ok t
           \<and> filter (\<lambda>x. dt_ProjectID x \<noteq> Some pid) t = filter (\<lambda>x. dt_ProjectID x \<noteq> Some pid) (db_device_types D)"
  shows "pstep keep pid db (D\<lparr>db_device_types := t\<rparr>)"
  using assms by (simp add: pstep_def ota_mono_def schema_ok_def refs_ok_def elsewhere_device_types camps_kept_def)

lemma elsewhere_auth_tokens:
  assumes "filter (\<lambda>x. foreign_device pid D (tok_DeviceID x)) t = filter (\<lambda>x. foreign_device pid D (tok_DeviceID x)) (db_auth_tokens D)"
  shows "elsewhere pid (D\<lparr>db_auth_tokens := t\<rparr>) = elsewhere pid D"
  unfolding elsewhere_def by (simp add: assms)

lemma pstep_auth_tokens:
  assumes "pstep keep pid db D"
    and "schema_ok D \<Longrightarrow> tokens_ok t \<and> filter (\<lambda>x. foreign_device pid D (tok_DeviceID x)) t
           = filter (\<lambda>x. foreign_device pid D (tok_DeviceID x)) (db_auth_tokens D)"
  shows "pstep keep pid db (D\<lparr>db_auth_tokens := t\<rparr>)"
  using assms by (simp add: pstep_def ota_mono_def schema_ok_def refs_ok_def elsewhere_auth_tokens camps_kept_def)

lemma elsewhere_conn_logs:
  assumes "filter (\<lambda>x. log_ProjectID x \<noteq> pid) t = filter (\<lambda>x. log_ProjectID x \<noteq> pid) (db_conn_logs D)"
  shows "elsewhere pid (D\<lparr>db_conn_logs := t\<rparr>) = elsewhere pid D"
  unfolding elsewhere_def by (simp add: assms)

lemma pstep_conn_logs:
  assumes "pstep keep pid db D"
    and "schema_ok D \<Longrightarrow> keyed log_ID t
           \<and> filter (\<lambda>x. log_ProjectID x \<noteq> pid) t = filter (\<lambda>x. log_ProjectID x \<noteq> pid) (db_conn_logs D)"
  shows "pstep keep pid db (D\<lparr>db_conn_logs := t\<rparr>)"
  using assms by (simp add: pstep_def ota_mono_def schema_ok_def refs_ok_def elsewhere_conn_logs camps_kept_def)

lemma elsewhere_block_events:
  assumes "filter (\<lambda>x. blk_ProjectID x \<noteq> pid) t = filter (\<lambda>x. blk_ProjectID x \<noteq> pid) (db_block_events D)"
  shows "elsewhere pid (D\<lparr>db_block_events := t\<rparr>) = elsewhere pid D"
  unfolding elsewhere_def by (simp add: assms)

lemma pstep_block_events:
  assumes "pstep keep pid db D"
    and "schema_ok D \<Longrightarrow> keyed blk_ID t
           \<and> filter (\<lambda>x. blk_ProjectID x \<noteq> pid) t = filter (\<lambda>x. blk_ProjectID x \<noteq> pid) (db_block_events D)"
  shows "pstep keep pid db (D\<lparr>db_block_events := t\<rparr>)"
  using assms by (simp add: pstep_def ota_mono_def schema_ok_def refs_ok_def elsewhere_block_events camps_kept_def)

lemma elsewhere_groups:
  assumes "filter (\<lambda>x. grp_ProjectID x \<noteq> pid) t = filter (\<lambda>x. grp_ProjectID x \<noteq> pid) (db_groups D)"
  shows "elsewhere pid (D\<lparr>db_groups := t\<rparr>) = elsewhere pid D"
proof -
  have "db_groups (D\<lparr>db_groups := t\<rparr>) = t" by simp
  then have "foreign_group pid (D\<lparr>db_groups := t\<rparr>) = foreign_group pid D"
    by (intro ext) (simp only: foreign_group_def assms)
  then show ?thesis
    unfolding elsewhere_def by (simp add: assms)
qed

lemma pstep_groups:
  assumes "pstep keep pid db D"
    and "schema_ok D \<Longrightarrow> groups_ok t
           \<and> filter (\<lambda>x. grp_ProjectID x \<noteq> pid) t = filter (\<lambda>x. grp_ProjectID x \<noteq> pid) (db_groups D)"
  shows "pstep keep pid db (D\<lparr>db_groups := t\<rparr>)"
  using assms by (simp add: pstep_def ota_mono_def schema_ok_def refs_ok_def elsewhere_groups camps_kept_def)

lemma elsewhere_group_members:
  assumes "filter (\<lambda>x. foreign_group pid D (gm_DeviceGroupID x)) t = filter (\<lambda>x. foreign_group pid D (gm_DeviceGroupID x)) (db_group_members D)"
  shows "elsewhere pid (D\<lparr>db_group_members := t\<rparr>) = elsewhere pid D"
  unfolding elsewhere_def by (simp add: assms)

lemma pstep_group_members:
  assumes "pstep keep pid db D"
    and "schema_ok D \<Longrightarrow> keyed gm_key t \<and> filter (\<lambda>x. foreign_group pid D (gm_DeviceGroupID x)) t
           = filter (\<lambda>x. foreign_group pid D (gm_DeviceGroupID x)) (db_group_members D)"
  shows "pstep keep pid db (D\<lparr>db_group_members := t\<rparr>)"
  using assms by (simp add: pstep_def ota_mono_def schema_ok_def refs_ok_def elsewhere_group_members camps_kept_def)

lemma elsewhere_ota_tokens:
  assumes "filter (\<lambda>x. ota_ProjectID x \<noteq> pid) t = filter (\<lambda>x. ota_ProjectID x \<noteq> pid) (db_ota_tokens D)"
  shows "elsewhere pid (D\<lparr>db_ota_tokens := t\<rparr>) = elsewhere pid D"
  unfolding elsewhere_def by (simp add: assms)

lemma pstep_ota_tokens:
  assumes "pstep keep pid db D"
    and "schema_ok D \<Longrightarrow> ota_tokens_ok t \<and> row_mono ota_TokenHash ota_used (db_ota_tokens D) t
           \<and> filter (\<lambda>x. ota_ProjectID x \<noteq> pid) t = filter (\<lambda>x. ota_ProjectID x \<noteq> pid) (db_ota_tokens D)"
  shows "pstep keep pid db (D\<lparr>db_ota_tokens := t\<rparr>)"
  using assms by (auto simp: pstep_def ota_mono_def schema_ok_def refs_ok_def elsewhere_ota_tokens camps_kept_def intro: row_mono_trans)

lemma elsewhere_firmwares:
  assumes "filter (\<lambda>x. fw_ProjectID x \<noteq> pid) t = filter (\<lambda>x. fw_ProjectID x \<noteq> pid) (db_firmwares D)"
  shows "elsewhere pid (D\<lparr>db_firmwares := t\<rparr>) = elsewhere pid D"
proof -
  have "db_firmwares (D\<lparr>db_firmwares := t\<rparr>) = t" by simp
  then have "foreign_firmware pid (D\<lparr>db_firmwares := t\<rparr>) = foreign_firmware pid D"
    by (intro ext) (simp only: foreign_firmware_def assms)
  then show ?thesis
    unfolding elsewhere_def by (simp add: assms)
qed

lemma pstep_firmwares:
  assumes "pstep keep pid db D"
    and "schema_ok D \<Longrightarrow> firmwares_ok t
           \<and> filter (\<lambda>x. fw_ProjectID x \<noteq> pid) t = filter (\<lambda>x. fw_ProjectID x \<noteq> pid) (db_firmwares D)"
  shows "pstep keep pid db (D\<lparr>db_firmwares := t\<rparr>)"
  using assms by (simp add: pstep_def ota_mono_def schema_ok_def refs_ok_def elsewhere_firmwares camps_kept_def)

lemma elsewhere_firmware_types:
  assumes "filter (\<lambda>x. foreign_firmware pid D (ft_FirmwareID x)) t = filter (\<lambda>x. foreign_firmware pid D (ft_FirmwareID x)) (db_firmware_types D)"
  shows "elsewhere pid (D\<lparr>db_firmware_types := t\<rparr>) = elsewhere pid D"
  unfolding elsewhere_def by (simp add: assms)

lemma pstep_firmware_types:
  assumes "pstep keep pid db D"
    and "schema_ok D \<Longrightarrow> keyed ft_key t \<and> filter (\<lambda>x. foreign_firmware pid D (ft_FirmwareID x)) t
           = filter (\<lambda>x. foreign_firmware pid D (ft_FirmwareID x)) (db_firmware_types D)"
  shows "pstep keep pid db (D\<lparr>db_firmware_types := t\<rparr>)"
  using assms by (simp add: pstep_def ota_mono_def schema_ok_def refs_ok_def elsewhere_firmware_types camps_kept_def)

lemma elsewhere_projects:
  assumes "filter (\<lambda>x. proj_ID x \<noteq> pid) t = filter (\<lambda>x. proj_ID x \<noteq> pid) (db_projects D)"
  shows "elsewhere pid (D\<lparr>db_projects := t\<rparr>) = elsewhere pid D"
  unfolding elsewhere_def by (simp add: assms)

lemma pstep_projects:
  assumes "pstep keep pid db D"
    and "schema_ok D \<Longrightarrow> keyed proj_ID t \<and> owned t (db_members D) (db_roles D) \<and> proj_ID ` set (db_projects D) \<subseteq> proj_ID ` set t
           \<and> filter (\<lambda>x. proj_ID x \<noteq> pid) t = filter (\<lambda>x. proj_ID x \<noteq> pid) (db_projects D)"
  shows "pstep keep pid db (D\<lparr>db_projects := t\<rparr>)"
  using assms by (simp add: pstep_def ota_mono_def schema_ok_def refs_ok_def elsewhere_projects camps_kept_def)
    (blast intro: member_refs_mono permission_refs_mono)

lemma elsewhere_members:
  assumes "filter (\<lambda>x. mem_ProjectID x \<noteq> pid) t = filter (\<lambda>x. mem_ProjectID x \<noteq> pid) (db_members D)"
  shows "elsewhere pid (D\<lparr>db_members := t\<rparr>) = elsewhere pid D"
  unfolding elsewhere_def by (simp add: assms)

lemma pstep_members:
  assumes "pstep keep pid db D"
    and "schema_ok D \<Longrightarrow> members_ok t \<and> owned (db_projects D) t (db_roles D) \<and> member_refs (db_projects D) (db_roles D) t
           \<and> filter (\<lambda>x. mem_ProjectID x \<noteq> pid) t = filter (\<lambda>x. mem_ProjectID x \<noteq> pid) (db_members D)"
  shows "pstep keep pid db (D\<lparr>db_members := t\<rparr>)"
  using assms by (simp add: pstep_def ota_mono_def schema_ok_def refs_ok_def elsewhere_members camps_kept_def)

text \<open>A project that comes with its members.\<close>

lemma pstep_new_project:
  assumes "pstep keep pid db D"
    and "schema_ok D \<Longrightarrow> keyed proj_ID ps \<and> members_ok ms \<and> owned ps ms (db_roles D) \<and> member_refs ps (db_roles D) ms
           \<and> filter (\<lambda>x. proj_ID x \<noteq> pid) ps = filter (\<lambda>x. proj_ID x \<noteq> pid) (db_projects D)
           \<and> filter (\<lambda>x. mem_ProjectID x \<noteq> pid) ms = filter (\<lambda>x. mem_ProjectID x \<noteq> pid) (db_members D)"
  shows "pstep keep pid db (D\<lparr>db_projects := ps, db_members := ms\<rparr>)"
  using assms elsewhere_members [of pid ms "D\<lparr>db_projects := ps\<rparr>"]
  by (simp add: pstep_def ota_mono_def schema_ok_def refs_ok_def elsewhere_projects camps_kept_def)

lemma elsewhere_roles:
  assumes "filter (\<lambda>x. role_ProjectID x \<noteq> Some pid) t = filter (\<lambda>x. role_ProjectID x \<noteq> Some pid) (db_roles D)"
  shows "elsewhere pid (D\<lparr>db_roles := t\<rparr>) = elsewhere pid D"
proof -
  have "db_roles (D\<lparr>db_roles := t\<rparr>) = t" by simp
  then have "foreign_role pid (D\<lparr>db_roles := t\<rparr>) = foreign_role pid D"
    by (intro ext) (simp only: foreign_role_def assms)
  then show ?thesis
    unfolding elsewhere_def by (simp add: assms)
qed

lemma pstep_roles:
  assumes "pstep keep pid db D"
    and "schema_ok D \<Longrightarrow> roles_ok t \<and> owned (db_projects D) (db_members D) t \<and> role_ID ` set (db_roles D) \<subseteq> role_ID ` set t
           \<and> filter (\<lambda>x. role_ProjectID x \<noteq> Some pid) t = filter (\<lambda>x. role_ProjectID x \<noteq> Some pid) (db_roles D)"
  shows "pstep keep pid db (D\<lparr>db_roles := t\<rparr>)"
  using assms by (simp add: pstep_def ota_mono_def schema_ok_def refs_ok_def elsewhere_roles camps_kept_def)
    (blast intro: member_refs_mono permission_refs_mono)

lemma elsewhere_role_permissions:
  assumes "filter (\<lambda>x. foreign_role pid D (fst x)) t = filter (\<lambda>x. foreign_role pid D (fst x)) (db_role_permissions D)"
  shows "elsewhere pid (D\<lparr>db_role_permissions := t\<rparr>) = elsewhere pid D"
  unfolding elsewhere_def by (simp add: assms)

lemma pstep_role_permissions:
  assumes "pstep keep pid db D"
    and "schema_ok D \<Longrightarrow> distinct t \<and> permission_refs (db_roles D) (db_permissions D) t
           \<and> filter (\<lambda>x. foreign_role pid D (fst x)) t
           = filter (\<lambda>x. foreign_role pid D (fst x)) (db_role_permissions D)"
  shows "pstep keep pid db (D\<lparr>db_role_permissions := t\<rparr>)"
  using assms by (simp add: pstep_def ota_mono_def schema_ok_def refs_ok_def elsewhere_role_permissions camps_kept_def)

text \<open>The tables of campaigns, for the steps that are about them.\<close>

lemma elsewhere_campaigns:
  assumes "filter (\<lambda>x. camp_ProjectID x \<noteq> pid) t = filter (\<lambda>x. camp_ProjectID x \<noteq> pid) (db_campaigns D)"
  shows "elsewhere pid (D\<lparr>db_campaigns := t\<rparr>) = elsewhere pid D"
proof -
  have "db_campaigns (D\<lparr>db_campaigns := t\<rparr>) = t" by simp
  then have "foreign_campaign pid (D\<lparr>db_campaigns := t\<rparr>) = foreign_campaign pid D"
    by (intro ext) (simp only: foreign_campaign_def assms)
  then show ?thesis
    unfolding elsewhere_def by (simp add: assms)
qed

lemma pstep_campaigns:
  assumes "pstep False pid db D"
    and "schema_ok D \<Longrightarrow> campaigns_ok t (db_assignments D)
           \<and> filter (\<lambda>x. camp_ProjectID x \<noteq> pid) t = filter (\<lambda>x. camp_ProjectID x \<noteq> pid) (db_campaigns D)"
  shows "pstep False pid db (D\<lparr>db_campaigns := t\<rparr>)"
  using assms by (simp add: pstep_def ota_mono_def schema_ok_def refs_ok_def elsewhere_campaigns)

lemma pstep_assignments:
  assumes "pstep False pid db D"
    and "schema_ok D \<Longrightarrow> campaigns_ok (db_campaigns D) t
           \<and> filter (\<lambda>x. foreign_campaign pid D (asg_CampaignID x)) t
             = filter (\<lambda>x. foreign_campaign pid D (asg_CampaignID x)) (db_assignments D)"
  shows "pstep False pid db (D\<lparr>db_assignments := t\<rparr>)"
  using assms by (simp add: pstep_def ota_mono_def schema_ok_def refs_ok_def elsewhere_def)

lemma pstep_target_groups:
  assumes "pstep False pid db D"
    and "schema_ok D \<Longrightarrow> keyed tg_key t \<and> filter (\<lambda>x. foreign_campaign pid D (tg_CampaignID x)) t
             = filter (\<lambda>x. foreign_campaign pid D (tg_CampaignID x)) (db_target_groups D)"
  shows "pstep False pid db (D\<lparr>db_target_groups := t\<rparr>)"
  using assms by (simp add: pstep_def ota_mono_def schema_ok_def refs_ok_def elsewhere_def)

lemma pstep_target_devices:
  assumes "pstep False pid db D"
    and "schema_ok D \<Longrightarrow> keyed td_key t \<and> filter (\<lambda>x. foreign_campaign pid D (td_CampaignID x)) t
             = filter (\<lambda>x. foreign_campaign pid D (td_CampaignID x)) (db_target_devices D)"
  shows "pstep False pid db (D\<lparr>db_target_devices := t\<rparr>)"
  using assms by (simp add: pstep_def ota_mono_def schema_ok_def refs_ok_def elsewhere_def)

lemmas pstep_tables = pstep_devices pstep_device_types pstep_auth_tokens pstep_conn_logs pstep_block_events
  pstep_groups pstep_group_members pstep_ota_tokens pstep_firmwares pstep_firmware_types pstep_projects
  pstep_members pstep_roles pstep_role_permissions

subsection \<open>Rows found by their primary key\<close>

text \<open>The row a query found in the project is the only one with its key, so an update by that key
  stays in the project.\<close>

lemma in_project:
  assumes "first_by key P t = Some r" and "keyed key t" and "x \<in> set t" and "key x = key r"
  shows "x = r \<and> P r"
  using first_by_Some [OF assms(1)] keyed_unique [OF assms(2,3)] assms(4) by blast

lemma not_foreign:
  assumes "keyed key t" and "r \<in> set t" and "\<not> P r"
  shows "key r \<notin> key ` set (filter P t)"
proof
  assume "key r \<in> key ` set (filter P t)"
  then obtain x where "x \<in> set t" "P x" "key x = key r" by auto
  with keyed_unique [OF assms(1), of x r] assms(2,3) show False by auto
qed

lemma fresh_not_foreign: "r \<notin> key ` set t \<Longrightarrow> r \<notin> key ` set (filter P t)"
  by auto

lemma devices_ok_update:
  assumes "devices_ok t"
    and "\<And>d. d \<in> set t \<Longrightarrow> P d \<Longrightarrow> dev_ID (f d) = dev_ID d \<and> dev_ProjectID (f d) = dev_ProjectID d
         \<and> dev_HardwareIdentifier (f d) = dev_HardwareIdentifier d
         \<and> dev_HardwareIdentifierNorm (f d) = dev_HardwareIdentifierNorm d"
  shows "devices_ok (update_where P f t)"
  using assms by (auto simp: devices_ok_def table_simps intro!: keyed_update_set)

end
