(* ===== verification/TenancyDevices.thy ===== *)
theory TenancyDevices
  imports Tenancy DeviceService DeviceBulk
begin

section \<open>Device operations stay in their project\<close>

text \<open>
  \<open>pstep\<close> of every operation of the device service: what it does to the tables of devices, tokens,
  logs, types and groups keeps the constraints and the rows elsewhere.
\<close>

lemma dev_audit_pstep [psteps]: "pstep keep pid db db' \<Longrightarrow> pstep keep pid db (dev_audit env k actor event pid m db')"
  by (simp add: dev_audit_def psteps)

subsection \<open>Device types\<close>

lemma find_custom_typeD:
  assumes "find_custom_type db pid i = Some t0" and "types_ok (db_device_types db)"
    and "t \<in> set (db_device_types db)" and "dt_ID t = dt_ID t0"
  shows "dt_ProjectID t = Some pid"
  using in_project [OF assms(1) [unfolded find_custom_type_def] _ assms(3,4)] assms(2) by (simp add: types_ok_def)

lemma find_custom_type_mem: "find_custom_type db pid i = Some t0 \<Longrightarrow> t0 \<in> set (db_device_types db)"
  by (auto simp: find_custom_type_def dest: first_by_Some)

lemmas type_kinds = predefined_type_def custom_type_def

lemma types_ok_snoc: "types_ok t \<Longrightarrow> \<forall>x \<in> set t. \<not> dt_conflict x r \<Longrightarrow> types_ok (t @ [r])"
  by (auto simp: types_ok_def keyed_snoc keyed_filter_snoc dt_conflict_def type_kinds)

text \<open>A type that changes as the database allows it leaves the indexes intact.\<close>

lemma types_ok_update:
  assumes ok: "types_ok t" and t0: "t0 \<in> set t"
    and f: "\<And>x. dt_ID (f x) = dt_ID x \<and> dt_ProjectID (f x) = dt_ProjectID x \<and> dt_IsPredefined (f x) = dt_IsPredefined x"
    and c: "\<forall>x \<in> set t. dt_ID x \<noteq> dt_ID t0 \<longrightarrow> \<not> dt_conflict x (f t0)"
  shows "types_ok (update_where (\<lambda>x. dt_ID x = dt_ID t0 \<and> dt_DeletedAt x = None) f t)"
  unfolding types_ok_def
proof (intro conjI)
  show "keyed dt_ID (update_where (\<lambda>x. dt_ID x = dt_ID t0 \<and> dt_DeletedAt x = None) f t)"
    using ok f by (auto simp: types_ok_def intro: keyed_update_where)
qed (rule keyed_index_update [where pk = dt_ID and a = t0 and C = dt_conflict], use ok t0 c in \<open>auto simp: types_ok_def type_kinds dt_conflict_def\<close>)+

lemma types_ok_delete:
  "types_ok t \<Longrightarrow> types_ok (update_where P (\<lambda>x. x\<lparr>dt_DeletedAt := Some d\<rparr>) t)"
  by (auto simp: types_ok_def type_kinds intro!: keyed_update_where keyed_filter_shrink)

lemma repo_CreateCustomDeviceType_pstep:
  "repo_CreateCustomDeviceType env k pid name arch board flash notes db = Inr (db', t) \<Longrightarrow> pstep keep pid db db'"
  by (auto simp: repo_CreateCustomDeviceType_def Let_def schema_ok_def split: sum.splits
      intro!: pstep_device_types psteps types_ok_snoc)

lemma repo_UpdateCustomDeviceType_pstep:
  "repo_UpdateCustomDeviceType env pid i name arch board flash notes db = Inr (db', t) \<Longrightarrow> pstep keep pid db db'"
  by (auto simp: repo_UpdateCustomDeviceType_def Let_def schema_ok_def
      split: sum.splits option.splits if_splits
      intro!: pstep_device_types psteps types_ok_update filter_update_where
      dest: find_custom_typeD find_custom_type_mem)

lemma repo_DeleteCustomDeviceType_pstep:
  "repo_DeleteCustomDeviceType env pid i db = Inr db' \<Longrightarrow> pstep keep pid db db'"
  by (auto simp: repo_DeleteCustomDeviceType_def schema_ok_def split: option.splits if_splits
      intro!: pstep_device_types psteps types_ok_delete filter_update_where dest: find_custom_typeD)

lemma CreateCustomDeviceType_pstep: "pstep keep pid db (fst (CreateCustomDeviceType env actor pid name arch board flash notes db))"
  by (auto simp: CreateCustomDeviceType_def Let_def split: sum.splits intro!: psteps dest: repo_CreateCustomDeviceType_pstep)

lemma UpdateCustomDeviceType_pstep: "pstep keep pid db (fst (UpdateCustomDeviceType env actor pid i name arch board flash notes db))"
  by (auto simp: UpdateCustomDeviceType_def split: sum.splits intro!: psteps dest: repo_UpdateCustomDeviceType_pstep)

lemma DeleteCustomDeviceType_pstep: "pstep keep pid db (fst (DeleteCustomDeviceType env actor pid i db))"
  by (auto simp: DeleteCustomDeviceType_def split: sum.splits intro!: psteps dest: repo_DeleteCustomDeviceType_pstep)

subsection \<open>Devices and their tokens\<close>

lemma GetDeviceD:
  "GetDevice db pid i = Inr d \<Longrightarrow> d \<in> set (db_devices db) \<and> dev_ID d = i \<and> dev_ProjectID d = pid \<and> dev_DeletedAt d = None"
  by (auto simp: GetDevice_def live_device_def dest: first_by_Some split: option.splits)

lemma update_device_pstep:
  assumes "\<And>d. dev_ID (f d) = dev_ID d \<and> dev_ProjectID (f d) = dev_ProjectID d
         \<and> dev_HardwareIdentifier (f d) = dev_HardwareIdentifier d
         \<and> dev_HardwareIdentifierNorm (f d) = dev_HardwareIdentifierNorm d"
    and "pstep keep pid db D"
  shows "pstep keep pid db (update_device env pid i f D)"
  unfolding update_device_def
  by (rule pstep_devices [OF assms(2)])
    (use assms(1) in \<open>auto simp: schema_ok_def live_device_def intro!: devices_ok_update filter_update_where\<close>)

lemma live_device_not_foreign:
  assumes "schema_ok db" and "live_device pid i d" and "d \<in> set (db_devices db)"
  shows "\<not> foreign_device pid db i"
  using not_foreign [of dev_ID "db_devices db" d "\<lambda>d. dev_ProjectID d \<noteq> pid"] assms
  by (auto simp: foreign_device_def schema_ok_def devices_ok_def live_device_def)

lemma CreateDeviceAndAuthTokenTx_pstep:
  assumes "CreateDeviceAndAuthTokenTx env k pid ty name hwid hash issued actor db = Inr (db', d, t)"
  shows "pstep keep pid db db'"
proof -
  let ?i = "env_uuid env (Suc k)"
  let ?d = "\<lparr>dev_ID = ?i, dev_ProjectID = pid, dev_ConnectionStatus = ''offline'',
               dev_Name = name, dev_DeviceTypeID = ty, dev_HardwareIdentifier = hwid,
               dev_HardwareIdentifierNorm = normalizeHardwareIdentifier hwid, dev_Blocked = False,
               dev_BlockedAt = None, dev_LastSeenAt = None, dev_CurrentFirmwareVersion = [],
               dev_ActiveAuthTokenID = Some (env_uuid env k), dev_ActiveAuthTokenIssuedAt = Some issued,
               dev_TokenRevokedAt = None, dev_PollingDisabledAt = None, dev_CreatedAt = env_now env,
               dev_UpdatedAt = env_now env, dev_DeletedAt = None\<rparr>"
  let ?t = "\<lparr>tok_ID = env_uuid env k, tok_DeviceID = ?i, tok_TokenHash = hash, tok_RevokedAt = None,
              tok_CreatedAt = issued, tok_ReplacedByTokenID = None, tok_RevokedByUserID = actor\<rparr>"
  let ?ds = "db_devices db @ [?d]" and ?ts = "db_auth_tokens db @ [?t]"
  from assms have
    ds: "\<And>x. x \<in> set (db_devices db) \<Longrightarrow> \<not> dev_conflict x ?d"
    and ts: "\<And>x. x \<in> set (db_auth_tokens db) \<Longrightarrow> \<not> tok_conflict x ?t"
    and db': "db' = update_device env pid ?i (\<lambda>d. d\<lparr>dev_ActiveAuthTokenID := Some (env_uuid env k),
                dev_ActiveAuthTokenIssuedAt := Some issued\<rparr>) (db\<lparr>db_devices := ?ds, db_auth_tokens := ?ts\<rparr>)"
    by (auto simp: CreateDeviceAndAuthTokenTx_def Let_def split: sum.splits)
  have 1: "pstep keep pid db (db\<lparr>db_devices := ?ds\<rparr>)"
    by (rule pstep_devices [OF pstep_refl])
      (use ds in \<open>auto simp: schema_ok_def devices_ok_def keyed_snoc dev_conflict_def\<close>)
  have "\<not> foreign_device pid (db\<lparr>db_devices := ?ds\<rparr>) ?i"
    using ds by (fastforce simp: foreign_device_def dev_conflict_def)
  then have 2: "pstep keep pid db (db\<lparr>db_devices := ?ds, db_auth_tokens := ?ts\<rparr>)"
    by (intro pstep_auth_tokens [OF 1]) (use ts in \<open>auto simp: schema_ok_def tokens_ok_def keyed_snoc tok_conflict_def\<close>)
  show ?thesis unfolding db' by (rule update_device_pstep [OF _ 2]) simp
qed

lemma SetDeviceBlockedTx_pstep: "SetDeviceBlockedTx env k pid i blocked actor db = Inr db' \<Longrightarrow> pstep keep pid db db'"
  by (auto simp: SetDeviceBlockedTx_def Let_def schema_ok_def live_device_def split: option.splits sum.splits
      intro!: pstep_block_events pstep_devices pstep_refl devices_ok_update filter_update_where
      dest!: in_project [where key = dev_ID] simp: devices_ok_def keyed_snoc)

lemma RotateDeviceAuthTokenTx_pstep:
  assumes "RotateDeviceAuthTokenTx env pid i actor hash newID issued db = Inr (db', d, t)"
  shows "pstep keep pid db db'"
proof -
  let ?rev = "update_where (\<lambda>t. tok_DeviceID t = i \<and> tok_RevokedAt t = None)
                 (\<lambda>t. t\<lparr>tok_RevokedAt := Some (env_now env), tok_ReplacedByTokenID := Some newID,
                       tok_RevokedByUserID := Some actor\<rparr>) (db_auth_tokens db)"
  let ?t = "\<lparr>tok_ID = newID, tok_DeviceID = i, tok_TokenHash = hash, tok_RevokedAt = None, tok_CreatedAt = issued,
              tok_ReplacedByTokenID = None, tok_RevokedByUserID = Some actor\<rparr>"
  from assms obtain d0 where
    d0: "first_by dev_ID (live_device pid i) (db_devices db) = Some d0"
    and ts: "\<And>x. x \<in> set ?rev \<Longrightarrow> tok_ID x \<noteq> newID \<and> tok_TokenHash x \<noteq> hash"
    and db': "db' = update_device env pid i (\<lambda>d. d\<lparr>dev_ActiveAuthTokenID := Some newID,
                dev_ActiveAuthTokenIssuedAt := Some issued\<rparr>) (db\<lparr>db_auth_tokens := ?rev @ [?t]\<rparr>)"
    by (auto simp: RotateDeviceAuthTokenTx_def Let_def tok_conflict_def split: sum.splits option.splits)
  have nf: "schema_ok db \<Longrightarrow> \<not> foreign_device pid db i"
    using live_device_not_foreign first_by_Some [OF d0] by blast
  have rev: "filter (\<lambda>x. foreign_device pid db (tok_DeviceID x)) ?rev
      = filter (\<lambda>x. foreign_device pid db (tok_DeviceID x)) (db_auth_tokens db)" if "schema_ok db"
    by (rule filter_update_where) (use nf [OF that] in auto)
  have keyed: "tokens_ok ?rev" if "schema_ok db"
    using that by (auto simp: schema_ok_def tokens_ok_def intro!: keyed_update_where)
  have 2: "pstep keep pid db (db\<lparr>db_auth_tokens := ?rev @ [?t]\<rparr>)"
    by (rule pstep_auth_tokens [OF pstep_refl]) (use ts rev keyed nf in \<open>auto simp: tokens_ok_def keyed_snoc\<close>)
  show ?thesis unfolding db' by (rule update_device_pstep [OF _ 2]) simp
qed

lemma RegisterDevice_pstep: "pstep keep pid db (fst (RegisterDevice env actor pid ty name hwid db))"
  by (auto simp: RegisterDevice_def Let_def split: sum.splits prod.splits intro!: psteps dest: CreateDeviceAndAuthTokenTx_pstep)

lemma RotateDeviceToken_pstep: "pstep keep pid db (fst (RotateDeviceToken env actor pid i db))"
  by (auto simp: RotateDeviceToken_def Let_def split: sum.splits prod.splits intro!: psteps dest: RotateDeviceAuthTokenTx_pstep)

lemma setDeviceBlocked_pstep: "pstep keep pid db (fst (setDeviceBlocked env actor pid i b db))"
  by (auto simp: setDeviceBlocked_def split: sum.splits intro!: psteps dest: SetDeviceBlockedTx_pstep)

subsection \<open>Connections\<close>

lemma recordDeviceConnection_pstep: "pstep keep pid db (fst (recordDeviceConnection env k pid i ip ua ep act fw db))"
  by (auto simp: recordDeviceConnection_def Let_def CreateDeviceConnectionLog_def UpdateDeviceSeenAndFirmware_def
        schema_ok_def keyed_snoc
      split: sum.splits intro!: pstep_conn_logs update_device_pstep pstep_refl)

subsection \<open>Groups\<close>

lemma live_group_not_foreign:
  assumes "schema_ok db" and "live_group pid i g" and "g \<in> set (db_groups db)"
  shows "\<not> foreign_group pid db i"
  using not_foreign [of grp_ID "db_groups db" g "\<lambda>g. grp_ProjectID g \<noteq> pid"] assms
  by (auto simp: foreign_group_def schema_ok_def groups_ok_def live_group_def)

lemma GetDeviceGroup_not_foreign: "GetDeviceGroup db pid i = Inr g \<Longrightarrow> schema_ok db \<Longrightarrow> \<not> foreign_group pid db i"
  using live_group_not_foreign first_by_Some by (fastforce simp: GetDeviceGroup_def split: option.splits)

lemma groups_ok_snoc: "groups_ok t \<Longrightarrow> \<forall>x \<in> set t. \<not> grp_conflict x r \<Longrightarrow> groups_ok (t @ [r])"
  by (auto simp: groups_ok_def keyed_snoc grp_conflict_def)

lemma groups_ok_update:
  assumes ok: "groups_ok t" and g0: "g0 \<in> set t"
    and f: "\<And>x. grp_ID (f x) = grp_ID x \<and> grp_ProjectID (f x) = grp_ProjectID x"
    and c: "\<forall>x \<in> set t. grp_ID x \<noteq> grp_ID g0 \<longrightarrow> \<not> grp_conflict x (f g0)"
  shows "groups_ok (update_where (\<lambda>x. grp_ID x = grp_ID g0 \<and> grp_DeletedAt x = None) f t)"
  unfolding groups_ok_def
proof (intro conjI)
  show "keyed grp_ID (update_where (\<lambda>x. grp_ID x = grp_ID g0 \<and> grp_DeletedAt x = None) f t)"
    using ok f by (auto simp: groups_ok_def intro: keyed_update_where)
qed (rule keyed_index_update [where pk = grp_ID and a = g0 and C = grp_conflict], use ok g0 c in \<open>auto simp: groups_ok_def grp_conflict_def\<close>)

lemma groups_ok_delete: "groups_ok t \<Longrightarrow> groups_ok (update_where P (\<lambda>x. x\<lparr>grp_DeletedAt := Some d\<rparr>) t)"
  by (auto simp: groups_ok_def intro!: keyed_update_where keyed_filter_shrink)

lemma live_groupD:
  assumes "first_by grp_ID (live_group pid i) (db_groups db) = Some g0" and "groups_ok (db_groups db)"
    and "x \<in> set (db_groups db)" and "grp_ID x = grp_ID g0"
  shows "grp_ProjectID x = pid"
  using in_project [OF assms(1) _ assms(3,4)] assms(2) by (simp add: groups_ok_def live_group_def)

lemma repo_CreateDeviceGroup_pstep:
  "repo_CreateDeviceGroup env k pid name desc db = Inr (db', g) \<Longrightarrow> pstep keep pid db db'"
  by (auto simp: repo_CreateDeviceGroup_def Let_def schema_ok_def split: sum.splits if_splits
      intro!: pstep_groups pstep_refl groups_ok_snoc)

lemma repo_UpdateDeviceGroup_pstep:
  "repo_UpdateDeviceGroup env pid i name desc db = Inr (db', g) \<Longrightarrow> pstep keep pid db db'"
  by (auto simp: repo_UpdateDeviceGroup_def Let_def schema_ok_def split: sum.splits if_splits option.splits
      intro!: pstep_groups pstep_refl groups_ok_update filter_update_where dest: live_groupD first_by_Some)

lemma repo_DeleteDeviceGroup_pstep:
  assumes "repo_DeleteDeviceGroup env pid i db = Inr db'"
  shows "pstep keep pid db db'"
proof -
  from assms obtain g0 where g0: "first_by grp_ID (live_group pid i) (db_groups db) = Some g0"
    and db': "db' = db\<lparr>db_group_members := delete_where (\<lambda>m. gm_DeviceGroupID m = i) (db_group_members db),
                  db_groups := update_where (\<lambda>g. grp_ID g = grp_ID g0 \<and> grp_DeletedAt g = None)
                    (\<lambda>g. g\<lparr>grp_DeletedAt := Some (env_now env)\<rparr>) (db_groups db)\<rparr>"
    by (auto simp: repo_DeleteDeviceGroup_def split: option.splits)
  have nf: "schema_ok db \<Longrightarrow> \<not> foreign_group pid db i"
    using live_group_not_foreign first_by_Some [OF g0] by blast
  have "pstep keep pid db (db\<lparr>db_group_members := delete_where (\<lambda>m. gm_DeviceGroupID m = i) (db_group_members db)\<rparr>)"
    by (rule pstep_group_members [OF pstep_refl]) (use nf in \<open>auto simp: schema_ok_def intro!: filter_delete_where keyed_delete_where\<close>)
  then show ?thesis unfolding db'
    by (rule pstep_groups) (auto simp: schema_ok_def intro!: groups_ok_delete filter_update_where dest: live_groupD [OF g0])
qed

lemma add_group_member_pstep:
  assumes "schema_ok db \<Longrightarrow> \<not> foreign_group pid db g"
  shows "pstep keep pid db (fst (add_group_member env g d db))"
proof (cases "\<exists>m \<in> set (db_group_members db). gm_DeviceGroupID m = g \<and> gm_DeviceID m = d")
  case True
  then show ?thesis by (simp add: add_group_member_def pstep_refl)
next
  case False
  have "pstep keep pid db (db\<lparr>db_group_members := db_group_members db
      @ [\<lparr>gm_DeviceGroupID = g, gm_DeviceID = d, gm_CreatedAt = env_now env\<rparr>]\<rparr>)"
    by (rule pstep_group_members [OF pstep_refl]) (use assms False in \<open>auto simp: schema_ok_def keyed_snoc gm_key_def\<close>)
  with False show ?thesis by (auto simp: add_group_member_def)
qed

lemma add_group_member_schema: "schema_ok (fst (add_group_member env g d db)) \<Longrightarrow> schema_ok db"
  by (simp add: add_group_member_def schema_ok_def refs_ok_def keyed_snoc split: if_splits)

lemma add_group_member_groups: "foreign_group pid (fst (add_group_member env g d db)) x = foreign_group pid db x"
  by (simp add: add_group_member_def)

lemma repo_AddDevicesToGroup_pstep:
  "(schema_ok db \<Longrightarrow> \<not> foreign_group pid db g) \<Longrightarrow> pstep keep pid db (fst (repo_AddDevicesToGroup env k g ids n db))"
proof (induction env k g ids n db rule: repo_AddDevicesToGroup.induct)
  case (2 env k g did dids n db)
  show ?case
  proof (cases "env_fault env k")
    case (Some e)
    then show ?thesis by (simp add: write_step_def pstep_refl)
  next
    case None
    obtain db1 m where 1: "add_group_member env g did db = (db1, m)" by fastforce
    have first: "pstep keep pid db db1" using add_group_member_pstep [OF 2(2), of keep env did] by (simp add: 1)
    have "\<not> foreign_group pid db1 g" if "schema_ok db1"
      using 2(2) add_group_member_schema [of env g did db] add_group_member_groups [of pid env g did db g] that by (simp add: 1)
    with 2(1) [of "(db1, m)" db1 m] None show ?thesis by (auto simp: write_step_def 1 intro: pstep_trans [OF first])
  qed
qed (simp add: pstep_refl)

lemma repo_RemoveDevicesFromGroup_pstep:
  "(schema_ok db \<Longrightarrow> \<not> foreign_group pid db g) \<Longrightarrow> pstep keep pid db (fst (repo_RemoveDevicesFromGroup g ids db))"
  by (auto simp: repo_RemoveDevicesFromGroup_def Let_def schema_ok_def
      intro!: pstep_group_members pstep_refl filter_delete_where keyed_delete_where)

lemma CreateDeviceGroup_pstep: "pstep keep pid db (fst (CreateDeviceGroup env actor pid name desc db))"
  by (auto simp: CreateDeviceGroup_def Let_def split: sum.splits intro!: psteps dest: repo_CreateDeviceGroup_pstep)

lemma UpdateDeviceGroup_pstep: "pstep keep pid db (fst (UpdateDeviceGroup env actor pid i name desc db))"
  by (auto simp: UpdateDeviceGroup_def Let_def split: sum.splits intro!: psteps dest: repo_UpdateDeviceGroup_pstep)

lemma DeleteDeviceGroup_pstep: "pstep keep pid db (fst (DeleteDeviceGroup env actor pid i db))"
  by (auto simp: DeleteDeviceGroup_def split: sum.splits intro!: psteps dest: repo_DeleteDeviceGroup_pstep)

lemma AddDevicesToGroup_pstep: "pstep keep pid db (fst (AddDevicesToGroup env actor pid g ids db))"
proof (cases "GetDeviceGroup db pid g")
  case (Inr x)
  then have "pstep keep pid db (fst (repo_AddDevicesToGroup env 0 g ids 0 db))"
    by (intro repo_AddDevicesToGroup_pstep) (auto dest: GetDeviceGroup_not_foreign)
  with Inr show ?thesis
    by (cases "repo_AddDevicesToGroup env 0 g ids 0 db") (auto simp: AddDevicesToGroup_def pstep_refl split: sum.splits intro!: psteps)
qed (auto simp: AddDevicesToGroup_def pstep_refl split: sum.splits)

lemma RemoveDevicesFromGroup_pstep: "pstep keep pid db (fst (RemoveDevicesFromGroup env actor pid g ids db))"
  by (auto simp: RemoveDevicesFromGroup_def split: sum.splits intro!: psteps repo_RemoveDevicesFromGroup_pstep
      dest: GetDeviceGroup_not_foreign)

subsection \<open>Bulk operations\<close>

lemma rotateDeviceTokenRaw_pstep: "pstep keep pid db (fst (rotateDeviceTokenRaw env n k actor pid i db))"
  by (auto simp: rotateDeviceTokenRaw_def Let_def split: sum.splits prod.splits intro!: psteps dest: RotateDeviceAuthTokenTx_pstep)

lemma bulk_loop_pstep: "pstep keep pid (fst s) (fst (bulk_loop env n actor pid action ids s))"
proof (induction env n actor pid action ids s rule: bulk_loop.induct)
  case (2 env n actor pid action did dids db res)
  show ?case
  proof (cases "action = ''rotate_tokens''")
    case True
    obtain db1 r where r: "rotateDeviceTokenRaw env n (2 * n) actor pid did db = (db1, r)" by fastforce
    then have 1: "pstep keep pid db db1"
      using rotateDeviceTokenRaw_pstep [of keep pid db env n "2 * n" actor did] by simp
    show ?thesis
      using 2(1,2) [OF True, of db1] r True by (cases r) (auto intro: pstep_trans [OF 1])
  next
    case False
    show ?thesis
    proof (cases "SetDeviceBlockedTx env n pid did (action = ''block'') actor db")
      case (Inl e)
      then show ?thesis using 2(3) [OF False Inl] False by simp
    next
      case (Inr db1)
      then show ?thesis
        using 2(4) [OF False Inr] False by (auto intro: pstep_trans [OF SetDeviceBlockedTx_pstep [OF Inr]])
    qed
  qed
qed (simp add: pstep_refl)

lemma bulk_group_pstep:
  assumes "GetDeviceGroup db pid g = Inr x"
  shows "pstep keep pid db
     (fst (case (if add then repo_AddDevicesToGroup env 0 g ids 0 db else map_prod id Inr (repo_RemoveDevicesFromGroup g ids db)) of
             (db1, Inl e) \<Rightarrow> (db1, Inl e)
           | (db1, Inr _) \<Rightarrow> (dev_audit env k actor event pid m db1, Inr res)))"
proof -
  have "pstep keep pid db (fst (repo_AddDevicesToGroup env 0 g ids 0 db))"
    "pstep keep pid db (fst (repo_RemoveDevicesFromGroup g ids db))"
    using GetDeviceGroup_not_foreign [OF assms] repo_AddDevicesToGroup_pstep repo_RemoveDevicesFromGroup_pstep by blast+
  then show ?thesis
    by (cases "repo_AddDevicesToGroup env 0 g ids 0 db"; cases "repo_RemoveDevicesFromGroup g ids db")
      (auto split: sum.split intro!: psteps)
qed

lemma bulk_loop_audit_pstep:
  "pstep keep pid db (dev_audit env k actor event pid m (fst (bulk_loop env n actor pid action ids (db, res))))"
  using bulk_loop_pstep [of keep pid "(db, res)" env n actor action ids] by (simp add: psteps)

text \<open>A bulk operation changes nothing, or it is one of these two.\<close>

lemma BulkDevices_pstep: "pstep keep pid db (fst (BulkDevices q env actor pid action all f ids g db))"
proof (cases "bulk_perm action")
  case None
  then show ?thesis by (simp add: BulkDevices_def pstep_refl)
next
  case (Some perm)
  let ?group = "action = ''add_to_group'' \<or> action = ''remove_from_group''"
  let ?chk = "(if g \<noteq> None \<and> g \<noteq> Some uuid_Nil
              then (case GetDeviceGroup db pid (the g) of
                      Inl e \<Rightarrow> Inl (if e = ErrRecordNotFound then NotFound ''device group not found'' else e)
                    | Inr _ \<Rightarrow> Inr ()) else Inr ()) :: err + unit"
  consider e where "guard_device db pid actor perm = Inl e"
    | "is_ok (guard_device db pid actor perm)" "?group" "g = None \<or> g = Some uuid_Nil"
    | e where "is_ok (guard_device db pid actor perm)" "\<not> (?group \<and> (g = None \<or> g = Some uuid_Nil))" "?chk = Inl e"
    | e where "is_ok (guard_device db pid actor perm)" "\<not> (?group \<and> (g = None \<or> g = Some uuid_Nil))"
        "?chk = Inr ()" "bulk_targets q env db pid all f ids = Inl e"
    | n "is" where "is_ok (guard_device db pid actor perm)" "\<not> (?group \<and> (g = None \<or> g = Some uuid_Nil))"
        "?chk = Inr ()" "bulk_targets q env db pid all f ids = Inr (n, is)"
    by (cases "guard_device db pid actor perm"; cases ?chk; cases "bulk_targets q env db pid all f ids") (auto simp del: not_None_eq)
  then show ?thesis
  proof cases
    case (5 n "is")
    obtain u where u: "guard_device db pid actor perm = Inr u" using 5(1) by (auto simp: is_ok_iff)
    show ?thesis
    proof (cases ?group)
      case True
      with 5(2,3) obtain x where x: "GetDeviceGroup db pid (the g) = Inr x"
        by (auto split: sum.splits)
      show ?thesis
        unfolding BulkDevices_def Some option.case u sum.case 5(3,4) if_not_P [OF 5(2)] using True
        by (simp only: if_True prod.case Let_def FilterDevicesInProject_def fst_conv bulk_group_pstep [OF x])
    next
      case False
      show ?thesis
        unfolding BulkDevices_def Some option.case u sum.case 5(3,4) if_not_P [OF 5(2)] if_not_P [OF False]
        by (simp only: prod.case Let_def case_prod_beta fst_conv bulk_loop_audit_pstep)
    qed
  qed (simp_all only: BulkDevices_def Some option.case sum.case is_ok_iff prod.case fst_conv simp_thms if_True if_False pstep_refl ex_simps, auto simp: pstep_refl)
qed

end
