(* ===== verification/TenancyProjects.thy ===== *)
theory TenancyProjects
  imports Tenancy Projects Roles
begin

section \<open>Project, member and role operations stay in their project\<close>

text \<open>
  \<open>pstep\<close> of every operation on projects, members and custom roles. The constraint that matters here
  is \<open>owned\<close>: every project has a member with the owner role, before and after.
\<close>

lemma proj_audit_pstep [psteps]: "pstep keep pid db db' \<Longrightarrow> pstep keep pid db (proj_audit env k actor event pid m db')"
  by (simp add: proj_audit_def psteps)

subsection \<open>Projects\<close>

lemma owned_update_projects:
  "owned ps ms rs \<Longrightarrow> (\<And>p. proj_ID (f p) = proj_ID p) \<Longrightarrow> owned (update_where P f ps) ms rs"
  by (auto simp: owned_def table_simps)

lemma update_project_pstep:
  assumes "\<And>p. proj_ID (f p) = proj_ID p" and "pstep keep pid db D"
  shows "pstep keep pid db (update_project env pid f D)"
  unfolding update_project_def
  by (rule pstep_projects [OF assms(2)])
    (use assms(1) in \<open>auto simp: schema_ok_def intro!: keyed_update_where filter_update_where owned_update_projects
      subsetD [OF ids_update_where]\<close>)

lemma update_project_devices_pstep:
  assumes "\<And>d. dev_ID (f d) = dev_ID d \<and> dev_ProjectID (f d) = dev_ProjectID d
         \<and> dev_HardwareIdentifier (f d) = dev_HardwareIdentifier d
         \<and> dev_HardwareIdentifierNorm (f d) = dev_HardwareIdentifierNorm d"
    and "pstep keep pid db D"
  shows "pstep keep pid db (update_project_devices env pid f D)"
  unfolding update_project_devices_def
  by (rule pstep_devices [OF assms(2)])
    (use assms(1) in \<open>auto simp: schema_ok_def intro!: devices_ok_update filter_update_where\<close>)

lemma DeleteProjectSoft_pstep: "DeleteProjectSoft env pid db = Inr db' \<Longrightarrow> pstep keep pid db db'"
  by (auto simp: DeleteProjectSoft_def Let_def RevokeDevicesAndDisablePolling_def schema_ok_def split: if_splits
      intro!: pstep_projects update_project_devices_pstep pstep_refl keyed_update_where filter_update_where
        owned_update_projects subsetD [OF ids_update_where])

lemma UpdateProject_pstep: "pstep keep pid db (fst (UpdateProject env actor pid name desc db))"
  by (auto simp: UpdateProject_def UpdateProjectFields_def split: sum.splits intro!: psteps update_project_pstep)

lemma ArchiveProject_pstep: "pstep keep pid db (fst (ArchiveProject env actor pid arch db))"
  by (auto simp: ArchiveProject_def SetProjectArchived_def SetDevicesPollingForArchive_def write_step_Inr split: sum.splits
      intro!: psteps update_project_pstep update_project_devices_pstep)

lemma DeleteProject_pstep: "pstep keep pid db (fst (DeleteProject env actor pid db))"
  by (auto simp: DeleteProject_def split: sum.splits intro!: psteps dest: DeleteProjectSoft_pstep)

subsection \<open>The owner role\<close>

lemma GetPredefinedRoleBySlugD:
  assumes "GetPredefinedRoleBySlug db slug = Inr r"
  obtains r0 where "r0 \<in> set (db_roles db)" "role_DeletedAt r0 = None" "role_IsPredefined r0" "role_Slug r0 = slug"
    "role_ID r = role_ID r0"
  using assms first_by_Some
  by (fastforce simp: GetPredefinedRoleBySlug_def find_role_def preload_permissions_def split: option.splits)

lemma GetRoleD:
  assumes "GetRole db i = Inr r"
  obtains r0 where "r0 \<in> set (db_roles db)" "role_DeletedAt r0 = None" "role_ID r0 = i" "role_ID r = i"
    "role_IsPredefined r = role_IsPredefined r0" "role_Slug r = role_Slug r0" "role_ProjectID r = role_ProjectID r0"
  using assms first_by_Some
  by (fastforce simp: GetRole_def find_role_def preload_permissions_def split: option.splits)

lemma GetMembershipForUserD:
  "GetMembershipForUser db pid uid = Inr (m, r) \<Longrightarrow> m \<in> set (db_members db) \<and> mem_ProjectID m = pid \<and> mem_UserID m = uid"
  by (auto simp: GetMembershipForUser_def dest: first_by_Some split: option.splits)

lemma owner_role_unique:
  assumes "roles_ok rs" and "owner_role rs r" and "owner_role rs r'"
  shows "r = r'"
  using keyed_unique [of role_Slug "filter (\<lambda>r. role_IsPredefined r \<and> role_DeletedAt r = None) rs" r r'] assms
  by (simp add: roles_ok_def owner_role_def)

lemma owner_role_by_slug:
  assumes "GetPredefinedRoleBySlug db SlugOwner = Inr r"
  obtains r0 where "owner_role (db_roles db) r0" "role_ID r = role_ID r0"
  using GetPredefinedRoleBySlugD [OF assms] by (auto simp: owner_role_def)

text \<open>The role of a member is the owner role exactly if the code takes it for it.\<close>

lemma owns_GetRole:
  assumes "roles_ok (db_roles db)" and "GetRole db (mem_RoleID m) = Inr r"
  shows "owns (db_roles db) m = is_owner_role r"
proof -
  obtain r0 where r0: "r0 \<in> set (db_roles db)" "role_DeletedAt r0 = None" "role_ID r0 = mem_RoleID m"
    "role_IsPredefined r = role_IsPredefined r0" "role_Slug r = role_Slug r0"
    using GetRoleD [OF assms(2)] by metis
  have "x = r0" if "owner_role (db_roles db) x" "role_ID x = mem_RoleID m" for x
    using keyed_unique [of role_ID "db_roles db" x r0] that r0 assms(1) by (simp add: roles_ok_def owner_role_def)
  with r0 show ?thesis by (auto simp: owns_def is_owner_role_def owner_role_def)
qed

text \<open>Counting the owners: with more than one there is an owner besides the target.\<close>

lemma check_last_owner_other:
  assumes "schema_ok db" and "check_last_owner db pid msg = Inr u"
  obtains m where "m \<in> set (db_members db)" "mem_ProjectID m = pid" "mem_UserID m \<noteq> uid" "owns (db_roles db) m"
proof -
  from assms(2) obtain r where r: "GetPredefinedRoleBySlug db SlugOwner = Inr r" "CountOwners db pid (role_ID r) > 1"
    by (auto simp: check_last_owner_def split: sum.splits if_splits)
  from owner_role_by_slug [OF r(1)] obtain r0 where r0: "owner_role (db_roles db) r0" "role_ID r = role_ID r0" .
  let ?P = "\<lambda>m. mem_ProjectID m = pid \<and> mem_RoleID m = role_ID r"
  have "\<exists>m \<in> set (db_members db). ?P m \<and> mem_UserID m \<noteq> uid"
  proof (rule ccontr)
    assume "\<not> ?thesis"
    then have "count_where ?P (db_members db) = count_where (\<lambda>m. ?P m \<and> mem_UserID m = uid) (db_members db)"
      by (intro count_where_cong) blast
    also have "\<dots> \<le> 1"
      by (rule count_where_keyed_le_1 [of "\<lambda>m. (mem_ProjectID m, mem_UserID m)"])
        (use assms(1) in \<open>auto simp: schema_ok_def members_ok_def\<close>)
    finally show False using r(2) by (simp add: CountOwners_def)
  qed
  then obtain m where m: "m \<in> set (db_members db)" "mem_ProjectID m = pid" "mem_RoleID m = role_ID r" "mem_UserID m \<noteq> uid" by blast
  have "owns (db_roles db) m" unfolding owns_def using r0 m(3) by auto
  with m that show thesis by blast
qed

subsection \<open>Members\<close>

lemma members_ok_update:
  "members_ok t \<Longrightarrow> (\<And>m. mem_ID (f m) = mem_ID m \<and> mem_ProjectID (f m) = mem_ProjectID m \<and> mem_UserID (f m) = mem_UserID m)
   \<Longrightarrow> members_ok (update_where P f t)"
  by (auto simp: members_ok_def intro!: keyed_update_where)

lemma member_refs_update:
  "member_refs ps rs t \<Longrightarrow> (\<And>m. mem_ProjectID (f m) = mem_ProjectID m \<and> mem_RoleID (f m) \<in> role_ID ` set rs)
   \<Longrightarrow> member_refs ps rs (update_where P f t)"
  by (auto simp: member_refs_def table_simps)

lemma owned_snoc: "owned ps ms rs \<Longrightarrow> owned ps (ms @ [m]) rs"
  by (fastforce simp: owned_def)

text \<open>What a guard that passed says of the references.\<close>

lemma guard_project_exists: "guard_project db pid u perm = Inr x \<Longrightarrow> pid \<in> proj_ID ` set (db_projects db)"
  by (auto simp: guard_project_def proj_ensureProjectNotArchived_def GetProject_def split: sum.splits option.splits dest!: first_by_Some)

lemma GetRole_exists: "GetRole db i = Inr r \<Longrightarrow> i \<in> role_ID ` set (db_roles db)"
  by (erule GetRoleD) auto

lemma CreateMembership_pstep:
  "CreateMembership (new_membership env k pid uid rid) db = Inr db' \<Longrightarrow> pid \<in> proj_ID ` set (db_projects db)
   \<Longrightarrow> rid \<in> role_ID ` set (db_roles db) \<Longrightarrow> pstep keep pid db db'"
  by (simp add: CreateMembership_def split: sum.splits)
    (auto simp: new_membership_def mem_conflict_def schema_ok_def members_ok_def keyed_snoc refs_defs
      intro!: pstep_members psteps owned_snoc)

lemma InviteMember_pstep: "pstep keep pid db (fst (InviteMember env actor pid email rid db))"
  by (auto simp: InviteMember_def split: sum.splits option.splits intro!: psteps
      dest: CreateMembership_pstep [OF _ guard_project_exists GetRole_exists])

text \<open>Changing the members of one project keeps it owned if an owner is left.\<close>

lemma owned_replace:
  assumes "owned ps ms rs"
    and "\<And>m. m \<in> set ms \<Longrightarrow> mem_ProjectID m \<noteq> pid \<Longrightarrow> m \<in> set ms'"
    and "\<exists>m \<in> set ms'. mem_ProjectID m = pid \<and> owns rs m"
  shows "owned ps ms' rs"
  using assms unfolding owned_def by metis

lemma UpdateMembershipRole_pstep:
  assumes "schema_ok db \<Longrightarrow> (\<exists>p \<in> set (db_projects db). proj_ID p = pid) \<Longrightarrow>
      \<exists>m \<in> set (db_members db). mem_ProjectID m = pid \<and>
         (mem_UserID m \<noteq> uid \<and> owns (db_roles db) m \<or> mem_UserID m = uid \<and> (\<exists>r. owner_role (db_roles db) r \<and> role_ID r = rid))"
    and role: "rid \<in> role_ID ` set (db_roles db)"
  shows "pstep keep pid db (UpdateMembershipRole env pid uid rid db)"
proof -
  let ?f = "\<lambda>m. m\<lparr>mem_RoleID := rid, mem_UpdatedAt := env_now env\<rparr>"
  let ?t = "update_where (\<lambda>m. mem_ProjectID m = pid \<and> mem_UserID m = uid) ?f (db_members db)"
  have "owned (db_projects db) ?t (db_roles db)" if s: "schema_ok db"
  proof (cases "\<exists>p \<in> set (db_projects db). proj_ID p = pid")
    case True
    from assms(1) [OF s True] obtain m where m: "m \<in> set (db_members db)" "mem_ProjectID m = pid"
      "mem_UserID m \<noteq> uid \<and> owns (db_roles db) m \<or> mem_UserID m = uid \<and> (\<exists>r. owner_role (db_roles db) r \<and> role_ID r = rid)"
      by blast
    let ?m = "if mem_UserID m = uid then ?f m else m"
    have "?m = (if mem_ProjectID m = pid \<and> mem_UserID m = uid then ?f m else m)" using m(2) by simp
    then have "?m \<in> set ?t" using m(1) by (simp only: set_update_where image_eqI)
    moreover have "owns (db_roles db) ?m" using m(3) by (auto simp: owns_def)
    moreover have "mem_ProjectID ?m = pid" using m(2) by simp
    ultimately have new: "\<exists>m \<in> set ?t. mem_ProjectID m = pid \<and> owns (db_roles db) m" by blast
    have kept: "m \<in> set ?t" if "m \<in> set (db_members db)" "mem_ProjectID m \<noteq> pid" for m
      using that by (auto simp: table_simps image_iff intro!: bexI [of _ m])
    show ?thesis
      by (rule owned_replace [OF _ kept new]) (use s in \<open>simp_all add: schema_ok_def\<close>)
  next
    case False
    show ?thesis unfolding owned_def
    proof
      fix p assume p: "p \<in> set (db_projects db)"
      with s obtain m where m: "m \<in> set (db_members db)" "mem_ProjectID m = proj_ID p" "owns (db_roles db) m"
        by (auto simp: schema_ok_def owned_def)
      have "m \<in> set ?t" using m p False by (auto simp: table_simps image_iff)
      with m show "\<exists>m \<in> set ?t. mem_ProjectID m = proj_ID p \<and> owns (db_roles db) m" by blast
    qed
  qed
  then show ?thesis
    unfolding UpdateMembershipRole_def
    by (intro pstep_members psteps)
      (use role in \<open>auto simp: schema_ok_def refs_ok_def intro!: members_ok_update filter_update_where member_refs_update\<close>)
qed

lemma owned_member: "schema_ok db \<Longrightarrow> p \<in> set (db_projects db) \<Longrightarrow> proj_ID p = pid
    \<Longrightarrow> \<exists>m \<in> set (db_members db). mem_ProjectID m = pid \<and> owns (db_roles db) m"
  by (auto simp: schema_ok_def owned_def)

text \<open>A member who is not an owner can lose any role.\<close>

lemma other_owner:
  assumes "schema_ok db" and "\<exists>p \<in> set (db_projects db). proj_ID p = pid"
    and "GetMembershipForUser db pid uid = Inr (tm, tr)" and "GetRole db (mem_RoleID tm) = Inr old"
    and "is_owner_role old \<Longrightarrow> check_last_owner db pid msg = Inr u"
  shows "\<exists>m \<in> set (db_members db). mem_ProjectID m = pid \<and> mem_UserID m \<noteq> uid \<and> owns (db_roles db) m"
proof (cases "is_owner_role old")
  case True
  then show ?thesis using check_last_owner_other [OF assms(1) assms(5), of uid] by metis
next
  case False
  from owned_member [OF assms(1)] assms(2) obtain m where
    m: "m \<in> set (db_members db)" "mem_ProjectID m = pid" "owns (db_roles db) m" by blast
  have roles: "roles_ok (db_roles db)" and mem: "members_ok (db_members db)" using assms(1) by (auto simp: schema_ok_def)
  have tm: "tm \<in> set (db_members db)" "mem_ProjectID tm = pid" "mem_UserID tm = uid"
    using GetMembershipForUserD [OF assms(3)] by auto
  have "\<not> owns (db_roles db) tm" using owns_GetRole [OF roles assms(4)] False by simp
  moreover have "m = tm" if "mem_UserID m = uid"
    using keyed_unique [of "\<lambda>m. (mem_ProjectID m, mem_UserID m)" "db_members db" m tm] m tm mem that by (auto simp: members_ok_def)
  ultimately show ?thesis using m by blast
qed

lemma UpdateMemberRole_pstep: "pstep keep pid db (fst (UpdateMemberRole env actor pid uid rid db))"
proof -
  have "pstep keep pid db (UpdateMembershipRole env pid uid rid db)"
    if g: "GetRole db rid = Inr new" "GetMembershipForUser db pid uid = Inr (tm, tr)" "GetRole db (mem_RoleID tm) = Inr old"
      and c: "is_owner_role old \<and> \<not> is_owner_role new
           \<longrightarrow> check_last_owner db pid ''cannot remove the last owner role'' = Inr ()" for new tm tr old
  proof (rule UpdateMembershipRole_pstep)
    assume s: "schema_ok db" and p: "\<exists>p \<in> set (db_projects db). proj_ID p = pid"
    show "\<exists>m \<in> set (db_members db). mem_ProjectID m = pid \<and> (mem_UserID m \<noteq> uid \<and> owns (db_roles db) m
         \<or> mem_UserID m = uid \<and> (\<exists>r. owner_role (db_roles db) r \<and> role_ID r = rid))"
    proof (cases "is_owner_role new")
      case True
      obtain r0 where "r0 \<in> set (db_roles db)" "role_DeletedAt r0 = None" "role_ID r0 = rid"
        "role_IsPredefined new = role_IsPredefined r0" "role_Slug new = role_Slug r0"
        using GetRoleD [OF g(1)] by metis
      with True have "\<exists>r. owner_role (db_roles db) r \<and> role_ID r = rid"
        by (auto simp: is_owner_role_def owner_role_def)
      with GetMembershipForUserD [OF g(2)] show ?thesis by blast
    next
      case False
      with other_owner [OF s p g(2,3)] c show ?thesis by blast
    qed
  qed (rule GetRole_exists [OF g(1)])
  then show ?thesis
    by (simp add: UpdateMemberRole_def case_prod_beta split: sum.split) (auto simp: psteps split: if_splits)
qed

lemma RemoveMember_pstep: "pstep keep pid db (fst (RemoveMember env actor pid uid db))"
proof -
  have "pstep keep pid db (DeleteMembership pid uid db)"
    if g: "GetMembershipForUser db pid uid = Inr (tm, tr)" "GetRole db (mem_RoleID tm) = Inr old"
      and c: "is_owner_role old \<Longrightarrow> check_last_owner db pid ''cannot remove the last owner'' = Inr ()" for tm tr old
  proof -
    let ?t = "delete_where (\<lambda>m. mem_ProjectID m = pid \<and> mem_UserID m = uid) (db_members db)"
    have "owned (db_projects db) ?t (db_roles db)" if s: "schema_ok db"
      unfolding owned_def
    proof
      fix p assume p: "p \<in> set (db_projects db)"
      show "\<exists>m \<in> set ?t. mem_ProjectID m = proj_ID p \<and> owns (db_roles db) m"
      proof (cases "proj_ID p = pid")
        case True
        with other_owner [OF s _ g c] p show ?thesis by auto
      next
        case False
        with owned_member [OF s p refl] show ?thesis by auto
      qed
    qed
    then show ?thesis
      unfolding DeleteMembership_def
      by (intro pstep_members psteps) (auto simp: schema_ok_def members_ok_def refs_defs intro!: keyed_delete_where filter_delete_where)
  qed
  then show ?thesis
    by (auto simp: RemoveMember_def split: sum.splits prod.splits if_splits intro!: psteps)
qed

text \<open>The new owner holds the owner role afterwards.\<close>

lemma repo_TransferOwnership_pstep:
  assumes t: "repo_TransferOwnership env pid u v rid aid db = Inr db'"
    and r: "GetPredefinedRoleBySlug db SlugOwner = Inr r" "role_ID r = rid"
    and a: "GetPredefinedRoleBySlug db SlugAdmin = Inr ar" "role_ID ar = aid"
  shows "pstep keep pid db db'"
proof -
  from t obtain x y where x: "first_by mem_ID (\<lambda>m. mem_ProjectID m = pid \<and> mem_UserID m = u) (db_members db) = Some x"
    and y: "first_by mem_ID (\<lambda>m. mem_ProjectID m = pid \<and> mem_UserID m = v) (db_members db) = Some y"
    and db': "db' = db\<lparr>db_members := update_where (\<lambda>m. mem_ID m = mem_ID y)
                   (\<lambda>m. m\<lparr>mem_RoleID := rid, mem_UpdatedAt := env_now env\<rparr>)
                 (update_where (\<lambda>m. mem_ID m = mem_ID x)
                   (\<lambda>m. m\<lparr>mem_RoleID := aid, mem_UpdatedAt := env_now env\<rparr>) (db_members db))\<rparr>"
    by (auto simp: repo_TransferOwnership_def Let_def split: option.splits if_splits)
  let ?t1 = "update_where (\<lambda>m. mem_ID m = mem_ID x) (\<lambda>m. m\<lparr>mem_RoleID := aid, mem_UpdatedAt := env_now env\<rparr>) (db_members db)"
  let ?t2 = "update_where (\<lambda>m. mem_ID m = mem_ID y) (\<lambda>m. m\<lparr>mem_RoleID := rid, mem_UpdatedAt := env_now env\<rparr>) ?t1"
  from owner_role_by_slug [OF r(1)] r(2) obtain r0 where r0: "owner_role (db_roles db) r0" "role_ID r0 = rid" by metis
  note xD = first_by_Some [OF x] and yD = first_by_Some [OF y]
  have aid: "aid \<in> role_ID ` set (db_roles db)" using GetPredefinedRoleBySlugD [OF a(1)] a(2) by (metis image_eqI)
  have rid: "rid \<in> role_ID ` set (db_roles db)" using r0 by (auto simp: owner_role_def)
  have "members_ok ?t2 \<and> owned (db_projects db) ?t2 (db_roles db) \<and> member_refs (db_projects db) (db_roles db) ?t2
      \<and> filter (\<lambda>m. mem_ProjectID m \<noteq> pid) ?t2 = filter (\<lambda>m. mem_ProjectID m \<noteq> pid) (db_members db)" if s: "schema_ok db"
  proof (intro conjI)
    have k: "keyed mem_ID (db_members db)" using s by (simp add: schema_ok_def members_ok_def)
    show "members_ok ?t2" using s by (auto simp: schema_ok_def intro!: members_ok_update)
    show "member_refs (db_projects db) (db_roles db) ?t2"
      using s aid rid by (auto simp: schema_ok_def refs_ok_def intro!: member_refs_update)
    have same: "mem_ProjectID m = pid" if "m \<in> set (db_members db)" "mem_ID m = mem_ID x \<or> mem_ID m = mem_ID y" for m
      using keyed_unique [OF k] that xD yD by metis
    have "filter (\<lambda>m. mem_ProjectID m \<noteq> pid) ?t2 = filter (\<lambda>m. mem_ProjectID m \<noteq> pid) ?t1"
      using same by (intro filter_update_where) (auto simp: table_simps)
    also have "\<dots> = filter (\<lambda>m. mem_ProjectID m \<noteq> pid) (db_members db)"
      using same by (intro filter_update_where) auto
    finally show "filter (\<lambda>m. mem_ProjectID m \<noteq> pid) ?t2 = filter (\<lambda>m. mem_ProjectID m \<noteq> pid) (db_members db)" .
    have new: "\<exists>m \<in> set ?t2. mem_ProjectID m = pid \<and> owns (db_roles db) m"
    proof -
      let ?y1 = "if mem_ID y = mem_ID x then y\<lparr>mem_RoleID := aid, mem_UpdatedAt := env_now env\<rparr> else y"
      let ?y2 = "?y1\<lparr>mem_RoleID := rid, mem_UpdatedAt := env_now env\<rparr>"
      have "?y1 \<in> set ?t1" using yD by (auto simp: table_simps)
      moreover have "?y2 = (if mem_ID ?y1 = mem_ID y then ?y1\<lparr>mem_RoleID := rid, mem_UpdatedAt := env_now env\<rparr> else ?y1)"
        by simp
      ultimately have "?y2 \<in> set ?t2" unfolding set_update_where [of _ _ ?t1] by (rule image_eqI [rotated])
      moreover have "mem_ProjectID ?y2 = pid" using yD by auto
      moreover have "owns (db_roles db) ?y2" using r0 by (auto simp: owns_def)
      ultimately show ?thesis by blast
    qed
    have kept: "m \<in> set ?t2" if "m \<in> set (db_members db)" "mem_ProjectID m \<noteq> pid" for m
    proof -
      have "mem_ID m \<noteq> mem_ID x" "mem_ID m \<noteq> mem_ID y" using same [OF that(1)] that(2) by auto
      with that(1) show ?thesis by (auto simp: table_simps image_iff intro!: bexI [of _ m])
    qed
    show "owned (db_projects db) ?t2 (db_roles db)"
      by (rule owned_replace [OF _ kept new]) (use s in \<open>simp_all add: schema_ok_def\<close>)
  qed
  then show ?thesis unfolding db' by (intro pstep_members psteps) auto
qed

lemma TransferOwnership_pstep: "pstep keep pid db (fst (TransferOwnership env actor pid v db))"
  by (auto simp: TransferOwnership_def split: sum.splits intro!: psteps dest: repo_TransferOwnership_pstep [OF _ _ refl _ refl])

text \<open>A new project comes with its owner.\<close>

lemma CreateProject_pstep: "pstep keep (env_uuid env 0) db (fst (CreateProject env actor name desc db))"
proof -
  let ?i = "env_uuid env 0" and ?t = "env_now env"
  have step: "pstep keep ?i db (db\<lparr>db_projects := db_projects db @ [p], db_members := db_members db @ [new_membership env (Suc 0) ?i actor rid]\<rparr>)"
    if p: "proj_ID p = ?i" "\<forall>x \<in> set (db_projects db). \<not> proj_conflict x p"
      and m: "\<forall>x \<in> set (db_members db). \<not> mem_conflict x (new_membership env (Suc 0) ?i actor rid)"
      and r: "GetPredefinedRoleBySlug db SlugOwner = Inr r" "role_ID r = rid" for p r rid
  proof -
    let ?m = "new_membership env (Suc 0) ?i actor rid"
    from owner_role_by_slug [OF r(1)] r(2) obtain r0 where r0: "owner_role (db_roles db) r0" "role_ID r0 = rid" by metis
    show ?thesis
      by (intro pstep_new_project psteps)
        (use p m r0 in \<open>auto simp: schema_ok_def keyed_snoc proj_conflict_def members_ok_def mem_conflict_def owned_def owns_def
          refs_defs owner_role_def new_membership_def\<close>)
  qed
  show ?thesis
    by (auto simp: CreateProject_def CreateMembership_def Let_def split: sum.splits intro!: psteps step)
qed

subsection \<open>Custom roles\<close>

lemma owned_roles_mono:
  "owned ps ms rs \<Longrightarrow> (\<And>r. owner_role rs r \<Longrightarrow> \<exists>r'. owner_role rs' r' \<and> role_ID r' = role_ID r) \<Longrightarrow> owned ps ms rs'"
  unfolding owned_def owns_def by metis

lemma role_not_foreign:
  assumes "schema_ok db" and "r \<in> set (db_roles db)" and "role_ProjectID r = Some pid"
  shows "\<not> foreign_role pid db (role_ID r)"
  using not_foreign [of role_ID "db_roles db" r "\<lambda>r. role_ProjectID r \<noteq> Some pid"] assms
  by (auto simp: foreign_role_def schema_ok_def roles_ok_def)

lemma replaced_permissions_ok:
  assumes "schema_ok D" and "i \<in> role_ID ` set (db_roles D)" and "set perms \<subseteq> set (db_permissions D)" and "keyed perm_ID perms"
  shows "distinct (db_role_permissions (replace_permissions i perms D))"
    and "permission_refs (db_roles D) (db_permissions D) (db_role_permissions (replace_permissions i perms D))"
proof -
  have "distinct (map (\<lambda>p. (i, perm_ID p)) perms)" using assms(4) by (auto simp: keyed_def distinct_map inj_on_def)
  then show "distinct (db_role_permissions (replace_permissions i perms D))"
    using assms(1) by (auto simp: schema_ok_def delete_where_def replace_permissions_def)
  show "permission_refs (db_roles D) (db_permissions D) (db_role_permissions (replace_permissions i perms D))"
    using assms(1-3) by (auto simp: schema_ok_def refs_defs replace_permissions_def)
qed

lemma replace_permissions_pstep:
  assumes "pstep keep pid db D" and "schema_ok D \<Longrightarrow> \<not> foreign_role pid D i" and "i \<in> role_ID ` set (db_roles D)"
    and perms: "set perms \<subseteq> set (db_permissions D)" "permissions_ok (db_permissions D) \<Longrightarrow> keyed perm_ID perms"
  shows "pstep keep pid db (replace_permissions i perms D)"
  unfolding replace_permissions_def
proof (rule pstep_role_permissions [OF assms(1)], intro conjI)
  assume nf: "schema_ok D"
  let ?kept = "delete_where (\<lambda>rp. fst rp = i) (db_role_permissions D)" and ?new = "map (\<lambda>p. (i, perm_ID p)) perms"
  have "filter (\<lambda>x. foreign_role pid D (fst x)) ?kept = filter (\<lambda>x. foreign_role pid D (fst x)) (db_role_permissions D)"
    by (rule filter_delete_where) (use assms(2) [OF nf] in auto)
  then show "filter (\<lambda>x. foreign_role pid D (fst x)) (?kept @ ?new) = filter (\<lambda>x. foreign_role pid D (fst x)) (db_role_permissions D)"
    using assms(2) [OF nf] by (simp add: filter_empty_conv)
  have "keyed perm_ID perms" using perms(2) nf by (simp add: schema_ok_def)
  from replaced_permissions_ok [OF nf assms(3) perms(1) this]
  show "distinct (?kept @ ?new)" "permission_refs (db_roles D) (db_permissions D) (?kept @ ?new)"
    by (simp_all add: replace_permissions_def)
qed

lemma permissionsByKeys_rows:
  assumes "permissionsByKeys db keys = Inr perms"
  shows "set perms \<subseteq> set (db_permissions db)" and "permissions_ok (db_permissions db) \<Longrightarrow> keyed perm_ID perms"
  using assms by (auto simp: permissionsByKeys_def Let_def permissions_ok_def split: if_splits intro: keyed_filter)

lemma repo_CreateCustomRole_pstep:
  assumes "repo_CreateCustomRole env k pid name desc keys db = Inr (db', r)"
  shows "pstep keep pid db db'"
proof -
  let ?r = "\<lparr>role_ID = env_uuid env k, role_ProjectID = Some pid, role_Slug = [], role_Name = trim_space name,
             role_NameNormalized = normalizeRoleName name, role_IsPredefined = False,
             role_Description = trim_space desc, role_Permissions = [], role_CreatedAt = env_now env,
             role_UpdatedAt = env_now env, role_DeletedAt = None\<rparr>"
  from assms obtain perms where perms: "permissionsByKeys db keys = Inr perms"
    and c: "\<forall>x \<in> set (db_roles db). \<not> role_conflict x ?r"
    and db': "db' = replace_permissions (env_uuid env k) perms (db\<lparr>db_roles := db_roles db @ [?r]\<rparr>)"
    by (auto simp: repo_CreateCustomRole_def Let_def split: sum.splits if_splits)
  have id: "env_uuid env k \<notin> role_ID ` set (db_roles db)" using c by (auto simp: role_conflict_def)
  have 1: "pstep keep pid db (db\<lparr>db_roles := db_roles db @ [?r]\<rparr>)"
    by (intro pstep_roles psteps)
      (use id c in \<open>auto simp: schema_ok_def roles_ok_def owner_role_def role_conflict_def custom_role_def keyed_snoc
        intro!: keyed_append_map elim!: owned_roles_mono\<close>)
  note rows = permissionsByKeys_rows [OF perms]
  show ?thesis unfolding db'
    by (intro replace_permissions_pstep [OF 1])
      (use id rows in \<open>auto simp: foreign_role_def\<close>)
qed

text \<open>An update of one custom role of the project.\<close>

lemma update_custom_role_pstep:
  assumes r0: "find_role db P = Some r0" "\<And>r. P r \<Longrightarrow> role_ProjectID r = Some pid \<and> \<not> role_IsPredefined r"
    and f: "\<And>r. role_ID (f r) = role_ID r \<and> role_ProjectID (f r) = role_ProjectID r \<and> role_IsPredefined (f r) = role_IsPredefined r"
    and name: "\<And>x. schema_ok db \<Longrightarrow> role_DeletedAt (f r0) = None \<Longrightarrow> x \<in> set (db_roles db) \<Longrightarrow> role_ID x \<noteq> role_ID r0
      \<Longrightarrow> custom_role x \<Longrightarrow> role_ProjectID x = role_ProjectID r0 \<Longrightarrow> role_NameNormalized x \<noteq> role_NameNormalized (f r0)"
  shows "pstep keep pid db (db\<lparr>db_roles := update_where (\<lambda>r. role_ID r = role_ID r0 \<and> role_DeletedAt r = None) f (db_roles db)\<rparr>)"
proof (intro pstep_roles psteps conjI)
  assume s: "schema_ok db"
  let ?P = "\<lambda>r. role_ID r = role_ID r0 \<and> role_DeletedAt r = None"
  let ?t = "update_where ?P f (db_roles db)"
  have k: "keyed role_ID (db_roles db)" using s by (simp add: schema_ok_def roles_ok_def)
  have c: "role_ProjectID r = Some pid \<and> \<not> role_IsPredefined r" if "r \<in> set (db_roles db)" "role_ID r = role_ID r0" for r
    using in_project [OF r0(1) [unfolded find_role_def] k that] r0(2) by simp
  show "filter (\<lambda>x. role_ProjectID x \<noteq> Some pid) ?t = filter (\<lambda>x. role_ProjectID x \<noteq> Some pid) (db_roles db)"
    by (rule filter_update_where) (use c f in auto)
  have pre: "filter (\<lambda>r. role_IsPredefined r \<and> role_DeletedAt r = None) ?t
      = filter (\<lambda>r. role_IsPredefined r \<and> role_DeletedAt r = None) (db_roles db)"
    by (rule filter_update_where) (use c f in auto)
  have idx: "keyed (\<lambda>r. (role_ProjectID r, role_NameNormalized r)) (filter custom_role ?t)"
    by (rule keyed_index_update [where pk = role_ID and a = r0
          and C = "\<lambda>x r. custom_role x \<and> custom_role r \<and> (role_ProjectID x, role_NameNormalized x) = (role_ProjectID r, role_NameNormalized r)"])
      (use s f name [OF s] first_by_Some [OF r0(1) [unfolded find_role_def]] in \<open>auto simp: schema_ok_def roles_ok_def custom_role_def\<close>)
  show "roles_ok ?t"
    using s f idx unfolding roles_ok_def pre
    by (auto simp: schema_ok_def roles_ok_def table_simps intro!: keyed_update_where)
  show "role_ID ` set (db_roles db) \<subseteq> role_ID ` set ?t" using f by (intro ids_update_where) simp
  have "set ?t \<inter> {r. role_IsPredefined r \<and> role_DeletedAt r = None}
      = set (db_roles db) \<inter> {r. role_IsPredefined r \<and> role_DeletedAt r = None}"
    using arg_cong [OF pre, of set] by (auto simp: set_eq_iff)
  then have "owner_role ?t = owner_role (db_roles db)"
    by (auto simp: owner_role_def fun_eq_iff set_eq_iff)
  then show "owned (db_projects db) (db_members db) ?t"
    using s by (simp add: schema_ok_def owned_def owns_def)
qed

lemma repo_UpdateCustomRole_pstep:
  assumes "repo_UpdateCustomRole env pid i name desc keys db = Inr (db', r)"
  shows "pstep keep pid db db'"
proof -
  let ?P = "\<lambda>r. role_ID r = i \<and> role_ProjectID r = Some pid \<and> \<not> role_IsPredefined r"
  from assms obtain r0 db1 where r0: "find_role db ?P = Some r0"
    and db1: "db1 = (if name = None \<and> desc = None then db
                 else db\<lparr>db_roles := update_where (\<lambda>r. role_ID r = role_ID r0 \<and> role_DeletedAt r = None)
                   (\<lambda>r. r\<lparr>role_UpdatedAt := env_now env,
                         role_Name := (case name of None \<Rightarrow> role_Name r | Some nm \<Rightarrow> trim_space nm),
                         role_NameNormalized := (case name of None \<Rightarrow> role_NameNormalized r
                                                 | Some nm \<Rightarrow> normalizeRoleName nm),
                         role_Description := (case desc of None \<Rightarrow> role_Description r
                                              | Some d \<Rightarrow> trim_space d)\<rparr>) (db_roles db)\<rparr>)"
    and nm: "\<And>nm. name = Some nm \<Longrightarrow> \<not> customRoleNameTaken db pid (normalizeRoleName nm) (Some i)"
    and db': "db' = db1 \<or> (\<exists>ks perms. permissionsByKeys db1 ks = Inr perms \<and> db' = replace_permissions i perms db1)"
    unfolding repo_UpdateCustomRole_def Let_def by (simp split: option.splits sum.splits if_split_asm) blast+
  have 1: "pstep keep pid db db1" unfolding db1
  proof (cases "name = None \<and> desc = None", simp add: pstep_refl, simp only: if_False, rule update_custom_role_pstep [OF r0])
    fix x
    assume s: "schema_ok db" and x: "x \<in> set (db_roles db)" "role_ID x \<noteq> role_ID r0" "custom_role x" "role_ProjectID x = role_ProjectID r0"
    note r0D = first_by_Some [OF r0 [unfolded find_role_def]]
    have "role_NameNormalized x \<noteq> role_NameNormalized r0"
      using keyed_unique [of "\<lambda>r. (role_ProjectID r, role_NameNormalized r)" "filter custom_role (db_roles db)" x r0] s x r0D
      by (auto simp: schema_ok_def roles_ok_def custom_role_def)
    then show "role_NameNormalized x \<noteq> role_NameNormalized (r0\<lparr>role_UpdatedAt := env_now env,
                         role_Name := (case name of None \<Rightarrow> role_Name r0 | Some nm \<Rightarrow> trim_space nm),
                         role_NameNormalized := (case name of None \<Rightarrow> role_NameNormalized r0
                                                 | Some nm \<Rightarrow> normalizeRoleName nm),
                         role_Description := (case desc of None \<Rightarrow> role_Description r0
                                              | Some d \<Rightarrow> trim_space d)\<rparr>)"
    proof (cases name)
      case (Some n)
      have "0 < count_where (\<lambda>r. role_ProjectID r = Some pid \<and> \<not> role_IsPredefined r
          \<and> role_NameNormalized r = normalizeRoleName n \<and> role_DeletedAt r = None \<and> role_ID r \<noteq> i) (db_roles db)"
        if "role_NameNormalized x = normalizeRoleName n"
        unfolding count_where_pos_iff using that x r0D by (auto simp: custom_role_def)
      with nm [OF Some] Some show ?thesis by (auto simp: customRoleNameTaken_def)
    qed simp
  qed simp_all
  have r0D: "r0 \<in> set (db_roles db)" "?P r0" using first_by_Some [OF r0 [unfolded find_role_def]] by auto
  have "\<not> foreign_role pid db1 i" if s: "schema_ok db1"
  proof -
    have "\<exists>r1 \<in> set (db_roles db1). role_ID r1 = i \<and> role_ProjectID r1 = Some pid"
      unfolding db1 using r0D by (auto intro!: update_where_ex)
    then show ?thesis using role_not_foreign [OF s] by blast
  qed
  moreover have "i \<in> role_ID ` set (db_roles db1)"
    unfolding db1 using r0D by (auto intro!: subsetD [OF ids_update_where])
  ultimately have "pstep keep pid db (replace_permissions i perms db1)" if "permissionsByKeys db1 ks = Inr perms" for ks perms
    using permissionsByKeys_rows [OF that] by (intro replace_permissions_pstep [OF 1])
  with 1 db' show ?thesis by auto
qed

lemma repo_DeleteCustomRole_pstep:
  assumes "repo_DeleteCustomRole env pid i db = Inr db'"
  shows "pstep keep pid db db'"
proof -
  from assms obtain r0 where
    r0: "find_role db (\<lambda>r. role_ID r = i \<and> role_ProjectID r = Some pid \<and> \<not> role_IsPredefined r) = Some r0"
    and db': "db' = db\<lparr>db_roles := update_where (\<lambda>r. role_ID r = role_ID r0 \<and> role_DeletedAt r = None)
                     (\<lambda>r. r\<lparr>role_DeletedAt := Some (env_now env)\<rparr>) (db_roles db)\<rparr>"
    by (auto simp: repo_DeleteCustomRole_def split: option.splits if_splits)
  show ?thesis unfolding db' by (rule update_custom_role_pstep [OF r0]) simp_all
qed

lemma CreateCustomRole_pstep: "pstep keep pid db (fst (CreateCustomRole env actor pid name desc keys db))"
  by (auto simp: CreateCustomRole_def Let_def split: sum.splits prod.splits intro!: psteps dest: repo_CreateCustomRole_pstep)

lemma UpdateCustomRole_pstep: "pstep keep pid db (fst (UpdateCustomRole env actor pid i name desc keys db))"
  by (auto simp: UpdateCustomRole_def Let_def split: sum.splits prod.splits intro!: psteps dest: repo_UpdateCustomRole_pstep)

lemma DeleteCustomRole_pstep: "pstep keep pid db (fst (DeleteCustomRole env actor pid i db))"
  by (auto simp: DeleteCustomRole_def split: sum.splits intro!: psteps dest: repo_DeleteCustomRole_pstep)

end
