(* ===== verification/TenancyFleet.thy ===== *)
theory TenancyFleet
  imports Tenancy Campaign TenancyDevices
begin

section \<open>Firmware, campaign and device-side operations stay in their project\<close>

text \<open>
  \<open>pstep\<close> of every operation on firmware and campaigns and of what devices do: polls, reports and
  downloads. Those on campaigns are steps of kind \<open>False\<close>: they may change the tables of campaigns.
\<close>

lemma fw_audit_pstep [psteps]: "pstep keep pid db db' \<Longrightarrow> pstep keep pid db (fw_audit env k actor event pid m db')"
  by (simp add: fw_audit_def psteps)

lemma camp_audit_pstep [psteps]: "pstep keep pid db db' \<Longrightarrow> pstep keep pid db (camp_audit env k actor event pid m db')"
  by (simp add: camp_audit_def psteps)

subsection \<open>Firmware\<close>

lemma length_upload_filename: "length (upload_filename f) \<le> 255"
  by (simp add: upload_filename_def Let_def)

lemma length_sha256Hex: "length (sha256Hex c) = 64"
  by (simp add: sha256Hex_def length_hex_encode length_sha256)

lemma CreateFirmwareWithTypes_pstep:
  assumes "CreateFirmwareWithTypes env fw types db = Inr db'" and "fw_ProjectID fw = pid" and "firmware_row_ok fw"
    and "fw_DeletedAt fw = None"
  shows "pstep keep pid db db'"
proof -
  let ?rows = "map (\<lambda>dt. \<lparr>ft_FirmwareID = fw_ID fw, ft_DeviceTypeID = dt, ft_CreatedAt = env_now env\<rparr>) types"
  from assms(1) obtain ts where c: "\<forall>x \<in> set (db_firmwares db). \<not> fw_conflict x fw"
    and ts: "insert_rows ft_conflict ?rows (db_firmware_types db) = Inr ts"
    and db': "db' = db\<lparr>db_firmwares := db_firmwares db @ [fw], db_firmware_types := ts\<rparr>"
    by (auto simp: CreateFirmwareWithTypes_def split: sum.splits)
  have ts': "ts = db_firmware_types db @ ?rows" by (rule insert_rows_Inr [OF ts])
  have 1: "pstep keep pid db (db\<lparr>db_firmwares := db_firmwares db @ [fw]\<rparr>)"
    by (intro pstep_firmwares psteps)
      (use c assms(2-4) in \<open>auto simp: schema_ok_def firmwares_ok_def keyed_snoc fw_conflict_def\<close>)
  have "\<not> foreign_firmware pid (db\<lparr>db_firmwares := db_firmwares db @ [fw]\<rparr>) (fw_ID fw)"
    using c assms(2) by (fastforce simp: foreign_firmware_def fw_conflict_def)
  moreover have "keyed ft_key ts" if "keyed ft_key (db_firmware_types db)"
    by (rule keyed_insert_rows [OF ts that]) (simp add: ft_conflict_def ft_key_def)
  ultimately show ?thesis unfolding db' ts'
    by (intro pstep_firmware_types [OF 1]) (simp add: filter_empty_conv schema_ok_def ts')
qed

lemma UploadFirmware_pstep:
  "pstep keep pid (fst dbs) (fst (fst (UploadFirmware put del semver cfg env actor pid v cl fn types body dbs)))"
  by (auto simp: UploadFirmware_def Let_def parseSemverParts_def psteps firmware_row_ok_def length_sha256Hex
      length_upload_filename split: prod.splits sum.splits option.splits
      intro!: fw_audit_pstep elim!: CreateFirmwareWithTypes_pstep)

lemma SoftDeleteFirmware_pstep:
  assumes "SoftDeleteFirmwareAndReturnKey env pid i db = Inr (db', key)"
  shows "pstep keep pid db db'"
proof -
  from assms obtain f0 where f0: "first_by fw_ID (\<lambda>f. fw_ProjectID f = pid \<and> fw_ID f = i \<and> fw_DeletedAt f = None) (db_firmwares db) = Some f0"
    and db': "db' = db\<lparr>db_firmwares := update_where (\<lambda>f. fw_ID f = fw_ID f0 \<and> fw_DeletedAt f = None)
                 (\<lambda>f. f\<lparr>fw_DeletedAt := Some (env_now env)\<rparr>) (db_firmwares db)\<rparr>"
    by (auto simp: SoftDeleteFirmwareAndReturnKey_def repo_GetFirmware_def split: sum.splits option.splits)
  let ?P = "\<lambda>f. fw_ID f = fw_ID f0 \<and> fw_DeletedAt f = None"
  let ?g = "\<lambda>f. f\<lparr>fw_DeletedAt := Some (env_now env)\<rparr>"
  have "firmware_row_ok (?g f) = firmware_row_ok f" for f by (simp add: firmware_row_ok_def)
  then have ok: "firmwares_ok t \<Longrightarrow> firmwares_ok (update_where ?P ?g t)" for t
    by (auto simp: firmwares_ok_def table_simps intro!: keyed_update_where keyed_filter_shrink)
  have own: "filter (\<lambda>x. fw_ProjectID x \<noteq> pid) (update_where ?P ?g (db_firmwares db)) = filter (\<lambda>x. fw_ProjectID x \<noteq> pid) (db_firmwares db)"
    if "keyed fw_ID (db_firmwares db)"
    using in_project [OF f0 that] by (intro filter_update_where) fastforce
  have "keyed fw_ID (db_firmwares db) \<and> firmwares_ok (db_firmwares db)" if "schema_ok db"
    using that by (simp add: schema_ok_def firmwares_ok_def)
  with ok own show ?thesis unfolding db' by (intro pstep_firmwares psteps) blast
qed

lemma DeleteFirmware_pstep: "pstep keep pid (fst dbs) (fst (fst (DeleteFirmware del env actor pid i dbs)))"
  by (auto simp: DeleteFirmware_def psteps split: prod.splits sum.splits intro!: fw_audit_pstep elim!: SoftDeleteFirmware_pstep)

lemma OpenFirmwareBinary_pstep: "pstep keep pid (fst dbs) (fst (fst (OpenFirmwareBinary get env actor pid i dbs)))"
  by (auto simp: OpenFirmwareBinary_def psteps split: prod.splits sum.splits intro!: fw_audit_pstep)

subsection \<open>Download tokens\<close>

lemma IssueOtaDownloadToken_pstep: "pstep keep pid db (fst (IssueOtaDownloadToken env k secret pid did cid fid ttl db))"
  by (auto simp: IssueOtaDownloadToken_def InsertOtaDownloadToken_def Let_def ota_conflict_def schema_ok_def ota_tokens_ok_def
      keyed_snoc split: sum.splits intro!: pstep_ota_tokens psteps row_mono_snoc)

lemma ConsumeOtaDownloadTokenTx_pstep:
  assumes "ConsumeOtaDownloadTokenTx hash now db = Inr (db', row)"
  shows "pstep keep (ota_ProjectID row) db db'"
proof -
  from assms obtain r0 where r0: "first_by ota_ID (\<lambda>t. ota_TokenHash t = hash) (db_ota_tokens db) = Some r0"
    and row: "row = r0\<lparr>ota_ConsumedAt := Some now\<rparr>"
    and db': "db' = db\<lparr>db_ota_tokens := update_where (\<lambda>t. ota_ID t = ota_ID r0 \<and> ota_ConsumedAt t = None)
                 (\<lambda>t. t\<lparr>ota_ConsumedAt := Some now\<rparr>) (db_ota_tokens db)\<rparr>"
    by (auto simp: ConsumeOtaDownloadTokenTx_def Let_def split: option.splits if_splits)
  show ?thesis unfolding db'
    by (intro pstep_ota_tokens psteps)
      (auto simp: schema_ok_def ota_tokens_ok_def ota_used_def row intro!: keyed_update_where filter_update_where row_mono_update
        dest!: in_project [OF r0])
qed

text \<open>Which project a download belongs to is known only from its token.\<close>

lemma OpenFirmwareWithOta_pstep:
  "\<exists>pid. pstep keep pid (fst dbs) (fst (fst (OpenFirmwareWithOtaDownloadToken get env raw dbs)))"
proof (cases "ConsumeOtaDownloadTokenTx (HashToken raw) (env_now env) (fst dbs)")
  case (Inl e)
  then show ?thesis
    by (intro exI [of _ 0]) (simp add: OpenFirmwareWithOtaDownloadToken_def case_prod_beta Let_def psteps)
next
  case (Inr r)
  obtain db1 row where r: "r = (db1, row)" by fastforce
  have "fst (fst (OpenFirmwareWithOtaDownloadToken get env raw dbs)) \<in> {fst dbs, db1}"
    using Inr r by (auto simp: OpenFirmwareWithOtaDownloadToken_def case_prod_beta Let_def split: sum.splits)
  then show ?thesis
    using ConsumeOtaDownloadTokenTx_pstep [OF Inr [unfolded r]] pstep_refl [of keep 0 "fst dbs"] by auto
qed

subsection \<open>Campaigns\<close>

lemma campaign_not_foreign:
  assumes "schema_ok db" and "c \<in> set (db_campaigns db)" and "camp_ProjectID c = pid"
  shows "\<not> foreign_campaign pid db (camp_ID c)"
  using not_foreign [of camp_ID "db_campaigns db" c "\<lambda>c. camp_ProjectID c \<noteq> pid"] assms
  by (auto simp: foreign_campaign_def schema_ok_def campaigns_ok_def)

lemma campaigns_ok_update:
  "campaigns_ok cs as \<Longrightarrow> (\<And>c. camp_ID (f c) = camp_ID c) \<Longrightarrow> campaigns_ok (update_where P f cs) as"
proof -
  assume c: "campaigns_ok cs as" and f: "\<And>c. camp_ID (f c) = camp_ID c"
  have "camp_ID ` set (update_where P f cs) = camp_ID ` set cs" using f by (induction cs) auto
  moreover have mem: "(\<exists>c \<in> set t. camp_ID c = i) = (i \<in> camp_ID ` set t)" for i t by auto
  ultimately show ?thesis using c f unfolding campaigns_ok_def mem by (simp add: keyed_update_where)
qed

lemma assignments_ok_update:
  "campaigns_ok cs as \<Longrightarrow> (\<And>a. asg_CampaignID (f a) = asg_CampaignID a \<and> asg_DeviceID (f a) = asg_DeviceID a)
   \<Longrightarrow> campaigns_ok cs (update_where P f as)"
  by (auto simp: campaigns_ok_def table_simps asg_key_def intro!: keyed_update_where)

lemma move_campaign_pstep:
  assumes "move_campaign env pid i from patch db = Inr db'"
    and "\<And>c. camp_ID (patch c) = camp_ID c \<and> camp_ProjectID (patch c) = camp_ProjectID c"
  shows "pstep False pid db db'"
  using assms
  by (auto simp: move_campaign_def Let_def schema_ok_def live_campaign_def split: if_splits
      intro!: pstep_campaigns psteps campaigns_ok_update filter_update_where)

lemma change_campaign_pstep:
  assumes "\<And>db'. f env pid i db = Inr db' \<Longrightarrow> pstep False pid db db'"
  shows "pstep False pid db (fst (change_campaign perm f msg event env actor pid i db))"
  using assms by (auto simp: change_campaign_def split: sum.splits intro!: psteps)

lemma PauseCampaign_pstep: "pstep False pid db (fst (PauseCampaign env actor pid i db))"
  unfolding PauseCampaign_def by (rule change_campaign_pstep) (auto simp: repo_PauseCampaign_def intro: move_campaign_pstep)

lemma ResumeCampaign_pstep: "pstep False pid db (fst (ResumeCampaign env actor pid i db))"
  unfolding ResumeCampaign_def by (rule change_campaign_pstep) (auto simp: repo_ResumeCampaign_def intro: move_campaign_pstep)

lemma CancelCampaign_pstep: "pstep False pid db (fst (CancelCampaign env actor pid i db))"
  unfolding CancelCampaign_def by (rule change_campaign_pstep) (auto simp: repo_CancelCampaign_def intro: move_campaign_pstep)

lemma CreateCampaignBundle_pstep:
  assumes "CreateCampaignBundle env c gs ds is db = Inr db'" and "camp_ProjectID c = pid"
  shows "pstep False pid db db'"
proof -
  let ?G = "map (\<lambda>g. \<lparr>tg_CampaignID = camp_ID c, tg_DeviceGroupID = g, tg_CreatedAt = env_now env\<rparr>) gs"
  let ?D = "map (\<lambda>d. \<lparr>td_CampaignID = camp_ID c, td_DeviceID = d, td_CreatedAt = env_now env\<rparr>) ds"
  let ?A = "map (new_assignment env (camp_ID c)) is"
  from assms(1) obtain G D A where c: "\<forall>x \<in> set (db_campaigns db). \<not> camp_conflict x c"
    and G: "insert_rows tg_conflict ?G (db_target_groups db) = Inr G"
    and D: "insert_rows td_conflict ?D (db_target_devices db) = Inr D"
    and A: "insert_rows asg_conflict ?A (db_assignments db) = Inr A"
    and db': "db' = db\<lparr>db_campaigns := db_campaigns db @ [c], db_target_groups := G, db_target_devices := D, db_assignments := A\<rparr>"
    by (auto simp: CreateCampaignBundle_def split: sum.splits)
  note rows = insert_rows_Inr [OF G] insert_rows_Inr [OF D] insert_rows_Inr [OF A]
  let ?db1 = "db\<lparr>db_campaigns := db_campaigns db @ [c]\<rparr>"
  have nf: "\<not> foreign_campaign pid ?db1 (camp_ID c)"
    using c assms(2) by (fastforce simp: foreign_campaign_def camp_conflict_def)
  have 1: "pstep False pid db ?db1"
    by (intro pstep_campaigns psteps)
      (use c assms(2) in \<open>auto simp: schema_ok_def campaigns_ok_def keyed_snoc camp_conflict_def\<close>)
  have tg: "keyed tg_key G" if "keyed tg_key (db_target_groups db)"
    by (rule keyed_insert_rows [OF G that]) (simp add: tg_conflict_def tg_key_def)
  have td: "keyed td_key D" if "keyed td_key (db_target_devices db)"
    by (rule keyed_insert_rows [OF D that]) (simp add: td_conflict_def td_key_def)
  have 2: "pstep False pid db (?db1\<lparr>db_target_groups := G\<rparr>)"
    by (rule pstep_target_groups [OF 1]) (use nf tg in \<open>simp add: rows filter_empty_conv schema_ok_def\<close>)
  have 3: "pstep False pid db (?db1\<lparr>db_target_groups := G, db_target_devices := D\<rparr>)"
    by (rule pstep_target_devices [OF 2]) (use nf td in \<open>simp add: rows filter_empty_conv schema_ok_def\<close>)
  have "keyed asg_key A" if "keyed asg_key (db_assignments db)"
    by (rule keyed_insert_rows [OF A that]) (simp add: asg_conflict_def asg_key_def)
  then have ok: "campaigns_ok (db_campaigns db @ [c]) A" if "campaigns_ok (db_campaigns db @ [c]) (db_assignments db)"
    using that by (auto simp: campaigns_ok_def rows new_assignment_def)
  show ?thesis unfolding db'
    by (rule pstep_assignments [OF 3]) (use nf ok in \<open>auto simp: schema_ok_def rows filter_empty_conv new_assignment_def\<close>)
qed

lemma CreateCampaign_pstep: "pstep False pid db (fst (CreateCampaign env actor pid inp db))"
  by (auto simp: CreateCampaign_def Let_def split: sum.splits intro!: psteps elim!: CreateCampaignBundle_pstep)

text \<open>The scheduler works for every project.\<close>

lemma ActivateDue_schema: "schema_ok db \<Longrightarrow> schema_ok (fst (ActivateDueCampaigns env db))"
  by (auto simp: ActivateDueCampaigns_def ActivateDueScheduledCampaigns_def Let_def schema_ok_def refs_ok_def intro!: campaigns_ok_update)

subsection \<open>What devices do\<close>

lemma tryAutoComplete_pstep: "pstep False pid db (fst (tryAutoComplete env pid i db))"
  by (auto simp: tryAutoComplete_def MarkCampaignCompleted_def split: sum.splits intro!: psteps elim!: move_campaign_pstep)

lemma update_assignments_pstep:
  assumes "c \<in> set (db_campaigns db)" and "camp_ProjectID c = pid" and "camp_ID c = i"
    and "\<And>a. P a \<Longrightarrow> asg_CampaignID a = i"
    and "\<And>a. asg_CampaignID (f a) = asg_CampaignID a \<and> asg_DeviceID (f a) = asg_DeviceID a"
  shows "pstep False pid db (db\<lparr>db_assignments := update_where P f (db_assignments db)\<rparr>)"
  by (intro pstep_assignments psteps)
    (use assms campaign_not_foreign [of db c pid] in
      \<open>auto simp: schema_ok_def intro!: assignments_ok_update filter_update_where\<close>)

lemma offer_rows_project:
  "(a, c, f) \<in> set (offer_rows db pid did ss) \<Longrightarrow> c \<in> set (db_campaigns db) \<and> camp_ProjectID c = pid \<and> camp_ID c = asg_CampaignID a"
  by (auto simp: offer_rows_def)

lemma UpdateAssignmentStatus_pstep:
  assumes "UpdateAssignmentStatus env i did from to db = Inr db'" and "c \<in> set (db_campaigns db)" "camp_ProjectID c = pid" "camp_ID c = i"
  shows "pstep False pid db db'"
  using assms by (auto simp: UpdateAssignmentStatus_def Let_def asg_of_def split: if_splits intro!: update_assignments_pstep)

lemma SetAssignmentStatus_pstep:
  assumes "SetAssignmentStatus env i did to db = Inr db'" and "c \<in> set (db_campaigns db)" "camp_ProjectID c = pid" "camp_ID c = i"
  shows "pstep False pid db db'"
  using assms by (auto simp: SetAssignmentStatus_def Let_def asg_of_def split: if_splits intro!: update_assignments_pstep)

lemma BuildPollOffer_pstep: "pstep False pid db (fst (BuildPollOffer env pid did db))"
proof (cases "FindActivePendingOffer db pid did")
  case None
  then show ?thesis by (simp add: BuildPollOffer_def psteps)
next
  case (Some row)
  then obtain a c f where "(a, c, f) \<in> set (offer_rows db pid did [AssignmentPending, AssignmentOffered])" "of_CampaignID row = camp_ID c"
    by (fastforce simp: FindActivePendingOffer_def split: option.splits if_splits dest!: first_by_Some)
  then have c: "c \<in> set (db_campaigns db)" "camp_ProjectID c = pid" "camp_ID c = of_CampaignID row" using offer_rows_project by auto
  have "pstep False pid db db1" if "UpdateAssignmentStatus env (of_CampaignID row) did AssignmentPending AssignmentOffered db = Inr db1" for db1
    by (rule UpdateAssignmentStatus_pstep [OF that c])
  then show ?thesis
    by (auto simp: BuildPollOffer_def Some split: sum.splits if_splits intro: psteps pstep_trans [OF _ tryAutoComplete_pstep] tryAutoComplete_pstep)
qed

lemma OnDeviceReportFirmware_pstep: "pstep False pid db (fst (OnDeviceReportFirmware env pid did v db))"
proof (cases "first_by (\<lambda>(a, c, f). (camp_CreatedAt c, camp_ID c)) (\<lambda>_. True)
             (offer_rows db pid did [AssignmentOffered, AssignmentDownloaded])")
  case None
  then show ?thesis by (simp add: OnDeviceReportFirmware_def psteps)
next
  case (Some row)
  obtain a c f where row: "row = (a, c, f)" by (cases row)
  have c: "c \<in> set (db_campaigns db)" "camp_ProjectID c = pid"
    using first_by_Some [OF Some] offer_rows_project unfolding row by fastforce+
  have "pstep False pid db (case SetAssignmentStatus env (camp_ID c) did AssignmentInstalled db of Inl _ \<Rightarrow> db | Inr d \<Rightarrow> d)"
    using SetAssignmentStatus_pstep [OF _ c refl] by (auto split: sum.split intro: psteps)
  then show ?thesis
    unfolding OnDeviceReportFirmware_def Some row option.case prod.case Let_def
    by (auto intro: psteps pstep_trans [OF _ tryAutoComplete_pstep])
qed

lemma applyAssignmentStatus_pstep: "pstep False pid db (fst (applyAssignmentStatus env pid i did from to code msg db))"
proof (cases "isCampaignActiveInProject db pid i")
  case True
  then obtain c where "c \<in> set (db_campaigns db)" "camp_ProjectID c = pid" "camp_ID c = i"
    by (auto simp: isCampaignActiveInProject_def live_campaign_def table_simps)
  with True show ?thesis
    by (auto simp: applyAssignmentStatus_def Let_def asg_of_def intro!: update_assignments_pstep)
qed (simp add: applyAssignmentStatus_def psteps)

lemma UpdateDeviceSeenAndFirmware_pstep: "pstep keep pid db D \<Longrightarrow> pstep keep pid db (UpdateDeviceSeenAndFirmware env pid did v t st D)"
  unfolding UpdateDeviceSeenAndFirmware_def by (rule update_device_pstep) simp_all

lemma apply_installed_pstep: "pstep False pid db (fst (apply_installed env pid did cid db))"
proof -
  obtain db1 n where r: "ApplyOtaInstalled env pid cid did db = (db1, n)" by fastforce
  then have "pstep False pid db db1"
    using applyAssignmentStatus_pstep [of pid db env cid did] by (metis ApplyOtaInstalled_def fst_conv)
  then show ?thesis
    unfolding apply_installed_def r Let_def prod.case write_step_def
    by (auto split: sum.split option.split intro: UpdateDeviceSeenAndFirmware_pstep)
qed

lemma ApplyOtaDeviceReport_pstep: "pstep False pid db (fst (ApplyOtaDeviceReport env pid did cid st code msg db))"
proof -
  have "pstep False pid db db2" if r: "(if st = OtaReportDownloaded
            then (fst (ApplyOtaDownloaded env pid cid did db), Inr [])
            else if st = OtaReportInstalled then apply_installed env pid did cid db
            else if st = OtaReportFailed
            then (fst (ApplyOtaFailed env pid cid did code m db), Inr [])
            else (db, Inl (BadRequest ''invalid ota report status'' JNull))) = (db2, r)" for m db2 r
    using r applyAssignmentStatus_pstep [of pid db env cid did] apply_installed_pstep [of pid db env did cid]
    by (auto simp: ApplyOtaDownloaded_def ApplyOtaFailed_def psteps split: if_splits)
  then show ?thesis
    unfolding ApplyOtaDeviceReport_def Let_def
    by (auto split: sum.split prod.split intro: psteps pstep_trans [OF _ tryAutoComplete_pstep])
qed

end
