(* ===== verification/TenancyAccounts.thy ===== *)
theory TenancyAccounts
  imports Tenancy AuthService
begin

section \<open>Account operations leave the projects alone\<close>

text \<open>
  \<open>ustep\<close>, the relation of a step of an account: it keeps the constraints, touches no table of the
  projects (the audit log aside), and a one-time token or a session that was used or revoked stays
  so. One rule per table, and every operation of the authentication service.
\<close>

subsection \<open>Tickets\<close>

text \<open>Tokens sent by mail and sessions.\<close>

definition ott_used :: "one_time_token \<Rightarrow> bool" where
  "ott_used x \<longleftrightarrow> ott_ConsumedAt x \<noteq> None"

definition ses_used :: "auth_session \<Rightarrow> bool" where
  "ses_used s \<longleftrightarrow> ses_RevokedAt s \<noteq> None"

definition tickets_mono :: "db \<Rightarrow> db \<Rightarrow> bool" where
  "tickets_mono db db' \<longleftrightarrow>
     row_mono ott_TokenHash ott_used (db_email_tokens db) (db_email_tokens db')
   \<and> row_mono ott_TokenHash ott_used (db_reset_tokens db) (db_reset_tokens db')
   \<and> row_mono ses_RefreshTokenHash ses_used (db_sessions db) (db_sessions db')"

lemma tickets_mono_refl [simp]: "tickets_mono db db"
  by (simp add: tickets_mono_def)

lemma tickets_mono_trans: "tickets_mono db db1 \<Longrightarrow> tickets_mono db1 db2 \<Longrightarrow> tickets_mono db db2"
  unfolding tickets_mono_def by (auto intro: row_mono_trans)

subsection \<open>Steps of accounts\<close>

definition project_side :: "db \<Rightarrow> db" where
  "project_side db =
     db\<lparr>db_users := [], db_profiles := [], db_sessions := [], db_email_tokens := [], db_reset_tokens := [],
        db_throttles := [], db_two_factors := [], db_recovery_codes := [], db_audit_logs := []\<rparr>"

definition ustep :: "db \<Rightarrow> db \<Rightarrow> bool" where
  "ustep db db' \<longleftrightarrow> (schema_ok db \<longrightarrow> schema_ok db' \<and> tickets_mono db db') \<and> project_side db' = project_side db"

named_theorems usteps

lemma ustep_refl [usteps]: "ustep db db"
  by (simp add: ustep_def)

lemma ustep_trans: "ustep db db1 \<Longrightarrow> ustep db1 db2 \<Longrightarrow> ustep db db2"
  by (auto simp: ustep_def intro: tickets_mono_trans)

lemma project_side_audit [simp]: "project_side (append_audit env k a e ty i m db) = project_side db"
  by (auto simp: project_side_def append_audit_def Let_def split: sum.split)

lemma ustep_audit [usteps]: "ustep db db' \<Longrightarrow> ustep db (append_audit env k a e ty i m db')"
  by (simp add: ustep_def tickets_mono_def)

lemma ustep_users:
  "ustep db D \<Longrightarrow> (schema_ok D \<Longrightarrow> users_ok t \<and> user_ID ` set (db_users D) \<subseteq> user_ID ` set t) \<Longrightarrow> ustep db (D\<lparr>db_users := t\<rparr>)"
  by (simp add: ustep_def schema_ok_def refs_ok_def tickets_mono_def project_side_def) (blast intro: profile_refs_mono)

lemma ustep_profiles:
  "ustep db D \<Longrightarrow> (schema_ok D \<Longrightarrow> profiles_ok t \<and> profile_refs (db_users D) t) \<Longrightarrow> ustep db (D\<lparr>db_profiles := t\<rparr>)"
  by (simp add: ustep_def schema_ok_def refs_ok_def tickets_mono_def project_side_def)

lemma ustep_sessions:
  "ustep db D \<Longrightarrow> (schema_ok D \<Longrightarrow> sessions_ok t \<and> row_mono ses_RefreshTokenHash ses_used (db_sessions D) t)
   \<Longrightarrow> ustep db (D\<lparr>db_sessions := t\<rparr>)"
  by (auto simp: ustep_def schema_ok_def refs_ok_def tickets_mono_def project_side_def intro: row_mono_trans)

lemma ustep_email_tokens:
  "ustep db D \<Longrightarrow> (schema_ok D \<Longrightarrow> one_time_ok t \<and> row_mono ott_TokenHash ott_used (db_email_tokens D) t)
   \<Longrightarrow> ustep db (D\<lparr>db_email_tokens := t\<rparr>)"
  by (auto simp: ustep_def schema_ok_def refs_ok_def tickets_mono_def project_side_def intro: row_mono_trans)

lemma ustep_reset_tokens:
  "ustep db D \<Longrightarrow> (schema_ok D \<Longrightarrow> one_time_ok t \<and> row_mono ott_TokenHash ott_used (db_reset_tokens D) t)
   \<Longrightarrow> ustep db (D\<lparr>db_reset_tokens := t\<rparr>)"
  by (auto simp: ustep_def schema_ok_def refs_ok_def tickets_mono_def project_side_def intro: row_mono_trans)

lemma ustep_throttles: "ustep db D \<Longrightarrow> (schema_ok D \<Longrightarrow> throttles_ok t) \<Longrightarrow> ustep db (D\<lparr>db_throttles := t\<rparr>)"
  by (simp add: ustep_def schema_ok_def refs_ok_def tickets_mono_def project_side_def)

lemma ustep_two_factors: "ustep db D \<Longrightarrow> (schema_ok D \<Longrightarrow> two_factors_ok t) \<Longrightarrow> ustep db (D\<lparr>db_two_factors := t\<rparr>)"
  by (simp add: ustep_def schema_ok_def refs_ok_def tickets_mono_def project_side_def)

lemma ustep_recovery_codes: "ustep db D \<Longrightarrow> (schema_ok D \<Longrightarrow> recovery_ok t) \<Longrightarrow> ustep db (D\<lparr>db_recovery_codes := t\<rparr>)"
  by (simp add: ustep_def schema_ok_def refs_ok_def tickets_mono_def project_side_def)

lemmas ustep_tables = ustep_users ustep_profiles ustep_sessions ustep_email_tokens ustep_reset_tokens ustep_throttles
  ustep_two_factors ustep_recovery_codes

subsection \<open>Repository\<close>

lemma users_ok_update:
  "users_ok t \<Longrightarrow> (\<And>u. user_ID (f u) = user_ID u \<and> user_Email (f u) = user_Email u) \<Longrightarrow> users_ok (update_where P f t)"
  by (auto simp: users_ok_def intro!: keyed_update_where)

lemma update_user_ustep:
  assumes "\<And>u. user_ID (f u) = user_ID u \<and> user_Email (f u) = user_Email u" and "ustep db D"
  shows "ustep db (update_user env i f D)"
  unfolding update_user_def
  by (rule ustep_users [OF assms(2)]) (use assms(1) in \<open>auto simp: schema_ok_def intro!: users_ok_update subsetD [OF ids_update_where]\<close>)

lemma sessions_update_ustep:
  assumes "\<And>s. ses_ID (f s) = ses_ID s \<and> ses_RefreshTokenHash (f s) = ses_RefreshTokenHash s \<and> ses_used (f s)"
    and "ustep db D"
  shows "ustep db (D\<lparr>db_sessions := update_where P f (db_sessions D)\<rparr>)"
  by (rule ustep_sessions [OF assms(2)])
    (use assms(1) in \<open>auto simp: schema_ok_def sessions_ok_def intro!: keyed_update_where row_mono_update\<close>)

lemma revoke_sessions_ustep: "ustep db D \<Longrightarrow> ustep db (revoke_sessions env P D)"
  unfolding revoke_sessions_def by (rule sessions_update_ustep) (simp_all add: ses_used_def)

lemma repo_RevokeSession_ustep: "ustep db D \<Longrightarrow> ustep db (repo_RevokeSession env i D)"
  unfolding repo_RevokeSession_def by (rule sessions_update_ustep) (simp_all add: ses_used_def)

lemma CreateSession_ustep: "CreateSession s db = Inr db' \<Longrightarrow> ustep db db'"
  by (auto simp: CreateSession_def session_conflict_def schema_ok_def sessions_ok_def keyed_snoc split: sum.splits
      intro!: ustep_sessions ustep_refl row_mono_snoc)

lemma RotateSession_ustep:
  assumes "RotateSession env i s db = Inr db'"
  shows "ustep db db'"
proof -
  from assms have c: "\<forall>x \<in> set (db_sessions db). \<not> session_conflict x s"
    and db': "db' = db\<lparr>db_sessions := update_where (\<lambda>x. ses_ID x = i \<and> ses_RevokedAt x = None)
             (\<lambda>x. x\<lparr>ses_RevokedAt := Some (env_now env), ses_ReplacedBySessionID := Some (ses_ID s),
                   ses_UpdatedAt := env_now env\<rparr>) (db_sessions db @ [s])\<rparr>"
    by (auto simp: RotateSession_def split: sum.splits)
  have 1: "ustep db (db\<lparr>db_sessions := db_sessions db @ [s]\<rparr>)"
    by (rule CreateSession_ustep [of s]) (use c in \<open>auto simp: CreateSession_def split: sum.split\<close>)
  show ?thesis unfolding db'
    using sessions_update_ustep [OF _ 1, of "\<lambda>x. x\<lparr>ses_RevokedAt := Some (env_now env),
      ses_ReplacedBySessionID := Some (ses_ID s), ses_UpdatedAt := env_now env\<rparr>"
      "\<lambda>x. ses_ID x = i \<and> ses_RevokedAt x = None"]
    by (simp add: ses_used_def)
qed

lemma one_time_snoc:
  "one_time_ok t \<Longrightarrow> \<forall>x \<in> set t. \<not> ott_conflict x r \<Longrightarrow> one_time_ok (t @ [r])"
  by (auto simp: one_time_ok_def keyed_snoc ott_conflict_def)

lemma mark_ott_mono: "row_mono ott_TokenHash ott_used t (mark_ott env i t)"
  unfolding mark_ott_def by (rule row_mono_update) (simp add: ott_used_def)

lemma mark_ott_ok: "one_time_ok t \<Longrightarrow> one_time_ok (mark_ott env i t)"
  by (auto simp: one_time_ok_def mark_ott_def intro!: keyed_update_where)

lemma CreateEmailVerificationToken_ustep: "CreateEmailVerificationToken t db = Inr db' \<Longrightarrow> ustep db db'"
  by (auto simp: CreateEmailVerificationToken_def schema_ok_def split: sum.splits
      intro!: ustep_email_tokens ustep_refl one_time_snoc row_mono_snoc)

lemma CreateResetToken_ustep: "CreateResetToken t db = Inr db' \<Longrightarrow> ustep db db'"
  by (auto simp: CreateResetToken_def schema_ok_def split: sum.splits
      intro!: ustep_reset_tokens ustep_refl one_time_snoc row_mono_snoc)

lemma ConsumeEmailVerificationToken_ustep: "ConsumeEmailVerificationToken env h db = Inr (db', u) \<Longrightarrow> ustep db db'"
  by (auto simp: ConsumeEmailVerificationToken_def Let_def schema_ok_def split: sum.splits option.splits
      intro!: update_user_ustep ustep_email_tokens ustep_refl mark_ott_ok mark_ott_mono)

lemma ConsumeResetToken_ustep: "ConsumeResetTokenAndSetPassword env h p db = Inr (db', u) \<Longrightarrow> ustep db db'"
  by (auto simp: ConsumeResetTokenAndSetPassword_def Let_def schema_ok_def split: option.splits
      intro!: revoke_sessions_ustep update_user_ustep ustep_reset_tokens ustep_refl mark_ott_ok mark_ott_mono)

lemma CreateUserWithProfile_ustep: "CreateUserWithProfile u p db = Inr db' \<Longrightarrow> ustep db db'"
  by (auto simp: CreateUserWithProfile_def user_conflict_def profile_conflict_def schema_ok_def users_ok_def profiles_ok_def
      refs_defs keyed_snoc split: sum.splits intro!: ustep_profiles ustep_users ustep_refl)

lemma save_throttle_ustep:
  assumes "th0 \<in> set (db_throttles db)" and "thr_ID th = thr_ID th0" and "thr_EmailKey th = thr_EmailKey th0"
  shows "ustep db (save_throttle env th db)"
  unfolding save_throttle_def
proof (rule ustep_throttles [OF ustep_refl])
  assume s: "schema_ok db"
  then have k: "keyed thr_ID (db_throttles db)" by (simp add: schema_ok_def throttles_ok_def)
  have "thr_EmailKey x = thr_EmailKey th" if "x \<in> set (db_throttles db)" "thr_ID x = thr_ID th" for x
    using keyed_unique [OF k that(1) assms(1)] that(2) assms(2,3) by simp
  with s assms show "throttles_ok (update_where (\<lambda>x. thr_ID x = thr_ID th) (\<lambda>_. th\<lparr>thr_UpdatedAt := env_now env\<rparr>) (db_throttles db))"
    by (auto simp: schema_ok_def throttles_ok_def intro!: keyed_update_set)
qed

lemma CreateOrIncrementThrottle_ustep:
  assumes "CreateOrIncrementThrottle env k email w n db = Inr (db', r)"
  shows "ustep db db'"
proof (cases "first_by thr_ID (\<lambda>x. thr_EmailKey x = NormalizeEmail email) (db_throttles db)")
  case None
  with assms show ?thesis
    by (auto simp: CreateOrIncrementThrottle_def Let_def schema_ok_def throttles_ok_def keyed_snoc thr_conflict_def split: sum.splits
        intro!: ustep_throttles ustep_refl)
next
  case (Some th)
  then show ?thesis
    using assms first_by_Some [OF Some]
    by (auto simp: CreateOrIncrementThrottle_def Let_def split: if_splits intro!: save_throttle_ustep)
qed

lemma count_failure_ustep: "ustep db (count_failure cfg env email db)"
  using CreateOrIncrementThrottle_ustep by (fastforce simp: count_failure_def usteps split: sum.split)

lemma UpsertTwoFactor_ustep: "UpsertTwoFactor t db = Inr db' \<Longrightarrow> ustep db db'"
  by (auto simp: UpsertTwoFactor_def Let_def schema_ok_def two_factors_ok_def keyed_snoc tf_conflict_def split: sum.splits
      intro!: ustep_two_factors ustep_refl keyed_delete_where)

lemma ReplaceRecoveryCodes_ustep: "ReplaceRecoveryCodes env k i hs db = Inr db' \<Longrightarrow> ustep db db'"
  by (auto simp: ReplaceRecoveryCodes_def Let_def schema_ok_def recovery_ok_def rc_conflict_def split: sum.splits
      intro!: ustep_recovery_codes ustep_refl keyed_delete_where elim!: keyed_insert_rows)

lemma MarkTwoFactorEnabled_ustep: "ustep db D \<Longrightarrow> ustep db (MarkTwoFactorEnabled env i D)"
  unfolding MarkTwoFactorEnabled_def
  by (rule update_user_ustep) (auto simp: schema_ok_def two_factors_ok_def intro!: ustep_two_factors keyed_update_where)

lemma DisableTwoFactor_ustep: "DisableTwoFactor env i db = Inr db' \<Longrightarrow> ustep db db'"
  by (auto simp: DisableTwoFactor_def schema_ok_def two_factors_ok_def recovery_ok_def split: sum.splits
      intro!: update_user_ustep ustep_two_factors ustep_recovery_codes ustep_refl keyed_delete_where)

lemma use_recovery_code_ustep: "ustep db (fst (use_recovery_code env i c ok db))"
  by (auto simp: use_recovery_code_def ConsumeRecoveryCode_def Let_def schema_ok_def recovery_ok_def
      intro!: ustep_recovery_codes ustep_refl keyed_update_where)

lemma ResetThrottle_ustep: "ustep db D \<Longrightarrow> ustep db (ResetThrottle email D)"
  unfolding ResetThrottle_def by (rule ustep_throttles) (auto simp: schema_ok_def throttles_ok_def intro: keyed_delete_where)

lemma SoftDeleteUser_ustep: "ustep db (SoftDeleteUser env i g db)"
  by (auto simp: SoftDeleteUser_def schema_ok_def intro!: revoke_sessions_ustep ustep_users ustep_refl users_ok_update
      subsetD [OF ids_update_where])

subsection \<open>Service\<close>

lemma Register_ustep: "ustep db (fst (Register cfg lib env email pw db))"
  by (auto simp: Register_def Let_def split: sum.splits intro!: usteps
      intro: ustep_trans [OF CreateUserWithProfile_ustep CreateEmailVerificationToken_ustep] CreateUserWithProfile_ustep)

lemma VerifyEmail_ustep: "ustep db (fst (VerifyEmail env raw db))"
  by (auto simp: VerifyEmail_def split: sum.splits prod.splits intro: usteps ConsumeEmailVerificationToken_ustep)

lemma issueSessionTokens_ustep: "ustep db D \<Longrightarrow> ustep db (fst (issueSessionTokens cfg lib env i m D))"
  by (auto simp: issueSessionTokens_def Let_def split: sum.splits intro: ustep_trans [OF _ CreateSession_ustep])

lemma check_second_factor_ustep: "ustep db (fst (check_second_factor cfg lib env u totp rec db))"
  using use_recovery_code_ustep
  by (auto simp: check_second_factor_def Let_def case_prod_beta usteps split: sum.splits)

lemma login_tail_ustep:
  assumes "ustep db (fst sf)"
  shows "ustep db (fst (case sf of (db1, Inl e) \<Rightarrow> (db1, Inl e)
           | (db1, Inr (u :: unit)) \<Rightarrow> issueSessionTokens cfg lib env i m (ResetThrottle email db1)))"
  using assms by (cases sf) (auto intro!: issueSessionTokens_ustep ResetThrottle_ustep split: sum.split)

lemma Login_ustep: "ustep db (fst (Login cfg lib env email pw totp rec m db))"
proof (cases "FindUserByEmail db (NormalizeEmail email)")
  case (Inr u)
  have "ustep db (fst (if user_TwoFactorEnabled u then check_second_factor cfg lib env u totp rec db else (db, Inr ())))"
    by (simp add: check_second_factor_ustep usteps)
  note tail = login_tail_ustep [OF this]
  show ?thesis
    unfolding Login_def Let_def Inr sum.case
    by (simp only: if_distrib [of fst] fst_conv) (auto simp only: usteps count_failure_ustep tail split: if_split)
qed (simp add: Login_def Let_def usteps count_failure_ustep)

lemma Refresh_ustep: "ustep db (fst (Refresh cfg lib env tok m db))"
  by (auto simp: Refresh_def Let_def split: sum.splits intro: usteps RotateSession_ustep)

lemma Logout_ustep: "ustep db (fst (Logout env tok db))"
  by (auto simp: Logout_def split: sum.splits intro: usteps repo_RevokeSession_ustep)

lemma RevokeSession_ustep: "ustep db (fst (RevokeSession env u s db))"
  by (auto simp: RevokeSession_def intro: usteps repo_RevokeSession_ustep)

lemma RevokeOtherSessions_ustep: "ustep db (fst (RevokeOtherSessions env u s db))"
  by (auto simp: RevokeOtherSessions_def RevokeAllOtherSessions_def intro: usteps revoke_sessions_ustep)

lemma ForgotPassword_ustep: "ustep db (fst (ForgotPassword env email db))"
  by (auto simp: ForgotPassword_def Let_def split: sum.splits intro: usteps CreateResetToken_ustep)

lemma ResetPassword_ustep: "ustep db (fst (ResetPassword cfg lib env raw pw db))"
  by (auto simp: ResetPassword_def split: sum.splits prod.splits intro!: usteps elim!: ConsumeResetToken_ustep)

lemma ChangePassword_ustep: "ustep db (fst (ChangePassword cfg lib env u s old new db))"
  by (auto simp: ChangePassword_def RevokeAllOtherSessions_def UpdatePassword_def write_step_Inr split: sum.splits
      intro!: usteps revoke_sessions_ustep update_user_ustep)

lemma UpdateProfile_ustep: "ustep db (fst (UpdateProfile lib env u p db))"
proof (cases "auth_GetProfile db u")
  case (Inr x)
  then have x: "x \<in> set (db_profiles db)" by (auto simp: auth_GetProfile_def dest: first_by_Some split: option.splits)
  have "ustep db (repo_UpdateProfile env q db)" if q: "prof_ID q = prof_ID x" "prof_UserID q = prof_UserID x" for q
    unfolding repo_UpdateProfile_def
  proof (rule ustep_profiles [OF ustep_refl])
    assume s: "schema_ok db"
    then have k: "keyed prof_ID (db_profiles db)" by (simp add: schema_ok_def profiles_ok_def)
    have "prof_UserID y = prof_UserID q" if "y \<in> set (db_profiles db)" "prof_ID y = prof_ID q" for y
      using keyed_unique [OF k that(1) x] that(2) q by simp
    with s x q show "profiles_ok (update_where (\<lambda>y. prof_ID y = prof_ID q) (\<lambda>_. q\<lparr>prof_UpdatedAt := env_now env\<rparr>) (db_profiles db))
        \<and> profile_refs (db_users db) (update_where (\<lambda>y. prof_ID y = prof_ID q) (\<lambda>_. q\<lparr>prof_UpdatedAt := env_now env\<rparr>) (db_profiles db))"
      by (auto simp: schema_ok_def profiles_ok_def refs_defs table_simps intro!: keyed_update_set)
  qed
  with Inr show ?thesis by (simp add: UpdateProfile_def Let_def usteps)
qed (simp add: UpdateProfile_def usteps)

lemma BeginEnable2FA_ustep: "ustep db (fst (BeginEnable2FA cfg lib env u pw db))"
  by (auto simp: BeginEnable2FA_def split: sum.splits intro: usteps UpsertTwoFactor_ustep)

lemma ConfirmEnable2FA_ustep: "ustep db (fst (ConfirmEnable2FA cfg lib env u code db))"
  by (auto simp: ConfirmEnable2FA_def Let_def write_step_Inr split: sum.splits intro!: usteps MarkTwoFactorEnabled_ustep
      elim!: ReplaceRecoveryCodes_ustep)

text \<open>The end of \<open>Disable2FA\<close>, with any outcome of the TOTP check.\<close>

lemma disable_tail_ustep:
  "ustep db (fst (case use_recovery_code env i rec v db of (db1, v1) \<Rightarrow>
     if \<not> v1 then (db1, Inl e) else (case write_step env 1 (DisableTwoFactor env u) db1 of Inl e \<Rightarrow> (db1, Inl e) | Inr db2 \<Rightarrow> (db2, Inr ()))))"
proof -
  obtain db1 v1 where r: "use_recovery_code env i rec v db = (db1, v1)" by fastforce
  then have 1: "ustep db db1" using use_recovery_code_ustep [of db env i rec v] by simp
  then show ?thesis
    by (cases "env_fault env 1"; cases "DisableTwoFactor env u db1")
      (auto simp: r write_step_def intro: ustep_trans [OF 1 DisableTwoFactor_ustep])
qed

lemma Disable2FA_ustep: "ustep db (fst (Disable2FA cfg lib env u pw totp rec db))"
proof (cases "FindUserByID db u")
  case (Inr usr)
  then show ?thesis
    by (cases "GetTwoFactorByUser db u") (simp_all add: Disable2FA_def Let_def usteps disable_tail_ustep)
qed (simp add: Disable2FA_def usteps)

lemma DeleteAccount_ustep: "ustep db (fst (DeleteAccount lib env u pw g db))"
  by (auto simp: DeleteAccount_def Let_def split: sum.splits intro!: usteps SoftDeleteUser_ustep)

end
