(* ===== verification/System.thy ===== *)
theory System
  imports Routes TcpHandler TenancyDevices TenancyProjects TenancyFleet TenancyAccounts CampaignSafety
begin

section \<open>The program as a whole\<close>

text \<open>
  The steps of the running program: any HTTP request, any frame of a device connection, a tick of the
  scheduler (\<open>web_step\<close>). Each is a \<open>pstep\<close> or an \<open>ustep\<close>, and a run of steps of campaigns; from that
  follow the constraints as an invariant of every run and the lifecycles of campaigns, tokens and
  sessions in the whole program.
\<close>

subsection \<open>Handlers\<close>

lemma call_rel:
  "(\<And>x. args = Inr x \<Longrightarrow> R s (fst (svc x))) \<Longrightarrow> R s s \<Longrightarrow> R s (fst (call args svc status data s))"
  by (simp add: call_state split: sum.split)

lemma on_db_rel: "R (fst s) (fst (f (fst s))) \<Longrightarrow> R (fst s) (fst (fst (on_db f s)))"
  by (simp add: on_db_def case_prod_beta Let_def)

lemma on_read_state [simp]: "fst (on_read f s) = s"
  by (simp add: on_read_def)

lemma on_store_rel: "R s (fst (f s)) \<Longrightarrow> R s (fst (on_store f s))"
  by (simp add: on_store_def case_prod_beta Let_def)

text \<open>The project of the path.\<close>

definition path_project :: "services \<Rightarrow> gin_ctx \<Rightarrow> uuid option" where
  "path_project sv c = sv_parse sv (c_Param c ''projectID'')"

lemma parse_or_Inr: "parse_or p e x = Inr y \<longleftrightarrow> p x = Some y"
  by (auto simp: parse_or_def split: option.splits)

lemmas args_simps = bind_sum_Inr_iff parse_or_Inr projectID_of_def project_ids_def project_param_ids_def
  parseUserID_def param_of_def firmware_ids_def campaign_ids_def device_ids_def group_members_args_def path_project_def

lemmas project_handlers = h_UpdateProject_def h_DeleteProject_def h_ArchiveProject_def h_UnarchiveProject_def
  setArchived_def h_InviteMember_def h_UpdateMemberRole_def h_RemoveMember_def h_TransferOwnership_def
  h_CreateCustomRole_def h_UpdateCustomRole_def h_DeleteCustomRole_def

lemmas device_handlers = h_CreateCustomDeviceType_def h_UpdateCustomDeviceType_def h_DeleteCustomDeviceType_def
  h_BulkDevices_def h_CreateDeviceGroup_def h_UpdateDeviceGroup_def h_DeleteDeviceGroup_def h_AddDevicesToGroup_def
  h_RemoveDevicesFromGroup_def h_RegisterDevice_def h_BlockDevice_def h_UnblockDevice_def h_RotateDeviceToken_def

lemmas campaign_handlers = h_CreateCampaign_def h_PauseCampaign_def h_ResumeCampaign_def h_CancelCampaign_def transition_def

lemmas account_handlers = h_Register_def h_VerifyEmail_def h_Login_def h_Refresh_def h_Logout_def h_ForgotPassword_def
  h_ResetPassword_def h_ChangePassword_def h_UpdateProfile_def h_RevokeSession_def h_RevokeOtherSessions_def
  h_BeginEnable2FA_def h_ConfirmEnable2FA_def h_Disable2FA_def h_DeleteAccount_def

lemmas project_psteps = UpdateProject_pstep DeleteProject_pstep ArchiveProject_pstep InviteMember_pstep
  UpdateMemberRole_pstep RemoveMember_pstep TransferOwnership_pstep CreateCustomRole_pstep UpdateCustomRole_pstep
  DeleteCustomRole_pstep

lemmas device_psteps = CreateCustomDeviceType_pstep UpdateCustomDeviceType_pstep DeleteCustomDeviceType_pstep
  BulkDevices_pstep CreateDeviceGroup_pstep UpdateDeviceGroup_pstep DeleteDeviceGroup_pstep AddDevicesToGroup_pstep
  RemoveDevicesFromGroup_pstep RegisterDevice_pstep setDeviceBlocked_pstep RotateDeviceToken_pstep


lemmas account_usteps = Register_ustep VerifyEmail_ustep Login_ustep Refresh_ustep Logout_ustep ForgotPassword_ustep
  ResetPassword_ustep ChangePassword_ustep UpdateProfile_ustep RevokeSession_ustep RevokeOtherSessions_ustep
  BeginEnable2FA_ustep ConfirmEnable2FA_ustep Disable2FA_ustep DeleteAccount_ustep

subsection \<open>Steps of the fleet\<close>

text \<open>A step that works for one project and moves campaigns only as the operations on campaigns do.\<close>

definition fstep :: "uuid \<Rightarrow> db \<Rightarrow> db \<Rightarrow> bool" where
  "fstep pid db db' \<longleftrightarrow> pstep False pid db db' \<and> camp_step\<^sup>*\<^sup>* db db'"

lemma DevicePoll_pstep: "pstep keep pid db (fst (DevicePoll env pid i ip ua ep db))"
  by (simp add: DevicePoll_def recordDeviceConnection_pstep)

lemma DeviceReport_pstep: "pstep keep pid db (fst (DeviceReport env pid i v ip ua ep db))"
  by (simp add: DeviceReport_def Let_def recordDeviceConnection_pstep pstep_refl)

lemma DeviceOtaPoll_pstep: "pstep keep pid db (fst (DeviceOtaPoll env pid i ip ep db))"
  by (simp add: DeviceOtaPoll_def recordDeviceConnection_pstep)

lemma DeviceOtaReportTouch_pstep: "pstep keep pid db (fst (DeviceOtaReportTouch env pid i ip ep v db))"
  by (simp add: DeviceOtaReportTouch_def recordDeviceConnection_pstep)

lemma pstep_kept: "pstep True pid db db' \<Longrightarrow> camps_kept db db'"
  by (simp add: pstep_def)

lemma fstep_refl: "fstep pid db db"
  by (simp add: fstep_def pstep_refl)

lemma fstep_trans: "fstep pid db db1 \<Longrightarrow> fstep pid db1 db2 \<Longrightarrow> fstep pid db db2"
  by (auto simp: fstep_def intro: pstep_trans)

lemma fstep_keep: "pstep True pid db db' \<Longrightarrow> fstep pid db db'"
  using pstep_kept [of pid db db'] pstep_weaken [of pid db db' False]
  by (auto simp: fstep_def camps_kept_def intro: cs_other)

lemma fstep_campaign: "pstep False pid db db' \<Longrightarrow> camp_step db db' \<Longrightarrow> fstep pid db db'"
  by (simp add: fstep_def)

lemmas campaign_fsteps =
  fstep_campaign [OF CreateCampaign_pstep cs_create] fstep_campaign [OF PauseCampaign_pstep cs_pause]
  fstep_campaign [OF ResumeCampaign_pstep cs_resume] fstep_campaign [OF CancelCampaign_pstep cs_cancel]

lemmas device_fsteps =
  fstep_campaign [OF BuildPollOffer_pstep cs_poll] fstep_campaign [OF OnDeviceReportFirmware_pstep cs_version]
  fstep_campaign [OF ApplyOtaDeviceReport_pstep cs_report] fstep_keep [OF DevicePoll_pstep]
  fstep_keep [OF DeviceReport_pstep] fstep_keep [OF DeviceOtaPoll_pstep] fstep_keep [OF DeviceOtaReportTouch_pstep]
  fstep_keep [OF IssueOtaDownloadToken_pstep]

subsection \<open>Every route is a step\<close>

text \<open>The project a route works for: a new one, or the one of its path.\<close>

fun acts_on :: "services \<Rightarrow> env \<Rightarrow> gin_ctx \<Rightarrow> api \<Rightarrow> uuid \<Rightarrow> bool" where
  "acts_on sv env c (Project (R_ProjectCreate b)) pid \<longleftrightarrow> pid = env_uuid env 0"
| "acts_on sv env c (Project r) pid \<longleftrightarrow> path_project sv c \<in> {None, Some pid}"
| "acts_on sv env c (Role r) pid \<longleftrightarrow> path_project sv c \<in> {None, Some pid}"
| "acts_on sv env c (Device r) pid \<longleftrightarrow> path_project sv c \<in> {None, Some pid}"
| "acts_on sv env c (Firmware r) pid \<longleftrightarrow> path_project sv c \<in> {None, Some pid}"
| "acts_on sv env c (Campaign r) pid \<longleftrightarrow> path_project sv c \<in> {None, Some pid}"
| "acts_on sv env c (Agent r) pid \<longleftrightarrow> False"
| "acts_on sv env c (Account r) pid \<longleftrightarrow> False"

lemma project_dispatch_pstep:
  "acts_on sv env c (Project r) pid \<Longrightarrow> pstep True pid (fst s) (fst (fst (project_dispatch sv env c r s)))"
  by (cases r)
    (auto simp: project_handlers h_CreateProject_def args_simps project_psteps CreateProject_pstep pstep_refl
      intro!: on_db_rel [where R = "pstep k p" for k p] call_rel [where R = "pstep k p" for k p])

lemma role_dispatch_pstep:
  "acts_on sv env c (Role r) pid \<Longrightarrow> pstep True pid (fst s) (fst (fst (role_dispatch sv env c r s)))"
  by (cases r)
    (auto simp: project_handlers args_simps project_psteps pstep_refl
      intro!: on_db_rel [where R = "pstep k p" for k p] call_rel [where R = "pstep k p" for k p])

lemma device_dispatch_pstep:
  "acts_on sv env c (Device r) pid \<Longrightarrow> pstep True pid (fst s) (fst (fst (device_dispatch sv env c r s)))"
  by (cases r)
    (auto simp: device_handlers args_simps device_psteps pstep_refl BlockDevice_def UnblockDevice_def
      intro!: on_db_rel [where R = "pstep k p" for k p] call_rel [where R = "pstep k p" for k p])

lemma upload_args_project:
  assumes "upload_args p j cfg c form = Inr (pid, x)"
  shows "p (c_Param c ''projectID'') = Some pid"
proof -
  define M where "M = (if fc_maxUploadBytes cfg \<le> 0 then 67108864 else fc_maxUploadBytes cfg)"
  obtain q u where ids: "project_ids p c = Inr (q, u)"
    using assms by (cases "project_ids p c") (auto simp: upload_args_def)
  have "q = pid"
    using assms unfolding upload_args_def ids bind_sum.simps prod.case M_def [symmetric] Let_def
    by (simp split: option.split_asm if_split_asm)
  with ids show ?thesis by (auto simp: args_simps)
qed

lemma firmware_dispatch_pstep:
  "acts_on sv env c (Firmware r) pid \<Longrightarrow> pstep True pid (fst s) (fst (fst (firmware_dispatch sv env c r s)))"
  by (cases r)
    (auto simp: h_UploadFirmware_def h_DownloadFirmware_def h_DeleteFirmware_def args_simps pstep_refl
      UploadFirmware_pstep OpenFirmwareBinary_pstep DeleteFirmware_pstep dest!: upload_args_project
      intro!: on_store_rel [where R = "\<lambda>s s'. pstep True pid (fst s) (fst s')"]
        call_rel [where R = "\<lambda>s s'. pstep True pid (fst s) (fst s')"])

lemma campaign_dispatch_fstep:
  "acts_on sv env c (Campaign r) pid \<Longrightarrow> fstep pid (fst s) (fst (fst (campaign_dispatch sv env c r s)))"
  by (cases r)
    (auto simp: campaign_handlers args_simps campaign_fsteps fstep_refl
      intro!: on_db_rel [where R = "fstep pid"] call_rel [where R = "fstep pid"])

lemma account_dispatch_ustep: "ustep (fst s) (fst (fst (account_dispatch sv env c r s)))"
  by (cases r)
    (auto simp: account_handlers account_usteps ustep_refl split: sum.split
      intro!: on_db_rel [where R = ustep] call_rel [where R = ustep])

text \<open>What devices do works for the project of the device.\<close>

lemma h_DevicePoll_fstep: "\<exists>pid. fstep pid db (fst (h_DevicePoll camps parse env c db))"
proof (cases "caller_device parse c")
  case (Inr p)
  obtain pid i where p: "p = (pid, i)" by (cases p)
  obtain db1 r where 1: "DevicePoll env pid i (c_ClientIP c) (c_UserAgent c) (c_Path c) db = (db1, r)" by fastforce
  have s1: "fstep pid db db1"
    using device_fsteps(4) [of pid db env i "c_ClientIP c" "c_UserAgent c" "c_Path c"] 1 by simp
  obtain db2 r2 where 2: "BuildPollOffer env pid i db1 = (db2, r2)" by fastforce
  have "fstep pid db db2"
    using device_fsteps(1) [of pid db1 env i] 2 by (auto intro: fstep_trans [OF s1])
  with s1 Inr p 1 2 show ?thesis by (intro exI [of _ pid]) (auto simp: h_DevicePoll_def split: sum.split)
qed (auto simp: h_DevicePoll_def fstep_refl)

lemma h_DeviceReport_fstep: "\<exists>pid. fstep pid db (fst (h_DeviceReport camps parse env c b db))"
proof (cases "bind_sum (caller_device parse c) (\<lambda>(pid, did). bind_sum (BindJSON b) (\<lambda>req. Inr (pid, did, req)))")
  case (Inr p)
  obtain pid i req where p: "p = (pid, i, req)" by (cases p)
  let ?v = "rpt_CurrentFirmwareVersion req"
  obtain db1 r where 1: "DeviceReport env pid i ?v (c_ClientIP c) (c_UserAgent c) (c_Path c) db = (db1, r)" by fastforce
  have s1: "fstep pid db db1"
    using device_fsteps(5) [of pid db env i ?v "c_ClientIP c" "c_UserAgent c" "c_Path c"] 1 by simp
  have "fstep pid db (fst (OnDeviceReportFirmware env pid i ?v db1))"
    by (rule fstep_trans [OF s1 device_fsteps(2)])
  with s1 Inr p 1 show ?thesis by (intro exI [of _ pid]) (auto simp: h_DeviceReport_def Let_def split: sum.split)
qed (auto simp: h_DeviceReport_def fstep_refl)

lemma download_by_token_fstep:
  "\<exists>pid. fstep pid (fst s) (fst (fst (h_DeviceFirmwareDownloadByToken get env c s)))"
proof (cases "c_Query c ''token'' = [] \<or> trim_space (c_Query c ''token'') = []")
  case True
  then have "fst (fst (h_DeviceFirmwareDownloadByToken get env c s)) = fst s"
    by (auto simp: h_DeviceFirmwareDownloadByToken_def Let_def call_state)
  then show ?thesis by (simp add: fstep_refl)
next
  case False
  obtain pid where "pstep True pid (fst s)
      (fst (fst (OpenFirmwareWithOtaDownloadToken get env (trim_space (c_Query c ''token'')) s)))"
    using OpenFirmwareWithOta_pstep by blast
  with False show ?thesis
    by (auto simp: h_DeviceFirmwareDownloadByToken_def Let_def call_state intro!: exI [of _ pid] dest: fstep_keep)
qed

lemma agent_dispatch_fstep: "\<exists>pid. fstep pid (fst s) (fst (fst (agent_dispatch sv env c r s)))"
proof (cases r)
  case R_DeviceFirmwareDownload
  with download_by_token_fstep [of s "store_Open (sv_base sv)" env c] show ?thesis
    by (auto simp: on_store_def case_prod_beta Let_def)
next
  case R_DevicePolling
  with h_DevicePoll_fstep [of "fst s" True "sv_parse sv" env c] show ?thesis
    by (auto intro: on_db_rel [where R = "fstep _"])
next
  case (R_DeviceReporting b)
  with h_DeviceReport_fstep [of "fst s" True "sv_parse sv" env c b] show ?thesis
    by (auto intro: on_db_rel [where R = "fstep _"])
qed (auto simp: fstep_refl)

subsection \<open>A frame of a device connection\<close>

lemma handlePoll_fstep: "fstep pid db (fst (handlePoll h env q pid did ip pl db))"
proof (cases "decodePollPayload pl")
  case Inl
  then show ?thesis by (simp add: handlePoll_def fstep_refl)
next
  case d: (Inr x)
  obtain db1 r1 where 1: "DeviceOtaPoll env pid did ip ''tcp/ota'' db = (db1, r1)" by fastforce
  have s1: "fstep pid db db1" using device_fsteps(6) [of pid db env did ip "''tcp/ota''"] 1 by simp
  obtain db2 r2 where 2: "BuildPollOffer env pid did db1 = (db2, r2)" by fastforce
  have s2: "fstep pid db db2" using device_fsteps(1) [of pid db1 env did] 2 by (auto intro: fstep_trans [OF s1])
  show ?thesis
  proof (cases "\<exists>y offer. r1 = Inr y \<and> h_CampaignSvc h \<and> r2 = Inr (Some offer) \<and> h_FirmwareSvc h")
    case False
    with d 1 2 s1 s2 show ?thesis by (auto simp: handlePoll_def split: sum.split option.split)
  next
    case True
    then obtain y offer where o: "r1 = Inr y" "h_CampaignSvc h" "r2 = Inr (Some offer)" "h_FirmwareSvc h" by blast
    define ttl where "ttl = (if h_TokenTTL h \<le> 0 then 15 * time_Minute else h_TokenTTL h)"
    obtain db3 r3 where 3: "IssueOtaDownloadToken env 1 (env_rand env 0) pid did (po_CampaignID offer) (po_FirmwareID offer) ttl db2
        = (db3, r3)" by fastforce
    have "fstep pid db db3"
      using device_fsteps(8) [of pid db2 env 1 "env_rand env 0" did "po_CampaignID offer" "po_FirmwareID offer" ttl] 3
      by (auto intro: fstep_trans [OF s2])
    moreover have "fst (handlePoll h env q pid did ip pl db) = db3"
      unfolding handlePoll_def d 1 2 o Let_def sum.case prod.case option.case not_True_eq_False if_False
        ttl_def [symmetric] 3
      by (simp add: o split: sum.split prod.split)
    ultimately show ?thesis by simp
  qed
qed

lemma handleReport_fstep: "fstep pid db (fst (handleReport h env q pid did ip pl db))"
proof (cases "decodeReportPayload pl")
  case Inl
  then show ?thesis by (simp add: handleReport_def fstep_refl)
next
  case d: (Inr r)
  show ?thesis
  proof (cases "report_status (rep_status r)")
    case None
    with d show ?thesis by (simp add: handleReport_def fstep_refl)
  next
    case st: (Some st)
    define code where "code = (if rep_errCode r \<noteq> 0 then Some (rep_errCode r) else None)"
    obtain db1 r1 where 1: "(if h_CampaignSvc h then ApplyOtaDeviceReport env pid did (rep_campaignID r) st code (rep_errMsg r) db
        else (db, Inr [])) = (db1, r1)" by fastforce
    have s1: "fstep pid db db1"
      using 1 device_fsteps(3) [of pid db env did "rep_campaignID r" st code "rep_errMsg r"]
      by (auto simp: fstep_refl split: if_splits)
    have "fstep pid db (fst (DeviceOtaReportTouch env pid did ip ''tcp/ota'' fw db1))" for fw
      by (rule fstep_trans [OF s1 device_fsteps(7)])
    moreover have "fst (handleReport h env q pid did ip pl db) = (case r1 of Inl _ \<Rightarrow> db1 | Inr v \<Rightarrow>
        fst (DeviceOtaReportTouch env pid did ip ''tcp/ota'' (if h_CampaignSvc h \<and> st = OtaReportInstalled \<and> v \<noteq> [] then Some v
                        else non_empty (rep_currentVer r)) db1))"
      unfolding handleReport_def d st Let_def sum.case option.case code_def [symmetric] 1 prod.case
      by (cases r1) (simp_all split: sum.split prod.split)
    ultimately show ?thesis using s1 by (cases r1) simp_all
  qed
qed

lemma serve_frame_fstep: "fstep pid db (fst (serve_frame h env pid did ip fr db))"
  by (simp add: serve_frame_def handlePoll_fstep handleReport_fstep fstep_refl)

subsection \<open>Steps of the program\<close>

text \<open>A request, a tick of the scheduler, a frame of an authenticated connection. The store of files
  is whatever the disk holds at the time.\<close>

inductive web_step :: "services \<Rightarrow> db \<Rightarrow> db \<Rightarrow> bool" for sv where
  ws_request: "web_step sv db (fst (fst (serve sv env rq r (db, st))))"
| ws_tick: "web_step sv db (fst (ActivateDueCampaigns env db))"
| ws_frame: "web_step sv db (fst (serve_frame h env pid did ip fr db))"

inductive_cases web_stepE: "web_step sv db db'"

text \<open>A step works for one project, for the accounts, or is a tick.\<close>

lemma dispatch_fstep:
  assumes "acts_on sv env c r pid"
  shows "fstep pid (fst s) (fst (fst (dispatch sv env c r s)))"
proof (cases r)
  case (Project p)
  with fstep_keep [OF project_dispatch_pstep [of sv env c p pid s]] assms show ?thesis by simp
next
  case (Role p)
  with fstep_keep [OF role_dispatch_pstep [of sv env c p pid s]] assms show ?thesis by simp
next
  case (Device p)
  with fstep_keep [OF device_dispatch_pstep [of sv env c p pid s]] assms show ?thesis by simp
next
  case (Firmware p)
  with fstep_keep [OF firmware_dispatch_pstep [of sv env c p pid s]] assms show ?thesis by simp
next
  case (Campaign p)
  with campaign_dispatch_fstep [of sv env c p pid s] assms show ?thesis by simp
qed (use assms in simp_all)

lemma dispatch_cases:
  "(\<exists>pid. fstep pid (fst s) (fst (fst (dispatch sv env c r s)))) \<or> ustep (fst s) (fst (fst (dispatch sv env c r s)))"
proof (cases "\<exists>pid. acts_on sv env c r pid")
  case True
  then show ?thesis by (blast intro: dispatch_fstep)
next
  case False
  obtain pid where path: "path_project sv c \<in> {None, Some pid}" by (cases "path_project sv c") auto
  have "\<exists>pid. acts_on sv env c (Project p) pid" for p by (cases p) (use path in auto)
  with False path show ?thesis by (cases r) (auto simp: agent_dispatch_fstep account_dispatch_ustep simp del: insert_iff)
qed

lemma run_handler_state: "fst (run_handler sv env q c r s) = fst (dispatch sv env c r s)"
  by (simp add: run_handler_def split: prod.split sum.split)

lemma serve_state:
  "fst (serve sv env rq r s) = s
   \<or> (\<exists>c. c_Param c = c_Param (rq_ctx rq) \<and> fst (serve sv env rq r s) = fst (dispatch sv env c r s))"
proof -
  have run: "c_Param c = c_Param (rq_ctx rq) \<Longrightarrow>
      \<exists>c'. c_Param c' = c_Param (rq_ctx rq) \<and> fst (run_handler sv env q c r s) = fst (dispatch sv env c' r s)" for q c
    by (auto simp: run_handler_state)
  show ?thesis
    unfolding serve_def Let_def
    by (cases "guard_of r"; simp only: guard.case split: sum.split prod.split) (simp_all add: run)
qed

lemma serve_cases:
  "(\<exists>pid. fstep pid (fst s) (fst (fst (serve sv env rq r s)))) \<or> ustep (fst s) (fst (fst (serve sv env rq r s)))"
  using serve_state [of sv env rq r s] fstep_refl dispatch_cases [of s sv env _ r] by metis

lemma web_step_cases:
  assumes "web_step sv db db'"
  obtains pid where "fstep pid db db'" | "ustep db db'" | env where "db' = fst (ActivateDueCampaigns env db)"
  using assms
proof (cases rule: web_step.cases)
  case (ws_request env rq r st)
  with serve_cases [of "(db, st)" sv env rq r] that(1,2) show thesis by auto
qed (use that serve_frame_fstep in \<open>blast+\<close>)

text \<open>Tokens and sessions that were used up.\<close>

definition spent_mono :: "db \<Rightarrow> db \<Rightarrow> bool" where
  "spent_mono db db' \<longleftrightarrow> tickets_mono db db' \<and> ota_mono db db'"

lemma elsewhere_accounts:
  assumes "elsewhere pid db' = elsewhere pid db"
  shows "db_email_tokens db' = db_email_tokens db" "db_reset_tokens db' = db_reset_tokens db"
    "db_sessions db' = db_sessions db" "db_users db' = db_users db"
  using assms [THEN arg_cong, of db_email_tokens] assms [THEN arg_cong, of db_reset_tokens]
    assms [THEN arg_cong, of db_sessions] assms [THEN arg_cong, of db_users] by (simp_all add: elsewhere_def)

lemma project_side_projects:
  assumes "project_side db' = project_side db"
  shows "db_ota_tokens db' = db_ota_tokens db" "db_campaigns db' = db_campaigns db" "db_assignments db' = db_assignments db"
  using assms [THEN arg_cong, of db_ota_tokens] assms [THEN arg_cong, of db_campaigns]
    assms [THEN arg_cong, of db_assignments] by (simp_all add: project_side_def)

lemma web_step_schema:
  assumes "web_step sv db db'" and "schema_ok db"
  shows "schema_ok db' \<and> spent_mono db db'"
  using assms(1)
proof (cases rule: web_step_cases)
  case (1 pid)
  then have "pstep False pid db db'" by (simp add: fstep_def)
  with assms(2) show ?thesis
    by (auto simp: pstep_def spent_mono_def tickets_mono_def dest: elsewhere_accounts)
next
  case 2
  with assms(2) show ?thesis by (auto simp: ustep_def spent_mono_def ota_mono_def dest: project_side_projects)
next
  case (3 env)
  have "tickets_mono db db'" "ota_mono db db'"
    by (simp_all add: 3 ActivateDueCampaigns_def ActivateDueScheduledCampaigns_def Let_def tickets_mono_def ota_mono_def)
  with 3 assms(2) ActivateDue_schema show ?thesis by (simp add: spent_mono_def)
qed

lemma web_step_camp: "web_step sv db db' \<Longrightarrow> camp_step\<^sup>*\<^sup>* db db'"
proof (erule web_step_cases)
  assume "ustep db db'"
  then show ?thesis by (auto simp: ustep_def intro!: r_into_rtranclp cs_other dest: project_side_projects)
qed (auto simp: fstep_def intro: cs_activate)

lemma web_run_schema: "(web_step sv)\<^sup>*\<^sup>* db db' \<Longrightarrow> schema_ok db \<Longrightarrow> schema_ok db'"
  by (induction rule: rtranclp_induct) (auto dest: web_step_schema)

lemma web_run_camp: "(web_step sv)\<^sup>*\<^sup>* db db' \<Longrightarrow> camp_step\<^sup>*\<^sup>* db db'"
  by (induction rule: rtranclp_induct) (auto dest: web_step_camp intro: rtranclp_trans)

end
