(* ===== verification/SampleProgram.thy ===== *)
theory SampleProgram
  imports System
begin

section \<open>A sample configuration\<close>

text \<open>
  A concrete instance of the libraries and of the configuration, requests of the two sample
  users, and the constraints of the sample database: on these the properties of the whole program
  are instantiated.
\<close>

definition sample_lib :: auth_lib where
  "sample_lib = \<lparr>lib_HashPassword = (\<lambda>_ p. Inr (''h'' @ p)), lib_ComparePassword = (\<lambda>h p. h = ''h'' @ p),
     lib_JwtSign = (\<lambda>_ c. Inr (clm_UserID c)),
     lib_JwtParse = (\<lambda>_ _ raw. if raw = [] then Inl ErrRecordNotFound else
        Inr \<lparr>clm_UserID = raw, clm_SessionID = raw, clm_Issuer = [], clm_Subject = raw, clm_IssuedAt = 0, clm_ExpiresAt = 0\<rparr>),
     lib_TotpGenerate = (\<lambda>_ _. Inl ErrRecordNotFound), lib_TotpValidate = (\<lambda>_ _ _. False),
     lib_GcmSeal = (\<lambda>_ _ p. p), lib_GcmOpen = (\<lambda>_ _ p. Some p), lib_TimeZone = (\<lambda>_. True)\<rparr>"

definition sample_cfg :: auth_config where
  "sample_cfg = \<lparr>cfg_JWTIssuer = [], cfg_JWTSecret = [], cfg_AccessTokenTTL = 10, cfg_RefreshTokenTTL = 100,
     cfg_BcryptCost = 4, cfg_EnableTOTP = False, cfg_TOTPEncryptionKey = [], cfg_MaxLoginAttempts = 2,
     cfg_LoginAttemptWindow = 60\<rparr>"

definition sample_services :: services where
  "sample_services = \<lparr>sv_cfg = sample_cfg, sv_lib = sample_lib, sv_fw = fw_New 0 [], sv_base = [],
     sv_parse = map_of [(''1'', 1), (''2'', 2), (''5'', 5), (''40'', 40)], sv_rfc3339 = (\<lambda>_. None),
     sv_json_uuids = (\<lambda>_. None), sv_semver = (\<lambda>_. None), sv_like = (\<lambda>_ _. False),
     sv_query = \<lparr>q_like = (\<lambda>_ _. False), q_wrap = True, q_rank = (\<lambda>_ _ _. 0)\<rparr>\<rparr>"

definition sample_ctx :: gin_ctx where
  "sample_ctx = \<lparr>c_Param = (\<lambda>k. if k = ''projectID'' then ''5'' else ''40''), c_QueryParam = (\<lambda>_. None),
     c_auth_user_id = [], c_auth_session_id = [], c_device_project_id = [], c_device_id = [],
     c_ClientIP = [], c_UserAgent = [], c_Path = []\<rparr>"

text \<open>A request of a user.\<close>

definition sample_request :: "string \<Rightarrow> http_request" where
  "sample_request u = \<lparr>rq_RequestID = None, rq_Authorization = bearer_prefix @ u, rq_ctx = sample_ctx\<rparr>"

lemma sample_parse [simp]:
  "sv_parse sample_services ''5'' = Some 5" "sv_parse sample_services ''1'' = Some 1"
  "sv_parse sample_services ''2'' = Some 2" "sv_parse sample_services ''40'' = Some 40"
  by (simp_all add: sample_services_def)

lemma sample_path [simp]: "path_project sample_services (rq_ctx (sample_request u)) = Some 5"
  by (simp add: path_project_def sample_request_def sample_ctx_def)

text \<open>The bearer of the token \<open>''1''\<close> is user 1.\<close>

lemma sample_auth: "RequireAuth (sv_cfg sample_services) (sv_lib sample_services) t q (bearer_prefix @ ''1'') = Inr (''1'', ''1'')"
  by (simp add: RequireAuth_def ParseAccessToken_def sample_services_def sample_lib_def)

text \<open>The sample database keeps the constraints.\<close>

lemma trim_samples: "trim_space ''d0'' = ''d0''" "trim_space ''d1'' = ''d1''" "trim_space ''1.0'' = ''1.0''"
  by (rule trim_space_no_space, auto simp: codes_def is_space_rune_def)+

lemma lower_samples: "to_lower ''d0'' = ''d0''" "to_lower ''d1'' = ''d1''" "to_lower ''1.0'' = ''1.0''"
  by code_simp+

lemma sample_normal:
  "normalizeHardwareIdentifier ''d0'' = ''d0''" "normalizeHardwareIdentifier ''d1'' = ''d1''"
  "normalizeVersion ''1.0'' = ''1.0''"
  by (simp_all add: normalizeHardwareIdentifier_def normalizeVersion_def trim_samples lower_samples)

definition stored_firmware :: firmware where
  "stored_firmware = sample_firmware\<lparr>fw_ChecksumSHA256 := replicate 64 (CHR ''a''), fw_StorageKey := FirmwareStorageKey 5 60\<rparr>"

definition good_db :: db where
  "good_db = sample_db\<lparr>db_firmwares := [stored_firmware]\<rparr>"

lemma good_rows: "db_users good_db = []" "db_sessions good_db = []" "db_email_tokens good_db = []"
  "db_reset_tokens good_db = []" "db_throttles good_db = []" "db_two_factors good_db = []"
  "db_auth_tokens good_db = []" "db_ota_tokens good_db = []" "db_projects good_db = [sample_project]"
  "db_members good_db = [sample_member 20 1 10, sample_member 21 2 13]"
  "db_device_types good_db = [sample_type]" "db_devices good_db = [sample_device 40 ''d0'', sample_device 41 ''d1'']"
  "db_groups good_db = [sample_group]" "db_firmwares good_db = [stored_firmware]"
  "db_roles good_db = [sample_role 10 SlugOwner, sample_role 11 SlugAdmin, sample_role 12 SlugDeveloper, sample_role 13 SlugViewer]"
  "db_permissions good_db = sample_permissions" "db_profiles good_db = []"
  "db_role_permissions good_db = map (\<lambda>p. (10, perm_ID p)) sample_permissions" "db_update_reports good_db = []"
  "db_conn_logs good_db = []" "db_block_events good_db = []" "db_target_groups good_db = []" "db_target_devices good_db = []"
  "db_group_members good_db = [\<lparr>gm_DeviceGroupID = 50, gm_DeviceID = 41, gm_CreatedAt = 0\<rparr>,
     \<lparr>gm_DeviceGroupID = 50, gm_DeviceID = 40, gm_CreatedAt = 0\<rparr>]"
  "db_firmware_types good_db = [\<lparr>ft_FirmwareID = 60, ft_DeviceTypeID = 30, ft_CreatedAt = 0\<rparr>]"
  "db_recovery_codes good_db = []" "db_audit_logs good_db = []" "db_campaigns good_db = []" "db_assignments good_db = []"
  by (simp_all add: good_db_def sample_db_def empty_db_def)

text \<open>An authorization reads four tables.\<close>

lemma AuthorizeProject_cong:
  assumes "db_members db' = db_members db" "db_roles db' = db_roles db"
    "db_role_permissions db' = db_role_permissions db" "db_permissions db' = db_permissions db"
  shows "AuthorizeProject db' = AuthorizeProject db"
proof -
  have "preload_role db' = preload_role db"
    by (intro ext) (simp add: preload_role_def find_role_def preload_permissions_def assms split: option.split)
  then show ?thesis by (intro ext) (simp add: AuthorizeProject_def GetMembershipForUser_def assms split: option.split)
qed

lemma good_authorize: "AuthorizeProject good_db = AuthorizeProject sample_db"
  by (rule AuthorizeProject_cong) (simp_all add: good_db_def)

lemma good_owned: "owned (db_projects good_db) (db_members good_db) (db_roles good_db)"
proof -
  have "owner_role (db_roles good_db) (sample_role 10 SlugOwner)"
    by (simp add: owner_role_def good_rows) (simp add: sample_role_def)
  then have "owns (db_roles good_db) (sample_member 20 1 10)"
    unfolding owns_def by (intro exI [of _ "sample_role 10 SlugOwner"]) (simp add: sample_role_def sample_member_def)
  then show ?thesis by (simp add: owned_def good_rows) (simp add: sample_project_def sample_member_def)
qed

lemma good_schema: "schema_ok good_db"
  using good_owned unfolding schema_ok_def good_rows
  by (simp add: constraint_defs good_rows sample_permissions_def permission_defs keyed_def sample_role_def sample_project_def sample_member_def sample_device_def sample_type_def sample_group_def
      sample_firmware_def stored_firmware_def sample_normal slug_defs)

definition no_store :: store where
  "no_store = \<lparr>st_files = [], st_dirs = []\<rparr>"

subsection \<open>Tickets\<close>

text \<open>User 1 with a session, a reset token and a verification token; device 40 with a download token.\<close>

definition sample_user :: user where
  "sample_user = \<lparr>user_ID = 1, user_Email = ''e'', user_PasswordHash = ''hp'', user_EmailVerifiedAt = None,
     user_TwoFactorEnabled = False, user_DeletionGraceAt = None, user_DeletedAt = None, user_CreatedAt = 0, user_UpdatedAt = 0\<rparr>"

definition sample_session :: auth_session where
  "sample_session = \<lparr>ses_ID = 80, ses_UserID = 1, ses_RefreshTokenHash = HashToken ''s'', ses_ExpiresAt = 2000, ses_UserAgent = [],
     ses_IP = [], ses_LastSeenAt = 0, ses_RevokedAt = None, ses_ReplacedBySessionID = None, ses_CreatedAt = 0, ses_UpdatedAt = 0\<rparr>"

definition sample_ott :: "string \<Rightarrow> one_time_token" where
  "sample_ott raw = \<lparr>ott_ID = 81, ott_UserID = 1, ott_TokenHash = HashToken raw, ott_ExpiresAt = 2000, ott_ConsumedAt = None,
     ott_CreatedAt = 0\<rparr>"

definition raw_download :: string where
  "raw_download = replicate 64 (CHR ''a'')"

definition sample_download :: ota_token where
  "sample_download = \<lparr>ota_ID = 82, ota_TokenHash = HashToken raw_download, ota_ProjectID = 5, ota_DeviceID = 40, ota_CampaignID = 70,
     ota_FirmwareID = 60, ota_ExpiresAt = 2000, ota_ConsumedAt = None, ota_CreatedAt = 0\<rparr>"

definition ticket_db :: db where
  "ticket_db = good_db\<lparr>db_users := [sample_user], db_sessions := [sample_session], db_reset_tokens := [sample_ott ''r''],
     db_email_tokens := [sample_ott ''v''], db_ota_tokens := [sample_download]\<rparr>"

lemma ticket_rows: "db_users ticket_db = [sample_user]" "db_sessions ticket_db = [sample_session]"
  "db_reset_tokens ticket_db = [sample_ott ''r'']" "db_email_tokens ticket_db = [sample_ott ''v'']"
  "db_ota_tokens ticket_db = [sample_download]" "db_devices ticket_db = db_devices good_db"
  by (simp_all add: ticket_db_def)

lemma ticket_schema: "schema_ok ticket_db"
  using good_schema
  by (simp add: ticket_db_def schema_ok_def users_ok_def sessions_ok_def one_time_ok_def ota_tokens_ok_def keyed_def
      refs_ok_def profile_refs_def good_rows)

end
