(* ===== verification/Tickets.thy ===== *)
theory Tickets
  imports SampleProgram
begin

section \<open>What can be used once\<close>

text \<open>
  Reset tokens, verification tokens, refresh tokens and download tokens over the runs of the whole
  program: each is an interpretation of \<open>one_shot\<close>, whose lemma says that after a successful use no
  later use succeeds, whatever requests, frames and ticks come in between.
\<close>

subsection \<open>Rows under unique keys\<close>

definition spent :: "('r \<Rightarrow> 'k) \<Rightarrow> ('r \<Rightarrow> bool) \<Rightarrow> 'r list \<Rightarrow> 'k \<Rightarrow> bool option" where
  "spent key used t k = map_option used (find (\<lambda>x. key x = k) t)"

text \<open>A step of the program from a state that keeps the constraints.\<close>

definition ok_step :: "services \<Rightarrow> db \<Rightarrow> db \<Rightarrow> bool" where
  "ok_step sv db db' \<longleftrightarrow> schema_ok db \<and> web_step sv db db'"

lemma ok_run: "(web_step sv)\<^sup>*\<^sup>* db db' \<Longrightarrow> schema_ok db \<Longrightarrow> (ok_step sv)\<^sup>*\<^sup>* db db'"
proof (induction rule: rtranclp_induct)
  case (step y z)
  then have "ok_step sv y z" using web_run_schema by (auto simp: ok_step_def)
  with step show ?case by (auto intro: rtranclp.rtrancl_into_rtrancl)
qed simp

lemma spent_moves:
  assumes "row_mono key used t t'" and "spent key used t k = Some v"
  shows "\<exists>v'. spent key used t' k = Some v' \<and> (\<lambda>x y. x \<longrightarrow> y)\<^sup>*\<^sup>* v v'"
  using assms by (fastforce simp: row_mono_def spent_def)

lemma spent_first_by:
  assumes "first_by okey (\<lambda>x. key x = k \<and> Q x) t = Some r" and "keyed key t"
  shows "spent key used t k = Some (used r)" and "Q r"
  using first_by_Some [OF assms(1)] find_keyed [OF assms(2), of r k] by (auto simp: spent_def)

lemma spent_update:
  assumes "keyed key t" and "r \<in> set t" and "P r" and "used (f r)" and "\<And>x. P x \<Longrightarrow> key (f x) = key x"
  shows "spent key used (update_where P f t) (key r) = Some True"
  using find_keyed [OF assms(1,2) refl] assms(3,4) by (simp add: spent_def find_update_where assms(5))

lemma find_live_ott:
  assumes "find_live_ott env h t = Some r" and "one_time_ok t"
  shows "spent ott_TokenHash ott_used t h = Some False"
    and "spent ott_TokenHash ott_used (mark_ott env (ott_ID r) t) h = Some True"
proof -
  from assms have k: "keyed ott_TokenHash t" by (simp add: one_time_ok_def)
  have f: "first_by ott_ID (\<lambda>x. ott_TokenHash x = h \<and> (ott_ConsumedAt x = None \<and> ott_ExpiresAt x > env_now env)) t = Some r"
    using assms(1) by (simp add: find_live_ott_def)
  from spent_first_by [OF f k] show "spent ott_TokenHash ott_used t h = Some False" by (simp add: ott_used_def)
  from first_by_Some [OF f] have "r \<in> set t" "ott_TokenHash r = h" by auto
  with spent_update [OF k, of r "\<lambda>x. ott_ID x = ott_ID r" ott_used "\<lambda>x. x\<lparr>ott_ConsumedAt := Some (env_now env)\<rparr>"]
  show "spent ott_TokenHash ott_used (mark_ott env (ott_ID r) t) h = Some True" by (simp add: mark_ott_def ott_used_def)
qed

subsection \<open>Password reset tokens\<close>

definition resets :: "services \<Rightarrow> db \<Rightarrow> string \<Rightarrow> db \<Rightarrow> bool" where
  "resets sv db h db' \<longleftrightarrow> schema_ok db \<and>
     (\<exists>env raw pw. h = HashToken raw \<and> ResetPassword (sv_cfg sv) (sv_lib sv) env raw pw db = (db', Inr ()))"

lemma ResetPassword_ok:
  assumes "ResetPassword cfg lib env raw pw db = (db', Inr ())"
  obtains tok hash where "find_live_ott env (HashToken raw) (db_reset_tokens db) = Some tok"
    and "lib_HashPassword lib (cfg_BcryptCost cfg) pw = Inr hash"
    and "ValidatePasswordStrength pw minPasswordLength = Inr ()"
    and "db_reset_tokens db' = mark_ott env (ott_ID tok) (db_reset_tokens db)"
    and "db_sessions db' = update_where (\<lambda>s. ses_UserID s = ott_UserID tok \<and> ses_RevokedAt s = None)
           (\<lambda>s. s\<lparr>ses_RevokedAt := Some (env_now env), ses_UpdatedAt := env_now env\<rparr>) (db_sessions db)"
    and "db_users db' = db_users (update_user env (ott_UserID tok) (\<lambda>u. u\<lparr>user_PasswordHash := hash\<rparr>) db)"
  using assms by (auto simp: ResetPassword_def ConsumeResetTokenAndSetPassword_def Let_def update_user_def revoke_sessions_def
      split: sum.splits option.splits)

interpretation reset_token: one_shot "ok_step sv" "\<lambda>db. spent ott_TokenHash ott_used (db_reset_tokens db)"
  "\<lambda>x y. x \<longrightarrow> y" "\<lambda>x. x" "resets sv" for sv
proof
  fix db db' h v assume "ok_step sv db db'" "spent ott_TokenHash ott_used (db_reset_tokens db) h = Some v"
  then show "\<exists>v'. spent ott_TokenHash ott_used (db_reset_tokens db') h = Some v' \<and> (\<lambda>x y. x \<longrightarrow> y)\<^sup>*\<^sup>* v v'"
    using web_step_schema [of sv db db'] by (intro spent_moves) (auto simp: ok_step_def spent_mono_def tickets_mono_def)
next
  fix db h db' assume "resets sv db h db'"
  then obtain env raw pw where s: "schema_ok db" "h = HashToken raw"
    and r: "ResetPassword (sv_cfg sv) (sv_lib sv) env raw pw db = (db', Inr ())" by (auto simp: resets_def)
  from s(1) have ok: "one_time_ok (db_reset_tokens db)" by (simp add: schema_ok_def)
  from r obtain tok where t: "find_live_ott env h (db_reset_tokens db) = Some tok"
    "db_reset_tokens db' = mark_ott env (ott_ID tok) (db_reset_tokens db)" unfolding s(2) by (rule ResetPassword_ok)
  from find_live_ott [OF t(1) ok]
  show "\<exists>v. spent ott_TokenHash ott_used (db_reset_tokens db) h = Some v \<and> \<not> v"
    and "\<exists>v. spent ott_TokenHash ott_used (db_reset_tokens db') h = Some v \<and> v" by (auto simp: t(2))
qed simp

subsection \<open>Email verification tokens\<close>

definition verifies :: "services \<Rightarrow> db \<Rightarrow> string \<Rightarrow> db \<Rightarrow> bool" where
  "verifies sv db h db' \<longleftrightarrow> schema_ok db \<and> (\<exists>env raw. h = HashToken raw \<and> VerifyEmail env raw db = (db', Inr ()))"

lemma VerifyEmail_ok:
  assumes "VerifyEmail env raw db = (db', Inr ())"
  obtains tok where "find_live_ott env (HashToken raw) (db_email_tokens db) = Some tok"
    and "db_email_tokens db' = mark_ott env (ott_ID tok) (db_email_tokens db)"
  using assms by (auto simp: VerifyEmail_def ConsumeEmailVerificationToken_def Let_def update_user_def
      split: sum.splits option.splits)

interpretation email_token: one_shot "ok_step sv" "\<lambda>db. spent ott_TokenHash ott_used (db_email_tokens db)"
  "\<lambda>x y. x \<longrightarrow> y" "\<lambda>x. x" "verifies sv" for sv
proof
  fix db db' h v assume "ok_step sv db db'" "spent ott_TokenHash ott_used (db_email_tokens db) h = Some v"
  then show "\<exists>v'. spent ott_TokenHash ott_used (db_email_tokens db') h = Some v' \<and> (\<lambda>x y. x \<longrightarrow> y)\<^sup>*\<^sup>* v v'"
    using web_step_schema [of sv db db'] by (intro spent_moves) (auto simp: ok_step_def spent_mono_def tickets_mono_def)
next
  fix db h db' assume "verifies sv db h db'"
  then obtain env raw where s: "schema_ok db" "h = HashToken raw"
    and r: "VerifyEmail env raw db = (db', Inr ())" by (auto simp: verifies_def)
  from s(1) have ok: "one_time_ok (db_email_tokens db)" by (simp add: schema_ok_def)
  from r obtain tok where t: "find_live_ott env h (db_email_tokens db) = Some tok"
    "db_email_tokens db' = mark_ott env (ott_ID tok) (db_email_tokens db)" unfolding s(2) by (rule VerifyEmail_ok)
  from find_live_ott [OF t(1) ok]
  show "\<exists>v. spent ott_TokenHash ott_used (db_email_tokens db) h = Some v \<and> \<not> v"
    and "\<exists>v. spent ott_TokenHash ott_used (db_email_tokens db') h = Some v \<and> v" by (auto simp: t(2))
qed simp

subsection \<open>Sessions\<close>

definition refreshes :: "services \<Rightarrow> db \<Rightarrow> string \<Rightarrow> db \<Rightarrow> bool" where
  "refreshes sv db h db' \<longleftrightarrow> schema_ok db \<and>
     (\<exists>env raw m pair. h = HashToken raw \<and> Refresh (sv_cfg sv) (sv_lib sv) env raw m db = (db', Inr pair))"

lemma GetSession_spent:
  assumes "GetSessionByRefreshHash env db h = Inr s" and "sessions_ok (db_sessions db)"
  shows "spent ses_RefreshTokenHash ses_used (db_sessions db) h = Some False" and "s \<in> set (db_sessions db)"
    and "ses_RefreshTokenHash s = h"
proof -
  have f: "first_by ses_ID (\<lambda>s. ses_RefreshTokenHash s = h \<and> (ses_RevokedAt s = None \<and> ses_ExpiresAt s > env_now env))
      (db_sessions db) = Some s"
    using assms(1) by (simp add: GetSessionByRefreshHash_def split: option.splits)
  from spent_first_by [OF f] assms(2) first_by_Some [OF f]
  show "spent ses_RefreshTokenHash ses_used (db_sessions db) h = Some False" "s \<in> set (db_sessions db)"
    "ses_RefreshTokenHash s = h" by (auto simp: sessions_ok_def ses_used_def)
qed

text \<open>A session revoked is one whose refresh token is never accepted.\<close>

lemma Refresh_dead:
  assumes "spent ses_RefreshTokenHash ses_used (db_sessions db) (HashToken raw) = Some True" and "schema_ok db"
  shows "Refresh cfg lib env raw m db = (db, Inl Unauthorized)"
  using assms GetSession_spent(1) [of env db "HashToken raw"]
  by (cases "GetSessionByRefreshHash env db (HashToken raw)") (auto simp: Refresh_def schema_ok_def)

lemma Refresh_spends:
  assumes "Refresh cfg lib env raw m db = (db', Inr pair)" and "sessions_ok (db_sessions db)"
  shows "spent ses_RefreshTokenHash ses_used (db_sessions db') (HashToken raw) = Some True"
proof -
  from assms(1) obtain s where s: "GetSessionByRefreshHash env db (HashToken raw) = Inr s"
    by (auto simp: Refresh_def split: sum.splits)
  define n where "n = new_session cfg env (ses_UserID s) (GenerateSecureToken (env_rand env 0)) m"
  from assms(1) s have r: "RotateSession env (ses_ID s) n db = Inr db'"
    by (auto simp: Refresh_def Let_def n_def split: sum.splits)
  then obtain t where t: "insert_row session_conflict n (db_sessions db) = Inr t"
    and db': "db_sessions db' = update_where (\<lambda>x. ses_ID x = ses_ID s \<and> ses_RevokedAt x = None)
             (\<lambda>x. x\<lparr>ses_RevokedAt := Some (env_now env), ses_ReplacedBySessionID := Some (ses_ID n),
                   ses_UpdatedAt := env_now env\<rparr>) t"
    by (auto simp: RotateSession_def split: sum.splits)
  from GetSession_spent [OF s assms(2)] obtain x where x: "find (\<lambda>x. ses_RefreshTokenHash x = HashToken raw) (db_sessions db) = Some x"
    "\<not> ses_used x" by (auto simp: spent_def)
  have "x = s"
    using find_Some_mem [OF x(1)] GetSession_spent [OF s assms(2)] assms(2)
    by (auto simp: sessions_ok_def intro: keyed_unique)
  moreover have "t = db_sessions db @ [n]" using t by (simp add: insert_row_def split: if_splits)
  ultimately have "find (\<lambda>x. ses_RefreshTokenHash x = HashToken raw) t = Some s" using x(1) by (simp add: find_append)
  with x(2) \<open>x = s\<close> show ?thesis by (simp add: db' spent_def find_update_where ses_used_def)
qed

interpretation refresh_token: one_shot "ok_step sv" "\<lambda>db. spent ses_RefreshTokenHash ses_used (db_sessions db)"
  "\<lambda>x y. x \<longrightarrow> y" "\<lambda>x. x" "refreshes sv" for sv
proof
  fix db db' h v assume "ok_step sv db db'" "spent ses_RefreshTokenHash ses_used (db_sessions db) h = Some v"
  then show "\<exists>v'. spent ses_RefreshTokenHash ses_used (db_sessions db') h = Some v' \<and> (\<lambda>x y. x \<longrightarrow> y)\<^sup>*\<^sup>* v v'"
    using web_step_schema [of sv db db'] by (intro spent_moves) (auto simp: ok_step_def spent_mono_def tickets_mono_def)
next
  fix db h db' assume "refreshes sv db h db'"
  then obtain env raw m pair where s: "schema_ok db" "h = HashToken raw"
    and r: "Refresh (sv_cfg sv) (sv_lib sv) env raw m db = (db', Inr pair)" by (auto simp: refreshes_def)
  from s(1) have ok: "sessions_ok (db_sessions db)" by (simp add: schema_ok_def)
  from r obtain c where "GetSessionByRefreshHash env db h = Inr c" by (auto simp: s(2) Refresh_def split: sum.splits)
  from GetSession_spent(1) [OF this ok] show "\<exists>v. spent ses_RefreshTokenHash ses_used (db_sessions db) h = Some v \<and> \<not> v" by auto
  from Refresh_spends [OF r ok] show "\<exists>v. spent ses_RefreshTokenHash ses_used (db_sessions db') h = Some v \<and> v"
    by (auto simp: s(2))
qed simp

subsection \<open>Download tokens\<close>

definition downloads :: "services \<Rightarrow> db \<Rightarrow> string \<Rightarrow> db \<Rightarrow> bool" where
  "downloads sv db h db' \<longleftrightarrow> schema_ok db \<and>
     (\<exists>env raw st r. h = HashToken raw \<and>
        OpenFirmwareWithOtaDownloadToken (store_Open (sv_base sv)) env raw (db, st) = ((db', st), Inr r))"

lemma ConsumeOta_spent:
  assumes "ConsumeOtaDownloadTokenTx h now db = Inr (db', row)" and "ota_tokens_ok (db_ota_tokens db)"
  shows "spent ota_TokenHash ota_used (db_ota_tokens db) h = Some False"
    and "spent ota_TokenHash ota_used (db_ota_tokens db') h = Some True"
proof -
  from assms(1) obtain r where r: "first_by ota_ID (\<lambda>t. ota_TokenHash t = h \<and> True) (db_ota_tokens db) = Some r"
    "ota_ConsumedAt r = None" and db': "db_ota_tokens db' = update_where (\<lambda>t. ota_ID t = ota_ID r \<and> ota_ConsumedAt t = None)
                 (\<lambda>t. t\<lparr>ota_ConsumedAt := Some now\<rparr>) (db_ota_tokens db)"
    by (auto simp: ConsumeOtaDownloadTokenTx_def Let_def split: option.splits if_splits)
  from assms(2) have k: "keyed ota_TokenHash (db_ota_tokens db)" by (simp add: ota_tokens_ok_def)
  from spent_first_by(1) [OF r(1) k, of ota_used] r(2)
  show "spent ota_TokenHash ota_used (db_ota_tokens db) h = Some False" by (simp add: ota_used_def)
  from first_by_Some [OF r(1)] have "r \<in> set (db_ota_tokens db)" "ota_TokenHash r = h" by auto
  with spent_update [OF k, of r "\<lambda>t. ota_ID t = ota_ID r \<and> ota_ConsumedAt t = None" ota_used "\<lambda>t. t\<lparr>ota_ConsumedAt := Some now\<rparr>"] r(2)
  show "spent ota_TokenHash ota_used (db_ota_tokens db') h = Some True" by (simp add: db' ota_used_def)
qed

interpretation download_token: one_shot "ok_step sv" "\<lambda>db. spent ota_TokenHash ota_used (db_ota_tokens db)"
  "\<lambda>x y. x \<longrightarrow> y" "\<lambda>x. x" "downloads sv" for sv
proof
  fix db db' h v assume "ok_step sv db db'" "spent ota_TokenHash ota_used (db_ota_tokens db) h = Some v"
  then show "\<exists>v'. spent ota_TokenHash ota_used (db_ota_tokens db') h = Some v' \<and> (\<lambda>x y. x \<longrightarrow> y)\<^sup>*\<^sup>* v v'"
    using web_step_schema [of sv db db'] by (intro spent_moves) (auto simp: ok_step_def spent_mono_def ota_mono_def)
next
  fix db h db' assume "downloads sv db h db'"
  then obtain env raw st r where s: "schema_ok db" "h = HashToken raw"
    and o: "OpenFirmwareWithOtaDownloadToken (store_Open (sv_base sv)) env raw (db, st) = ((db', st), Inr r)"
    by (auto simp: downloads_def)
  from o obtain row where c: "ConsumeOtaDownloadTokenTx h (env_now env) db = Inr (db', row)"
    by (auto simp: OpenFirmwareWithOtaDownloadToken_def s(2) split: sum.splits if_splits)
  from ConsumeOta_spent [OF c] s(1)
  show "\<exists>v. spent ota_TokenHash ota_used (db_ota_tokens db) h = Some v \<and> \<not> v"
    and "\<exists>v. spent ota_TokenHash ota_used (db_ota_tokens db') h = Some v \<and> v" by (auto simp: schema_ok_def)
qed simp

subsection \<open>Properties\<close>

lemma ustep_schema: "ustep db db' \<Longrightarrow> schema_ok db \<Longrightarrow> schema_ok db'"
  by (simp add: ustep_def)

lemma ResetPassword_fails: "snd (ResetPassword cfg lib env raw pw db) \<noteq> Inr () \<Longrightarrow> \<exists>e. ResetPassword cfg lib env raw pw db = (db, Inl e)"
  by (auto simp: ResetPassword_def split: sum.splits)

text \<open>C8. A password reset token works once: after a successful reset every later attempt with it,
  after whatever other requests, is an error that changes nothing.\<close>

theorem reset_token_once:
  assumes "schema_ok db" and "ResetPassword (sv_cfg sv) (sv_lib sv) env raw pw db = (db1, Inr ())"
    and "(web_step sv)\<^sup>*\<^sup>* db1 db2"
  shows "\<exists>e. ResetPassword (sv_cfg sv) (sv_lib sv) env' raw pw' db2 = (db2, Inl e)"
proof -
  have ok: "schema_ok db1" using ustep_schema [OF ResetPassword_ustep assms(1)] assms(2) by (metis fst_conv)
  have "resets sv db (HashToken raw) db1" using assms(1,2) by (auto simp: resets_def)
  from reset_token.used_once [OF this ok_run [OF assms(3) ok]]
  have "\<not> resets sv db2 (HashToken raw) s" for s .
  then have "snd (ResetPassword (sv_cfg sv) (sv_lib sv) env' raw pw' db2) \<noteq> Inr ()"
    using web_run_schema [OF assms(3) ok] by (metis resets_def prod.collapse)
  then show ?thesis by (rule ResetPassword_fails)
qed

lemma strong_password: "ValidatePasswordStrength ''Abcdefghij1!'' minPasswordLength = Inr ()"
  by code_simp

lemma sample_reset: "snd (ResetPassword sample_cfg sample_lib sample_env ''r'' ''Abcdefghij1!'' ticket_db) = Inr ()"
  by (simp add: ResetPassword_def strong_password sample_lib_def ConsumeResetTokenAndSetPassword_def find_live_ott_def
      ticket_rows sample_ott_def sample_env_def first_by_def Let_def)

lemma sample_cfg_lib: "sv_cfg sample_services = sample_cfg" "sv_lib sample_services = sample_lib"
  by (simp_all add: sample_services_def)

theorem reset_token_once_witness:
  "\<exists>db1 e. snd (ResetPassword sample_cfg sample_lib sample_env ''r'' ''Abcdefghij1!'' ticket_db) = Inr ()
     \<and> ResetPassword sample_cfg sample_lib sample_env ''r'' ''Abcdefghij1!'' db1 = (db1, Inl e)"
proof -
  obtain db1 where r: "ResetPassword sample_cfg sample_lib sample_env ''r'' ''Abcdefghij1!'' ticket_db = (db1, Inr ())"
    using sample_reset by (metis prod.collapse)
  from reset_token_once [OF ticket_schema, of sample_services sample_env "''r''" "''Abcdefghij1!''", unfolded sample_cfg_lib, OF r rtranclp.rtrancl_refl]
  show ?thesis using sample_reset by blast
qed

text \<open>C9. A password reset ends every session of the account: no refresh token issued before it is
  ever accepted again.\<close>

theorem reset_ends_sessions:
  assumes "schema_ok db" and "ResetPassword (sv_cfg sv) (sv_lib sv) env raw pw db = (db1, Inr ())"
    and "(web_step sv)\<^sup>*\<^sup>* db1 db2"
    and "t \<in> set (db_reset_tokens db)" and "ott_TokenHash t = HashToken raw"
    and "s \<in> set (db_sessions db)" and "ses_UserID s = ott_UserID t" and "ses_RefreshTokenHash s = HashToken refresh"
  shows "Refresh (sv_cfg sv) (sv_lib sv) env' refresh m db2 = (db2, Inl Unauthorized)"
proof -
  have ok: "schema_ok db1" using ustep_schema [OF ResetPassword_ustep assms(1)] assms(2) by (metis fst_conv)
  from assms(2) obtain tok where tok: "find_live_ott env (HashToken raw) (db_reset_tokens db) = Some tok"
    and ses: "db_sessions db1 = update_where (\<lambda>s. ses_UserID s = ott_UserID tok \<and> ses_RevokedAt s = None)
           (\<lambda>s. s\<lparr>ses_RevokedAt := Some (env_now env), ses_UpdatedAt := env_now env\<rparr>) (db_sessions db)"
    by (rule ResetPassword_ok)
  have "tok \<in> set (db_reset_tokens db)" "ott_TokenHash tok = HashToken raw"
    using first_by_Some [OF tok [unfolded find_live_ott_def]] by auto
  with assms(1,4,5) have "tok = t" by (auto simp: schema_ok_def one_time_ok_def intro: keyed_unique)
  moreover have "find (\<lambda>x. ses_RefreshTokenHash x = HashToken refresh) (db_sessions db) = Some s"
    using find_keyed [of ses_RefreshTokenHash "db_sessions db" s] assms(1,6,8) by (simp add: schema_ok_def sessions_ok_def)
  ultimately have "spent ses_RefreshTokenHash ses_used (db_sessions db1) (HashToken refresh) = Some True"
    using assms(7) by (simp add: ses spent_def find_update_where ses_used_def)
  from refresh_token.final_forever [OF ok_run [OF assms(3) ok] this]
  show ?thesis using web_run_schema [OF assms(3) ok] by (simp add: Refresh_dead)
qed

theorem reset_ends_sessions_witness:
  "\<exists>db1. ResetPassword sample_cfg sample_lib sample_env ''r'' ''Abcdefghij1!'' ticket_db = (db1, Inr ())
     \<and> Refresh sample_cfg sample_lib sample_env ''s'' \<lparr>sm_UserAgent = [], sm_IP = []\<rparr> db1 = (db1, Inl Unauthorized)"
proof -
  obtain db1 where r: "ResetPassword sample_cfg sample_lib sample_env ''r'' ''Abcdefghij1!'' ticket_db = (db1, Inr ())"
    using sample_reset by (metis prod.collapse)
  from reset_ends_sessions [OF ticket_schema, of sample_services sample_env "''r''" "''Abcdefghij1!''" db1 db1 "sample_ott ''r''" sample_session
      "''s''" sample_env "\<lparr>sm_UserAgent = [], sm_IP = []\<rparr>", unfolded sample_cfg_lib, OF r]
  have "Refresh sample_cfg sample_lib sample_env ''s'' \<lparr>sm_UserAgent = [], sm_IP = []\<rparr> db1 = (db1, Inl Unauthorized)"
    by (simp add: ticket_rows sample_ott_def sample_session_def)
  with r show ?thesis by blast
qed

text \<open>A refresh token works once: the refresh replaces it, and it is refused from then on.\<close>

lemma refresh_token_once:
  assumes "schema_ok db" and "Refresh (sv_cfg sv) (sv_lib sv) env raw m db = (db1, Inr pair)"
    and "(web_step sv)\<^sup>*\<^sup>* db1 db2"
  shows "Refresh (sv_cfg sv) (sv_lib sv) env' raw m' db2 = (db2, Inl Unauthorized)"
proof -
  have ok: "schema_ok db1" using ustep_schema [OF Refresh_ustep assms(1)] assms(2) by (metis fst_conv)
  have "refreshes sv db (HashToken raw) db1" using assms(1,2) by (auto simp: refreshes_def)
  from refresh_token.uses_final [OF this]
  have "spent ses_RefreshTokenHash ses_used (db_sessions db1) (HashToken raw) = Some True" by auto
  from refresh_token.final_forever [OF ok_run [OF assms(3) ok] this]
  show ?thesis using web_run_schema [OF assms(3) ok] by (simp add: Refresh_dead)
qed

text \<open>C10. A session that ended (by logout, revocation, rotation or a password reset) never comes back:
  its refresh token is refused in every later state.\<close>

theorem ended_session_stays_ended:
  assumes "schema_ok db" and "s \<in> set (db_sessions db)" and "ses_RevokedAt s \<noteq> None"
    and "ses_RefreshTokenHash s = HashToken raw" and "(web_step sv)\<^sup>*\<^sup>* db db'"
  shows "Refresh cfg lib env raw m db' = (db', Inl Unauthorized)"
proof -
  have "find (\<lambda>x. ses_RefreshTokenHash x = HashToken raw) (db_sessions db) = Some s"
    using find_keyed [of ses_RefreshTokenHash "db_sessions db" s] assms by (simp add: schema_ok_def sessions_ok_def)
  with assms(3) have "spent ses_RefreshTokenHash ses_used (db_sessions db) (HashToken raw) = Some True"
    by (auto simp: spent_def ses_used_def)
  from refresh_token.final_forever [OF ok_run [OF assms(5,1)] this]
  show ?thesis using web_run_schema [OF assms(5,1)] by (simp add: Refresh_dead)
qed

theorem ended_session_stays_ended_witness:
  "\<exists>db1. Logout sample_env ''s'' ticket_db = (db1, Inr ()) \<and>
     Refresh sample_cfg sample_lib sample_env ''s'' \<lparr>sm_UserAgent = [], sm_IP = []\<rparr> db1 = (db1, Inl Unauthorized)"
proof -
  define db1 where "db1 = fst (Logout sample_env ''s'' ticket_db)"
  have l: "Logout sample_env ''s'' ticket_db = (db1, Inr ())"
    by (simp add: db1_def Logout_def split: sum.split)
  have "db_sessions db1 = [sample_session\<lparr>ses_RevokedAt := Some 1000, ses_LastSeenAt := 1000, ses_UpdatedAt := 1000\<rparr>]"
    by (simp add: db1_def Logout_def GetSessionByRefreshHash_def ticket_rows first_by_def sample_session_def sample_env_def
        repo_RevokeSession_def)
  then have "Refresh sample_cfg sample_lib sample_env ''s'' \<lparr>sm_UserAgent = [], sm_IP = []\<rparr> db1 = (db1, Inl Unauthorized)"
    using ended_session_stays_ended [of db1 "sample_session\<lparr>ses_RevokedAt := Some 1000, ses_LastSeenAt := 1000, ses_UpdatedAt := 1000\<rparr>" "''s''"
        sample_services db1 sample_cfg sample_lib sample_env "\<lparr>sm_UserAgent = [], sm_IP = []\<rparr>"]
      ustep_schema [OF Logout_ustep [of ticket_db sample_env "''s''"] ticket_schema]
    by (simp add: db1_def [symmetric]) (simp add: sample_session_def)
  with l show ?thesis by blast
qed

text \<open>C11. An email verification token works once.\<close>

theorem verification_token_once:
  assumes "schema_ok db" and "VerifyEmail env raw db = (db1, Inr ())" and "(web_step sv)\<^sup>*\<^sup>* db1 db2"
  shows "\<exists>e. VerifyEmail env' raw db2 = (db2, Inl e)"
proof -
  have ok: "schema_ok db1" using ustep_schema [OF VerifyEmail_ustep assms(1)] assms(2) by (metis fst_conv)
  have "verifies sv db (HashToken raw) db1" using assms(1,2) by (auto simp: verifies_def)
  from email_token.used_once [OF this ok_run [OF assms(3) ok]]
  have "\<not> verifies sv db2 (HashToken raw) s" for s .
  then have "snd (VerifyEmail env' raw db2) \<noteq> Inr ()"
    using web_run_schema [OF assms(3) ok] by (metis verifies_def prod.collapse)
  then show ?thesis by (auto simp: VerifyEmail_def split: sum.splits)
qed

theorem verification_token_once_witness:
  "\<exists>db1 e. VerifyEmail sample_env ''v'' ticket_db = (db1, Inr ()) \<and> VerifyEmail sample_env ''v'' db1 = (db1, Inl e)"
proof -
  have "snd (VerifyEmail sample_env ''v'' ticket_db) = Inr ()"
    by (simp add: VerifyEmail_def ConsumeEmailVerificationToken_def find_live_ott_def ticket_rows sample_ott_def sample_env_def
        first_by_def Let_def FindUserByID_def sample_user_def)
  then obtain db1 where r: "VerifyEmail sample_env ''v'' ticket_db = (db1, Inr ())" by (metis prod.collapse)
  from verification_token_once [OF ticket_schema r rtranclp.rtrancl_refl [of "web_step sample_services"], of sample_env] r
  show ?thesis by blast
qed

end
