(* ===== verification/Guarantees.thy ===== *)
theory Guarantees
  imports Tickets
begin

section \<open>What the program as a whole guarantees\<close>

text \<open>
  The properties that span the components: tenants are isolated, the constraints and the ownership
  of projects are invariants of every run, campaigns move only as the abstract machine allows, a
  route runs only for who holds its permission, and a token of any kind is used once.
\<close>

subsection \<open>Tenants\<close>

text \<open>C1. A request of a project route changes nothing that belongs to another project or to an
  account: not a row of another project, of its devices, groups, roles, firmwares or campaigns, not a
  user, session or token.\<close>

theorem project_isolation:
  assumes "schema_ok db" and "acts_on sv env (rq_ctx rq) r pid"
  shows "elsewhere pid (fst (fst (serve sv env rq r (db, st)))) = elsewhere pid db"
proof -
  have same: "acts_on sv env c r pid" if "c_Param c = c_Param (rq_ctx rq)" for c
  proof -
    have "path_project sv c = path_project sv (rq_ctx rq)" by (simp add: path_project_def that)
    with assms(2) show ?thesis
      by (cases "(sv, env, rq_ctx rq, r, pid)" rule: acts_on.cases) simp_all
  qed
  from serve_state [of sv env rq r "(db, st)"] show ?thesis
  proof (elim disjE exE conjE)
    fix c assume "c_Param c = c_Param (rq_ctx rq)" "fst (serve sv env rq r (db, st)) = fst (dispatch sv env c r (db, st))"
    with dispatch_fstep [OF same, of c "(db, st)"] assms(1) show ?thesis by (simp add: fstep_def pstep_def)
  qed simp
qed

text \<open>Archiving project 5 by its owner leaves everything outside the project as it was.\<close>

theorem project_isolation_witness:
  "elsewhere 5 (fst (fst (serve sample_services sample_env (sample_request ''1'') (Project R_ProjectArchive) (good_db, no_store))))
   = elsewhere 5 good_db"
  by (rule project_isolation) (simp_all add: good_schema)

text \<open>C13. A request of an account route (registration, login, sessions, passwords, two-factor
  authentication) changes no table of the projects.\<close>

theorem accounts_apart: "project_side (fst (fst (serve sv env rq (Account r) (db, st)))) = project_side db"
proof -
  from serve_state [of sv env rq "Account r" "(db, st)"] show ?thesis
  proof (elim disjE exE conjE)
    fix c assume "fst (serve sv env rq (Account r) (db, st)) = fst (dispatch sv env c (Account r) (db, st))"
    with account_dispatch_ustep [of "(db, st)" sv env c r] show ?thesis by (simp add: ustep_def)
  qed simp
qed

subsection \<open>Runs\<close>

text \<open>C3. The constraints of the database are an invariant of the program: from a database that
  keeps them, no sequence of requests, device frames and scheduler ticks reaches one that breaks the
  primary key of a table, a unique or partial unique index (the names of custom roles, device types and
  groups, the versions of firmware, the hashes of tokens, sessions and codes), a foreign key, or the
  normal form of a stored identifier, version or checksum, or that has a project without an owner.\<close>

theorem program_invariant:
  assumes "schema_ok db" and "(web_step sv)\<^sup>*\<^sup>* db db'"
  shows "schema_ok db'"
  using web_run_schema [OF assms(2,1)] .

theorem program_invariant_witness:
  "schema_ok (fst (fst (serve sample_services sample_env (sample_request ''1'') (Project R_MemberDrop) (good_db, no_store))))"
  by (rule program_invariant [OF good_schema r_into_rtranclp [of "web_step sample_services", OF ws_request]])

text \<open>C4. No project is ever left without an owner: whatever members leave, change roles or
  transfer, whatever roles are deleted, each project has a member whose role is the predefined owner
  role.\<close>

theorem every_project_owned:
  assumes "schema_ok db" and "(web_step sv)\<^sup>*\<^sup>* db db'" and "p \<in> set (db_projects db')"
  shows "\<exists>m \<in> set (db_members db'). \<exists>r \<in> set (db_roles db'). mem_ProjectID m = proj_ID p \<and> mem_RoleID m = role_ID r
     \<and> role_Slug r = SlugOwner \<and> role_IsPredefined r \<and> role_DeletedAt r = None"
proof -
  have "owned (db_projects db') (db_members db') (db_roles db')"
    using web_run_schema [OF assms(2,1)] by (simp add: schema_ok_def)
  then obtain m where m: "m \<in> set (db_members db')" "mem_ProjectID m = proj_ID p" "owns (db_roles db') m"
    using assms(3) by (auto simp: owned_def)
  then obtain r where "r \<in> set (db_roles db')" "role_DeletedAt r = None" "role_IsPredefined r" "role_Slug r = SlugOwner"
    "role_ID r = mem_RoleID m" by (auto simp: owns_def owner_role_def)
  with m(1,2) show ?thesis by (intro bexI [of _ m] bexI [of _ r]) simp_all
qed

theorem every_project_owned_witness:
  "\<exists>m \<in> set (db_members good_db). \<exists>r \<in> set (db_roles good_db). mem_ProjectID m = proj_ID sample_project
     \<and> mem_RoleID m = role_ID r \<and> role_Slug r = SlugOwner \<and> role_IsPredefined r \<and> role_DeletedAt r = None"
  by (rule every_project_owned [OF good_schema rtranclp.rtrancl_refl [of "web_step sample_services"]]) (simp add: good_rows)

text \<open>C5. Over every run of the program campaigns and assignments move as the abstract campaign
  machine does: other requests, of any project or account, have no part in it.\<close>

theorem program_campaigns:
  assumes "schema_ok db" and "(web_step sv)\<^sup>*\<^sup>* db db'"
  shows "astep\<^sup>*\<^sup>* (abs_camps db) (abs_camps db')"
  using wf_run [OF web_run_camp [OF assms(2)] schema_camp_wf [OF assms(1)]] by (simp add: refines_def)

theorem program_campaigns_witness:
  "astep\<^sup>*\<^sup>* (abs_camps good_db)
     (abs_camps (fst (fst (serve sample_services sample_env (sample_request ''1'') (Campaign R_CampaignPausing) (good_db, no_store)))))"
  by (rule program_campaigns [OF good_schema r_into_rtranclp [of "web_step sample_services", OF ws_request]])

subsection \<open>Who may do what\<close>

text \<open>A membership of the project whose live role carries the permission.\<close>

definition holds_permission :: "db \<Rightarrow> uuid \<Rightarrow> uuid \<Rightarrow> string \<Rightarrow> bool" where
  "holds_permission db pid uid perm \<longleftrightarrow>
     (\<exists>m \<in> set (db_members db). mem_ProjectID m = pid \<and> mem_UserID m = uid \<and>
        (\<exists>r \<in> set (db_roles db). role_ID r = mem_RoleID m \<and> role_DeletedAt r = None \<and>
           (\<exists>p \<in> set (db_permissions db). perm_Key p = perm \<and> (role_ID r, perm_ID p) \<in> set (db_role_permissions db))))"

lemma preload_role_permission:
  assumes "RoleHasPermission (preload_role db m) perm"
  shows "\<exists>r \<in> set (db_roles db). role_ID r = mem_RoleID m \<and> role_DeletedAt r = None \<and>
     (\<exists>p \<in> set (db_permissions db). perm_Key p = perm \<and> (role_ID r, perm_ID p) \<in> set (db_role_permissions db))"
proof (cases "find_role db (\<lambda>r. role_ID r = mem_RoleID m)")
  case None
  with assms show ?thesis by (simp add: preload_role_def RoleHasPermission_def zero_role_def)
next
  case (Some r)
  then have "r \<in> set (db_roles db)" "role_ID r = mem_RoleID m" "role_DeletedAt r = None"
    by (auto simp: find_role_def dest: first_by_Some)
  with assms Some show ?thesis
    by (intro bexI [of _ r]) (auto simp: preload_role_def RoleHasPermission_def preload_permissions_def)
qed

lemma AuthorizeProject_holds:
  assumes "AuthorizeProject db pid uid perm = Inr x"
  shows "holds_permission db pid uid perm"
proof -
  obtain m where m: "first_by mem_ID (\<lambda>m. mem_ProjectID m = pid \<and> mem_UserID m = uid) (db_members db) = Some m"
    "RoleHasPermission (preload_role db m) perm"
    using assms by (auto simp: AuthorizeProject_def GetMembershipForUser_def split: option.splits sum.splits if_splits)
  from first_by_Some [OF m(1)] preload_role_permission [OF m(2)] show ?thesis by (auto simp: holds_permission_def)
qed

text \<open>C2. A route of project members either refuses the request with an error and leaves the state
  untouched, or runs its handler for a user with a valid access token who, at that moment, is a member
  of the project of the path with a live role that carries the permission of the route.\<close>

theorem access_control:
  assumes "guard_of r = Member perm"
  shows "(\<exists>resp. serve sv env rq r (db, st) = ((db, st), Inl resp))
     \<or> (\<exists>u sid uid pid. RequireAuth (sv_cfg sv) (sv_lib sv) (env_now env) (rq_RequestID rq) (rq_Authorization rq) = Inr (u, sid)
          \<and> sv_parse sv u = Some uid \<and> path_project sv (rq_ctx rq) = Some pid \<and> holds_permission db pid uid perm
          \<and> serve sv env rq r (db, st)
            = run_handler sv env (rq_RequestID rq) ((rq_ctx rq)\<lparr>c_auth_user_id := u, c_auth_session_id := sid\<rparr>) r (db, st))"
proof -
  let ?session = "RequireAuth (sv_cfg sv) (sv_lib sv) (env_now env) (rq_RequestID rq) (rq_Authorization rq)"
  let ?permit = "RequireProjectPermission (sv_parse sv) db perm (rq_RequestID rq) (c_Param (rq_ctx rq) ''projectID'')"
  show ?thesis
  proof (cases "\<exists>u sid m. ?session = Inr (u, sid) \<and> ?permit u = Inr m")
    case True
    then obtain u sid m where 1: "?session = Inr (u, sid)" "?permit u = Inr m" by blast
    then have "serve sv env rq r (db, st)
        = run_handler sv env (rq_RequestID rq) ((rq_ctx rq)\<lparr>c_auth_user_id := u, c_auth_session_id := sid\<rparr>) r (db, st)"
      using assms by (simp add: serve_def Let_def)
    with 1 show ?thesis
      by (auto simp: RequireProjectPermission_def path_project_def dest: AuthorizeProject_holds split: option.splits sum.splits)
  next
    case False
    then show ?thesis using assms by (auto simp: serve_def Let_def split: sum.split)
  qed
qed

text \<open>The owner lists the device types of the project.\<close>

lemma owner_lists_types:
  "snd (serve sample_services sample_env (sample_request ''1'') (Device R_DeviceTypeList) (good_db, no_store)) = Inr 200"
proof -
  have "is_ok (AuthorizeProject sample_db 5 1 DeviceRead)" by code_simp
  then obtain x where "AuthorizeProject good_db 5 1 DeviceRead = Inr x" by (auto simp: is_ok_iff good_authorize)
  then show ?thesis
    by (simp add: serve_def sample_request_def sample_ctx_def RequireProjectPermission_def
        run_handler_def on_read_def h_ListDeviceTypes_def reads_def project_ids_def projectID_of_def parseUserID_def parse_or_def
        ListDeviceTypes_def StatusOK_def sample_auth)
qed

theorem access_control_witness:
  "\<exists>u uid pid. sv_parse sample_services u = Some uid \<and> path_project sample_services (rq_ctx (sample_request ''1'')) = Some pid
     \<and> holds_permission good_db pid uid DeviceRead"
  using access_control [of "Device R_DeviceTypeList" DeviceRead sample_services sample_env "sample_request ''1''" good_db no_store]
    owner_lists_types by (auto simp del: sample_path)

subsection \<open>Devices\<close>

text \<open>A live device, neither blocked nor revoked nor disabled, whose active token has this hash.\<close>

definition admitted :: "db \<Rightarrow> string \<Rightarrow> device \<Rightarrow> bool" where
  "admitted db raw d \<longleftrightarrow> d \<in> set (db_devices db) \<and> dev_DeletedAt d = None \<and> \<not> dev_Blocked d
     \<and> dev_TokenRevokedAt d = None \<and> dev_PollingDisabledAt d = None
     \<and> (\<exists>t \<in> set (db_auth_tokens db). tok_TokenHash t = HashToken raw \<and> tok_RevokedAt t = None \<and> tok_DeviceID t = dev_ID d)"

lemma token_admitted: "GetDeviceByActiveTokenHash db (HashToken raw) = Inr (d, t) \<Longrightarrow> admitted db raw d"
  by (auto simp: GetDeviceByActiveTokenHash_def admitted_def split: option.splits if_splits dest!: first_by_Some)

text \<open>C6. A device route either refuses the request and leaves the state untouched, or runs its
  handler in the name of the device whose active token the request carries, which at that moment is
  live, not blocked, not revoked and not disabled.\<close>

theorem device_access:
  assumes "guard_of r = DeviceToken"
  shows "(\<exists>resp. serve sv env rq r (db, st) = ((db, st), Inl resp))
     \<or> (\<exists>raw d. prefix device_prefix (rq_Authorization rq)
          \<and> raw = trim_space (drop (length device_prefix) (rq_Authorization rq)) \<and> admitted db raw d
          \<and> serve sv env rq r (db, st) = run_handler sv env (rq_RequestID rq)
              ((rq_ctx rq)\<lparr>c_device_id := uuid_String (dev_ID d), c_device_project_id := uuid_String (dev_ProjectID d)\<rparr>) r (db, st))"
proof (cases "RequireDeviceAuth db (rq_RequestID rq) (rq_Authorization rq)")
  case (Inl resp)
  with assms show ?thesis by (simp add: serve_def Let_def)
next
  case (Inr d)
  then have "prefix device_prefix (rq_Authorization rq)"
    "admitted db (trim_space (drop (length device_prefix) (rq_Authorization rq))) d"
    by (auto simp: RequireDeviceAuth_def Let_def split: if_splits sum.splits dest: token_admitted)
  with Inr assms show ?thesis by (auto simp: serve_def Let_def)
qed

text \<open>A user's token is no device token.\<close>

theorem device_access_witness:
  "\<exists>resp. serve sample_services sample_env (sample_request ''1'') (Agent R_DevicePolling) (good_db, no_store)
     = ((good_db, no_store), Inl resp)"
  using device_access [of "Agent R_DevicePolling" sample_services sample_env "sample_request ''1''" good_db no_store]
  by (auto simp: sample_request_def device_prefix_def bearer_prefix_def)

definition at_most_error :: "db \<Rightarrow> db \<times> byte list \<Rightarrow> bool" where
  "at_most_error db x \<longleftrightarrow> x = (db, []) \<or> (\<exists>q code msg. x = (db, sent (writeErr q code msg)))"

lemma at_most_error [simp]: "at_most_error db (db, [])" "at_most_error db (db, sent (writeErr q code msg))"
  by (auto simp: at_most_error_def)

text \<open>C7. Nothing happens on a TCP connection before authentication: either its first frame is an
  authentication frame with the active token of an admitted device, or the connection leaves the
  database alone and sends at most one error frame.\<close>

theorem tcp_access:
  "(\<exists>fr rest raw d. readFrame input = (Inr fr, rest) \<and> MsgType fr = MsgAuthReq
      \<and> decodeAuthPayload (Payload fr) = Inr raw \<and> raw \<noteq> [] \<and> admitted db raw d)
   \<or> at_most_error db (ServeConn h ip steps input db)"
proof -
  obtain r rest where r: "readFrame input = (r, rest)" by fastforce
  show ?thesis
  proof (cases "\<exists>fr raw d. r = Inr fr \<and> MsgType fr = MsgAuthReq \<and> decodeAuthPayload (Payload fr) = Inr raw
      \<and> raw \<noteq> [] \<and> authenticateDevice db raw = Inr d")
    case True
    then obtain fr raw d where t: "r = Inr fr" "MsgType fr = MsgAuthReq" "decodeAuthPayload (Payload fr) = Inr raw" "raw \<noteq> []"
      "authenticateDevice db raw = Inr d" by blast
    then have "admitted db raw d" by (auto simp: authenticateDevice_def split: sum.splits dest: token_admitted)
    with r t show ?thesis by blast
  next
    case False
    then have "at_most_error db (ServeConn h ip steps input db)"
      unfolding ServeConn_def r prod.case by (auto split: sum.split)
    then show ?thesis by blast
  qed
qed

end
