(* ===== verification/Startup.thy ===== *)
theory Startup
  imports Bootstrap Guarantees
begin

section \<open>What holds from the start\<close>

text \<open>
  The seeding of permissions, predefined roles and device types: what a successful start
  guarantees of the registry, and that the constraints hold from the first start on.
\<close>

subsection \<open>Permissions\<close>

lemma seed_permissions_ok:
  assumes "seed_permissions env k keys db = (db', r)" and "permissions_ok (db_permissions db)"
  shows "permissions_ok (db_permissions db')" and "db' = db\<lparr>db_permissions := db_permissions db'\<rparr>"
    and "set (db_permissions db) \<subseteq> set (db_permissions db')"
    and "r = Inr k' \<Longrightarrow> set keys \<subseteq> perm_Key ` set (db_permissions db')"
proof -
  have "permissions_ok (db_permissions db') \<and> db' = db\<lparr>db_permissions := db_permissions db'\<rparr>
      \<and> set (db_permissions db) \<subseteq> set (db_permissions db')
      \<and> (r = Inr k' \<longrightarrow> set keys \<subseteq> perm_Key ` set (db_permissions db'))"
    using assms
  proof (induction env k keys db rule: seed_permissions.induct)
    case (2 env k key keys db)
    show ?case
    proof (cases "first_by perm_ID (\<lambda>p. perm_Key p = key) (db_permissions db)")
      case (Some p)
      with first_by_Some [OF Some] 2 show ?thesis by auto
    next
      case None
      let ?p = "\<lparr>perm_ID = env_uuid env k, perm_Key = key, perm_Description = key,
          perm_CreatedAt = env_now env, perm_UpdatedAt = env_now env\<rparr>"
      show ?thesis
      proof (cases "insert_row perm_conflict ?p (db_permissions db)")
        case (Inl e)
        with None 2(3,4) show ?thesis by auto
      next
        case (Inr t)
        then have t: "t = db_permissions db @ [?p]" "\<forall>x \<in> set (db_permissions db). \<not> perm_conflict x ?p"
          by (auto simp: insert_row_def split: if_splits)
        then have "permissions_ok t" using 2(4) by (auto simp: permissions_ok_def keyed_snoc perm_conflict_def)
        with 2(1) [OF None Inr] 2(3) None Inr have "permissions_ok (db_permissions db')
            \<and> db' = db\<lparr>db_permissions := db_permissions db'\<rparr> \<and> set t \<subseteq> set (db_permissions db')
            \<and> (r = Inr k' \<longrightarrow> set keys \<subseteq> perm_Key ` set (db_permissions db'))" by simp
        then show ?thesis by (auto simp: t(1) intro!: rev_image_eqI [of ?p])
      qed
    qed
  qed auto
  then show "permissions_ok (db_permissions db')" and "db' = db\<lparr>db_permissions := db_permissions db'\<rparr>"
    and "set (db_permissions db) \<subseteq> set (db_permissions db')"
    and "r = Inr k' \<Longrightarrow> set keys \<subseteq> perm_Key ` set (db_permissions db')" by auto
qed

subsection \<open>The permissions of a role\<close>

definition keys_of :: "db \<Rightarrow> uuid \<Rightarrow> string set" where
  "keys_of db rid = perm_Key ` {p \<in> set (db_permissions db). (rid, perm_ID p) \<in> set (db_role_permissions db)}"

lemma keysToIDs_set:
  assumes "keyed perm_Key (db_permissions db)"
  shows "set (keysToIDs db keys) = perm_ID ` {p \<in> set (db_permissions db). perm_Key p \<in> set keys}"
proof -
  have "set (case filter (\<lambda>p. perm_Key p = k) (db_permissions db) of [] \<Rightarrow> [] | p # ps \<Rightarrow> [last (p # ps)])
      = {p \<in> set (db_permissions db). perm_Key p = k}" for k
  proof (cases "filter (\<lambda>p. perm_Key p = k) (db_permissions db)")
    case Nil
    then show ?thesis by (auto simp: filter_empty_conv)
  next
    case (Cons p ps)
    then have all: "{x \<in> set (db_permissions db). perm_Key x = k} = set (p # ps)" by (metis set_filter)
    then have "last (p # ps) \<in> {x \<in> set (db_permissions db). perm_Key x = k}" by (metis last_in_set list.distinct(1))
    moreover have "x = y" if "x \<in> {x \<in> set (db_permissions db). perm_Key x = k}" "y \<in> {x \<in> set (db_permissions db). perm_Key x = k}" for x y
      using that keyed_unique [OF assms, of x y] by auto
    ultimately show ?thesis using Cons by auto
  qed
  then show ?thesis by (auto simp: keysToIDs_def)
qed

lemma seed_replace_keys:
  assumes "seed_replaceRolePermissions rid (keysToIDs db keys) db = Inr db'" and "permissions_ok (db_permissions db)"
    and "set keys \<subseteq> perm_Key ` set (db_permissions db)"
  shows "keys_of db' rid = set keys" and "rid' \<noteq> rid \<Longrightarrow> keys_of db' rid' = keys_of db rid'"
    and "db' = db\<lparr>db_role_permissions := db_role_permissions db'\<rparr>"
proof -
  from assms(1) have db': "db' = replace_permissions rid (filter (\<lambda>p. perm_ID p \<in> set (keysToIDs db keys)) (db_permissions db)) db"
    by (auto simp: seed_replaceRolePermissions_def split: option.splits)
  have ids: "perm_ID p \<in> set (keysToIDs db keys) \<longleftrightarrow> perm_Key p \<in> set keys" if "p \<in> set (db_permissions db)" for p
  proof -
    have "inj_on perm_ID (set (db_permissions db))" using assms(2) by (simp add: permissions_ok_def keyed_def distinct_map)
    with that assms(2) show ?thesis by (auto simp: keysToIDs_set permissions_ok_def dest: inj_onD)
  qed
  have "(rid, i) \<in> set (db_role_permissions db') \<longleftrightarrow> i \<in> perm_ID ` set (db_permissions db) \<and> i \<in> set (keysToIDs db keys)" for i
    unfolding db' replace_permissions_def by auto
  then have "{p \<in> set (db_permissions db). (rid, perm_ID p) \<in> set (db_role_permissions db')}
      = {p \<in> set (db_permissions db). perm_Key p \<in> set keys}" using ids by blast
  with assms(3) show "keys_of db' rid = set keys" by (auto simp: keys_of_def db' replace_permissions_def)
  show "rid' \<noteq> rid \<Longrightarrow> keys_of db' rid' = keys_of db rid'"
    by (auto simp: keys_of_def db' replace_permissions_def image_iff)
  show "db' = db\<lparr>db_role_permissions := db_role_permissions db'\<rparr>" by (simp add: db' replace_permissions_def)
qed

subsection \<open>The predefined roles\<close>

definition predefined_live :: "string \<Rightarrow> role \<Rightarrow> bool" where
  "predefined_live slug r \<longleftrightarrow> role_IsPredefined r \<and> role_ProjectID r = None \<and> role_Slug r = slug \<and> role_DeletedAt r = None"

lemma predefined_live_unique:
  assumes "roles_ok t" and "r \<in> set t" and "r' \<in> set t" and "predefined_live slug r" and "predefined_live slug r'"
  shows "r = r'"
  using assms keyed_unique [of role_Slug "filter (\<lambda>r. role_IsPredefined r \<and> role_DeletedAt r = None) t" r r']
  by (simp add: roles_ok_def predefined_live_def)

lemma roles_ok_snoc:
  assumes "roles_ok t" and "predefined_live slug r" and "\<forall>x \<in> set t. \<not> role_conflict x r"
  shows "roles_ok (t @ [r])"
  using assms by (auto simp: roles_ok_def predefined_live_def role_conflict_def custom_role_def keyed_snoc)

text \<open>What each round does: the role of the slug exists and has exactly its keys; nothing is said of
  the other roles but that they stay.\<close>

lemma seed_round:
  assumes "seed_roles env k ((slug, name, keys) # defs) db = (db', Inr ())"
    and "permissions_ok (db_permissions db)" and "roles_ok (db_roles db)" and "set keys \<subseteq> perm_Key ` set (db_permissions db)"
  obtains db1 k1 r where "seed_roles env k1 defs db1 = (db', Inr ())" and "db_permissions db1 = db_permissions db"
    and "roles_ok (db_roles db1)" and "set (db_roles db) \<subseteq> set (db_roles db1)"
    and "r \<in> set (db_roles db1)" and "predefined_live slug r" and "keys_of db1 (role_ID r) = set keys"
    and "\<forall>x. x \<noteq> role_ID r \<longrightarrow> keys_of db1 x = keys_of db x"
proof (cases "find_role db (\<lambda>r. role_IsPredefined r \<and> role_ProjectID r = None \<and> role_Slug r = slug)")
  case (Some r)
  with assms(1) obtain db1 where 1: "seed_replaceRolePermissions (role_ID r) (keysToIDs db keys) db = Inr db1"
    "seed_roles env k defs db1 = (db', Inr ())" by (auto split: sum.splits)
  have r: "r \<in> set (db_roles db)" "predefined_live slug r"
    using first_by_Some [OF Some [unfolded find_role_def]] by (auto simp: predefined_live_def)
  from seed_replace_keys [OF 1(1) assms(2,4)]
  have "db_permissions db1 = db_permissions db" "db_roles db1 = db_roles db" by (metis db.select_convs db.surjective db.update_convs)+
  with 1 r seed_replace_keys [OF 1(1) assms(2,4)] assms(3) show thesis by (intro that [of k db1 r]) auto
next
  case None
  define r where "r = \<lparr>role_ID = env_uuid env k, role_ProjectID = None, role_Slug = slug, role_Name = name,
                    role_NameNormalized = slug, role_IsPredefined = True, role_Description = ''Predefined role'',
                    role_Permissions = [], role_CreatedAt = env_now env, role_UpdatedAt = env_now env,
                    role_DeletedAt = None\<rparr>"
  let ?db = "db\<lparr>db_roles := db_roles db @ [r]\<rparr>"
  from assms(1) None obtain db1 where 1: "\<forall>x \<in> set (db_roles db). \<not> role_conflict x r"
    "seed_replaceRolePermissions (role_ID r) (keysToIDs db keys) ?db = Inr db1"
    "seed_roles env (Suc k) defs db1 = (db', Inr ())"
    by (auto simp: Let_def r_def split: sum.splits)
  have r: "predefined_live slug r" by (simp add: r_def predefined_live_def)
  have 2: "seed_replaceRolePermissions (role_ID r) (keysToIDs ?db keys) ?db = Inr db1" using 1(2) by (simp add: keysToIDs_def)
  from seed_replace_keys [OF 2] assms(2,4)
  have k: "keys_of db1 (role_ID r) = set keys" "\<And>x. x \<noteq> role_ID r \<Longrightarrow> keys_of db1 x = keys_of ?db x"
    "db1 = ?db\<lparr>db_role_permissions := db_role_permissions db1\<rparr>" by auto
  from k(3) have e: "db_permissions db1 = db_permissions db" "db_roles db1 = db_roles db @ [r]"
    by (metis db.select_convs db.surjective db.update_convs)+
  moreover have "keys_of ?db x = keys_of db x" for x by (simp add: keys_of_def)
  ultimately show thesis using 1(3) k(1,2) r roles_ok_snoc [OF assms(3) r 1(1)] by (intro that [of "Suc k" db1 r]) auto
qed

lemma seed_roles_keys:
  assumes "seed_roles env k defs db = (db', Inr ())" and "permissions_ok (db_permissions db)" and "roles_ok (db_roles db)"
    and "\<And>slug name keys. (slug, name, keys) \<in> set defs \<Longrightarrow> set keys \<subseteq> perm_Key ` set (db_permissions db)"
    and "distinct (map fst defs)"
  shows "set (db_roles db) \<subseteq> set (db_roles db') \<and> roles_ok (db_roles db') \<and> db_permissions db' = db_permissions db
     \<and> (\<forall>r s. r \<in> set (db_roles db) \<longrightarrow> predefined_live s r \<longrightarrow> s \<notin> fst ` set defs \<longrightarrow> keys_of db' (role_ID r) = keys_of db (role_ID r))
     \<and> (\<forall>(slug, name, keys) \<in> set defs. \<exists>r \<in> set (db_roles db'). predefined_live slug r \<and> keys_of db' (role_ID r) = set keys)"
  using assms
proof (induction defs arbitrary: k db)
  case Nil
  then show ?case by auto
next
  case (Cons d defs)
  obtain slug name keys where d: "d = (slug, name, keys)" by (cases d)
  have kd: "set keys \<subseteq> perm_Key ` set (db_permissions db)" using Cons.prems(4) [of slug name keys] d by simp
  obtain db1 k1 r
    where 1: "seed_roles env k1 defs db1 = (db', Inr ())" "db_permissions db1 = db_permissions db" "roles_ok (db_roles db1)"
      "set (db_roles db) \<subseteq> set (db_roles db1)"
    and r: "r \<in> set (db_roles db1)" "predefined_live slug r" "keys_of db1 (role_ID r) = set keys"
    and o: "\<forall>x. x \<noteq> role_ID r \<longrightarrow> keys_of db1 x = keys_of db x"
    by (rule seed_round [OF Cons.prems(1) [unfolded d] Cons.prems(2,3) kd])
  have IH: "set (db_roles db1) \<subseteq> set (db_roles db')" "roles_ok (db_roles db')" "db_permissions db' = db_permissions db1"
    "\<And>x s. x \<in> set (db_roles db1) \<Longrightarrow> predefined_live s x \<Longrightarrow> s \<notin> fst ` set defs \<Longrightarrow> keys_of db' (role_ID x) = keys_of db1 (role_ID x)"
    "\<forall>(slug, name, keys) \<in> set defs. \<exists>r \<in> set (db_roles db'). predefined_live slug r \<and> keys_of db' (role_ID r) = set keys"
  proof -
    have "permissions_ok (db_permissions db1)" using Cons.prems(2) 1(2) by simp
    moreover have "set ks \<subseteq> perm_Key ` set (db_permissions db1)" if "(sl, nm, ks) \<in> set defs" for sl nm ks
      using Cons.prems(4) [of sl nm ks] that by (simp add: 1(2))
    moreover have "distinct (map fst defs)" using Cons.prems(5) by simp
    ultimately have all: "set (db_roles db1) \<subseteq> set (db_roles db') \<and> roles_ok (db_roles db') \<and> db_permissions db' = db_permissions db1
     \<and> (\<forall>r s. r \<in> set (db_roles db1) \<longrightarrow> predefined_live s r \<longrightarrow> s \<notin> fst ` set defs \<longrightarrow> keys_of db' (role_ID r) = keys_of db1 (role_ID r))
     \<and> (\<forall>(slug, name, keys) \<in> set defs. \<exists>r \<in> set (db_roles db'). predefined_live slug r \<and> keys_of db' (role_ID r) = set keys)"
      by (rule Cons.IH [OF 1(1) _ 1(3)])
    then show "set (db_roles db1) \<subseteq> set (db_roles db')" "roles_ok (db_roles db')" "db_permissions db' = db_permissions db1"
      by blast+
    show "keys_of db' (role_ID x) = keys_of db1 (role_ID x)"
      if "x \<in> set (db_roles db1)" "predefined_live s x" "s \<notin> fst ` set defs" for x s using all that by blast
    from all show "\<forall>(slug, name, keys) \<in> set defs. \<exists>r \<in> set (db_roles db'). predefined_live slug r \<and> keys_of db' (role_ID r) = set keys"
      by (elim conjE)
  qed
  have new: "slug \<notin> fst ` set defs" using Cons.prems(5) d by simp
  have "keys_of db' (role_ID r) = set keys" using IH(4) [OF r(1,2) new] r(3) by simp
  moreover have "keys_of db' (role_ID x) = keys_of db (role_ID x)"
    if x: "x \<in> set (db_roles db)" "predefined_live s x" "s \<notin> fst ` set (d # defs)" for x s
  proof -
    have "x \<in> set (db_roles db1)" using x(1) 1(4) by auto
    moreover have "role_ID x \<noteq> role_ID r"
    proof
      assume "role_ID x = role_ID r"
      then have "x = r" using keyed_unique [of role_ID "db_roles db1" x r] calculation r(1) 1(3) by (simp add: roles_ok_def)
      with r(2) x(2,3) d show False by (auto simp: predefined_live_def)
    qed
    ultimately show ?thesis using IH(4) [of x s] x(2,3) o by simp
  qed
  moreover have "set (db_roles db) \<subseteq> set (db_roles db')" using 1(4) IH(1) by blast
  ultimately show ?case using IH(1,2,3,5) 1(2) r(1,2) by (auto simp: d)
qed

lemma role_defs_ok:
  "\<forall>(slug, name, keys) \<in> set role_defs. set keys \<subseteq> set permission_All" "distinct (map fst role_defs)"
  "set permission_All \<subseteq> set ownerKeys" "\<forall>(slug, name, keys) \<in> set role_defs. slug = SlugOwner \<longrightarrow> keys = ownerKeys"
  by code_simp+

text \<open>C17. After a successful seeding, on an empty database or on one in use, each of the four predefined
  roles exists and carries exactly the permissions of its definition; the owner's are all there are.\<close>

theorem registry_exact:
  assumes "schema_ok db" and "SeedRegistry env db = (db', Inr ())" and "(slug, name, keys) \<in> set role_defs"
  shows "\<exists>r \<in> set (db_roles db'). predefined_live slug r \<and> keys_of db' (role_ID r) = set keys
     \<and> (slug = SlugOwner \<longrightarrow> set permission_All \<subseteq> keys_of db' (role_ID r))"
proof -
  from assms(2) obtain db1 k where 1: "seed_permissions env 0 permission_All db = (db1, Inr k)"
    "seed_roles env k role_defs db1 = (db', Inr ())"
    by (auto simp: SeedRegistry_def split: prod.splits sum.splits)
  have p: "permissions_ok (db_permissions db)" and ro: "roles_ok (db_roles db)" using assms(1) by (simp_all add: schema_ok_def)
  note s = seed_permissions_ok [OF 1(1) p]
  from s(2) have "db_roles db1 = db_roles db" by (metis db.select_convs db.surjective db.update_convs)
  with ro have "roles_ok (db_roles db1)" by simp
  moreover have "set keys \<subseteq> perm_Key ` set (db_permissions db1)" if "(slug, name, keys) \<in> set role_defs" for slug name keys
    using s(4) [of k] role_defs_ok(1) that by blast
  ultimately have "\<forall>(slug, name, keys) \<in> set role_defs. \<exists>r \<in> set (db_roles db'). predefined_live slug r \<and> keys_of db' (role_ID r) = set keys"
    using seed_roles_keys [OF 1(2) s(1) _ _ role_defs_ok(2)] by blast
  with assms(3) obtain r where "r \<in> set (db_roles db')" "predefined_live slug r" "keys_of db' (role_ID r) = set keys" by blast
  moreover have "slug = SlugOwner \<Longrightarrow> keys = ownerKeys" using assms(3) role_defs_ok(4) by blast
  ultimately show ?thesis using role_defs_ok(3) by (intro bexI [of _ r]) auto
qed

lemma empty_schema: "schema_ok empty_db"
  by (simp add: schema_ok_def empty_db_def owned_def constraint_defs)

lemma empty_seeds: "is_ok (snd (SeedRegistry sample_env empty_db))"
  by code_simp

theorem registry_exact_witness:
  "\<exists>db' r. SeedRegistry sample_env empty_db = (db', Inr ()) \<and> r \<in> set (db_roles db') \<and> predefined_live SlugOwner r
     \<and> set permission_All \<subseteq> keys_of db' (role_ID r)"
proof -
  obtain db' where s: "SeedRegistry sample_env empty_db = (db', Inr ())"
    using empty_seeds by (cases "SeedRegistry sample_env empty_db") (auto simp: is_ok_iff)
  from registry_exact [OF empty_schema s, of SlugOwner "''Owner''" ownerKeys] s show ?thesis
    by (auto simp: role_defs_def)
qed

subsection \<open>The constraints hold from the start\<close>

lemma permissions_schema:
  "schema_ok db \<Longrightarrow> permissions_ok t \<Longrightarrow> set (db_permissions db) \<subseteq> set t \<Longrightarrow> schema_ok (db\<lparr>db_permissions := t\<rparr>)"
  by (simp add: schema_ok_def refs_ok_def) (blast intro: permission_refs_mono)

lemma replace_permissions_schema:
  assumes "schema_ok db" and "i \<in> role_ID ` set (db_roles db)"
  shows "schema_ok (replace_permissions i (filter P (db_permissions db)) db)"
proof -
  have "keyed perm_ID (filter P (db_permissions db))" using assms(1) by (simp add: schema_ok_def permissions_ok_def keyed_filter)
  note new = replaced_permissions_ok [OF assms filter_is_subset this]
  from new assms(1) show ?thesis by (simp add: replace_permissions_def schema_ok_def refs_ok_def)
qed

lemma owner_role_snoc: "owned ps ms rs \<Longrightarrow> owned ps ms (rs @ [r])"
  by (erule owned_roles_mono) (auto simp: owner_role_def)

lemma seed_replace_schema: "seed_replaceRolePermissions i ids db = Inr db' \<Longrightarrow> schema_ok db \<Longrightarrow> schema_ok db'"
  by (auto simp: seed_replaceRolePermissions_def find_role_def split: option.splits dest!: first_by_Some
      intro!: replace_permissions_schema)

lemma seed_roles_schema: "schema_ok db \<Longrightarrow> schema_ok (fst (seed_roles env k defs db))"
proof (induction env k defs db rule: seed_roles.induct)
  case (2 env k slug name keys defs db)
  define r where "r = \<lparr>role_ID = env_uuid env k, role_ProjectID = None, role_Slug = slug, role_Name = name,
                    role_NameNormalized = slug, role_IsPredefined = True, role_Description = ''Predefined role'',
                    role_Permissions = [], role_CreatedAt = env_now env, role_UpdatedAt = env_now env,
                    role_DeletedAt = None\<rparr>"
  have add: "schema_ok (db\<lparr>db_roles := db_roles db @ [r]\<rparr>)" if "\<forall>x \<in> set (db_roles db). \<not> role_conflict x r"
    using 2(3) that roles_ok_snoc [of "db_roles db" slug r] owner_role_snoc
    by (simp add: schema_ok_def refs_ok_def member_refs_mono [OF _ order_refl ids_snoc, simplified]
        permission_refs_mono [OF _ ids_snoc order_refl, simplified]) (simp add: r_def predefined_live_def)
  show ?case
  proof (cases "find_role db (\<lambda>r. role_IsPredefined r \<and> role_ProjectID r = None \<and> role_Slug r = slug)")
    case (Some x)
    with 2 show ?thesis by (auto split: sum.splits dest: seed_replace_schema)
  next
    case None
    with 2 add show ?thesis by (auto simp: Let_def r_def split: sum.splits dest: seed_replace_schema)
  qed
qed simp

lemma SeedRegistry_schema: "schema_ok db \<Longrightarrow> schema_ok (fst (SeedRegistry env db))"
proof -
  assume db: "schema_ok db"
  obtain db1 r where 1: "seed_permissions env 0 permission_All db = (db1, r)" by fastforce
  from db have "permissions_ok (db_permissions db)" by (simp add: schema_ok_def)
  from seed_permissions_ok(1-3) [OF 1 this] permissions_schema [OF db] have "schema_ok db1" by metis
  then show ?thesis using 1 by (auto simp: SeedRegistry_def seed_roles_schema split: sum.split)
qed

lemma seed_types_schema: "schema_ok db \<Longrightarrow> schema_ok (fst (seed_types env k ds db))"
  by (induction env k ds db rule: seed_types.induct)
    (auto simp: Let_def schema_ok_def refs_ok_def types_ok_snoc split: option.split sum.split)

lemma Composite_schema:
  assumes "\<And>m d. m \<in> set ms \<Longrightarrow> schema_ok d \<Longrightarrow> schema_ok (fst (m d))" and "schema_ok db"
  shows "schema_ok (fst (CompositeMigrate ms db))"
  using assms
proof (induction ms arbitrary: db)
  case (Cons m ms)
  obtain d r where m: "m db = (d, r)" by fastforce
  with Cons.prems have "schema_ok d" by (metis fst_conv list.set_intros(1))
  with Cons m show ?case by (auto split: sum.split)
qed simp

lemma migrate_schema: "schema_ok db \<Longrightarrow> schema_ok (fst (migrate auto env1 env2 cfg db))"
proof -
  assume db: "schema_ok db"
  have "schema_ok (fst (CompositeMigrate (app_migrators auto env1 env2) db))"
    by (rule Composite_schema [OF _ db])
      (auto simp: app_migrators_def auth_Migrate_def project_Migrate_def firmware_Migrate_def campaign_Migrate_def tables_only_def
        rbac_Migrate_def device_Migrate_def SeedPredefinedDeviceTypes_def SeedRegistry_schema seed_types_schema split: sum.split)
  with db show ?thesis by (simp add: migrate_def RunMigrations_def)
qed

lemma New_ok:
  assumes "New libs connect auto cwd env1 env2 vars st = ((Some db, st'), Inr a)"
  obtains cfg db0 base where "Load vars = Inr cfg" and "connect (postgres_dsn (cfg_DB cfg)) (dc_TablePrefix (cfg_DB cfg)) = Inr (db0, None)"
    and "db = fst (migrate auto env1 env2 (cfg_DB cfg) db0)" and "app_services a = build_services libs cfg base"
    and "snd (migrate auto env1 env2 (cfg_DB cfg) db0) = Inr ()"
    and "\<not> unsupported_provider (sc_Provider (cfg_Storage cfg))"
    and "base = filepath_Abs cwd (sc_BasePath (cfg_Storage cfg))"
  using assms by (auto simp: New_def NewPostgres_def NewLocalObjectStore_def build_app_def Let_def split: sum.splits prod.splits if_splits option.splits)

text \<open>C16. From the start of the program on an empty database (or on one that keeps the constraints),
  through its migrations and seeding and through every run after that, the constraints hold: primary
  keys, unique and partial unique indexes, foreign keys, normal forms and owners. (That AutoMigrate
  and the Migrators create the indexes is the model of the tables, whose inserts respect them.)\<close>

theorem constraints_from_start:
  assumes "New libs connect auto cwd env1 env2 vars st = ((Some db, st'), Inr a)"
    and "\<And>dsn pre d. connect dsn pre = Inr (d, None) \<Longrightarrow> schema_ok d"
    and "(web_step (app_services a))\<^sup>*\<^sup>* db db'"
  shows "schema_ok db'"
proof (rule New_ok [OF assms(1)])
  fix cfg db0
  assume "connect (postgres_dsn (cfg_DB cfg)) (dc_TablePrefix (cfg_DB cfg)) = Inr (db0, None)"
    and "db = fst (migrate auto env1 env2 (cfg_DB cfg) db0)"
  then have "schema_ok db" using assms(2) by (simp add: migrate_schema)
  from web_run_schema [OF assms(3) this] show ?thesis .
qed

text \<open>A start with \<open>DB_AUTO_MIGRATE\<close> on an empty database runs the migrations and both seedings.\<close>

definition migrating :: "string \<Rightarrow> string" where
  "migrating k = (if k = ''DB_AUTO_MIGRATE'' then ''true'' else [])"

text \<open>Seeding the device types succeeds if the identifiers it draws are new and distinct.\<close>

lemma seed_types_succeeds:
  assumes "distinct (map (env_uuid env) [k..<k + length ds])"
    and "\<forall>x \<in> set (db_device_types db). dt_ID x \<notin> env_uuid env ` {k..<k + length ds}"
  shows "snd (seed_types env k ds db) = Inr ()"
  using assms
proof (induction env k ds db rule: seed_types.induct)
  case (2 env k d ds db)
  let ?n = "normalizeName (sd_name d)"
  have upt: "[k..<k + length (d # ds)] = k # [Suc k..<Suc k + length ds]" by (simp add: upt_conv_Cons del: upt_Suc)
  have d: "distinct (map (env_uuid env) [Suc k..<Suc k + length ds])" "env_uuid env k \<notin> env_uuid env ` {Suc k..<Suc k + length ds}"
    using 2(3) unfolding upt by (simp_all del: upt_Suc)
  have f: "\<forall>x \<in> set (db_device_types db). dt_ID x \<notin> env_uuid env ` {Suc k..<Suc k + length ds}"
      "\<forall>x \<in> set (db_device_types db). dt_ID x \<noteq> env_uuid env k"
    using 2(4) by auto
  show ?case
  proof (cases "first_by dt_ID (is_predefined_named ?n) (db_device_types db)")
    case (Some x)
    with 2(2) [OF refl Some d(1) f(1)] show ?thesis by simp
  next
    case None
    let ?t = "\<lparr>dt_ID = env_uuid env k, dt_ProjectID = None, dt_IsPredefined = True, dt_Name = sd_name d,
                 dt_NameNormalized = ?n, dt_ProcessorArchitecture = sd_processorArchitecture d,
                 dt_HardwareBoardVersion = sd_boardVersion d, dt_FlashSizeBytes = sd_flashSizeBytes d,
                 dt_MemoryNotes = sd_memoryNotes d, dt_DeletedAt = None, dt_CreatedAt = env_now env,
                 dt_UpdatedAt = env_now env\<rparr>"
    have i: "insert_row dt_conflict ?t (db_device_types db) = Inr (db_device_types db @ [?t])"
      using None f(2) by (auto simp: dt_conflict_def table_simps is_predefined_named_def)
    have "snd (seed_types env (Suc k) ds (db\<lparr>db_device_types := db_device_types db @ [?t]\<rparr>)) = Inr ()"
      by (rule 2(1) [OF refl None i d(1)]) (use d(2) f(1) in auto)
    then show ?thesis by (simp only: seed_types.simps Let_def None option.case i sum.case)
  qed
qed simp

lemma seed_roles_types: "db_device_types (fst (seed_roles env k defs db)) = db_device_types db"
  by (induction env k defs db rule: seed_roles.induct)
    (auto simp: Let_def seed_replaceRolePermissions_def replace_permissions_def split: option.splits sum.splits)

lemma seed_permissions_types: "db_device_types (fst (seed_permissions env k keys db)) = db_device_types db"
  by (induction env k keys db rule: seed_permissions.induct) (auto simp: Let_def split: option.splits sum.splits)

lemma empty_migrates: "is_ok (snd (CompositeMigrate (app_migrators (\<lambda>_. Inr ()) sample_env sample_env) empty_db))"
proof -
  obtain db where s: "SeedRegistry sample_env empty_db = (db, Inr ())"
    using empty_seeds by (cases "SeedRegistry sample_env empty_db") (auto simp: is_ok_iff)
  have "db_device_types (fst (SeedRegistry sample_env empty_db)) = []"
    using seed_permissions_types [of sample_env 0 permission_All empty_db]
    by (auto simp: SeedRegistry_def seed_roles_types empty_db_def split: prod.split sum.split)
  then have t: "db_device_types db = []" by (simp add: s)
  have "snd (SeedPredefinedDeviceTypes sample_env db) = Inr ()"
    unfolding SeedPredefinedDeviceTypes_def
    by (rule seed_types_succeeds) (simp_all add: t seed_defs_def sample_env_def upt_rec)
  then show ?thesis
    by (simp add: app_migrators_def auth_Migrate_def project_Migrate_def firmware_Migrate_def campaign_Migrate_def tables_only_def
      rbac_Migrate_def device_Migrate_def s is_ok_iff prod_eq_iff split: prod.split sum.split)
qed

lemma migrating_start:
  "\<exists>a db st'. New sample_services (\<lambda>_ _. Inr (empty_db, None)) (\<lambda>_. Inr ()) [] sample_env sample_env migrating no_store
     = ((Some db, st'), Inr a) \<and> db = fst (CompositeMigrate (app_migrators (\<lambda>_. Inr ()) sample_env sample_env) empty_db)"
proof -
  obtain db where m: "CompositeMigrate (app_migrators (\<lambda>_. Inr ()) sample_env sample_env) empty_db = (db, Inr ())"
    using empty_migrates by (cases "CompositeMigrate (app_migrators (\<lambda>_. Inr ()) sample_env sample_env) empty_db") (auto simp: is_ok_iff)
  have "trim_space ''local'' = ''local''" by (rule trim_space_no_space) (auto simp: codes_def is_space_rune_def)
  moreover have "to_lower ''local'' = ''local''" by code_simp
  ultimately have p: "\<not> unsupported_provider ''local''" by (simp add: unsupported_provider_def)
  have "Validate c = Inr ()" if "cfg_HTTP c = load_http migrating" "cfg_DB c = load_db migrating" "cfg_Storage c = load_storage migrating" for c
    by (simp add: Validate_def that load_http_def load_db_def load_storage_def getEnv_def getEnvInt64_def migrating_def)
  then obtain cfg where l: "Load migrating = Inr cfg" "cfg_DB cfg = load_db migrating" "cfg_Storage cfg = load_storage migrating"
    by (simp add: Load_def Let_def)
  have auto: "dc_AutoMigrate (load_db migrating)" by code_simp
  show ?thesis
    by (auto simp: New_def l NewPostgres_def NewLocalObjectStore_def load_storage_def getEnv_def p Let_def lookup_file_def no_store_def
        migrate_def auto RunMigrations_def m migrating_def)
qed

theorem constraints_from_start_witness:
  "\<exists>a db st'. New sample_services (\<lambda>_ _. Inr (empty_db, None)) (\<lambda>_. Inr ()) [] sample_env sample_env migrating no_store
     = ((Some db, st'), Inr a) \<and> db = fst (CompositeMigrate (app_migrators (\<lambda>_. Inr ()) sample_env sample_env) empty_db)
     \<and> schema_ok (fst (ActivateDueCampaigns sample_env db))"
proof -
  obtain a db st' where n: "New sample_services (\<lambda>_ _. Inr (empty_db, None)) (\<lambda>_. Inr ()) [] sample_env sample_env migrating no_store
     = ((Some db, st'), Inr a)" and db: "db = fst (CompositeMigrate (app_migrators (\<lambda>_. Inr ()) sample_env sample_env) empty_db)"
    using migrating_start by blast
  have "schema_ok (fst (ActivateDueCampaigns sample_env db))"
    by (rule constraints_from_start [OF n _ r_into_rtranclp [of "web_step (app_services a)", OF ws_tick]]) (use empty_schema in auto)
  with n db show ?thesis by blast
qed

end
