(* ===== verification/Failures.thy ===== *)
theory Failures
  imports Guarantees
begin

section \<open>Errors and archived projects\<close>

text \<open>
  Which requests are all or nothing, so that an error response means that the state is as it was,
  and what an archived project refuses. The routes that are not all or nothing are named
  (\<open>fails_late\<close>): they write several times outside a transaction, or end in a read with a permission
  of its own, and can commit and still answer with an error.
\<close>

subsection \<open>All or nothing\<close>

text \<open>An error leaves the state alone.\<close>

definition left_alone :: "'s \<Rightarrow> 's \<times> ('e + 'a) \<Rightarrow> bool" where
  "left_alone s r \<longleftrightarrow> (\<forall>e. snd r = Inl e \<longrightarrow> fst r = s)"

lemma left_alone_simps [simp]: "left_alone s (s, r)" "left_alone s (s', Inr a)"
  by (simp_all add: left_alone_def)

lemma call_left: "(\<And>x. args = Inr x \<Longrightarrow> left_alone s (svc x)) \<Longrightarrow> left_alone s (call args svc status data s)"
  by (auto simp: left_alone_def call_def split: sum.splits prod.splits)

lemma on_db_left: "left_alone (fst s) (f (fst s)) \<Longrightarrow> left_alone s (on_db f s)"
  by (cases "snd (f (fst s))") (auto simp: left_alone_def on_db_def case_prod_beta Let_def prod_eq_iff)

lemma on_read_left: "left_alone s (on_read f s)"
  by (simp add: on_read_def)

lemma on_store_left: "left_alone s (f s) \<Longrightarrow> left_alone s (on_store f s)"
  by (cases "snd (f s)") (auto simp: left_alone_def on_store_def case_prod_beta Let_def)

lemmas op_splits = sum.splits prod.splits option.splits if_splits

lemma project_ops_left:
  "left_alone db (CreateProject env u nm desc db)" "left_alone db (UpdateProject env u pid nm' desc' db)"
  "left_alone db (DeleteProject env u pid db)"
  by (auto simp: left_alone_def CreateProject_def UpdateProject_def DeleteProject_def Let_def split: op_splits)

lemma member_ops_left:
  "left_alone db (InviteMember env u pid email rid db)" "left_alone db (UpdateMemberRole env u pid v rid db)"
  "left_alone db (RemoveMember env u pid v db)" "left_alone db (TransferOwnership env u pid v db)"
  "left_alone db (DeleteCustomRole env u pid rid db)"
  by (auto simp: left_alone_def InviteMember_def UpdateMemberRole_def RemoveMember_def TransferOwnership_def
      DeleteCustomRole_def Let_def split: op_splits)

lemma device_ops_left:
  "left_alone db (CreateCustomDeviceType env u pid nm arch hw fl mem db)"
  "left_alone db (UpdateCustomDeviceType env u pid tid nm' arch' hw' fl' mem' db)"
  "left_alone db (DeleteCustomDeviceType env u pid tid db)"
  "left_alone db (BlockDevice env u pid i db)" "left_alone db (UnblockDevice env u pid i db)"
  by (auto simp: left_alone_def CreateCustomDeviceType_def UpdateCustomDeviceType_def DeleteCustomDeviceType_def
      BlockDevice_def UnblockDevice_def setDeviceBlocked_def Let_def split: op_splits)

lemma group_ops_left:
  "left_alone db (CreateDeviceGroup env u pid nm desc db)" "left_alone db (UpdateDeviceGroup env u pid gid nm' desc' db)"
  "left_alone db (DeleteDeviceGroup env u pid gid db)" "left_alone db (RemoveDevicesFromGroup env u pid gid ids db)"
  by (auto simp: left_alone_def CreateDeviceGroup_def UpdateDeviceGroup_def DeleteDeviceGroup_def
      RemoveDevicesFromGroup_def Let_def split: op_splits)

lemma campaign_ops_left:
  "left_alone db (PauseCampaign env u pid i db)" "left_alone db (ResumeCampaign env u pid i db)"
  "left_alone db (CancelCampaign env u pid i db)"
  by (auto simp: left_alone_def PauseCampaign_def ResumeCampaign_def CancelCampaign_def change_campaign_def Let_def split: op_splits)

lemma firmware_ops_left:
  "left_alone s (OpenFirmwareBinary get env u pid i s)" "left_alone s (DeleteFirmware del env u pid i s)"
  by (auto simp: left_alone_def OpenFirmwareBinary_def DeleteFirmware_def Let_def split: op_splits)

lemma account_ops_left:
  "left_alone db (VerifyEmail env raw db)" "left_alone db (ResetPassword cfg lib env raw pw db)"
  "left_alone db (UpdateProfile lib env u prof db)" "left_alone db (RevokeSession env u i db)"
  "left_alone db (RevokeOtherSessions env u i db)" "left_alone db (DeleteAccount lib env u pw g db)"
  "left_alone db (BeginEnable2FA cfg lib env u pw db)"
  by (auto simp: left_alone_def VerifyEmail_def ResetPassword_def UpdateProfile_def RevokeSession_def RevokeOtherSessions_def
      DeleteAccount_def BeginEnable2FA_def Let_def split: op_splits)

lemma h_Logout_left: "left_alone db (h_Logout env b db)" "left_alone db (h_ForgotPassword env b' db)"
  by (simp_all add: h_Logout_def h_ForgotPassword_def split: sum.split)

text \<open>The routes that can commit and still answer with an error.\<close>

fun fails_late :: "api \<Rightarrow> bool" where
  "fails_late (Agent r) \<longleftrightarrow> r \<noteq> R_HealthLive"
| "fails_late (Account r) \<longleftrightarrow> (case r of R_AuthRegister b \<Rightarrow> True | R_AuthLogin b \<Rightarrow> True | R_AuthRefresh b \<Rightarrow> True
     | R_MeChangePassword b \<Rightarrow> True | R_MeConfirm2FA b \<Rightarrow> True | R_MeDisable2FA b \<Rightarrow> True | _ \<Rightarrow> False)"
| "fails_late (Project r) \<longleftrightarrow> r = R_ProjectArchive \<or> r = R_ProjectUnarchive"
| "fails_late (Role r) \<longleftrightarrow> (case r of R_RoleAdd b \<Rightarrow> True | R_RoleChange b \<Rightarrow> True | _ \<Rightarrow> False)"
| "fails_late (Device r) \<longleftrightarrow> (case r of R_GroupAddMembers b \<Rightarrow> True | R_DeviceBulk b \<Rightarrow> True | R_DeviceRegister b \<Rightarrow> True
     | R_DeviceRotateToken \<Rightarrow> True | _ \<Rightarrow> False)"
| "fails_late (Firmware r) \<longleftrightarrow> (case r of R_FirmwareAdd b \<Rightarrow> True | _ \<Rightarrow> False)"
| "fails_late (Campaign r) \<longleftrightarrow> (case r of R_CampaignAdd b \<Rightarrow> True | _ \<Rightarrow> False)"

lemma project_left: "\<not> fails_late (Project r) \<Longrightarrow> left_alone s (project_dispatch sv env c r s)"
  by (cases r) (auto simp: project_handlers h_CreateProject_def on_read_left project_ops_left member_ops_left
      intro!: on_db_left call_left)

lemma role_left: "\<not> fails_late (Role r) \<Longrightarrow> left_alone s (role_dispatch sv env c r s)"
  by (cases r) (auto simp: project_handlers on_read_left member_ops_left intro!: on_db_left call_left)

lemma device_left: "\<not> fails_late (Device r) \<Longrightarrow> left_alone s (device_dispatch sv env c r s)"
  by (cases r) (auto simp: device_handlers on_read_left device_ops_left group_ops_left intro!: on_db_left call_left)

lemma firmware_left: "\<not> fails_late (Firmware r) \<Longrightarrow> left_alone s (firmware_dispatch sv env c r s)"
  by (cases r) (auto simp: h_DownloadFirmware_def h_DeleteFirmware_def on_read_left firmware_ops_left intro!: on_store_left call_left)

lemma campaign_left: "\<not> fails_late (Campaign r) \<Longrightarrow> left_alone s (campaign_dispatch sv env c r s)"
  by (cases r) (auto simp: campaign_handlers on_read_left campaign_ops_left intro!: on_db_left call_left)

lemma account_left: "\<not> fails_late (Account r) \<Longrightarrow> left_alone s (account_dispatch sv env c r s)"
  by (cases r) (auto simp: h_VerifyEmail_def h_ResetPassword_def h_UpdateProfile_def h_RevokeSession_def h_RevokeOtherSessions_def
      h_BeginEnable2FA_def h_DeleteAccount_def h_Logout_left on_read_left account_ops_left intro!: on_db_left call_left)

lemma dispatch_left: "\<not> fails_late r \<Longrightarrow> left_alone s (dispatch sv env c r s)"
  by (cases r) (simp_all add: project_left role_left device_left firmware_left campaign_left account_left on_read_left
      del: fails_late.simps(2-7))

text \<open>A request is refused before its handler, or it is its handler.\<close>

lemma serve_run:
  "(\<exists>resp. serve sv env rq r s = (s, Inl resp))
   \<or> (\<exists>c q. c_Param c = c_Param (rq_ctx rq) \<and> serve sv env rq r s = run_handler sv env q c r s)"
proof -
  define ok where "ok x \<longleftrightarrow> (\<exists>resp. x = (s, Inl resp))
      \<or> (\<exists>c q. c_Param c = c_Param (rq_ctx rq) \<and> x = run_handler sv env q c r s)" for x
  have run: "ok (run_handler sv env q c r s)" if "c_Param c = c_Param (rq_ctx rq)" for q c
    using that unfolding ok_def by blast
  have err: "ok (s, Inl resp)" for resp by (simp add: ok_def)
  have "ok (serve sv env rq r s)"
    unfolding serve_def Let_def
    by (cases "guard_of r"; simp only: guard.case split: sum.split prod.split) (simp_all add: run err)
  then show ?thesis by (simp add: ok_def)
qed

text \<open>C14. A request that is answered with an error has changed nothing, neither a row nor a file, on
  every route but those that fail late: the device endpoints; registration, login, refresh, password
  change, confirming and disabling two-factor authentication; archiving and unarchiving; creating and
  changing a role; adding devices to a group and bulk operations; registering a device and rotating
  its token; uploading firmware; creating a campaign.\<close>

theorem failures_leave_no_trace:
  assumes "\<not> fails_late r" and "serve sv env rq r s = (s', Inl resp)"
  shows "s' = s"
  using serve_run [of sv env rq r s]
proof (elim disjE exE conjE)
  fix c q assume "serve sv env rq r s = run_handler sv env q c r s"
  with assms(2) dispatch_left [OF assms(1), of s sv env c] show ?thesis
    by (auto simp: run_handler_def left_alone_def split: prod.splits sum.splits)
qed (use assms(2) in simp)

text \<open>Dropping member 40, who does not exist, is answered with an error.\<close>

theorem failures_leave_no_trace_witness:
  "\<exists>resp. serve sample_services sample_env (sample_request ''1'') (Project R_MemberDrop) (good_db, no_store) = ((good_db, no_store), Inl resp)"
proof -
  have "is_ok (AuthorizeProject sample_db 5 1 MemberRemove)" by code_simp
  then obtain x where "AuthorizeProject good_db 5 1 MemberRemove = Inr x" by (auto simp: is_ok_iff good_authorize)
  moreover have "GetMembershipForUser good_db 5 40 = Inl ErrRecordNotFound"
    by (simp add: GetMembershipForUser_def first_by_def good_rows sample_member_def)
  moreover have "proj_ensureProjectNotArchived good_db 5 = Inr ()"
    by (simp add: proj_ensureProjectNotArchived_def GetProject_def first_by_def good_rows sample_project_def)
  ultimately obtain s' resp where "serve sample_services sample_env (sample_request ''1'') (Project R_MemberDrop) (good_db, no_store)
      = (s', Inl resp)"
    by (simp add: serve_def sample_request_def sample_ctx_def RequireProjectPermission_def run_handler_def on_db_def
        h_RemoveMember_def call_def project_param_ids_def param_of_def projectID_of_def parseUserID_def parse_or_def
        RemoveMember_def guard_project_def sample_auth)
  with failures_leave_no_trace [OF _ this] show ?thesis by simp
qed

text \<open>Archiving writes twice outside a transaction. When the second write fails the answer is an error,
  the project is archived and its devices still poll.\<close>

theorem archive_fails_halfway:
  "\<exists>db1 p. ArchiveProject (sample_env\<lparr>env_fault := (\<lambda>k. if k = 1 then Some ErrRecordNotFound else None)\<rparr>) 1 5 True good_db
            = (db1, Inl ErrRecordNotFound)
     \<and> GetProject db1 5 = Inr p \<and> proj_ArchivedAt p \<noteq> None \<and> db_devices db1 = db_devices good_db"
proof -
  have "is_ok (AuthorizeProject sample_db 5 1 ProjectUpdate)" by code_simp
  then obtain x where "AuthorizeProject good_db 5 1 ProjectUpdate = Inr x" by (auto simp: is_ok_iff good_authorize)
  then show ?thesis
    by (simp add: ArchiveProject_def write_step_def SetProjectArchived_def update_project_def GetProject_def first_by_def
        good_rows sample_project_def table_simps)
qed

subsection \<open>Archived projects\<close>

definition archived :: "db \<Rightarrow> uuid \<Rightarrow> bool" where
  "archived db pid \<longleftrightarrow> (\<exists>p. GetProject db pid = Inr p \<and> proj_ArchivedAt p \<noteq> None)"

text \<open>An error that leaves the state alone.\<close>

definition refused :: "'s \<Rightarrow> 's \<times> ('e + 'a) \<Rightarrow> bool" where
  "refused s r \<longleftrightarrow> (\<exists>e. r = (s, Inl e))"

lemma refused_error [simp]: "refused s (s, Inl e)"
  by (simp add: refused_def)

lemma call_refused: "(\<And>x. args = Inr x \<Longrightarrow> refused s (svc x)) \<Longrightarrow> refused s (call args svc status data s)"
  by (cases args) (auto simp: refused_def call_def)

lemma on_db_refused: "refused (fst s) (f (fst s)) \<Longrightarrow> refused s (on_db f s)"
  by (auto simp: refused_def on_db_def)

lemma on_store_refused: "refused s (f s) \<Longrightarrow> refused s (on_store f s)"
  by (auto simp: refused_def on_store_def)

lemma archived_guards:
  assumes "archived db pid"
  shows "proj_ensureProjectNotArchived db pid \<noteq> Inr x" "dev_ensureProjectNotArchived db pid \<noteq> Inr x"
    "fw_ensureProjectNotArchived db pid \<noteq> Inr x" "camp_ensureProjectNotArchived db pid \<noteq> Inr x"
    "guard_project db pid u perm \<noteq> Inr x" "guard_device db pid u perm \<noteq> Inr x"
  using assms by (auto simp: archived_def proj_ensureProjectNotArchived_def dev_ensureProjectNotArchived_def
      fw_ensureProjectNotArchived_def camp_ensureProjectNotArchived_def guard_project_def guard_device_def split: sum.split)

lemma archived_members:
  assumes "archived db pid"
  shows "refused db (UpdateProject env u pid nm' desc' db)" "refused db (InviteMember env u pid email rid db)"
    "refused db (UpdateMemberRole env u pid v rid db)" "refused db (RemoveMember env u pid v db)"
    "refused db (TransferOwnership env u pid v db)" "refused db (CreateCustomRole env u pid nm desc keys db)"
    "refused db (UpdateCustomRole env u pid rid nm' desc' keys' db)" "refused db (DeleteCustomRole env u pid rid db)"
  by (auto simp: refused_def UpdateProject_def InviteMember_def UpdateMemberRole_def RemoveMember_def TransferOwnership_def
      CreateCustomRole_def UpdateCustomRole_def DeleteCustomRole_def archived_guards [OF assms] split: sum.split)

lemma archived_devices:
  assumes "archived db pid"
  shows "refused db (CreateCustomDeviceType env u pid nm hwarch hw fl mem db)"
    "refused db (UpdateCustomDeviceType env u pid tid nm' hwarch' hw' fl' mem' db)"
    "refused db (DeleteCustomDeviceType env u pid tid db)"
    "refused db (CreateDeviceGroup env u pid nm desc db)" "refused db (UpdateDeviceGroup env u pid gid nm' desc' db)"
    "refused db (DeleteDeviceGroup env u pid gid db)" "refused db (AddDevicesToGroup env u pid gid ids db)"
    "refused db (RemoveDevicesFromGroup env u pid gid ids db)" "refused db (RegisterDevice env u pid hwid ty nm db)"
    "refused db (RotateDeviceToken env u pid i db)" "refused db (BlockDevice env u pid i db)"
    "refused db (UnblockDevice env u pid i db)"
  by (auto simp: refused_def CreateCustomDeviceType_def UpdateCustomDeviceType_def DeleteCustomDeviceType_def CreateDeviceGroup_def
      UpdateDeviceGroup_def DeleteDeviceGroup_def AddDevicesToGroup_def RemoveDevicesFromGroup_def RegisterDevice_def
      RotateDeviceToken_def BlockDevice_def UnblockDevice_def setDeviceBlocked_def archived_guards [OF assms] split: sum.split)

lemma archived_bulk:
  assumes "archived db pid"
  shows "refused db (BulkDevices q env u pid action every f targets grp db)"
proof (cases "bulk_perm action")
  case (Some perm)
  obtain e where "guard_device db pid u perm = Inl e"
    using archived_guards(6) [OF assms] by (cases "guard_device db pid u perm") auto
  with Some show ?thesis unfolding refused_def BulkDevices_def by simp
qed (simp add: refused_def BulkDevices_def)

lemma archived_rollouts:
  assumes "archived db pid"
  shows "refused db (CreateCampaign env u pid inp db)" "refused (db, st) (DeleteFirmware del env u pid i (db, st))"
    "refused (db, st) (UploadFirmware put del semver cfg env u pid ver chlog file tys body (db, st))"
proof -
  show "refused db (CreateCampaign env u pid inp db)" "refused (db, st) (DeleteFirmware del env u pid i (db, st))"
    by (auto simp: refused_def CreateCampaign_def DeleteFirmware_def archived_guards [OF assms] split: sum.split)
  obtain e where "fw_ensureProjectNotArchived db pid = Inl e"
    using archived_guards(3) [OF assms] by (cases "fw_ensureProjectNotArchived db pid") auto
  then show "refused (db, st) (UploadFirmware put del semver cfg env u pid ver chlog file tys body (db, st))"
    unfolding refused_def UploadFirmware_def Let_def prod.case by (cases "AuthorizeProject db pid u FirmwareUpload") simp_all
qed

text \<open>The routes under a project that write, and those of them that work on an archived project too:
  archiving, unarchiving, deletion, and the transitions of campaigns that exist.\<close>

fun writes_project :: "api \<Rightarrow> bool" where
  "writes_project (Project r) \<longleftrightarrow> (case r of R_ProjectCreate b \<Rightarrow> False | _ \<Rightarrow>
     r \<notin> {R_ProjectList, R_ProjectGet, R_ProjectSummary, R_ProjectAuditLogs, R_MemberList})"
| "writes_project (Role r) \<longleftrightarrow> r \<notin> {R_RoleList, R_RoleAssignable}"
| "writes_project (Device r) \<longleftrightarrow> r \<notin> {R_DeviceTypeList, R_GroupList, R_DeviceList, R_DeviceTwin}"
| "writes_project (Firmware r) \<longleftrightarrow> r \<notin> {R_FirmwareList, R_FirmwareGet, R_FirmwareDownload}"
| "writes_project (Campaign r) \<longleftrightarrow> r \<notin> {R_CampaignList, R_CampaignGet}"
| "writes_project _ \<longleftrightarrow> False"

fun works_archived :: "api \<Rightarrow> bool" where
  "works_archived (Project r) \<longleftrightarrow> r \<in> {R_ProjectArchive, R_ProjectUnarchive, R_ProjectRemove}"
| "works_archived (Campaign r) \<longleftrightarrow> r \<in> {R_CampaignPausing, R_CampaignResuming, R_CampaignCancelling}"
| "works_archived _ \<longleftrightarrow> False"

lemma project_refused:
  assumes "archived (fst s) pid" and "path_project sv c = Some pid" and "writes_project (Project r)" and "\<not> works_archived (Project r)"
  shows "refused s (project_dispatch sv env c r s)"
  using assms(2-4)
  by (cases r) (auto simp: project_handlers args_simps archived_members [OF assms(1)] intro!: on_db_refused call_refused)

lemma role_refused:
  assumes "archived (fst s) pid" and "path_project sv c = Some pid" and "writes_project (Role r)"
  shows "refused s (role_dispatch sv env c r s)"
  using assms(2-3)
  by (cases r) (auto simp: project_handlers args_simps archived_members [OF assms(1)] intro!: on_db_refused call_refused)

lemma device_refused:
  assumes "archived (fst s) pid" and "path_project sv c = Some pid" and "writes_project (Device r)"
  shows "refused s (device_dispatch sv env c r s)"
  using assms(2-3)
  by (cases r) (auto simp: device_handlers args_simps archived_devices [OF assms(1)] archived_bulk [OF assms(1)]
      intro!: on_db_refused call_refused)

lemma firmware_refused:
  assumes "archived (fst s) pid" and "path_project sv c = Some pid" and "writes_project (Firmware r)"
  shows "refused s (firmware_dispatch sv env c r s)"
proof -
  obtain db st where s: "s = (db, st)" by (cases s)
  with assms(1) have a: "archived db pid" by simp
  show ?thesis using assms(2-3) unfolding s
    by (cases r) (auto simp: h_UploadFirmware_def h_DeleteFirmware_def args_simps archived_rollouts [OF a]
        intro!: on_store_refused call_refused dest!: upload_args_project)
qed

lemma campaign_refused:
  assumes "archived (fst s) pid" and "path_project sv c = Some pid" and "writes_project (Campaign r)" and "\<not> works_archived (Campaign r)"
  shows "refused s (campaign_dispatch sv env c r s)"
  using assms(2-4)
  by (cases r) (auto simp: campaign_handlers args_simps archived_rollouts [OF assms(1)] intro!: on_db_refused call_refused)

lemma dispatch_refused:
  assumes "archived (fst s) pid" and "path_project sv c = Some pid" and "writes_project r" and "\<not> works_archived r"
  shows "refused s (dispatch sv env c r s)"
  using assms(3,4)
  by (cases r) (simp_all only: dispatch.simps project_refused [OF assms(1,2)] role_refused [OF assms(1,2)]
      device_refused [OF assms(1,2)] firmware_refused [OF assms(1,2)] campaign_refused [OF assms(1,2)] writes_project.simps(6,7)
      not_False_eq_True)

text \<open>C15. While a project is archived every request that would write to it is answered with an error
  and changes nothing, on every route under the project but archiving and unarchiving, deletion, and
  pausing, resuming and cancelling a campaign. (The frames of a device connection that is open and the
  download tokens given out before are not routes under the project, and work on.)\<close>

theorem archived_project_frozen:
  assumes "archived (fst s) pid" and "path_project sv (rq_ctx rq) = Some pid"
    and "writes_project r" and "\<not> works_archived r"
  shows "\<exists>resp. serve sv env rq r s = (s, Inl resp)"
  using serve_run [of sv env rq r s]
proof (elim disjE exE conjE)
  fix c q assume c: "c_Param c = c_Param (rq_ctx rq)" and run: "serve sv env rq r s = run_handler sv env q c r s"
  from c assms(2) have "path_project sv c = Some pid" by (simp add: path_project_def)
  from dispatch_refused [OF assms(1) this assms(3,4), of env] obtain e where "dispatch sv env c r s = (s, Inl e)"
    by (auto simp: refused_def)
  with run show ?thesis by (simp add: run_handler_def)
qed simp

theorem archived_project_frozen_witness:
  "\<exists>resp. serve sample_services sample_env (sample_request ''1'') (Device R_DeviceRotateToken)
       (good_db\<lparr>db_projects := [sample_project\<lparr>proj_ArchivedAt := Some 7\<rparr>]\<rparr>, no_store)
     = ((good_db\<lparr>db_projects := [sample_project\<lparr>proj_ArchivedAt := Some 7\<rparr>]\<rparr>, no_store), Inl resp)"
  by (rule archived_project_frozen [where pid = 5])
    (simp_all add: archived_def GetProject_def sample_project_def first_by_def)

end
