(* ===== verification/Connections.thy ===== *)
theory Connections
  imports SampleProgram
begin

section \<open>Device connections end, and answer in bounds\<close>

text \<open>
  A device that stops sending has its connection served to the end after as many steps as it sent
  frame headers: more time changes nothing. What the server writes back is bounded by what it has
  read, one frame of limited size per frame received.
\<close>

definition one_frame :: "byte list \<Rightarrow> bool" where
  "one_frame out \<longleftrightarrow> (\<exists>t r p. out = sent (writeFrame t r p))"

lemma one_frame_sent [simp]: "one_frame (sent (writeFrame t r p))"
  by (auto simp: one_frame_def)

lemma one_frame_err [simp]: "one_frame (sent (writeErr r c m))"
  by (simp add: writeErr_def)

lemma one_frame_length: "one_frame out \<Longrightarrow> length out \<le> frameHeaderLen + maxPayloadLen"
  by (auto simp: one_frame_def sent_def writeFrame_def magic_def frameHeaderLen_def)

text \<open>Whatever a handler decides on, each of its branches ends in one frame.\<close>

lemma one_frame_sum:
  "(\<And>e. one_frame (snd (f e))) \<Longrightarrow> (\<And>x. one_frame (snd (g x))) \<Longrightarrow> one_frame (snd (case r of Inl e \<Rightarrow> f e | Inr x \<Rightarrow> g x))"
  by (cases r) simp_all

lemma one_frame_option:
  "one_frame (snd y) \<Longrightarrow> (\<And>x. one_frame (snd (g x))) \<Longrightarrow> one_frame (snd (case r of None \<Rightarrow> y | Some x \<Rightarrow> g x))"
  by (cases r) simp_all

lemma one_frame_prod: "(\<And>a b. one_frame (snd (f a b))) \<Longrightarrow> one_frame (snd (case r of (a, b) \<Rightarrow> f a b))"
  by (cases r) simp

lemma one_frame_if: "one_frame (snd y) \<Longrightarrow> one_frame (snd z) \<Longrightarrow> one_frame (snd (if c then y else z))"
  by simp

lemma one_frame_pair: "one_frame (snd (db, sent (writeFrame t r p)))" "one_frame (snd (db, sent (writeErr q c m)))"
  by simp_all

lemmas one_frame_rules = one_frame_pair one_frame_sum one_frame_option one_frame_prod one_frame_if

lemma handlePoll_one_frame: "one_frame (snd (handlePoll h env r p d ip payload db))"
  unfolding handlePoll_def Let_def by (intro one_frame_rules)

lemma handleReport_one_frame: "one_frame (snd (handleReport h env r p d ip payload db))"
  unfolding handleReport_def Let_def by (intro one_frame_rules)

lemma serve_frame_one_frame: "one_frame (snd (serve_frame h env p d ip fr db))"
  by (simp add: serve_frame_def handlePoll_one_frame handleReport_one_frame)

text \<open>Every frame read takes a header off the input.\<close>

lemma readFrame_consumes:
  "readFrame input = (Inr fr, rest) \<Longrightarrow> frameHeaderLen + length rest \<le> length input"
  by (drule readFrame_Inr_shape) (auto simp: magic_def frameHeaderLen_def)

text \<open>The frames of a stream of bytes, up to the first that cannot be read.\<close>

function frames_of :: "byte list \<Rightarrow> frame list" where
  "frames_of input = (case readFrame input of (Inl _, _) \<Rightarrow> [] | (Inr fr, rest) \<Rightarrow> fr # frames_of rest)"
  by pat_completeness auto

termination
  by (relation "measure length") (auto simp: frameHeaderLen_def dest!: sym [THEN readFrame_consumes])

declare frames_of.simps [simp del]

lemma frames_of_cases:
  "readFrame input = (Inl e, rest) \<Longrightarrow> frames_of input = []"
  "readFrame input = (Inr fr, rest) \<Longrightarrow> frames_of input = fr # frames_of rest"
  by (subst frames_of.simps, simp)+

text \<open>Each takes a header of the input.\<close>

lemma frames_of_length: "length (frames_of input) \<le> length input div frameHeaderLen"
proof (induction input rule: frames_of.induct)
  case (1 input)
  obtain x rest where r: "readFrame input = (x, rest)" by fastforce
  show ?case
  proof (cases x)
    case (Inr fr)
    with r have r: "readFrame input = (Inr fr, rest)" by simp
    have "Suc (length rest div frameHeaderLen) = (frameHeaderLen + length rest) div frameHeaderLen"
      by (simp add: frameHeaderLen_def)
    also have "\<dots> \<le> length input div frameHeaderLen"
      by (rule div_le_mono [OF readFrame_consumes [OF r]])
    finally show ?thesis using 1 [OF r [symmetric] refl] by (simp add: frames_of_cases(2) [OF r])
  qed (simp add: r frames_of_cases(1))
qed

text \<open>The frames of a device answered one after the other, each after what other clients did.\<close>

fun answer_frames ::
    "tcp_handler \<Rightarrow> uuid \<Rightarrow> uuid \<Rightarrow> string \<Rightarrow> ((env \<times> (db \<Rightarrow> db)) \<times> frame) list \<Rightarrow> db \<Rightarrow> db \<times> byte list" where
  "answer_frames h p d ip [] db = (db, [])"
| "answer_frames h p d ip (((env, others), fr) # xs) db =
     (let (db1, out) = serve_frame h env p d ip fr (others db);
          (db2, outs) = answer_frames h p d ip xs db1
      in (db2, out @ outs))"

text \<open>The loop answers these frames, and nothing after the first that it cannot read.\<close>

lemma serve_loop_frames: "serve_loop h p d ip steps input db = answer_frames h p d ip (zip steps (frames_of input)) db"
proof (induction steps arbitrary: input db)
  case (Cons s steps)
  obtain env others where s: "s = (env, others)" by fastforce
  obtain x rest where r: "readFrame input = (x, rest)" by fastforce
  with Cons.IH show ?case
    by (cases x) (simp_all add: s frames_of_cases Let_def case_prod_beta)
qed simp

lemma answer_frames_output:
  "length (snd (answer_frames h p d ip xs db)) \<le> (frameHeaderLen + maxPayloadLen) * length xs"
proof (induction xs arbitrary: db)
  case (Cons x xs)
  obtain env others fr where x: "x = ((env, others), fr)" by (metis prod.exhaust)
  obtain db1 out where f: "serve_frame h env p d ip fr (others db) = (db1, out)" by fastforce
  have "length out \<le> frameHeaderLen + maxPayloadLen"
    using one_frame_length [OF serve_frame_one_frame, of h env p d ip fr "others db"] by (simp add: f)
  with Cons.IH [of db1] show ?case by (simp add: x f case_prod_beta)
qed simp

lemma answer_frames_zip:
  "length (snd (answer_frames h p d ip (zip steps frs) db)) \<le> (frameHeaderLen + maxPayloadLen) * length frs"
  using answer_frames_output [of h p d ip "zip steps frs" db]
  by (rule order_trans) (intro mult_le_mono2, simp)

lemma zip_enough: "length frs \<le> length steps \<Longrightarrow> zip (steps @ later) frs = zip steps frs"
  by (simp add: zip_append1)

text \<open>A first frame that does not authenticate is the last.\<close>

lemma ServeConn_refused:
  assumes "readFrame input = (Inr fr, rest)"
    and "\<not> (\<exists>raw d ok. MsgType fr = MsgAuthReq \<and> decodeAuthPayload (Payload fr) = Inr raw \<and> raw \<noteq> []
        \<and> authenticateDevice db raw = Inr d \<and> writeFrame MsgAuthOK (ReqID fr) [] = Inr ok)"
  shows "\<exists>out. one_frame out \<and> (\<forall>st. ServeConn h ip st input db = (db, out))"
proof (cases "MsgType fr = MsgAuthReq")
  case t: True
  show ?thesis
  proof (cases "decodeAuthPayload (Payload fr)")
    case (Inr raw)
    show ?thesis
    proof (cases "raw = []")
      case raw: False
      show ?thesis
      proof (cases "authenticateDevice db raw")
        case d: (Inr d)
        with assms(2) t Inr raw obtain e where "writeFrame MsgAuthOK (ReqID fr) [] = Inl e"
          by (cases "writeFrame MsgAuthOK (ReqID fr) []") auto
        moreover from this have "one_frame []" using one_frame_sent [of MsgAuthOK "ReqID fr" "[]"] by (simp add: sent_def)
        ultimately show ?thesis using assms(1) t Inr raw d by (simp add: ServeConn_def)
      qed (use assms(1) t Inr raw in \<open>simp add: ServeConn_def\<close>)
    qed (use assms(1) t Inr in \<open>simp add: ServeConn_def\<close>)
  qed (use assms(1) t in \<open>simp add: ServeConn_def\<close>)
qed (use assms(1) in \<open>simp add: ServeConn_def\<close>)



end
