(* ===== verification/Listings.thy ===== *)
theory Listings
  imports DeviceBulk Campaign Samples
begin

section \<open>Pages partition a listing\<close>

text \<open>
  The paged queries against their reference, the whole listing in order: read page after page, up
  to the number of pages the response announces, they give it back with every row once.
\<close>

definition total_pages :: "int \<Rightarrow> int \<Rightarrow> nat" where
  "total_pages k items = nat (meta_TotalPages (BuildMeta 1 k items))"

lemma total_pages_nat: "0 < s \<Longrightarrow> total_pages (int s) (int n) = (n + s - 1) div s"
proof -
  assume s: "0 < s"
  obtain q r where n: "n = q * s + r" "r < s"
    using s by (metis div_mult_mod_eq mod_less_divisor)
  have "total_pages (int s) (int n) = (if n mod s \<noteq> 0 then n div s + 1 else n div s)"
    by (simp add: total_pages_def BuildMeta_def Let_def flip: zdiv_int zmod_int) (simp add: nat_add_distrib)
  also have "\<dots> = q + (if r = 0 then 0 else 1)"
    using n s by simp
  also have "\<dots> = (n + s - 1) div s"
  proof (cases "r = 0")
    case True
    then have "n + s - 1 = (s - 1) + q * s" using n s by simp
    also have "\<dots> div s = q" using s by (subst div_mult_self1) auto
    finally show ?thesis using True by simp
  next
    case False
    then have "n + s - 1 = (r - 1) + (q + 1) * s" using n s by simp
    also have "\<dots> div s = q + 1" using n s by (subst div_mult_self1) auto
    finally show ?thesis using False by simp
  qed
  finally show ?thesis .
qed

lemma pages_partition:
  assumes s: "0 < s" and fits: "int (length rows) + int s \<le> int64_max"
  shows "concat (map (\<lambda>p. page_of (page_offset (int p) (int s)) (int s) rows) [1..<Suc (total_pages (int s) (int (length rows)))]) = rows"
proof -
  let ?n = "total_pages (int s) (int (length rows))"
  have n: "?n * s \<le> length rows + s - 1" "length rows \<le> ?n * s"
  proof -
    show "?n * s \<le> length rows + s - 1" using s by (simp add: total_pages_nat)
    have "(length rows + s - 1) mod s < s" using s by simp
    then show "length rows \<le> ?n * s"
      using div_mult_mod_eq [of "length rows + s - 1" s] s unfolding total_pages_nat [OF s] by linarith
  qed
  have off: "page_offset (int (Suc p)) (int s) = int (p * s)" if "p < ?n" for p
  proof -
    have "p * s \<le> ?n * s" "p * 1 \<le> p * s" using that s by (simp_all del: mult_1_right)
    then have "int p \<le> int (p * s)" "int (p * s) \<le> int64_max" using n fits by linarith+
    then show ?thesis by (simp add: page_offset_def int64_id int64_min_def)
  qed
  have "concat (map (\<lambda>p. page_of (page_offset (int p) (int s)) (int s) rows) [1..<Suc ?n])
      = concat (map (\<lambda>p. page_of (page_offset (int (Suc p)) (int s)) (int s) rows) [0..<?n])"
    by (simp only: One_nat_def map_Suc_upt [symmetric] map_map comp_def)
  also have "\<dots> = concat (map (\<lambda>p. take s (drop (p * s) rows)) [0..<?n])"
    by (intro arg_cong [where f = concat] map_cong refl) (simp only: page_of_def off nat_int set_upt atLeastLessThan_iff)
  also have "\<dots> = rows" using pages_concat [OF s, of rows ?n] n by simp
  finally show ?thesis .
qed

lemma mset_order_devices: "mset (order_devices rank col desc ds) = mset ds"
  by (simp add: order_devices_def Let_def)

lemma mset_listFirmwareOrder: "mset (listFirmwareOrder srt fs) = mset fs"
  by (simp add: listFirmwareOrder_def Let_def)

lemma length_mset_eq: "mset xs = mset ys \<Longrightarrow> length xs = length ys"
  by (rule mset_eq_length)

lemmas length_listings = length_mset_eq [OF mset_order_devices] length_mset_eq [OF mset_listFirmwareOrder]

subsection \<open>Ties\<close>

text \<open>A finer key keeps the rows sorted, and where no two rows have the same value it cannot matter.\<close>

lemma sorted_fst_keys: "sorted (map (\<lambda>x. (g x, r x)) xs) \<Longrightarrow> sorted (map g xs)"
  by (auto simp: sorted_map less_eq_prod_def elim!: sorted_wrt_mono_rel [rotated])

lemma order_devices_sorted:
  "sorted (map (sort_value col) (if desc then rev (order_devices rank col desc ds) else order_devices rank col desc ds))"
  by (auto simp: order_devices_def Let_def intro: sorted_fst_keys [where r = rank])

lemma untied_sort_key:
  assumes "distinct (map g xs)"
  shows "sort_key (\<lambda>x. (g x, r x)) xs = sort_key g xs"
proof -
  let ?ys = "sort_key (\<lambda>x. (g x, r x)) xs" and ?zs = "sort_key g xs"
  have "sorted (map g ?ys)" by (rule sorted_fst_keys [where r = r]) simp
  moreover have "distinct (map g ?ys)" "distinct (map g ?zs)" using assms by (simp_all add: distinct_map)
  ultimately have "map g ?ys = map g ?zs"
    by (intro sorted_distinct_set_unique) simp_all
  then show ?thesis using assms by (intro map_inj_on [of g]) (simp_all add: distinct_map)
qed

lemma order_devices_untied:
  assumes "distinct (map (sort_value col) ds)"
  shows "order_devices rank col desc ds = order_devices (\<lambda>_. 0) col desc ds"
  using untied_sort_key [OF assms, of rank] untied_sort_key [OF assms, of "\<lambda>_. 0::nat"] by (simp add: order_devices_def)

subsection \<open>The listings\<close>

lemma device_pages:
  fixes s :: nat
  assumes "1 \<le> s" and "s \<le> 100" and "int (length (db_devices db)) + 100 \<le> int64_max" and "\<And>p. env_now (e p) = now"
    and untied: "distinct (map (sort_value (fst (parseDeviceSort srt))) (applyDeviceListFilter q db pid f now))"
  shows "concat (map (\<lambda>p. ListDevicesWithFilter q (e p) db pid f (int p) (int s) srt)
           [1..<Suc (total_pages (int s) (CountDevicesWithFilter q (e 0) db pid f))])
         = order_devices (\<lambda>_. 0) (fst (parseDeviceSort srt)) (snd (parseDeviceSort srt)) (applyDeviceListFilter q db pid f now)"
proof -
  let ?ds = "applyDeviceListFilter q db pid f now"
  let ?all = "order_devices (\<lambda>_. 0) (fst (parseDeviceSort srt)) (snd (parseDeviceSort srt)) ?ds"
  have "length ?ds \<le> length (db_devices db)" by (simp add: applyDeviceListFilter_def Let_def)
  then have fits: "int (length ?all) + int s \<le> int64_max" using assms(2,3) by (simp add: length_listings)
  have "ListDevicesWithFilter q (e p) db pid f (int p) (int s) srt = page_of (page_offset (int p) (int s)) (int s) ?all"
    if "1 \<le> p" for p
    using that assms(1,2,4) order_devices_untied [OF untied, of "q_rank q (e p) (page_offset (int p) (int s))"]
    by (simp add: ListDevicesWithFilter_def Let_def case_prod_beta)
  then have "concat (map (\<lambda>p. ListDevicesWithFilter q (e p) db pid f (int p) (int s) srt) [1..<k])
      = concat (map (\<lambda>p. page_of (page_offset (int p) (int s)) (int s) ?all) [1..<k])" for k
    by (intro arg_cong [where f = concat] map_cong) auto
  with pages_partition [OF _ fits] assms(1,4) show ?thesis
    by (simp add: CountDevicesWithFilter_def length_listings del: upt.simps)
qed

lemma firmware_pages:
  fixes s :: nat
  assumes "1 \<le> s" and "s \<le> 100" and "int (length (db_firmwares db)) + 100 \<le> int64_max"
  shows "concat (map (\<lambda>p. fst (repo_ListFirmware db pid (int p) (int s) srt))
           [1..<Suc (total_pages (int s) (snd (repo_ListFirmware db pid 1 (int s) srt)))])
         = listFirmwareOrder srt (filter (\<lambda>f. fw_ProjectID f = pid \<and> fw_DeletedAt f = None) (db_firmwares db))"
proof -
  let ?fs = "filter (\<lambda>f. fw_ProjectID f = pid \<and> fw_DeletedAt f = None) (db_firmwares db)"
  have "int (length (listFirmwareOrder srt ?fs)) + int s \<le> int64_max"
    using assms(2,3) length_filter_le [of "\<lambda>f. fw_ProjectID f = pid \<and> fw_DeletedAt f = None" "db_firmwares db"]
    unfolding length_listings by linarith
  from pages_partition [OF _ this] assms(1) show ?thesis
    by (simp add: repo_ListFirmware_def Let_def length_listings del: upt.simps)
qed

lemma campaign_pages:
  fixes s :: nat
  assumes "1 \<le> s" and "s \<le> 100" and "int (length (db_campaigns db)) + 100 \<le> int64_max"
  shows "concat (map (\<lambda>p. fst (repo_ListCampaigns db pid (int p) (int s)))
           [1..<Suc (total_pages (int s) (snd (repo_ListCampaigns db pid 1 (int s))))])
         = rev (sort_key (\<lambda>c. (camp_CreatedAt c, camp_ID c))
                 (filter (\<lambda>c. camp_ProjectID c = pid \<and> camp_DeletedAt c = None) (db_campaigns db)))"
proof -
  let ?cs = "filter (\<lambda>c. camp_ProjectID c = pid \<and> camp_DeletedAt c = None) (db_campaigns db)"
  have "int (length (rev (sort_key (\<lambda>c. (camp_CreatedAt c, camp_ID c)) ?cs))) + int s \<le> int64_max"
    using assms(2,3) length_filter_le [of "\<lambda>c. camp_ProjectID c = pid \<and> camp_DeletedAt c = None" "db_campaigns db"]
    unfolding length_rev length_sort by linarith
  from pages_partition [OF _ this] assms(1) show ?thesis
    by (simp add: repo_ListCampaigns_def Let_def del: upt.simps)
qed

text \<open>C21. The pages of the devices, firmware versions and campaigns of a project, as many as the
  response says there are, are together the whole listing in its order, with every row once. For
  devices no two of the listed ones may have the same value in the sort column: the query has no
  tie-breaker, so tied devices may be repeated or missed.\<close>

theorem pages_are_the_listing:
  fixes s :: nat
  assumes "1 \<le> s" and "s \<le> 100"
    and "int (length (db_devices db)) + 100 \<le> int64_max" and "int (length (db_firmwares db)) + 100 \<le> int64_max"
    and "int (length (db_campaigns db)) + 100 \<le> int64_max" and "\<And>p. env_now (e p) = now"
    and "distinct (map (sort_value (fst (parseDeviceSort srt))) (applyDeviceListFilter q db pid f now))"
  shows "(\<exists>listing. concat (map (\<lambda>p. ListDevicesWithFilter q (e p) db pid f (int p) (int s) srt)
             [1..<Suc (total_pages (int s) (CountDevicesWithFilter q (e 0) db pid f))]) = listing
           \<and> mset listing = mset (applyDeviceListFilter q db pid f now)
           \<and> sorted (map (sort_value (fst (parseDeviceSort srt))) (if snd (parseDeviceSort srt) then rev listing else listing)))
    \<and> concat (map (\<lambda>p. fst (repo_ListFirmware db pid (int p) (int s) srt))
             [1..<Suc (total_pages (int s) (snd (repo_ListFirmware db pid 1 (int s) srt)))])
        = listFirmwareOrder srt (filter (\<lambda>f. fw_ProjectID f = pid \<and> fw_DeletedAt f = None) (db_firmwares db))
    \<and> mset (listFirmwareOrder srt (filter (\<lambda>f. fw_ProjectID f = pid \<and> fw_DeletedAt f = None) (db_firmwares db)))
        = mset (filter (\<lambda>f. fw_ProjectID f = pid \<and> fw_DeletedAt f = None) (db_firmwares db))
    \<and> concat (map (\<lambda>p. fst (repo_ListCampaigns db pid (int p) (int s)))
             [1..<Suc (total_pages (int s) (snd (repo_ListCampaigns db pid 1 (int s))))])
        = rev (sort_key (\<lambda>c. (camp_CreatedAt c, camp_ID c))
                (filter (\<lambda>c. camp_ProjectID c = pid \<and> camp_DeletedAt c = None) (db_campaigns db)))"
  by (intro conjI exI, rule device_pages [OF assms(1-3,6,7)], rule mset_order_devices, rule order_devices_sorted,
      rule firmware_pages [OF assms(1,2,4)], rule mset_listFirmwareOrder, rule campaign_pages [OF assms(1,2,5)])

text \<open>The devices of the sample project, one to a page and by name.\<close>

definition no_filter :: device_filter where
  "no_filter = \<lparr>df_Online = None, df_DeviceTypeID = None, df_GroupID = None, df_Blocked = None,
     df_FirmwareVersion = None, df_LastSeenFrom = None, df_LastSeenTo = None, df_Search = None\<rparr>"

text \<open>A database whose order of tied rows depends on the page it is asked for.\<close>

definition no_like :: query_env where
  "no_like = \<lparr>q_like = (\<lambda>_ _. False), q_wrap = True,
     q_rank = (\<lambda>_ offset d. if offset = 0 then unat (dev_ID d) else 100 - unat (dev_ID d))\<rparr>"

lemma no_like_rank: "q_rank no_like e offset d = (if offset = 0 then unat (dev_ID d) else 100 - unat (dev_ID d))"
  by (simp add: no_like_def)

lemma sample_devices: "applyDeviceListFilter no_like sample_db 5 no_filter t = [sample_device 40 ''d0'', sample_device 41 ''d1'']"
  by (simp add: applyDeviceListFilter_def device_conds_def no_filter_def no_like_def sample_db_def sample_device_def)

lemma sort_by_name: "parseDeviceSort ''name'' = (ColName, False)"
proof -
  have "trim_space ''name'' = ''name''" by (rule trim_space_no_space) (auto simp: codes_def is_space_rune_def)
  moreover have "to_lower ''name'' = ''name''" by code_simp
  ultimately show ?thesis by (simp add: parseDeviceSort_def has_prefix_def)
qed

theorem pages_are_the_listing_witness:
  "mset (concat (map (\<lambda>p. ListDevicesWithFilter no_like sample_env sample_db 5 no_filter (int p) (int 1) ''name'')
           [1..<Suc (total_pages (int 1) 2)]))
   = {#sample_device 40 ''d0'', sample_device 41 ''d1''#}"
proof -
  have c: "CountDevicesWithFilter no_like sample_env sample_db 5 no_filter = 2"
    by (simp add: CountDevicesWithFilter_def sample_devices)
  have fits: "int (length (db_devices sample_db)) + 100 \<le> int64_max" "int (length (db_firmwares sample_db)) + 100 \<le> int64_max"
    "int (length (db_campaigns sample_db)) + 100 \<le> int64_max"
    by (simp_all add: sample_db_def empty_db_def int64_max_def)
  have "distinct (map (sort_value (fst (parseDeviceSort ''name''))) (applyDeviceListFilter no_like sample_db 5 no_filter (env_now sample_env)))"
    by (simp add: sample_devices sort_by_name sort_value_def sample_device_def codes_def)
  note pages = pages_are_the_listing [OF le_refl one_le_numeral fits refl this, unfolded c]
  show ?thesis using conjunct1 [OF pages] unfolding sample_devices by (auto simp del: upt.simps)
qed

text \<open>Tied devices: the two pages of the default listing, by \<open>created_at\<close>, of two devices registered in the
  same instant show the same device twice and the other one never.\<close>

theorem tied_devices_can_repeat:
  "CountDevicesWithFilter no_like sample_env sample_db 5 no_filter = 2
   \<and> ListDevicesWithFilter no_like sample_env sample_db 5 no_filter 1 1 [] = [sample_device 41 ''d1'']
   \<and> ListDevicesWithFilter no_like sample_env sample_db 5 no_filter 2 1 [] = [sample_device 41 ''d1'']"
proof -
  have n: "parseDeviceSort [] = (ColCreated, True)" by (simp add: parseDeviceSort_def)
  have "sort_value ColCreated (sample_device 40 ''d0'') = ([], 0, 0)" "sort_value ColCreated (sample_device 41 ''d1'') = ([], 0, 0)"
    "dev_ID (sample_device 40 ''d0'') = 40" "dev_ID (sample_device 41 ''d1'') = 41"
    by (simp_all add: sort_value_def sample_device_def)
  then show ?thesis
    by (simp add: CountDevicesWithFilter_def ListDevicesWithFilter_def n sample_devices order_devices_def no_like_rank
        page_of_def page_offset_def int64_def)
qed

end
