(* ===== verification/Uploads.thy ===== *)
theory Uploads
  imports SampleProgram
begin

section \<open>What is uploaded is what is downloaded\<close>

text \<open>
  The firmware service over the local object store: keys of firmware resolve to files of their own,
  one per firmware, and an upload that succeeded is what every later download returns.
\<close>

subsection \<open>The keys of firmware\<close>

lemma hex_encode_chars: "c \<in> set (hex_encode bs) \<Longrightarrow> c \<noteq> CHR ''/'' \<and> c \<noteq> CHR ''.'' \<and> c \<noteq> CHR ''-''"
proof -
  assume "c \<in> set (hex_encode bs)"
  then have "of_char c \<in> set (codes (hex_encode bs))" by (auto simp: codes_def)
  from hex_codes_bounds [OF this [unfolded codes_hex_encode]] show ?thesis by auto
qed

lemma uuid_String_chars: "CHR ''/'' \<notin> set (uuid_String u)" "CHR ''.'' \<notin> set (uuid_String u)"
  by (auto simp: uuid_String_def Let_def dest: hex_encode_chars)

lemma hex_encode_inj: "hex_encode xs = hex_encode ys \<longleftrightarrow> xs = ys"
  by (metis hex_decode_hex_encode option.inject)

lemma slice_join: "i \<le> j \<Longrightarrow> j \<le> k \<Longrightarrow> slice i j b @ slice j k b = slice i k b"
proof -
  assume "i \<le> j" "j \<le> k"
  then have "take (j - i) (drop i b) @ take (k - j) (drop (j - i) (drop i b)) = take (k - i) (drop i b)"
    by (simp only: take_add [symmetric]) simp
  with \<open>i \<le> j\<close> show ?thesis by (simp add: slice_def)
qed

lemma split_bytes16: "length b = 16 \<Longrightarrow> slice 0 4 b @ slice 4 6 b @ slice 6 8 b @ slice 8 10 b @ slice 10 16 b = b"
  by (simp add: slice_join slice_all)

lemma uuid_String_inj [simp]: "uuid_String u = uuid_String v \<longleftrightarrow> u = v"
proof
  let ?b = "\<lambda>u :: uuid. be_bytes 16 (unat u)"
  assume "uuid_String u = uuid_String v"
  then have "slice 0 4 (?b u) = slice 0 4 (?b v)" "slice 4 6 (?b u) = slice 4 6 (?b v)" "slice 6 8 (?b u) = slice 6 8 (?b v)"
    "slice 8 10 (?b u) = slice 8 10 (?b v)" "slice 10 16 (?b u) = slice 10 16 (?b v)"
    by (simp_all add: uuid_String_def Let_def hex_encode_inj length_hex_encode length_slice)
  then have "?b u = ?b v"
    using split_bytes16 [of "?b u"] split_bytes16 [of "?b v"] by (metis length_be_bytes)
  then show "u = v" by (metis uuid_be_bytes)
qed simp

lemma split_char_none: "c \<notin> set s \<Longrightarrow> split_char c s = [s]"
  by (induction s) auto

lemma split_char_first: "c \<notin> set s \<Longrightarrow> split_char c (s @ c # t) = s # split_char c t"
  by (induction s) (auto split: list.split)

lemma contains_set: "contains s p \<Longrightarrow> set p \<subseteq> set s"
  by (induction s) (auto dest!: set_mono_prefix)

definition firmware_path :: "uuid \<Rightarrow> uuid \<Rightarrow> path" where
  "firmware_path p f = [''projects'', uuid_String p, ''firmware'', uuid_String f, ''blob'']"

lemma split_firmware_key: "split_char (CHR ''/'') (FirmwareStorageKey p f) = firmware_path p f"
proof -
  have "FirmwareStorageKey p f = ''projects'' @ CHR ''/'' # uuid_String p @ CHR ''/'' # ''firmware'' @ CHR ''/'' # uuid_String f @ CHR ''/'' # ''blob''"
    by (simp add: FirmwareStorageKey_def)
  then show ?thesis
    by (simp only: split_char_first uuid_String_chars split_char_none firmware_path_def list.set char.inject insert_iff empty_iff
        simp_thms set_append)
qed

lemma firmware_key_valid: "validateKey (FirmwareStorageKey p f) = Inr ()"
proof -
  have "CHR ''.'' \<notin> set (FirmwareStorageKey p f)" by (simp add: FirmwareStorageKey_def uuid_String_chars)
  then have "\<not> contains (FirmwareStorageKey p f) ''..''" using contains_set by fastforce
  then show ?thesis by (simp add: validateKey_def) (simp add: FirmwareStorageKey_def has_prefix_def)
qed

lemma uuid_String_not_Nil: "uuid_String u \<noteq> []"
  by (simp add: uuid_String_def Let_def)

lemma resolve_firmware_key:
  assumes "clean_base base"
  shows "resolve base (FirmwareStorageKey p f) = Inr (base @ firmware_path p f)"
proof -
  have d: "uuid_String u \<noteq> ''.''" "uuid_String u \<noteq> ''..''" for u using uuid_String_chars(2) [of u] by auto
  have b: "filter (\<lambda>x. x \<noteq> [] \<and> x \<noteq> ''.'') base = base" "''..'' \<notin> set base"
    using assms by (auto simp: clean_base_def filter_id_conv)
  have "filepath_Join base (FirmwareStorageKey p f) = base @ firmware_path p f"
    unfolding filepath_Join_def split_firmware_key
    by (subst clean_path_no_dotdot) (use b d [symmetric] in \<open>simp_all add: firmware_path_def uuid_String_not_Nil d\<close>)
  then show ?thesis
    by (simp add: resolve_def firmware_key_valid) (simp add: firmware_path_def rel_has_dotdot_prefix_def has_prefix_def)
qed

lemma firmware_objects_apart:
  assumes "clean_base base" and "f \<noteq> f'"
  shows "\<not> same_object base (FirmwareStorageKey p f) (FirmwareStorageKey p' f')"
  using assms by (simp add: same_object_def resolve_firmware_key) (simp add: firmware_path_def)

subsection \<open>Upload and download\<close>

lemma writeLimitedTemp_Some:
  "writeLimitedTemp body n = Some content \<Longrightarrow> content \<noteq> [] \<Longrightarrow> content = body \<and> int (length body) \<le> n"
  by (auto simp: writeLimitedTemp_def Let_def int64_min_def split: if_splits)

text \<open>A store that reports how many bytes it has taken.\<close>

definition counts_bytes :: "('s \<Rightarrow> string \<Rightarrow> byte list \<Rightarrow> 's \<times> (err + int)) \<Rightarrow> bool" where
  "counts_bytes put \<longleftrightarrow> (\<forall>s k c s' n. put s k c = (s', Inr n) \<longrightarrow> n = int (length c))"

lemma store_Put_counts: "counts_bytes (store_Put base)"
  by (auto simp: counts_bytes_def store_Put_def Let_def split: sum.splits option.splits if_splits)

text \<open>A chain of guards that returned a value passed each of them.\<close>

lemma passed_sum:
  "(case r of Inl e \<Rightarrow> (s e, Inl (g e)) | Inr y \<Rightarrow> f y) = (t, Inr z) \<Longrightarrow> (\<And>y. r = Inr y \<Longrightarrow> f y = (t, Inr z) \<Longrightarrow> P) \<Longrightarrow> P"
  by (cases r) auto

lemma passed_option:
  "(case r of None \<Rightarrow> (s, Inl e) | Some y \<Rightarrow> f y) = (t, Inr z) \<Longrightarrow> (\<And>y. r = Some y \<Longrightarrow> f y = (t, Inr z) \<Longrightarrow> P) \<Longrightarrow> P"
  by (cases r) auto

lemma passed_if: "(if c then (s, Inl e) else f) = (t, Inr z) \<Longrightarrow> (\<not> c \<Longrightarrow> f = (t, Inr z) \<Longrightarrow> P) \<Longrightarrow> P"
  by (cases c) auto

lemma passed_prod: "(case p of (a, b) \<Rightarrow> f a b) = w \<Longrightarrow> (\<And>a b. p = (a, b) \<Longrightarrow> f a b = w \<Longrightarrow> P) \<Longrightarrow> P"
  by (cases p) auto

lemmas passed = passed_sum passed_option passed_if passed_prod

text \<open>What a successful upload has done.\<close>

lemma UploadFirmware_Inr:
  assumes "UploadFirmware put del semver cfg env u pid ver chlog file tys body (db, st) = ((db', st'), Inr item)"
    and "counts_bytes put"
  obtains fw n dedup db1 kvs where "put st (FirmwareStorageKey pid (env_uuid env 0)) body = (st', Inr n)"
    and "CreateFirmwareWithTypes env fw dedup db = Inr db1" and "db' = fw_audit env 1 u ''firmware_uploaded'' pid kvs db1"
    and "n \<noteq> 0" and "fw_ID fw = env_uuid env 0" and "fw_ProjectID fw = pid" and "fw_DeletedAt fw = None"
    and "fw_StorageKey fw = FirmwareStorageKey pid (env_uuid env 0)" and "fw_FileSizeBytes fw = n"
    and "fw_ChecksumSHA256 fw = sha256Hex body" and "int (length body) \<le> fc_maxUploadBytes cfg"
    and "GetFirmware db' u pid (env_uuid env 0) = Inr item"
proof -
  obtain mj mn pt pre where sv: "parseSemverParts semver (trim_space ver) = (mj, mn, pt, pre)"
    by (metis prod_cases4)
  show thesis
    using assms(1) unfolding UploadFirmware_def Let_def prod.case sv
  proof (elim passed, goal_cases)
    case (1 a b dedup c content st1 r n db1)
    have "n = int (length content)" using assms(2) 1 unfolding counts_bytes_def by blast
    then have "content \<noteq> []" using 1 by auto
    then have w: "content = body" "int (length body) \<le> fc_maxUploadBytes cfg" using writeLimitedTemp_Some 1 by blast+
    show ?case
    proof (rule that)
      show "put st (FirmwareStorageKey pid (env_uuid env 0)) body = (st', Inr n)" using 1 w by simp
    qed (use 1 w in auto)
  qed
qed

lemma CreateFirmware_rows:
  "CreateFirmwareWithTypes env fw dedup db = Inr db1 \<Longrightarrow>
     db_firmwares db1 = db_firmwares db @ [fw] \<and> (\<forall>x \<in> set (db_firmwares db). fw_ID x \<noteq> fw_ID fw)"
  by (auto simp: CreateFirmwareWithTypes_def fw_conflict_def split: sum.splits)

lemma fw_audit_firmwares [simp]: "db_firmwares (fw_audit env k u act pid kvs db) = db_firmwares db"
  by (simp add: fw_audit_def)

text \<open>C20. A firmware uploaded is the firmware downloaded: a successful upload stores all the bytes of the
  file, no more than the configured maximum and at least one, and every download of the new version
  returns exactly these bytes with their size and SHA-256; what any other firmware's key holds is
  as before.\<close>

theorem upload_download:
  assumes "clean_base base"
    and "UploadFirmware (store_Put base) (store_Delete base) semver cfg env u pid ver chlog file tys body (db, st)
         = ((db', st'), Inr item)"
  shows "(\<exists>fw. snd (OpenFirmwareBinary (store_Open base) env' u pid (fi_ID item) (db', st')) = Inr (body, fw)
            \<and> fw_FileSizeBytes fw = int (length body) \<and> fw_ChecksumSHA256 fw = sha256Hex body)
    \<and> fi_FileSizeBytes item = int (length body) \<and> fi_ChecksumSHA256 item = sha256Hex body
    \<and> 0 < length body \<and> int (length body) \<le> fc_maxUploadBytes cfg
    \<and> (\<forall>p f. f \<noteq> fi_ID item \<longrightarrow> store_Open base st' (FirmwareStorageKey p f) = store_Open base st (FirmwareStorageKey p f))"
proof (rule UploadFirmware_Inr [OF assms(2) store_Put_counts])
  fix fw n dedup db1 kvs
  assume put: "store_Put base st (FirmwareStorageKey pid (env_uuid env 0)) body = (st', Inr n)"
    and new: "CreateFirmwareWithTypes env fw dedup db = Inr db1" and db': "db' = fw_audit env 1 u ''firmware_uploaded'' pid kvs db1"
    and n: "n \<noteq> 0" and fw: "fw_ID fw = env_uuid env 0" "fw_ProjectID fw = pid" "fw_DeletedAt fw = None"
      "fw_StorageKey fw = FirmwareStorageKey pid (env_uuid env 0)" "fw_FileSizeBytes fw = n" "fw_ChecksumSHA256 fw = sha256Hex body"
    and max: "int (length body) \<le> fc_maxUploadBytes cfg" and item: "GetFirmware db' u pid (env_uuid env 0) = Inr item"
  from local_store.get_put [OF put] have open_new: "store_Open base st' (FirmwareStorageKey pid (env_uuid env 0)) = Inr body"
    and len: "n = int (length body)" by simp_all
  have rows: "db_firmwares db' = db_firmwares db @ [fw]" "\<forall>x \<in> set (db_firmwares db). fw_ID x \<noteq> fw_ID fw"
    using CreateFirmware_rows [OF new] by (simp_all add: db')
  then have "first_by fw_ID (\<lambda>f. fw_ProjectID f = pid \<and> fw_ID f = env_uuid env 0 \<and> fw_DeletedAt f = None) (db_firmwares db') = Some fw"
    using fw by (intro first_by_unique) auto
  then have get: "repo_GetFirmware db' pid (env_uuid env 0) = Inr fw" by (simp add: repo_GetFirmware_def)
  with item obtain v where auth: "AuthorizeProject db' pid u FirmwareRead = Inr v"
    and i: "fi_ID item = env_uuid env 0" "fi_FileSizeBytes item = n" "fi_ChecksumSHA256 item = sha256Hex body"
    using fw by (auto simp: GetFirmware_def Let_def split: sum.splits)
  have "snd (OpenFirmwareBinary (store_Open base) env' u pid (fi_ID item) (db', st')) = Inr (body, fw)"
    by (simp add: OpenFirmwareBinary_def auth get i open_new fw)
  moreover have "store_Open base st' (FirmwareStorageKey p f) = store_Open base st (FirmwareStorageKey p f)" if "f \<noteq> fi_ID item" for p f
    using that i by (intro local_store.get_put_other [OF put] firmware_objects_apart [OF assms(1)]) simp
  ultimately show ?thesis using fw i n len max by simp
qed

text \<open>The owner of the sample project uploads three bytes.\<close>

definition upload_db :: db where
  "upload_db = sample_db\<lparr>db_permissions := \<lparr>perm_ID = 210, perm_Key = FirmwareRead, perm_Description = [], perm_CreatedAt = 0, perm_UpdatedAt = 0\<rparr> # sample_permissions,
     db_role_permissions := (10, 210) # db_role_permissions sample_db\<rparr>"

lemma upload_permissions:
  "is_ok (AuthorizeProject upload_db 5 1 FirmwareUpload)" "is_ok (AuthorizeProject upload_db 5 1 FirmwareRead)"
  "fw_ensureProjectNotArchived upload_db 5 = Inr ()" "validateDeviceTypesForProject upload_db 5 [30] = Inr ()"
  by code_simp+

lemma upload_version: "trim_space ''2.0'' = ''2.0''" "normalizeVersion ''2.0'' = ''2.0''"
proof -
  show t: "trim_space ''2.0'' = ''2.0''" by (rule trim_space_no_space) (auto simp: codes_def is_space_rune_def)
  have "to_lower ''2.0'' = ''2.0''" by code_simp
  with t show "normalizeVersion ''2.0'' = ''2.0''" by (simp add: normalizeVersion_def)
qed

lemma upload_rows: "db_firmwares upload_db = [sample_firmware]"
  "db_firmware_types upload_db = [\<lparr>ft_FirmwareID = 60, ft_DeviceTypeID = 30, ft_CreatedAt = 0\<rparr>]"
  by (simp_all add: upload_db_def sample_db_def)

lemma sample_upload:
  "\<exists>db' st' item. UploadFirmware (store_Put [''data'']) (store_Delete [''data'']) (\<lambda>_. None) (fw_New 0 []) sample_env 1 5 ''2.0'' [] ''f'' [30]
     [1, 2, 3] (upload_db, no_store) = ((db', st'), Inr item)"
proof -
  have base: "clean_base [''data'']" by (simp add: clean_base_def)
  obtain m m' where a: "AuthorizeProject upload_db 5 1 FirmwareUpload = Inr m" "AuthorizeProject upload_db 5 1 FirmwareRead = Inr m'"
    using upload_permissions(1,2) by (auto simp: is_ok_iff)
  define fws where "fws = db_firmwares upload_db"
  have put: "\<exists>st'. store_Put [''data''] no_store (FirmwareStorageKey 5 (env_uuid sample_env 0)) [1, 2, 3] = (st', Inr 3)"
    by (simp add: store_Put_def resolve_firmware_key [OF base] no_store_def lookup_file_def Let_def firmware_path_def)
  then obtain st' where put: "store_Put [''data''] no_store (FirmwareStorageKey 5 (env_uuid sample_env 0)) [1, 2, 3] = (st', Inr 3)" by blast
  have x: "\<not> FirmwareVersionExists upload_db 5 ''2.0''"
    by (simp add: FirmwareVersionExists_def upload_rows sample_firmware_def)
  have key: "''k'' \<noteq> FirmwareStorageKey p f" for p f by (simp add: FirmwareStorageKey_def)
  have auth: "AuthorizeProject (fw_audit e k u act p kvs (upload_db\<lparr>db_firmwares := fs, db_firmware_types := ts\<rparr>)) = AuthorizeProject upload_db"
    for e k u act p kvs fs ts
    by (rule AuthorizeProject_cong) (simp_all add: fw_audit_def append_audit_def split: sum.split)
  have fresh: "60 \<noteq> env_uuid sample_env 0" by (simp add: sample_env_def)
  have d: "dedup_type_ids [] [30] = Inr [30]" "rune_count [] = 0" by (simp add: uuid_Nil_def, code_simp)
  have w: "writeLimitedTemp [1, 2, 3] (fc_maxUploadBytes (fw_New 0 [])) = Some [1, 2, 3]"
    by (simp add: writeLimitedTemp_def fw_New_def int64_max_def)
  have c: "\<exists>ts. CreateFirmwareWithTypes sample_env fw [30] upload_db = Inr (upload_db\<lparr>db_firmwares := [sample_firmware, fw], db_firmware_types := ts\<rparr>)"
    if "fw_ID fw = env_uuid sample_env 0" "fw_VersionNormalized fw = ''2.0''" "fw_StorageKey fw = FirmwareStorageKey 5 (env_uuid sample_env 0)" for fw
    using fresh that by (simp add: CreateFirmwareWithTypes_def upload_rows insert_row_def fw_conflict_def ft_conflict_def sample_firmware_def key) blast
  have g: "is_ok (GetFirmware (fw_audit e k u act p kvs (upload_db\<lparr>db_firmwares := [sample_firmware, fw], db_firmware_types := ts\<rparr>)) 1 5 (env_uuid sample_env 0))"
    if "fw_ID fw = env_uuid sample_env 0" "fw_ProjectID fw = 5" "fw_DeletedAt fw = None" for e k u act p kvs fw ts
    using fresh that by (simp add: GetFirmware_def auth a repo_GetFirmware_def first_by_def sample_firmware_def Let_def)
  define fw where "fw = \<lparr>fw_ID = env_uuid sample_env 0, fw_ProjectID = 5, fw_Version = ''2.0'', fw_VersionNormalized = ''2.0'',
    fw_Changelog = [], fw_FileSizeBytes = 3, fw_ChecksumSHA256 = sha256Hex [1, 2, 3], fw_OriginalFilename = upload_filename ''f'',
    fw_StorageProvider = fc_storageProvider (fw_New 0 []), fw_StorageKey = FirmwareStorageKey 5 (env_uuid sample_env 0),
    fw_SemverMajor = None, fw_SemverMinor = None, fw_SemverPatch = None, fw_SemverPrerelease = [], fw_UploadedByUserID = 1,
    fw_CreatedAt = env_now sample_env, fw_UpdatedAt = env_now sample_env, fw_DeletedAt = None\<rparr>"
  obtain ts where c: "CreateFirmwareWithTypes sample_env fw [30] upload_db = Inr (upload_db\<lparr>db_firmwares := [sample_firmware, fw], db_firmware_types := ts\<rparr>)"
    using c [of fw] by (auto simp: fw_def)
  have sv: "parseSemverParts (\<lambda>_. None) ''2.0'' = (None, None, None, [])" by (simp add: parseSemverParts_def)
  have n: "(3::int) \<noteq> 0" "''2.0'' \<noteq> []" "\<not> 0 > maxChangelogRunes" "[30::uuid] \<noteq> []" "\<not> length ''2.0'' > 128" by simp_all
  show ?thesis
    unfolding UploadFirmware_def prod.case a upload_permissions sum.case Let_def upload_version d w option.case put sv
      if_not_P [OF n(1)] if_not_P [OF n(2)] if_not_P [OF n(3)] if_not_P [OF n(4)] if_not_P [OF n(5)] if_not_P [OF x] fw_def [symmetric] c
    by (simp add: n) (use g in \<open>fastforce simp: fw_def is_ok_iff\<close>)
qed

theorem upload_download_witness:
  "\<exists>db' st' item fw. UploadFirmware (store_Put [''data'']) (store_Delete [''data'']) (\<lambda>_. None) (fw_New 0 []) sample_env 1 5 ''2.0'' [] ''f'' [30]
     [1, 2, 3] (upload_db, no_store) = ((db', st'), Inr item)
   \<and> snd (OpenFirmwareBinary (store_Open [''data'']) sample_env 1 5 (fi_ID item) (db', st')) = Inr ([1, 2, 3], fw)
   \<and> fi_FileSizeBytes item = 3"
proof -
  obtain db' st' item where up: "UploadFirmware (store_Put [''data'']) (store_Delete [''data'']) (\<lambda>_. None) (fw_New 0 []) sample_env 1 5 ''2.0'' [] ''f'' [30]
     [1, 2, 3] (upload_db, no_store) = ((db', st'), Inr item)" using sample_upload by blast
  have "clean_base [''data'']" by (simp add: clean_base_def)
  from upload_download [OF this up, of sample_env] up show ?thesis by auto
qed

end
