(* ===== verification/Downloads.thy ===== *)
theory Downloads
  imports Tickets Uploads
begin

section \<open>Downloads with a token\<close>

text \<open>
  The short-lived tokens of the binary protocol: which downloads they are good for, and that they
  are good for one. The code consumes the token before it opens the object, so a download that fails
  afterwards has used the token up as well (\<open>failed_open_burns_token\<close>).
\<close>

text \<open>A consumed token is refused ever after, whatever became of the download that consumed it.\<close>

lemma consumed_token_refused:
  assumes "schema_ok db" and c: "ConsumeOtaDownloadTokenTx (HashToken raw) (env_now env) db = Inr (db1, row)"
    and "(web_step sv)\<^sup>*\<^sup>* db1 db2"
  shows "OpenFirmwareWithOtaDownloadToken get env' raw (db2, st2) = ((db2, st2), Inl invalid_ota_token)"
proof -
  have ok: "schema_ok db1"
    using ConsumeOtaDownloadTokenTx_pstep [OF c, of True] assms(1) by (simp add: pstep_def)
  have "spent ota_TokenHash ota_used (db_ota_tokens db1) (HashToken raw) = Some True"
    using ConsumeOta_spent(2) [OF c] assms(1) by (simp add: schema_ok_def)
  from download_token.final_forever [OF ok_run [OF assms(3) ok] this]
  have u: "spent ota_TokenHash ota_used (db_ota_tokens db2) (HashToken raw) = Some True" by simp
  have "ota_tokens_ok (db_ota_tokens db2)" using web_run_schema [OF assms(3) ok] by (simp add: schema_ok_def)
  then obtain e where e: "ConsumeOtaDownloadTokenTx (HashToken raw) (env_now env') db2 = Inl e"
    using u ConsumeOta_spent(1) [of "HashToken raw" "env_now env'" db2]
    by (cases "ConsumeOtaDownloadTokenTx (HashToken raw) (env_now env') db2") auto
  moreover have "e \<in> {ErrOtaTokenNotFound, ErrOtaTokenExpired, ErrOtaTokenConsumed, ErrOtaDeviceBlocked}"
    using e by (auto simp: ConsumeOtaDownloadTokenTx_def Let_def split: option.splits if_splits)
  ultimately show ?thesis by (simp add: OpenFirmwareWithOtaDownloadToken_def)
qed

text \<open>What a download that succeeded found.\<close>

lemma ConsumeOta_row:
  assumes "ConsumeOtaDownloadTokenTx h now db = Inr (db1, row)"
  obtains t where "t \<in> set (db_ota_tokens db)" and "ota_TokenHash t = h" and "ota_ConsumedAt t = None" and "now < ota_ExpiresAt t"
    and "\<exists>d \<in> set (db_devices db). live_device (ota_ProjectID t) (ota_DeviceID t) d \<and> \<not> dev_Blocked d"
    and "row = t\<lparr>ota_ConsumedAt := Some now\<rparr>" and "row \<in> set (db_ota_tokens db1)" and "db_firmwares db1 = db_firmwares db"
proof -
  from assms obtain t where t: "first_by ota_ID (\<lambda>t. ota_TokenHash t = h) (db_ota_tokens db) = Some t" "ota_ConsumedAt t = None"
    "now < ota_ExpiresAt t" "row = t\<lparr>ota_ConsumedAt := Some now\<rparr>"
    and d: "count_where (\<lambda>d. live_device (ota_ProjectID t) (ota_DeviceID t) d \<and> \<not> dev_Blocked d) (db_devices db) \<noteq> 0"
    and db1: "db1 = db\<lparr>db_ota_tokens := update_where (\<lambda>x. ota_ID x = ota_ID t \<and> ota_ConsumedAt x = None)
                          (\<lambda>x. x\<lparr>ota_ConsumedAt := Some now\<rparr>) (db_ota_tokens db)\<rparr>"
    by (auto simp: ConsumeOtaDownloadTokenTx_def Let_def split: option.splits if_splits)
  from first_by_Some [OF t(1)] have m: "t \<in> set (db_ota_tokens db)" "ota_TokenHash t = h" by auto
  from m(1) t(2,4) have "row \<in> set (db_ota_tokens db1)" by (auto simp: db1 table_simps)
  moreover from d have "\<exists>d \<in> set (db_devices db). live_device (ota_ProjectID t) (ota_DeviceID t) d \<and> \<not> dev_Blocked d"
    by (simp add: table_simps)
  moreover have "db_firmwares db1 = db_firmwares db" by (simp add: db1)
  ultimately show thesis using m t by (intro that [of t]) auto
qed

text \<open>C12. A firmware download token works once: a download succeeds only with a stored token that is
  unconsumed and unexpired, for a live device that is not blocked, and returns the object of the
  token's firmware; it leaves the token consumed, and every later request with the token is refused as
  invalid and changes nothing.\<close>

theorem download_token_once:
  assumes "schema_ok db"
    and "OpenFirmwareWithOtaDownloadToken (store_Open (sv_base sv)) env raw (db, st) = ((db1, st1), Inr (content, fw))"
    and "(web_step sv)\<^sup>*\<^sup>* db1 db2"
  shows "(\<exists>t \<in> set (db_ota_tokens db). ota_TokenHash t = HashToken raw \<and> ota_ConsumedAt t = None \<and> env_now env < ota_ExpiresAt t
        \<and> (\<exists>d \<in> set (db_devices db). live_device (ota_ProjectID t) (ota_DeviceID t) d \<and> \<not> dev_Blocked d)
        \<and> fw \<in> set (db_firmwares db) \<and> fw_ID fw = ota_FirmwareID t \<and> fw_ProjectID fw = ota_ProjectID t \<and> fw_DeletedAt fw = None
        \<and> store_Open (sv_base sv) st (fw_StorageKey fw) = Inr content
        \<and> t\<lparr>ota_ConsumedAt := Some (env_now env)\<rparr> \<in> set (db_ota_tokens db1))
    \<and> OpenFirmwareWithOtaDownloadToken (store_Open (sv_base sv)) env' raw (db2, st2) = ((db2, st2), Inl invalid_ota_token)"
proof -
  from assms(2) obtain row where c: "ConsumeOtaDownloadTokenTx (HashToken raw) (env_now env) db = Inr (db1, row)"
    and f: "repo_GetFirmware db1 (ota_ProjectID row) (ota_FirmwareID row) = Inr fw"
    and g: "store_Open (sv_base sv) st (fw_StorageKey fw) = Inr content"
    by (auto simp: OpenFirmwareWithOtaDownloadToken_def split: sum.splits if_splits)
  obtain t where t: "t \<in> set (db_ota_tokens db)" "ota_TokenHash t = HashToken raw" "ota_ConsumedAt t = None" "env_now env < ota_ExpiresAt t"
    "\<exists>d \<in> set (db_devices db). live_device (ota_ProjectID t) (ota_DeviceID t) d \<and> \<not> dev_Blocked d"
    "row = t\<lparr>ota_ConsumedAt := Some (env_now env)\<rparr>" "row \<in> set (db_ota_tokens db1)" "db_firmwares db1 = db_firmwares db"
    by (rule ConsumeOta_row [OF c])
  have "fw \<in> set (db_firmwares db) \<and> fw_ID fw = ota_FirmwareID t \<and> fw_ProjectID fw = ota_ProjectID t \<and> fw_DeletedAt fw = None"
    using f t(6,8) by (auto simp: repo_GetFirmware_def dest!: first_by_Some split: option.splits)
  with t g consumed_token_refused [OF assms(1) c assms(3), of "store_Open (sv_base sv)" env' st2] show ?thesis
    by (intro conjI bexI [of _ t]) auto
qed

text \<open>Device 40 downloads firmware 60 with its token.\<close>

definition stocked :: store where
  "stocked = \<lparr>st_files = [(firmware_path 5 60, [1, 2, 3])], st_dirs = []\<rparr>"

lemma raw_download_hex: "length raw_download = 64" "list_all is_hex_code (codes raw_download)"
  by code_simp+

lemma sample_consume:
  "ConsumeOtaDownloadTokenTx (HashToken raw_download) (env_now sample_env) ticket_db
   = Inr (ticket_db\<lparr>db_ota_tokens := [sample_download\<lparr>ota_ConsumedAt := Some 1000\<rparr>]\<rparr>, sample_download\<lparr>ota_ConsumedAt := Some 1000\<rparr>)"
  by (simp add: ConsumeOtaDownloadTokenTx_def ticket_rows first_by_def sample_download_def sample_env_def live_device_def good_rows
      sample_device_def Let_def)

lemma sample_download_firmware:
  "repo_GetFirmware (ticket_db\<lparr>db_ota_tokens := ts\<rparr>) 5 60 = Inr stored_firmware" "fw_DeletedAt stored_firmware = None"
  "fw_StorageKey stored_firmware = FirmwareStorageKey 5 60"
  by (simp_all add: repo_GetFirmware_def ticket_db_def good_rows first_by_def stored_firmware_def sample_firmware_def)

lemma sample_open:
  "OpenFirmwareWithOtaDownloadToken (store_Open []) sample_env raw_download (ticket_db, stocked)
   = ((ticket_db\<lparr>db_ota_tokens := [sample_download\<lparr>ota_ConsumedAt := Some 1000\<rparr>]\<rparr>, stocked), Inr ([1, 2, 3], stored_firmware))"
proof -
  have "store_Open [] stocked (FirmwareStorageKey 5 60) = Inr [1, 2, 3]"
    by (simp add: store_Open_def resolve_firmware_key clean_base_def stocked_def lookup_file_def)
  moreover have "ota_ProjectID sample_download = 5" "ota_FirmwareID sample_download = 60" by (simp_all add: sample_download_def)
  ultimately show ?thesis
    using raw_download_hex by (simp add: OpenFirmwareWithOtaDownloadToken_def list_all_iff sample_consume sample_download_firmware)
qed

theorem download_token_once_witness:
  "\<exists>db1. OpenFirmwareWithOtaDownloadToken (store_Open []) sample_env raw_download (ticket_db, stocked)
       = ((db1, stocked), Inr ([1, 2, 3], stored_firmware))
     \<and> OpenFirmwareWithOtaDownloadToken (store_Open []) sample_env raw_download (db1, stocked) = ((db1, stocked), Inl invalid_ota_token)"
proof -
  have b: "sv_base sample_services = []" by (simp add: sample_services_def)
  note once = download_token_once [OF ticket_schema, of sample_services, unfolded b, OF sample_open
    rtranclp.rtrancl_refl [of "web_step sample_services"], of sample_env stocked]
  show ?thesis using sample_open conjunct2 [OF once] by blast
qed

text \<open>A download whose object cannot be read has used the token up: it is refused when the object is
  there again.\<close>

theorem failed_open_burns_token:
  "\<exists>db1 e. OpenFirmwareWithOtaDownloadToken (store_Open []) sample_env raw_download (ticket_db, no_store) = ((db1, no_store), Inl e)
     \<and> OpenFirmwareWithOtaDownloadToken (store_Open []) sample_env raw_download (db1, stocked) = ((db1, stocked), Inl invalid_ota_token)"
proof -
  have "store_Open [] no_store (FirmwareStorageKey 5 60) = Inl (ErrMsg ''object not found'')"
    by (simp add: store_Open_def resolve_firmware_key clean_base_def no_store_def lookup_file_def)
  moreover have "ota_ProjectID sample_download = 5" "ota_FirmwareID sample_download = 60" by (simp_all add: sample_download_def)
  ultimately show ?thesis
    using raw_download_hex consumed_token_refused [OF ticket_schema sample_consume
        rtranclp.rtrancl_refl [of "web_step sample_services"], of "store_Open []" sample_env stocked]
    by (simp add: OpenFirmwareWithOtaDownloadToken_def list_all_iff sample_consume sample_download_firmware)
qed

end
