(* ===== verification/Lockout.thy ===== *)
theory Lockout
  imports SampleProgram
begin

section \<open>Failed logins lock an account\<close>

text \<open>
  The counter behind \<open>Login\<close> as the abstract machine it is: no entry, a first failure that only
  makes the entry, then a count from the second failure on, until the account is locked. Passwords
  are wrong for unknown addresses too: they are counted in the same way.
\<close>

definition throttle_key :: "string \<Rightarrow> string" where
  "throttle_key rawEmail = NormalizeEmail (NormalizeEmail rawEmail)"

definition throttle_of :: "db \<Rightarrow> string \<Rightarrow> auth_throttle option" where
  "throttle_of db rawEmail = first_by thr_ID (\<lambda>x. thr_EmailKey x = throttle_key rawEmail) (db_throttles db)"

definition wrong_login :: "auth_lib \<Rightarrow> db \<Rightarrow> string \<Rightarrow> string \<Rightarrow> bool" where
  "wrong_login lib db rawEmail password \<longleftrightarrow>
     (case FindUserByEmail db (NormalizeEmail rawEmail) of
        Inl _ \<Rightarrow> True
      | Inr u \<Rightarrow> user_EmailVerifiedAt u \<noteq> None \<and> \<not> lib_ComparePassword lib (user_PasswordHash u) password)"

definition locked :: "env \<Rightarrow> db \<Rightarrow> string \<Rightarrow> bool" where
  "locked env db rawEmail \<longleftrightarrow> fst (IsEmailLocked env db (NormalizeEmail rawEmail))"

lemma locked_throttle:
  "locked env db raw \<longleftrightarrow> (\<exists>th l. throttle_of db raw = Some th \<and> thr_LockUntil th = Some l \<and> l > env_now env)"
  by (auto simp: locked_def IsEmailLocked_def throttle_of_def throttle_key_def split: option.split)

lemma Login_locked: "locked env db raw \<Longrightarrow> Login cfg lib env raw pw code rc m db = (db, Inl account_locked)"
  by (simp add: Login_def Let_def locked_def)

lemma Login_wrong:
  "\<not> locked env db raw \<Longrightarrow> wrong_login lib db raw pw
     \<Longrightarrow> Login cfg lib env raw pw code rc m db = (count_failure cfg env (NormalizeEmail raw) db, Inl Unauthorized)"
  by (auto simp: Login_def Let_def locked_def wrong_login_def split: sum.split)

text \<open>What counting does to the entry.\<close>

definition throttle_next :: "auth_config \<Rightarrow> time \<Rightarrow> auth_throttle \<Rightarrow> auth_throttle" where
  "throttle_next cfg t th =
     (if (case thr_FirstFailedAt th of None \<Rightarrow> True | Some f \<Rightarrow> t - f > cfg_LoginAttemptWindow cfg)
      then th\<lparr>thr_FailedAttempts := 1, thr_FirstFailedAt := Some t, thr_LockUntil := None, thr_UpdatedAt := t\<rparr>
      else if thr_FailedAttempts th + 1 \<ge> cfg_MaxLoginAttempts cfg
      then th\<lparr>thr_FailedAttempts := thr_FailedAttempts th + 1, thr_LockUntil := Some (t + cfg_LoginAttemptWindow cfg), thr_UpdatedAt := t\<rparr>
      else th\<lparr>thr_FailedAttempts := thr_FailedAttempts th + 1, thr_UpdatedAt := t\<rparr>)"

lemma save_throttle_of:
  assumes "throttles_ok (db_throttles db)" and "throttle_of db raw = Some th"
    and "thr_ID th' = thr_ID th" and "thr_EmailKey th' = thr_EmailKey th"
  shows "throttle_of (save_throttle env th' db) raw = Some (th'\<lparr>thr_UpdatedAt := env_now env\<rparr>)"
    and "throttles_ok (db_throttles (save_throttle env th' db))"
proof -
  let ?P = "\<lambda>x. thr_ID x = thr_ID th'" and ?f = "\<lambda>x :: auth_throttle. th'\<lparr>thr_UpdatedAt := env_now env\<rparr>"
  let ?t = "db_throttles db"
  have k: "keyed thr_ID ?t" "keyed thr_EmailKey ?t" using assms(1) by (simp_all add: throttles_ok_def)
  have th: "th \<in> set ?t" "thr_EmailKey th = throttle_key raw"
    using assms(2) first_by_Some unfolding throttle_of_def by fastforce+
  have same: "x = th" if "x \<in> set ?t" "?P x" for x
    using keyed_unique [OF k(1) that(1) th(1)] that(2) assms(3) by simp
  have "update_where ?P ?f ?t = map (\<lambda>x. if x = th then ?f x else x) ?t"
    using same assms(3) by (auto simp: update_where_def intro!: map_cong)
  then have t: "db_throttles (save_throttle env th' db) = map (\<lambda>x. if x = th then ?f x else x) ?t"
    by (simp add: save_throttle_def)
  have "map thr_ID (db_throttles (save_throttle env th' db)) = map thr_ID ?t"
    "map thr_EmailKey (db_throttles (save_throttle env th' db)) = map thr_EmailKey ?t"
    unfolding t using assms(3,4) by auto
  with k show ok: "throttles_ok (db_throttles (save_throttle env th' db))" by (simp add: throttles_ok_def keyed_def)
  have mem: "?f th \<in> set (db_throttles (save_throttle env th' db))" unfolding t using th(1) by force
  have uniq: "x = ?f th" if "x \<in> set (db_throttles (save_throttle env th' db))" "thr_EmailKey x = throttle_key raw" for x
  proof -
    obtain y where y: "y \<in> set ?t" "x = (if y = th then ?f y else y)" using \<open>x \<in> _\<close> unfolding t by auto
    show ?thesis
    proof (cases "y = th")
      case False
      with y \<open>thr_EmailKey x = _\<close> have "thr_EmailKey y = thr_EmailKey th" using th(2) by simp
      from keyed_unique [OF k(2) y(1) th(1) this] False show ?thesis by contradiction
    qed (use y in simp)
  qed
  have "thr_EmailKey (?f th) = throttle_key raw" using th(2) assms(4) by simp
  from first_by_unique [where P = "\<lambda>x. thr_EmailKey x = throttle_key raw", OF mem this uniq] show "throttle_of (save_throttle env th' db) raw = Some (th'\<lparr>thr_UpdatedAt := env_now env\<rparr>)"
    unfolding throttle_of_def .
qed

lemma count_failure_next:
  assumes "throttles_ok (db_throttles db)" and "throttle_of db raw = Some th"
  shows "throttle_of (count_failure cfg env (NormalizeEmail raw) db) raw = Some (throttle_next cfg (env_now env) th)"
    and "throttles_ok (db_throttles (count_failure cfg env (NormalizeEmail raw) db))"
    and "db_users (count_failure cfg env (NormalizeEmail raw) db) = db_users db"
proof -
  note f = assms(2) [unfolded throttle_of_def throttle_key_def]
  note s = save_throttle_of [OF assms]
  show "throttle_of (count_failure cfg env (NormalizeEmail raw) db) raw = Some (throttle_next cfg (env_now env) th)"
    unfolding count_failure_def CreateOrIncrementThrottle_def Let_def f option.case throttle_next_def
    by (cases "thr_FirstFailedAt th") (simp_all add: s(1))
  show "throttles_ok (db_throttles (count_failure cfg env (NormalizeEmail raw) db))"
    unfolding count_failure_def CreateOrIncrementThrottle_def Let_def f option.case
    by (cases "thr_FirstFailedAt th") (simp_all add: s(2))
  show "db_users (count_failure cfg env (NormalizeEmail raw) db) = db_users db"
    unfolding count_failure_def CreateOrIncrementThrottle_def Let_def f option.case
    by (cases "thr_FirstFailedAt th") (simp_all add: save_throttle_def)
qed

definition first_throttle :: "env \<Rightarrow> string \<Rightarrow> auth_throttle" where
  "first_throttle env raw = \<lparr>thr_ID = env_uuid env 0, thr_EmailKey = throttle_key raw, thr_FailedAttempts = 1,
     thr_FirstFailedAt = None, thr_LockUntil = None, thr_UpdatedAt = env_now env, thr_CreatedAt = env_now env\<rparr>"

lemma count_failure_first:
  assumes "throttles_ok (db_throttles db)" and "throttle_of db raw = None" and "env_uuid env 0 \<notin> thr_ID ` set (db_throttles db)"
  shows "count_failure cfg env (NormalizeEmail raw) db = db\<lparr>db_throttles := db_throttles db @ [first_throttle env raw]\<rparr>"
    and "throttle_of (db\<lparr>db_throttles := db_throttles db @ [first_throttle env raw]\<rparr>) raw = Some (first_throttle env raw)"
    and "throttles_ok (db_throttles db @ [first_throttle env raw])"
proof -
  note f = assms(2) [unfolded throttle_of_def throttle_key_def]
  have n: "\<forall>x \<in> set (db_throttles db). thr_EmailKey x \<noteq> throttle_key raw"
    using assms(2) by (simp add: throttle_of_def first_by_None_iff)
  have u: "\<forall>x \<in> set (db_throttles db). thr_ID x \<noteq> env_uuid env 0" using assms(3) by force
  show "count_failure cfg env (NormalizeEmail raw) db = db\<lparr>db_throttles := db_throttles db @ [first_throttle env raw]\<rparr>"
    unfolding count_failure_def CreateOrIncrementThrottle_def Let_def f option.case
    using n u by (auto simp: insert_row_def thr_conflict_def first_throttle_def throttle_key_def)
  show "throttle_of (db\<lparr>db_throttles := db_throttles db @ [first_throttle env raw]\<rparr>) raw = Some (first_throttle env raw)"
    unfolding throttle_of_def using n by (intro first_by_unique) (auto simp: first_throttle_def)
  show "throttles_ok (db_throttles db @ [first_throttle env raw])"
    using assms(1) n u by (auto simp: throttles_ok_def keyed_snoc first_throttle_def)
qed

subsection \<open>A run of failed logins\<close>

fun failed_logins :: "auth_config \<Rightarrow> auth_lib \<Rightarrow> string \<Rightarrow> session_meta \<Rightarrow> (env \<times> string) list \<Rightarrow> db \<Rightarrow> db" where
  "failed_logins cfg lib raw m [] db = db"
| "failed_logins cfg lib raw m ((env, pw) # as) db =
     failed_logins cfg lib raw m as (fst (Login cfg lib env raw pw [] [] m db))"

lemma failed_logins_append:
  "failed_logins cfg lib raw m (as @ bs) db = failed_logins cfg lib raw m bs (failed_logins cfg lib raw m as db)"
  by (induction as arbitrary: db) auto

text \<open>How many failures lock: the first is not counted, and no fewer than three ever do.\<close>

definition lock_after :: "auth_config \<Rightarrow> nat" where
  "lock_after cfg = max 3 (nat (cfg_MaxLoginAttempts cfg) + 1)"

text \<open>The entry after \<open>k\<close> failures, the first counted at \<open>t1\<close>, the last at \<open>t\<close>.\<close>

definition throttle_after :: "auth_config \<Rightarrow> nat \<Rightarrow> time \<Rightarrow> time \<Rightarrow> auth_throttle \<Rightarrow> bool" where
  "throttle_after cfg k t1 t th \<longleftrightarrow>
     (if k = 1 then thr_FailedAttempts th = 1 \<and> thr_FirstFailedAt th = None \<and> thr_LockUntil th = None
      else thr_FailedAttempts th = int k - 1 \<and> thr_FirstFailedAt th = Some t1
         \<and> thr_LockUntil th = (if k = lock_after cfg then Some (t + cfg_LoginAttemptWindow cfg) else None))"

lemma throttle_after_next:
  assumes "throttle_after cfg k t1 t th" and "1 \<le> k" and "k < lock_after cfg"
    and "k = 1 \<Longrightarrow> t1 = t'" and "t' - t1 \<le> cfg_LoginAttemptWindow cfg"
  shows "throttle_after cfg (Suc k) t1 t' (throttle_next cfg t' th)"
proof (cases "k = 1")
  case True
  with assms show ?thesis by (simp add: throttle_after_def throttle_next_def lock_after_def)
next
  case False
  then have k: "2 \<le> k" using assms(2) by simp
  then have "int k \<ge> cfg_MaxLoginAttempts cfg \<longleftrightarrow> Suc k = lock_after cfg"
    using assms(3) by (auto simp: lock_after_def)
  with assms False show ?thesis by (simp add: throttle_after_def throttle_next_def)
qed

text \<open>The run from no entry: the entry after it, and the tables it leaves alone.\<close>

lemma failed_logins_throttle:
  assumes "throttles_ok (db_throttles db)" and "throttle_of db raw = None" and "env_uuid (fst (hd as)) 0 \<notin> thr_ID ` set (db_throttles db)"
    and "\<forall>(env, pw) \<in> set as. wrong_login lib db raw pw \<and> t0 \<le> env_now env \<and> env_now env \<le> t0 + cfg_LoginAttemptWindow cfg"
    and "as \<noteq> []" and "length as \<le> lock_after cfg"
  shows "let db' = failed_logins cfg lib raw m as db in
     throttles_ok (db_throttles db') \<and> db_users db' = db_users db
     \<and> (\<exists>th. throttle_of db' raw = Some th \<and> throttle_after cfg (length as) (env_now (fst (as ! min 1 (length as - 1)))) (env_now (fst (last as))) th)"
  using assms(3-6)
proof (induction as rule: rev_induct)
  case (snoc a as)
  obtain env pw where a: "a = (env, pw)" by fastforce
  show ?case
  proof (cases "as = []")
    case True
    have "wrong_login lib db raw pw" "env_uuid env 0 \<notin> thr_ID ` set (db_throttles db)" using snoc.prems True a by auto
    moreover have "\<not> locked env db raw" using assms(2) by (simp add: locked_throttle)
    ultimately have r: "failed_logins cfg lib raw m (as @ [a]) db = db\<lparr>db_throttles := db_throttles db @ [first_throttle env raw]\<rparr>"
      using Login_wrong count_failure_first(1) [OF assms(1,2)] by (simp add: True a)
    show ?thesis unfolding r Let_def
      using count_failure_first(2,3) [OF assms(1,2)] \<open>env_uuid env 0 \<notin> _\<close>
      by (simp add: True a throttle_after_def) (simp add: first_throttle_def)
  next
    case False
    let ?d = "failed_logins cfg lib raw m as db" and ?t1 = "env_now (fst (as ! min 1 (length as - 1)))"
    have IH: "throttles_ok (db_throttles ?d)" "db_users ?d = db_users db"
      "\<exists>th. throttle_of ?d raw = Some th \<and> throttle_after cfg (length as) ?t1 (env_now (fst (last as))) th"
      using snoc.IH snoc.prems False by (simp_all add: Let_def)
    then obtain th where th: "throttle_of ?d raw = Some th" "throttle_after cfg (length as) ?t1 (env_now (fst (last as))) th" by blast
    have k: "1 \<le> length as" "length as < lock_after cfg" using snoc.prems False by (auto simp: Suc_le_eq)
    from th have "\<not> locked env ?d raw" using k by (auto simp: locked_throttle throttle_after_def split: if_splits)
    moreover have "wrong_login lib ?d raw pw" using snoc.prems a IH(2) by (simp add: wrong_login_def FindUserByEmail_def)
    ultimately have r: "failed_logins cfg lib raw m (as @ [a]) db = count_failure cfg env (NormalizeEmail raw) ?d"
      by (simp add: failed_logins_append a Login_wrong)
    have "throttle_after cfg (Suc (length as)) (env_now (fst ((as @ [a]) ! 1))) (env_now env) (throttle_next cfg (env_now env) th)"
    proof (rule throttle_after_next)
      show "throttle_after cfg (length as) (env_now (fst ((as @ [a]) ! 1))) (env_now (fst (last as))) th"
        using th(2) k False by (cases "length as = 1") (auto simp: throttle_after_def nth_append min_def)
      have "(as @ [a]) ! 1 \<in> set (as @ [a])" using False by (intro nth_mem) simp
      with snoc.prems(2) a show "env_now env - env_now (fst ((as @ [a]) ! 1)) \<le> cfg_LoginAttemptWindow cfg"
        by (cases "(as @ [a]) ! 1") force
      show "env_now (fst ((as @ [a]) ! 1)) = env_now env" if "length as = 1" using that a by (simp add: nth_append)
    qed (use k in simp_all)
    moreover have "min 1 (length (as @ [a]) - 1) = 1" using k by simp
    ultimately show ?thesis unfolding r Let_def
      using count_failure_next [OF IH(1) th(1)] IH(2) by (simp add: a)
  qed
qed simp

text \<open>C19. Failed logins for one address within the window lock it at exactly the number the counter
  gives, one more than the configured maximum and never less than three: before that no attempt is
  turned away, and from then on, for a whole window, every login is refused without effect, whatever
  the password.\<close>

theorem login_lockout:
  assumes "schema_ok db" and "throttle_of db raw = None" and "env_uuid (fst (hd as)) 0 \<notin> thr_ID ` set (db_throttles db)"
    and "\<forall>(env, pw) \<in> set as. wrong_login lib db raw pw \<and> t0 \<le> env_now env \<and> env_now env \<le> t0 + cfg_LoginAttemptWindow cfg"
    and "length as \<le> max 3 (nat (cfg_MaxLoginAttempts cfg) + 1)"
  shows "if length as < max 3 (nat (cfg_MaxLoginAttempts cfg) + 1) then \<not> fst (IsEmailLocked env (failed_logins cfg lib raw m as db) (NormalizeEmail raw))
     else env_now env < env_now (fst (last as)) + cfg_LoginAttemptWindow cfg \<longrightarrow>
       Login cfg lib env raw pw code rc m' (failed_logins cfg lib raw m as db) = (failed_logins cfg lib raw m as db, Inl account_locked)"
proof (cases "as = []")
  case True
  have "\<not> locked env db raw" using assms(2) by (simp add: locked_throttle)
  then show ?thesis by (simp add: True locked_def)
next
  case False
  let ?d = "failed_logins cfg lib raw m as db"
  have "throttles_ok (db_throttles db)" using assms(1) by (simp add: schema_ok_def)
  from failed_logins_throttle [OF this assms(2,3,4) False, of m] assms(5) obtain th t1
    where th: "throttle_of ?d raw = Some th" "throttle_after cfg (length as) t1 (env_now (fst (last as))) th"
    by (auto simp: Let_def lock_after_def)
  have "locked env ?d raw \<longleftrightarrow> length as = lock_after cfg \<and> env_now env < env_now (fst (last as)) + cfg_LoginAttemptWindow cfg"
    using th by (auto simp: locked_throttle throttle_after_def lock_after_def split: if_splits)
  with assms(5) Login_locked [of env ?d raw] show ?thesis by (auto simp: locked_def lock_after_def)
qed

text \<open>Three wrong passwords, of nobody, lock the address for the 60 nanoseconds of the sample
  configuration.\<close>

theorem login_lockout_witness:
  "Login sample_cfg sample_lib sample_env ''e'' ''right'' [] [] \<lparr>sm_UserAgent = [], sm_IP = []\<rparr>
     (failed_logins sample_cfg sample_lib ''e'' \<lparr>sm_UserAgent = [], sm_IP = []\<rparr> (replicate 3 (sample_env, ''x'')) good_db)
   = (failed_logins sample_cfg sample_lib ''e'' \<lparr>sm_UserAgent = [], sm_IP = []\<rparr> (replicate 3 (sample_env, ''x'')) good_db, Inl account_locked)"
proof -
  have w: "wrong_login sample_lib good_db ''e'' ''x''" by (simp add: wrong_login_def FindUserByEmail_def good_rows)
  show ?thesis
    using login_lockout [OF good_schema, of "''e''" "replicate 3 (sample_env, ''x'')" sample_lib 1000 sample_cfg sample_env] w
    by (simp add: throttle_of_def good_rows sample_cfg_def sample_env_def)
qed

end
