(* ===== verification/ConfigTypes.thy ===== *)
theory ConfigTypes
  imports Config
begin

section \<open>What a loaded configuration holds\<close>

text \<open>
  The values \<open>Load\<close> can return: numbers and durations of 64 bits whatever the environment holds,
  names that are never empty, and the only way it can fail.
\<close>

definition in_int64 :: "int \<Rightarrow> bool" where
  "in_int64 i \<longleftrightarrow> int64_min \<le> i \<and> i \<le> int64_max"

lemmas int64_defs = in_int64_def int64_min_def int64_max_def

lemma in_int64_numeral [simp]: "in_int64 (numeral k) \<longleftrightarrow> (numeral k :: int) \<le> 9223372036854775807"
  by (simp add: int64_defs)

lemma atoi_int64: "atoi s = Some v \<Longrightarrow> in_int64 v"
  by (auto simp: atoi_def Let_def in_int64_def split: option.splits if_splits)

lemma duration_loop_bound: "duration_loop s d = Some r \<Longrightarrow> d \<le> 2 ^ 63 \<Longrightarrow> r \<le> 2 ^ 63"
proof (induction s d rule: duration_loop.induct)
  case (1 s d)
  then show ?case
    by (subst (asm) (2) duration_loop.simps) (auto split: if_splits option.splits)
qed

lemma ParseDuration_int64: "ParseDuration s = Some v \<Longrightarrow> in_int64 v"
proof -
  assume "ParseDuration s = Some v"
  moreover have "r \<le> 2 ^ 63" if "duration_loop s' 0 = Some r" for s' r
    using duration_loop_bound [OF that] by simp
  ultimately show ?thesis
    by (fastforce simp: ParseDuration_def Let_def int64_defs split: option.splits if_splits)
qed

lemma getEnvInt_int64: "in_int64 d \<Longrightarrow> in_int64 (getEnvInt vars k d)" "in_int64 d \<Longrightarrow> in_int64 (getEnvInt64 vars k d)"
  by (auto simp: getEnvInt_def getEnvInt64_def dest: atoi_int64 split: option.split)

lemma getEnvDuration_int64: "in_int64 d \<Longrightarrow> in_int64 (getEnvDuration vars k d)"
  by (auto simp: getEnvDuration_def dest: ParseDuration_int64 split: option.split)

lemma getEnv_not_Nil: "d \<noteq> [] \<Longrightarrow> getEnv vars k d \<noteq> []"
  by (simp add: getEnv_def)

lemma getEnvCSV_not_Nil: "[] \<notin> set d \<Longrightarrow> [] \<notin> set (getEnvCSV vars k d)"
  by (auto simp: getEnvCSV_def splitAndTrim_def)

text \<open>The parts of the configuration, type by type.\<close>

definition http_typed :: "http_config \<Rightarrow> bool" where
  "http_typed c \<longleftrightarrow> hc_Port c \<noteq> [] \<and> in_int64 (hc_ReadTimeout c) \<and> in_int64 (hc_WriteTimeout c)
     \<and> in_int64 (hc_ShutdownTimeout c) \<and> [] \<notin> set (hc_CORSOrigins c)"

definition db_typed :: "db_config \<Rightarrow> bool" where
  "db_typed c \<longleftrightarrow> dc_Host c \<noteq> [] \<and> dc_User c \<noteq> [] \<and> dc_Name c \<noteq> [] \<and> in_int64 (dc_Port c)
     \<and> in_int64 (dc_MaxOpenConns c) \<and> in_int64 (dc_MaxIdleConns c)
     \<and> in_int64 (dc_ConnMaxLifetime c) \<and> in_int64 (dc_ConnMaxIdleTime c)"

definition auth_typed :: "auth_config \<Rightarrow> bool" where
  "auth_typed c \<longleftrightarrow> cfg_JWTIssuer c \<noteq> [] \<and> cfg_JWTSecret c \<noteq> [] \<and> cfg_TOTPEncryptionKey c \<noteq> []
     \<and> in_int64 (cfg_AccessTokenTTL c) \<and> in_int64 (cfg_RefreshTokenTTL c) \<and> in_int64 (cfg_BcryptCost c)
     \<and> in_int64 (cfg_MaxLoginAttempts c) \<and> in_int64 (cfg_LoginAttemptWindow c)"

definition ota_typed :: "device_ota_config \<Rightarrow> bool" where
  "ota_typed c \<longleftrightarrow> in_int64 (oc_DownloadTokenTTL c)
     \<and> (oc_PublicDownloadBaseURL c = [] \<or> last (oc_PublicDownloadBaseURL c) \<noteq> CHR ''/'')"

lemmas durations = time_Minute_def time_Second_def time_Hour_def

lemma load_http_typed: "http_typed (load_http vars)"
  by (simp add: http_typed_def load_http_def getEnv_not_Nil getEnvCSV_not_Nil getEnvDuration_int64 durations)

lemma load_db_typed: "db_typed (load_db vars)"
  by (simp add: db_typed_def load_db_def getEnv_not_Nil getEnvDuration_int64 getEnvInt_int64 durations)

lemma load_auth_typed: "auth_typed (load_auth vars)"
  by (simp add: auth_typed_def load_auth_def getEnv_not_Nil getEnvDuration_int64 getEnvInt_int64 durations)

lemma trim_right_slash_last: "trim_right_slash s = [] \<or> last (trim_right_slash s) \<noteq> CHR ''/''"
  using hd_dropWhile [of "\<lambda>c. c = CHR ''/''" "rev s"] by (auto simp: trim_right_slash_def last_rev)

lemma load_ota_typed: "ota_typed (load_device_ota vars)"
  using trim_right_slash_last by (simp add: ota_typed_def load_device_ota_def getEnvDuration_int64 durations)

text \<open>C23. Every number and duration of a loaded configuration fits 64 bits, its port, database and secrets
  are not empty, no allowed origin is blank, the upload limit is not negative and the public URL has
  no trailing slash; loading fails for a negative upload limit and for nothing else.\<close>

theorem config_typed:
  "(case Load vars of
      Inr cfg \<Rightarrow> http_typed (cfg_HTTP cfg) \<and> db_typed (cfg_DB cfg) \<and> auth_typed (cfg_Auth cfg) \<and> ota_typed (cfg_DeviceOTA cfg)
        \<and> 0 \<le> sc_FirmwareMaxUploadBytes (cfg_Storage cfg) \<and> in_int64 (sc_FirmwareMaxUploadBytes (cfg_Storage cfg))
        \<and> in_int64 (snd (cfg_RateLimit cfg))
    | Inl e \<Rightarrow> getEnvInt64 vars ''FIRMWARE_MAX_UPLOAD_BYTES'' 67108864 < 0)"
proof -
  have lim: "in_int64 (getEnvInt64 vars ''FIRMWARE_MAX_UPLOAD_BYTES'' 67108864)" "in_int64 (getEnvInt vars ''RATE_LIMIT_REQUESTS_PER_MINUTE'' 120)"
    by (simp_all add: getEnvInt_int64)
  have named: "hc_Port (load_http vars) \<noteq> []" "dc_Host (load_db vars) \<noteq> []" "dc_User (load_db vars) \<noteq> []" "dc_Name (load_db vars) \<noteq> []"
    using load_http_typed [of vars] load_db_typed [of vars] by (simp_all add: http_typed_def db_typed_def)
  show ?thesis
    by (simp add: Load_def Let_def Validate_def named lim load_http_typed load_db_typed load_auth_typed load_ota_typed)
      (simp add: load_storage_def lim)
qed

end
